(* ===== verification/Tresor_Prelude.thy ===== *)
theory Tresor_Prelude
  imports Main "HOL-Library.Word"
begin

text \<open>
  Shared foundations: the exceptions the sources throw as values, the state-and-exception monad in
  which the effectful operations are written, its weakest-precondition calculus (the simp set
  \<open>wp_simps\<close>), the few C++ helpers every component uses (decimal numerals, truncating division by
  two), and two interfaces: \<open>keyed_table\<close>, the tables the sources key by an encoded string, and
  \<open>invariant_system\<close>, the state machines whose invariants are proved by induction over their runs.

  A message is kept as the name of its format string and the arguments formatted into it, in order:
  what can leak through a message is exactly its arguments.
\<close>

named_theorems wp_simps
named_theorems text_simps

section \<open>Exceptions\<close>

datatype error =
    InvalidInput string "string list"   \<comment> \<open>InvalidInputException\<close>
  | IOErr string "string list"          \<comment> \<open>IOException\<close>
  | Permission string "string list"     \<comment> \<open>PermissionException\<close>
  | Interrupt                           \<comment> \<open>InterruptException\<close>
  | InternalErr string "string list"    \<comment> \<open>InternalException\<close>
  | BinderErr string "string list"      \<comment> \<open>BinderException\<close>

fun error_args :: "error \<Rightarrow> string list" where
  "error_args (InvalidInput _ as) = as"
| "error_args (IOErr _ as) = as"
| "error_args (Permission _ as) = as"
| "error_args Interrupt = []"
| "error_args (InternalErr _ as) = as"
| "error_args (BinderErr _ as) = as"

section \<open>State and exceptions\<close>

text \<open>State changed before a throw stays changed, as in the sources.\<close>

type_synonym ('s, 'a) m = "'s \<Rightarrow> (error + 'a) \<times> 's"

definition ret :: "'a \<Rightarrow> ('s, 'a) m" where
  "ret a = (\<lambda>s. (Inr a, s))"

definition throw :: "error \<Rightarrow> ('s, 'a) m" where
  "throw e = (\<lambda>s. (Inl e, s))"

definition bindE :: "('s, 'a) m \<Rightarrow> ('a \<Rightarrow> ('s, 'b) m) \<Rightarrow> ('s, 'b) m" where
  "bindE f g = (\<lambda>s. case f s of (Inl e, t) \<Rightarrow> (Inl e, t) | (Inr a, t) \<Rightarrow> g a t)"

definition seqE :: "('s, 'a) m \<Rightarrow> ('s, 'b) m \<Rightarrow> ('s, 'b) m" where
  "seqE f g = bindE f (\<lambda>_. g)"

definition gets :: "('s \<Rightarrow> 'a) \<Rightarrow> ('s, 'a) m" where
  "gets f = (\<lambda>s. (Inr (f s), s))"

definition modifyS :: "('s \<Rightarrow> 's) \<Rightarrow> ('s, unit) m" where
  "modifyS f = (\<lambda>s. (Inr (), f s))"

definition liftX :: "('s \<Rightarrow> 'a \<times> 's) \<Rightarrow> ('s, 'a) m" where
  "liftX x = (\<lambda>s. case x s of (a, t) \<Rightarrow> (Inr a, t))"

definition catchE :: "('s, 'a) m \<Rightarrow> (error \<Rightarrow> ('s, 'a) m) \<Rightarrow> ('s, 'a) m" where
  "catchE f h = (\<lambda>s. case f s of (Inl e, t) \<Rightarrow> h e t | (Inr a, t) \<Rightarrow> (Inr a, t))"

definition guardE :: "bool \<Rightarrow> error \<Rightarrow> ('s, unit) m" where
  "guardE c e = (if c then ret () else throw e)"

lemmas monad_defs = ret_def throw_def bindE_def seqE_def gets_def modifyS_def liftX_def
  catchE_def guardE_def

section \<open>Weakest preconditions\<close>

text \<open>\<open>wp f Q E s\<close>: from \<open>s\<close>, \<open>f\<close> returns with \<open>Q\<close> or throws with \<open>E\<close>.\<close>

definition wp :: "('s, 'a) m \<Rightarrow> ('a \<Rightarrow> 's \<Rightarrow> bool) \<Rightarrow> (error \<Rightarrow> 's \<Rightarrow> bool) \<Rightarrow> 's \<Rightarrow> bool" where
  "wp f Q E s = (case f s of (Inl e, t) \<Rightarrow> E e t | (Inr a, t) \<Rightarrow> Q a t)"

lemma wp_ret [wp_simps]: "wp (ret a) Q E s = Q a s"
  by (simp add: wp_def ret_def)

lemma wp_throw [wp_simps]: "wp (throw e) Q E s = E e s"
  by (simp add: wp_def throw_def)

lemma wp_bindE [wp_simps]: "wp (bindE f g) Q E s = wp f (\<lambda>a. wp (g a) Q E) E s"
  by (auto simp: wp_def bindE_def split: sum.splits prod.splits)

lemma wp_seqE [wp_simps]: "wp (seqE f g) Q E s = wp f (\<lambda>_. wp g Q E) E s"
  by (simp add: seqE_def wp_bindE)

lemma wp_gets [wp_simps]: "wp (gets f) Q E s = Q (f s) s"
  by (simp add: wp_def gets_def)

lemma wp_modifyS [wp_simps]: "wp (modifyS f) Q E s = Q () (f s)"
  by (simp add: wp_def modifyS_def)

lemma wp_liftX [wp_simps]: "wp (liftX x) Q E s = Q (fst (x s)) (snd (x s))"
  by (simp add: wp_def liftX_def split: prod.splits)

lemma wp_catchE [wp_simps]: "wp (catchE f h) Q E s = wp f Q (\<lambda>e. wp (h e) Q E) s"
  by (auto simp: wp_def catchE_def split: sum.splits prod.splits)

lemma wp_guardE [wp_simps]: "wp (guardE c e) Q E s = (if c then Q () s else E e s)"
  by (simp add: guardE_def wp_ret wp_throw)

lemma wp_if [wp_simps]:
  "wp (if c then f else g) Q E s = (if c then wp f Q E s else wp g Q E s)"
  by simp

lemma wp_option [wp_simps]:
  "wp (case x of None \<Rightarrow> f | Some y \<Rightarrow> g y) Q E s =
     (case x of None \<Rightarrow> wp f Q E s | Some y \<Rightarrow> wp (g y) Q E s)"
  by (simp split: option.splits)

lemma wp_prod [wp_simps]:
  "wp (case x of (a, b) \<Rightarrow> f a b) Q E s = (case x of (a, b) \<Rightarrow> wp (f a b) Q E s)"
  by (simp split: prod.splits)

lemma wp_sum [wp_simps]:
  "wp (case x of Inl a \<Rightarrow> f a | Inr b \<Rightarrow> g b) Q E s =
     (case x of Inl a \<Rightarrow> wp (f a) Q E s | Inr b \<Rightarrow> wp (g b) Q E s)"
  by (simp split: sum.splits)

lemma wp_triv [wp_simps]: "wp f (\<lambda>_ _. True) (\<lambda>_ _. True) s"
  by (simp add: wp_def split: sum.splits prod.splits)

lemma wp_mono:
  assumes "wp f Q E s" and "\<And>a t. Q a t \<Longrightarrow> Q' a t" and "\<And>e t. E e t \<Longrightarrow> E' e t"
  shows "wp f Q' E' s"
  using assms by (auto simp: wp_def split: sum.splits prod.splits)

text \<open>Whatever an earlier operation does, when what follows is right from every state.\<close>

lemma wp_drop: "(\<And>a t. wp (g a) Q (\<lambda>_ _. True) t) \<Longrightarrow> wp f (\<lambda>a. wp (g a) Q (\<lambda>_ _. True)) (\<lambda>_ _. True) s"
  by (rule wp_mono [OF wp_triv]) auto

lemma wp_conj:
  "wp f Q E s \<Longrightarrow> wp f Q' E' s \<Longrightarrow> wp f (\<lambda>a t. Q a t \<and> Q' a t) (\<lambda>e t. E e t \<and> E' e t) s"
  by (auto simp: wp_def split: sum.splits prod.splits)

lemma wp_InrD: "wp f Q E s \<Longrightarrow> f s = (Inr a, t) \<Longrightarrow> Q a t"
  by (simp add: wp_def)

lemma wp_InlD: "wp f Q E s \<Longrightarrow> f s = (Inl e, t) \<Longrightarrow> E e t"
  by (simp add: wp_def)

lemma wp_total:
  assumes "\<And>a t. f s = (Inr a, t) \<Longrightarrow> Q a t" and "\<And>e t. f s = (Inl e, t) \<Longrightarrow> E e t"
  shows "wp f Q E s"
  using assms by (cases "f s") (auto simp: wp_def split: sum.splits)

section \<open>Numbers\<close>

text \<open>C++'s integer division by two truncates towards zero.\<close>

definition half :: "int \<Rightarrow> int" where
  "half d = (if d < 0 then - ((- d) div 2) else d div 2)"

lemma half_bounds: "0 \<le> d \<Longrightarrow> 0 \<le> half d \<and> 2 * half d \<le> d"
  by (simp add: half_def)

lemma half_neg: "d \<le> 0 \<Longrightarrow> half d \<le> 0"
  by (auto simp: half_def)

text \<open>\<^verbatim>\<open>std::to_string\<close> of a size.\<close>

definition digit :: "nat \<Rightarrow> char" where
  "digit n = char_of (48 + n)"

fun dec :: "nat \<Rightarrow> string" where
  "dec n = (if n < 10 then [digit n] else dec (n div 10) @ [digit (n mod 10)])"

declare dec.simps [simp del]

definition is_digit :: "char \<Rightarrow> bool" where
  "is_digit c \<longleftrightarrow> (of_char c :: nat) \<in> {48..57}"

definition undec :: "string \<Rightarrow> nat" where
  "undec s = foldl (\<lambda>a c. a * 10 + (of_char c - 48)) 0 s"

lemma of_char_digit: "n < 10 \<Longrightarrow> of_char (digit n) = (48 + n :: nat)"
  by (simp add: digit_def of_char_of)

lemma undec_dec: "undec (dec n) = n"
proof (induction n rule: dec.induct)
  case (1 n)
  show ?case
    by (cases "n < 10") (use 1 in \<open>simp_all add: dec.simps [of n] undec_def of_char_digit\<close>)
qed

lemma dec_inj: "dec a = dec b \<longleftrightarrow> a = b"
  by (metis undec_dec)

lemma dec_digits: "c \<in> set (dec n) \<Longrightarrow> is_digit c"
proof (induction n rule: dec.induct)
  case (1 n)
  then show ?case
    by (cases "n < 10") (auto simp: dec.simps [of n] is_digit_def of_char_digit)
qed

lemma dec_not_empty: "dec n \<noteq> []"
  by (subst dec.simps) simp

text \<open>A length-prefixed piece is read back in one way only.\<close>

definition sized :: "string \<Rightarrow> string" where
  "sized t = dec (length t) @ '':'' @ t"

lemma prefix_digits_eq:
  assumes "xs @ CHR '':'' # u = ys @ CHR '':'' # v"
    and "\<And>c. c \<in> set xs \<Longrightarrow> is_digit c" and "\<And>c. c \<in> set ys \<Longrightarrow> is_digit c"
  shows "xs = ys \<and> u = v"
proof -
  have nd: "\<not> is_digit (CHR '':'')" by (simp add: is_digit_def)
  have "takeWhile is_digit (xs @ CHR '':'' # u) = xs"
    using assms(2) nd by (simp add: takeWhile_append2)
  moreover have "takeWhile is_digit (ys @ CHR '':'' # v) = ys"
    using assms(3) nd by (simp add: takeWhile_append2)
  ultimately show ?thesis using assms(1) by simp
qed

lemma sized_append_inj: "sized a @ u = sized b @ v \<longleftrightarrow> a = b \<and> u = v"
proof
  assume "sized a @ u = sized b @ v"
  then have "dec (length a) @ CHR '':'' # (a @ u) = dec (length b) @ CHR '':'' # (b @ v)"
    by (simp add: sized_def)
  from prefix_digits_eq [OF this dec_digits dec_digits]
  have "dec (length a) = dec (length b) \<and> a @ u = b @ v" .
  then show "a = b \<and> u = v" by (auto simp: dec_inj)
qed simp

lemma sized_not_empty: "sized t \<noteq> []"
  by (simp add: sized_def)

section \<open>The interface of a table keyed by an encoded string\<close>

text \<open>
  The remembered logins, the logins in progress and the pages' tokens are all hash tables whose key
  is a string computed from a record. What their users rely on is that the encoding separates
  exactly the keys that are different.
\<close>

locale keyed_table =
  fixes enc :: "'k \<Rightarrow> string" and same :: "'k \<Rightarrow> 'k \<Rightarrow> bool"
  assumes enc_eq: "enc a = enc b \<longleftrightarrow> same a b"
begin

lemma same_refl: "same a a"
  by (simp add: enc_eq [symmetric])

lemma same_sym: "same a b \<longleftrightarrow> same b a"
  by (auto simp: enc_eq [symmetric])

lemma find_put: "(m(enc a \<mapsto> v)) (enc b) = (if same a b then Some v else m (enc b))"
  by (auto simp: enc_eq [symmetric])

lemma find_drop: "(m(enc a := None)) (enc b) = (if same a b then None else m (enc b))"
  by (auto simp: enc_eq [symmetric])

lemma find_same: "same a b \<Longrightarrow> m (enc a) = m (enc b)"
  by (simp add: enc_eq [symmetric])

end

section \<open>The interface of a state machine\<close>

locale invariant_system =
  fixes init :: "'s \<Rightarrow> bool" and step :: "'s \<Rightarrow> 's \<Rightarrow> bool" and inv :: "'s \<Rightarrow> bool"
  assumes init_inv: "init s \<Longrightarrow> inv s" and step_inv: "inv s \<Longrightarrow> step s t \<Longrightarrow> inv t"
begin

lemma run_inv: "step\<^sup>*\<^sup>* s t \<Longrightarrow> inv s \<Longrightarrow> inv t"
  by (induction rule: rtranclp_induct) (auto intro: step_inv)

lemma reach_inv: "init s \<Longrightarrow> step\<^sup>*\<^sup>* s t \<Longrightarrow> inv t"
  using run_inv init_inv by blast

end

end
