(* ===== verification/Tresor_Text.thy ===== *)
theory Tresor_Text
  imports Tresor_Prelude
begin

unbundle bit_operations_syntax

text \<open>
  The sources' text: what they write into a URL or a JSON body and which names, trace contexts and
  tokens they let through. Strings are \<^typ>\<open>string\<close>: C++ strings are byte sequences and an Isabelle
  character is a byte. Modelled here: \<^verbatim>\<open>JsonText\<close>, \<^verbatim>\<open>Encode\<close> and \<^verbatim>\<open>ProtocolName\<close> of
  tresor_storage.cpp and \<^verbatim>\<open>StripSlashes\<close> (one copy per file in the sources).

  DuckDB's and yyjson's pure functions are not part of the sources: they are fields of the record
  \<open>lib\<close>, an argument of the definitions that use them.
\<close>

section \<open>JSON documents and the library the sources call\<close>

datatype json =
    JNull
  | JBool bool
  | JNum int            \<comment> \<open>a number, as its value cast to an integer\<close>
  | JRaw string         \<comment> \<open>a number read as raw text (YYJSON_READ_NUMBER_AS_RAW)\<close>
  | JStr string
  | JArr "json list"
  | JObj "(string \<times> json) list"

record lib =
  lb_lower :: "string \<Rightarrow> string"                \<comment> \<open>StringUtil::Lower\<close>
  lb_ci_equals :: "string \<Rightarrow> string \<Rightarrow> bool"     \<comment> \<open>StringUtil::CIEquals\<close>
  lb_json :: "string \<Rightarrow> json option"           \<comment> \<open>yyjson_read, None for no document\<close>
  lb_json_raw :: "string \<Rightarrow> json option"       \<comment> \<open>the same with numbers as raw text\<close>
  lb_timestamp :: "string \<Rightarrow> int option"       \<comment> \<open>TryConvertTimestamp, in epoch seconds\<close>

text \<open>What the documentation of \<^verbatim>\<open>StringUtil::Lower\<close> and \<^verbatim>\<open>CIEquals\<close> says: ASCII letters, one by one.\<close>

definition ascii_lower :: "char \<Rightarrow> char" where
  "ascii_lower c = (if (of_char c :: nat) \<in> {65..90} then char_of (of_char c + 32 :: nat) else c)"

definition lower_ascii :: "'z lib_scheme \<Rightarrow> bool" where
  "lower_ascii L \<longleftrightarrow> (\<forall>s. lb_lower L s = map ascii_lower s) \<and>
     (\<forall>a b. lb_ci_equals L a b \<longleftrightarrow> map ascii_lower a = map ascii_lower b)"

section \<open>C++'s character classes and string searches\<close>

abbreviation byte_of :: "char \<Rightarrow> nat" where
  "byte_of c \<equiv> of_char c"

definition is_alnum :: "char \<Rightarrow> bool" where
  "is_alnum c \<longleftrightarrow> byte_of c \<in> {48..57} \<or> byte_of c \<in> {65..90} \<or> byte_of c \<in> {97..122}"

definition is_space :: "char \<Rightarrow> bool" where
  "is_space c \<longleftrightarrow> byte_of c = 32 \<or> byte_of c \<in> {9..13}"

text \<open>\<^verbatim>\<open>a.find(b)\<close>: the part before the first occurrence of \<open>b\<close> and the rest, from it on.\<close>

fun split_at_str :: "string \<Rightarrow> string \<Rightarrow> (string \<times> string) option" where
  "split_at_str p [] = (if p = [] then Some ([], []) else None)"
| "split_at_str p (c # cs) =
     (if take (length p) (c # cs) = p then Some ([], c # cs)
      else map_option (\<lambda>(a, b). (c # a, b)) (split_at_str p cs))"

definition contains_str :: "string \<Rightarrow> string \<Rightarrow> bool" where
  "contains_str p s \<longleftrightarrow> split_at_str p s \<noteq> None"

lemma split_at_str_append: "split_at_str p s = Some (a, b) \<Longrightarrow> s = a @ b"
  by (induction s arbitrary: a b) (auto split: if_splits)

lemma split_at_str_prefix: "split_at_str p s = Some (a, b) \<Longrightarrow> take (length p) b = p"
  by (induction s arbitrary: a b) (auto split: if_splits)

definition starts_with :: "string \<Rightarrow> string \<Rightarrow> bool" where
  "starts_with p s \<longleftrightarrow> take (length p) s = p"

lemma starts_with_iff: "starts_with p s \<longleftrightarrow> (\<exists>r. s = p @ r)"
  by (auto simp: starts_with_def) (metis append_take_drop_id)

text \<open>A C string ends at its first zero byte.\<close>

definition cstr :: "string \<Rightarrow> string" where
  "cstr s = takeWhile (\<lambda>c. byte_of c \<noteq> 0) s"

text \<open>Trailing slashes removed (\<^verbatim>\<open>StripSlashes\<close>, \<^verbatim>\<open>StripSlash\<close>, \<^verbatim>\<open>Normalized\<close>).\<close>

definition strip_slashes :: "string \<Rightarrow> string" where
  "strip_slashes s = rev (dropWhile (\<lambda>c. c = CHR ''/'') (rev s))"

lemma strip_slashes_idem [simp]: "strip_slashes (strip_slashes s) = strip_slashes s"
  by (simp add: strip_slashes_def dropWhile_idem)

lemma strip_slashes_prefix: "\<exists>n. s = strip_slashes s @ replicate n (CHR ''/'')"
proof -
  let ?P = "\<lambda>c. c = CHR ''/''" and ?t = "takeWhile (\<lambda>c. c = CHR ''/'') (rev s)"
  have t: "?t = replicate (length ?t) (CHR ''/'')"
    by (rule sym, rule replicate_length_same) (auto dest: set_takeWhileD)
  have "s = rev (?t @ dropWhile ?P (rev s))"
    by (simp only: takeWhile_dropWhile_id rev_rev_ident)
  also have "\<dots> = strip_slashes s @ rev ?t"
    by (simp only: rev_append strip_slashes_def)
  also have "\<dots> = strip_slashes s @ replicate (length ?t) (CHR ''/'')"
    by (subst t) (simp only: rev_replicate)
  finally show ?thesis by blast
qed

section \<open>Hexadecimal digits\<close>

definition hex_upper :: "nat \<Rightarrow> char" where
  "hex_upper n = (if n < 10 then char_of (48 + n) else char_of (55 + n))"

definition hex_lower :: "nat \<Rightarrow> char" where
  "hex_lower n = (if n < 10 then char_of (48 + n) else char_of (87 + n))"

definition unhex :: "char \<Rightarrow> nat option" where
  "unhex c = (let b = byte_of c in
     if b \<in> {48..57} then Some (b - 48)
     else if b \<in> {65..70} then Some (b - 55)
     else if b \<in> {97..102} then Some (b - 87) else None)"

lemma unhex_hex [simp]:
  "n < 16 \<Longrightarrow> unhex (hex_upper n) = Some n" "n < 16 \<Longrightarrow> unhex (hex_lower n) = Some n"
  by (auto simp: unhex_def hex_upper_def hex_lower_def of_char_of Let_def)

section \<open>A string as JSON text\<close>

definition json_char :: "char \<Rightarrow> string" where
  "json_char c =
     (if c = CHR 0x22 then [CHR 0x5C, CHR 0x22]
      else if c = CHR 0x5C then [CHR 0x5C, CHR 0x5C]
      else if c = CHR 0x0A then [CHR 0x5C, CHR ''n'']
      else if c = CHR 0x0D then [CHR 0x5C, CHR ''r'']
      else if c = CHR 0x09 then [CHR 0x5C, CHR ''t'']
      else if byte_of c < 32 then
        [CHR 0x5C, CHR ''u'', CHR ''0'', CHR ''0'', hex_lower (byte_of c div 16), hex_lower (byte_of c mod 16)]
      else [c])"

definition json_text :: "string \<Rightarrow> string" where
  "json_text s = CHR 0x22 # concat (map json_char s) @ [CHR 0x22]"

text \<open>
  The reading of a JSON string (RFC 8259, the escapes a writer may use for single bytes), as the
  reference \<^const>\<open>json_text\<close> is measured against: the string and what follows the closing quote.
\<close>

fun json_read :: "string \<Rightarrow> (string \<times> string) option" where
  "json_read [] = None"
| "json_read (c # cs) =
     (if c = CHR 0x22 then Some ([], cs)
      else if byte_of c < 32 then None
      else if c = CHR 0x5C then
        (case cs of
           [] \<Rightarrow> None
         | e # es \<Rightarrow>
             (if e = CHR ''u'' then
                (case es of
                   a # b # h # l # r \<Rightarrow>
                     (case (unhex a, unhex b, unhex h, unhex l) of
                        (Some 0, Some 0, Some x, Some y) \<Rightarrow>
                          map_option (\<lambda>(t, u). (char_of (16 * x + y) # t, u)) (json_read r)
                      | _ \<Rightarrow> None)
                 | _ \<Rightarrow> None)
              else if e = CHR ''n'' then map_option (\<lambda>(t, u). (CHR 0x0A # t, u)) (json_read es)
              else if e = CHR ''r'' then map_option (\<lambda>(t, u). (CHR 0x0D # t, u)) (json_read es)
              else if e = CHR ''t'' then map_option (\<lambda>(t, u). (CHR 0x09 # t, u)) (json_read es)
              else if e = CHR 0x22 \<or> e = CHR 0x5C then map_option (\<lambda>(t, u). (e # t, u)) (json_read es)
              else None))
      else map_option (\<lambda>(t, u). (c # t, u)) (json_read cs))"

declare json_read.simps(2) [simp del]

lemma hex_lower_0 [simp]: "unhex (CHR ''0'') = Some 0"
  by (simp add: unhex_def)

lemma json_read_char: "json_read (json_char c @ r) = map_option (\<lambda>(t, u). (c # t, u)) (json_read r)"
proof (cases "byte_of c < 32 \<and> c \<noteq> CHR 0x0A \<and> c \<noteq> CHR 0x0D \<and> c \<noteq> CHR 0x09")
  case True
  have "byte_of c div 16 < 16" using True by auto
  then show ?thesis
    using True by (auto simp: json_char_def json_read.simps(2) split: option.splits)
next
  case False
  then show ?thesis
    by (auto simp: json_char_def json_read.simps(2))
qed

lemma json_read_concat:
  "json_read (concat (map json_char s) @ CHR 0x22 # r) = Some (s, r)"
  by (induction s) (simp_all add: json_read_char json_read.simps(2))

text \<open>
  The JSON text \<^verbatim>\<open>JsonText\<close> writes for a string is read back as exactly that string, wherever it
  stands in a body: no content of the string - a quote, a backslash, a control character - ends it
  early or changes it.
\<close>

theorem json_text_roundtrip:
  "\<exists>q. json_text s @ rest = CHR 0x22 # q \<and> json_read q = Some (s, rest)"
  by (simp add: json_text_def json_read_concat)

section \<open>A path segment, percent-encoded\<close>

definition unreserved :: "char \<Rightarrow> bool" where
  "unreserved c \<longleftrightarrow> is_alnum c \<or> c = CHR ''-'' \<or> c = CHR ''_'' \<or> c = CHR ''.'' \<or> c = CHR ''~''"

definition encode_char :: "char \<Rightarrow> string" where
  "encode_char c = (if unreserved c then [c]
     else [CHR ''%'', hex_upper (byte_of c div 16), hex_upper (byte_of c mod 16)])"

definition encode_segment :: "string \<Rightarrow> string" where
  "encode_segment s = concat (map encode_char s)"

text \<open>Percent-decoding (RFC 3986), the reference.\<close>

fun decode_segment :: "string \<Rightarrow> string option" where
  "decode_segment [] = Some []"
| "decode_segment (c # cs) =
     (if c = CHR ''%'' then
        (case cs of
           h # l # r \<Rightarrow>
             (case (unhex h, unhex l) of
                (Some x, Some y) \<Rightarrow> map_option ((#) (char_of (16 * x + y))) (decode_segment r)
              | _ \<Rightarrow> None)
         | _ \<Rightarrow> None)
      else map_option ((#) c) (decode_segment cs))"

lemma byte_of_less: "byte_of c < 256"
  by simp

lemma byte_of_high: "byte_of c div 16 < 16"
  using less_mult_imp_div_less [of "byte_of c" 16 16] byte_of_less [of c] by simp

lemma decode_encode_char: "decode_segment (encode_char c @ r) = map_option ((#) c) (decode_segment r)"
proof (cases "unreserved c")
  case True
  moreover have "\<not> unreserved (CHR ''%'')" by (simp add: unreserved_def is_alnum_def)
  ultimately show ?thesis by (auto simp: encode_char_def)
next
  case False
  then show ?thesis using byte_of_high [of c] by (auto simp: encode_char_def)
qed

lemma decode_encode_segment: "decode_segment (encode_segment s) = Some s"
  by (induction s) (simp_all add: encode_segment_def decode_encode_char)

lemma hex_upper_unreserved: "n < 16 \<Longrightarrow> unreserved (hex_upper n)"
  by (auto simp: unreserved_def hex_upper_def is_alnum_def of_char_of)

lemma encode_char_safe: "d \<in> set (encode_char c) \<Longrightarrow> unreserved d \<or> d = CHR ''%''"
  by (auto simp: encode_char_def hex_upper_unreserved byte_of_high split: if_splits)

text \<open>
  \<^verbatim>\<open>Encode\<close> writes a name into a URL path so that it is read back as exactly that name, and the
  path it stands in keeps its shape: nothing but unreserved characters and \<open>%\<close> is written (no slash,
  question mark, hash or dot segment separator of the name's own), and two names never share a URL.
\<close>

theorem encode_segment_safe:
  "decode_segment (encode_segment s) = Some s \<and>
   list_all (\<lambda>d. unreserved d \<or> d = CHR ''%'') (encode_segment s) \<and>
   (encode_segment s = encode_segment t \<longleftrightarrow> s = t)"
proof -
  have "list_all (\<lambda>d. unreserved d \<or> d = CHR ''%'') (encode_segment s)"
    using encode_char_safe by (auto simp: encode_segment_def list_all_iff)
  moreover have "encode_segment s = encode_segment t \<longleftrightarrow> s = t"
    by (metis decode_encode_segment option.inject)
  ultimately show ?thesis by (simp add: decode_encode_segment)
qed

section \<open>Names the protocol lets through\<close>

text \<open>
  \<^verbatim>\<open>ProtocolName\<close> walks a name's UTF-8 bytes. The bit operations on a byte are written as division and
  remainder by powers of two; a code point has at most 21 bits, so the 32 bits of the source never
  overflow.
\<close>

definition utf8_length :: "nat \<Rightarrow> nat" where
  "utf8_length b = (if b < 128 then 1 else if b div 32 = 6 then 2
     else if b div 16 = 14 then 3 else if b div 8 = 30 then 4 else 0)"

fun utf8_rest :: "nat \<Rightarrow> nat list \<Rightarrow> nat option" where
  "utf8_rest code [] = Some code"
| "utf8_rest code (b # bs) = (if b div 64 \<noteq> 2 then None else utf8_rest (code * 64 + b mod 64) bs)"

definition name_control :: "nat \<Rightarrow> bool" where
  "name_control code \<longleftrightarrow> code < 32 \<or> code = 127 \<or> (128 \<le> code \<and> code < 160)"

definition name_space :: "nat \<Rightarrow> bool" where
  "name_space code \<longleftrightarrow> code = 32 \<or> code = 0xA0 \<or> code = 0x1680 \<or> (0x2000 \<le> code \<and> code \<le> 0x200A)
     \<or> code = 0x2028 \<or> code = 0x2029 \<or> code = 0x202F \<or> code = 0x205F \<or> code = 0x3000"

function name_scan :: "nat list \<Rightarrow> nat \<Rightarrow> nat \<Rightarrow> nat \<Rightarrow> string + (nat \<times> nat \<times> nat)" where
  "name_scan [] characters first_code last_code = Inr (characters, first_code, last_code)"
| "name_scan (b # bs) characters first_code last_code =
     (let len = utf8_length b in
      if len = 0 \<or> len > length (b # bs) then Inl ''is not UTF-8''
      else case utf8_rest (if len = 1 then b else b mod 2 ^ (7 - len)) (take (len - 1) bs) of
             None \<Rightarrow> Inl ''is not UTF-8''
           | Some code \<Rightarrow>
               if name_control code then Inl ''holds a control character''
               else name_scan (drop (len - 1) bs) (Suc characters)
                      (if characters = 0 then code else first_code) code)"
  by pat_completeness auto
termination
  by (relation "measure (\<lambda>(bs, _). length bs)") auto

declare name_scan.simps(2) [simp del]

text \<open>\<open>Inl\<close> is the refusal, \<open>why\<close> in the source.\<close>

definition protocol_name :: "string \<Rightarrow> string + unit" where
  "protocol_name name =
     (if name = [] then Inl ''is empty''
      else case name_scan (map byte_of name) 0 0 0 of
             Inl why \<Rightarrow> Inl why
           | Inr (characters, first_code, last_code) \<Rightarrow>
               if name_space first_code \<or> name_space last_code then Inl ''begins or ends with whitespace''
               else if characters > 200 then Inl ''is longer than 200 characters''
               else Inr ())"

text \<open>The UTF-8 encoding of a code point (RFC 3629), the reference.\<close>

definition utf8 :: "nat \<Rightarrow> nat list" where
  "utf8 c = (if c < 0x80 then [c]
     else if c < 0x800 then [0xC0 + c div 64, 0x80 + c mod 64]
     else if c < 0x10000 then [0xE0 + c div 4096, 0x80 + c div 64 mod 64, 0x80 + c mod 64]
     else [0xF0 + c div 262144, 0x80 + c div 4096 mod 64, 0x80 + c div 64 mod 64, 0x80 + c mod 64])"

lemma digit_split: "y < m \<Longrightarrow> (k * m + y) div m = k" "y < m \<Longrightarrow> (k * m + y) mod m = y" for y m k :: nat
  by simp_all

lemma utf8_cont [simp]:
  "(128 + x mod 64) div 64 = (2::nat)" "(128 + x mod 64) mod 64 = (x mod 64 :: nat)"
  using digit_split [of "x mod 64" 64 2] by simp_all

lemma utf8_lead2: "y < 32 \<Longrightarrow> utf8_length (192 + y) = 2 \<and> (192 + y) mod 32 = (y :: nat)"
  using digit_split [of y 32 6] by (simp add: utf8_length_def)

lemma utf8_lead3: "y < 16 \<Longrightarrow> utf8_length (224 + y) = 3 \<and> (224 + y) mod 16 = (y :: nat)"
  using digit_split [of y 32 7] digit_split [of y 16 14] by (simp add: utf8_length_def)

lemma utf8_lead4: "y < 8 \<Longrightarrow> utf8_length (240 + y) = 4 \<and> (240 + y) mod 8 = (y :: nat)"
  using digit_split [of "16 + y" 32 7] digit_split [of y 16 15] digit_split [of y 8 30]
  by (simp add: utf8_length_def)

lemma utf8_join:
  "c div 64 * 64 + c mod 64 = (c :: nat)"
  "(c div 4096 * 64 + c div 64 mod 64) * 64 + c mod 64 = (c :: nat)"
  "((c div 262144 * 64 + c div 4096 mod 64) * 64 + c div 64 mod 64) * 64 + c mod 64 = (c :: nat)"
proof -
  have 1: "x div 64 * 64 + x mod 64 = (x :: nat)" for x by simp
  have 2: "c div 4096 = c div 64 div 64" "c div 262144 = c div 64 div 64 div 64"
    by (simp_all add: div_mult2_eq [symmetric])
  show "c div 64 * 64 + c mod 64 = c" by (rule 1)
  show "(c div 4096 * 64 + c div 64 mod 64) * 64 + c mod 64 = c"
    unfolding 2 by (simp only: 1)
  show "((c div 262144 * 64 + c div 4096 mod 64) * 64 + c div 64 mod 64) * 64 + c mod 64 = c"
    unfolding 2 by (simp only: 1)
qed

lemma name_scan_utf8:
  assumes "c < 0x110000"
  shows "name_scan (utf8 c @ bs) n f l =
    (if name_control c then Inl ''holds a control character''
     else name_scan bs (Suc n) (if n = 0 then c else f) c)"
proof -
  consider "c < 0x80" | "0x80 \<le> c" "c < 0x800" | "0x800 \<le> c" "c < 0x10000"
    | "0x10000 \<le> c" "c < 0x110000"
    using assms by linarith
  then show ?thesis
  proof cases
    case 1
    then show ?thesis by (simp add: utf8_def name_scan.simps(2) utf8_length_def)
  next
    case 2
    then show ?thesis
      using utf8_lead2 [of "c div 64"] utf8_join(1) [of c]
      by (simp add: utf8_def name_scan.simps(2) less_mult_imp_div_less)
  next
    case 3
    then show ?thesis
      using utf8_lead3 [of "c div 4096"] utf8_join(2) [of c]
      by (simp add: utf8_def name_scan.simps(2) less_mult_imp_div_less)
  next
    case 4
    then have "c div 262144 < 8" by (simp add: less_mult_imp_div_less)
    with 4 show ?thesis
      using utf8_lead4 [of "c div 262144"] utf8_join(3) [of c]
      by (simp add: utf8_def name_scan.simps(2) take_Cons' drop_Cons')
  qed
qed

lemma name_scan_all:
  assumes "\<forall>c \<in> set cs. c < 0x110000"
  shows "name_scan (concat (map utf8 cs)) n f l =
    (if \<exists>c \<in> set cs. name_control c then Inl ''holds a control character''
     else if cs = [] then Inr (n, f, l)
     else Inr (n + length cs, if n = 0 then hd cs else f, last cs))"
  using assms by (induction cs arbitrary: n f l) (simp_all add: name_scan_utf8)

lemma utf8_bytes: "c < 0x110000 \<Longrightarrow> b \<in> set (utf8 c) \<Longrightarrow> b < 256"
  by (auto simp: utf8_def split: if_splits)

lemma utf8_not_empty: "utf8 c \<noteq> []"
  by (simp add: utf8_def)

text \<open>The name a list of code points spells, as UTF-8 bytes.\<close>

definition spell :: "nat list \<Rightarrow> string" where
  "spell cs = map char_of (concat (map utf8 cs))"

lemma bytes_spell:
  assumes "\<forall>c \<in> set cs. c < 0x110000"
  shows "map byte_of (spell cs) = concat (map utf8 cs)"
proof -
  have "\<forall>b \<in> set (concat (map utf8 cs)). b < 256" using assms utf8_bytes by auto
  then have "map (\<lambda>b. byte_of (char_of b)) (concat (map utf8 cs)) = concat (map utf8 cs)"
    by (intro map_idI) (auto simp: of_char_of)
  then show ?thesis by (simp add: spell_def comp_def)
qed



end
