(* ===== verification/Tresor_Json.thy ===== *)
theory Tresor_Json
  imports Tresor_Text
begin

unbundle bit_operations_syntax

text \<open>
  What the sources read out of JSON: the accessors \<^verbatim>\<open>Str\<close> and \<^verbatim>\<open>StrList\<close>, the service's problem
  documents (\<^verbatim>\<open>DescribeProblem\<close>, \<^verbatim>\<open>ProblemType\<close>, \<^verbatim>\<open>ReasonCode\<close>), the principal whoami names
  (\<^verbatim>\<open>WhoamiSubject\<close>) and a token's claims (\<^verbatim>\<open>ReadJwtClaims\<close> with its base64url loop, tresor_login.cpp).
\<close>

section \<open>Accessors\<close>

text \<open>\<^verbatim>\<open>yyjson_obj_get\<close>: the first member of that name; nothing of what is not an object.\<close>

fun jget :: "json \<Rightarrow> string \<Rightarrow> json option" where
  "jget (JObj kvs) k = map_of kvs k"
| "jget _ k = None"

definition jget_opt :: "json option \<Rightarrow> string \<Rightarrow> json option" where
  "jget_opt j k = Option.bind j (\<lambda>o'. jget o' k)"

fun is_arr :: "json \<Rightarrow> bool" where
  "is_arr (JArr _) = True" | "is_arr _ = False"

fun is_obj :: "json \<Rightarrow> bool" where
  "is_obj (JObj _) = True" | "is_obj _ = False"

text \<open>\<^verbatim>\<open>Str\<close>: a member that is a string, as the C string it is read through; else the empty string.\<close>

definition jstr :: "json option \<Rightarrow> string \<Rightarrow> string" where
  "jstr j k = (case jget_opt j k of Some (JStr s) \<Rightarrow> cstr s | _ \<Rightarrow> [])"

text \<open>\<^verbatim>\<open>StrList\<close>: the strings among an array's items.\<close>

fun str_items :: "json list \<Rightarrow> string list" where
  "str_items [] = []"
| "str_items (JStr s # js) = cstr s # str_items js"
| "str_items (_ # js) = str_items js"

definition str_list :: "json option \<Rightarrow> string list" where
  "str_list j = (case j of Some (JArr js) \<Rightarrow> str_items js | _ \<Rightarrow> [])"

definition jtrue :: "json option \<Rightarrow> bool" where
  "jtrue j \<longleftrightarrow> j = Some (JBool True)"

section \<open>The service's problems\<close>

record service_response =
  sr_status :: int
  sr_body :: string

definition problem_type :: "'z lib_scheme \<Rightarrow> string \<Rightarrow> string" where
  "problem_type L body = jstr (lb_json L body) ''type''"

definition show_int :: "int \<Rightarrow> string" where
  "show_int i = (if i < 0 then CHR ''-'' # dec (nat (- i)) else dec (nat i))"

definition describe_problem :: "'z lib_scheme \<Rightarrow> int \<Rightarrow> string \<Rightarrow> string" where
  "describe_problem L status body =
     (let root = lb_json L body;
          kind = jstr root ''type'';
          detail0 = jstr root ''detail'';
          detail = (if detail0 = [] then jstr root ''title'' else detail0)
      in ''HTTP '' @ show_int status
         @ (if kind = [] then [] else '' '' @ kind)
         @ (if detail = [] then []
            else '': '' @ (if length detail > 200 then take 200 detail @ ''...'' else detail)))"

definition known_problem :: "string \<Rightarrow> bool" where
  "known_problem kind \<longleftrightarrow> kind \<in> {''no_verb'', ''not_found'', ''actor_not_allowed'', ''mint_refused''}"

text \<open>C++'s division of a status by 100 truncates; a status is never negative here.\<close>

definition reason_code :: "'z lib_scheme \<Rightarrow> service_response \<Rightarrow> string" where
  "reason_code L r =
     (if sr_status r div 100 = 2 then []
      else let kind = jstr (lb_json L (sr_body r)) ''type'' in
        if known_problem kind then kind
        else if sr_status r = 401 then ''unauthenticated''
        else if sr_status r = 403 then ''no_verb''
        else if sr_status r = 404 then ''not_found''
        else if sr_status r \<in> {502, 503, 504} then ''service_unavailable''
        else if 400 \<le> sr_status r \<and> sr_status r < 500 then ''invalid''
        else ''other'')"

text \<open>The codes an audit consumer may group by: a fixed set, whatever a service answers.\<close>

definition reason_codes :: "string set" where
  "reason_codes = {[], ''no_verb'', ''not_found'', ''actor_not_allowed'', ''mint_refused'',
     ''unauthenticated'', ''service_unavailable'', ''invalid'', ''other''}"

lemma reason_code_bounded: "reason_code L r \<in> reason_codes"
  by (simp add: reason_code_def reason_codes_def known_problem_def Let_def)

section \<open>Who logged in\<close>

definition whoami_subject :: "'z lib_scheme \<Rightarrow> string \<Rightarrow> string" where
  "whoami_subject L body =
     (let root = lb_json L body in
      case jget_opt root ''subject'' of
        Some (JStr s) \<Rightarrow>
          (let sub = cstr s;
               named = (starts_with ''subject:'' sub \<or> starts_with ''client:'' sub)
           in case jget_opt root ''issuer'' of
                Some (JStr i) \<Rightarrow>
                  (if \<not> named \<and> i \<noteq> [] then ''subject:'' @ cstr i @ ''|'' @ sub else sub)
              | _ \<Rightarrow> sub)
      | _ \<Rightarrow> [])"

section \<open>A token's claims\<close>

record jwt_claims =
  jc_is_jwt :: bool
  jc_audiences :: "string list"
  jc_issuer :: string
  jc_subject :: string
  jc_expires_at :: int

definition no_claims :: jwt_claims where
  "no_claims = \<lparr>jc_is_jwt = False, jc_audiences = [], jc_issuer = [], jc_subject = [], jc_expires_at = 0\<rparr>"

definition b64_value :: "char \<Rightarrow> nat option" where
  "b64_value c = (let b = byte_of c in
     if b \<in> {65..90} then Some (b - 65)
     else if b \<in> {97..122} then Some (b - 97 + 26)
     else if b \<in> {48..57} then Some (b - 48 + 52)
     else if c = CHR ''-'' \<or> c = CHR ''+'' then Some 62
     else if c = CHR ''_'' \<or> c = CHR ''/'' then Some 63
     else None)"

text \<open>
  The source's loop: a 32-bit buffer that only ever shifts left (its old bits fall off the top), and
  the number of bits not yet written. \<open>None\<close> is the early return on a character that is no digit.
\<close>

fun b64_loop :: "string \<Rightarrow> 32 word \<Rightarrow> nat \<Rightarrow> string \<Rightarrow> string option" where
  "b64_loop [] buffer bits payload = Some payload"
| "b64_loop (c # cs) buffer bits payload =
     (case b64_value c of
        Some value \<Rightarrow>
          (let buffer' = push_bit 6 buffer OR of_nat value; bits' = bits + 6 in
           if bits' \<ge> 8
           then b64_loop cs buffer' (bits' - 8)
                  (payload @ [char_of (unat (drop_bit (bits' - 8) buffer' AND 0xff))])
           else b64_loop cs buffer' bits' payload)
      | None \<Rightarrow> if c = CHR ''='' then Some payload else None)"

definition b64_decode :: "string \<Rightarrow> string option" where
  "b64_decode s = b64_loop s 0 0 []"

definition jwt_payload :: "string \<Rightarrow> string option" where
  "jwt_payload token =
     (case split_at_str ''.'' token of
        None \<Rightarrow> None
      | Some (_, rest) \<Rightarrow>
          (case split_at_str ''.'' (drop 1 rest) of
             None \<Rightarrow> None
           | Some (part, _) \<Rightarrow> b64_decode part))"

definition claims_of :: "json option \<Rightarrow> jwt_claims" where
  "claims_of root =
     (case root of
        Some (JObj kvs) \<Rightarrow>
          \<lparr>jc_is_jwt = True,
           jc_audiences = (case map_of kvs ''aud'' of
                             Some (JStr s) \<Rightarrow> [cstr s]
                           | Some (JArr js) \<Rightarrow> str_items js
                           | _ \<Rightarrow> []),
           jc_issuer = jstr root ''iss'',
           jc_subject = jstr root ''sub'',
           jc_expires_at = (case map_of kvs ''exp'' of Some (JNum n) \<Rightarrow> n | _ \<Rightarrow> 0)\<rparr>
      | _ \<Rightarrow> no_claims)"

definition read_jwt_claims :: "'z lib_scheme \<Rightarrow> string \<Rightarrow> jwt_claims" where
  "read_jwt_claims L token =
     (case jwt_payload token of None \<Rightarrow> no_claims | Some payload \<Rightarrow> claims_of (lb_json L payload))"

definition jwt_audiences :: "'z lib_scheme \<Rightarrow> string \<Rightarrow> string list \<times> bool" where
  "jwt_audiences L token =
     (let c = read_jwt_claims L token in (jc_audiences c, jc_is_jwt c))"

subsection \<open>The loop decodes base64url\<close>

text \<open>One step on natural numbers: only the bits not yet written count.\<close>

lemma buffer_step:
  assumes "v < 64" and "bits + 6 \<le> 32"
  shows "unat (push_bit 6 (w :: 32 word) OR of_nat v) mod 2 ^ (bits + 6) = (unat w mod 2 ^ bits) * 64 + v"
proof -
  have disj: "\<not> bit (push_bit 6 w) n \<or> \<not> bit (of_nat v :: 32 word) n" for n
  proof (cases "n < 6")
    case True
    then show ?thesis by (simp add: bit_push_bit_iff)
  next
    case False
    then have "v < 2 ^ n"
      using assms(1) by (meson less_le_trans not_less numeral_le_iff one_le_numeral order_less_le_trans
          power_increasing [of 6 n "2::nat", simplified])
    then have "\<not> bit v n"
      by (simp add: bit_iff_odd)
    then show ?thesis by (simp add: bit_of_nat_iff)
  qed
  have "push_bit 6 w OR of_nat v = push_bit 6 w + of_nat v"
    by (rule disjunctive_add [symmetric]) (rule disj)
  also have "\<dots> = w * 64 + of_nat v" by (simp add: push_bit_eq_mult)
  finally have "unat (push_bit 6 w OR of_nat v) = (unat w * 64 + v) mod 2 ^ 32"
    using assms(1) by (simp add: unat_word_ariths unat_of_nat mod_simps)
  then have "unat (push_bit 6 w OR of_nat v) mod 2 ^ (bits + 6) = (unat w * 64 + v) mod 2 ^ (bits + 6)"
    using assms(2) by (simp only: mod_mod_cancel le_imp_power_dvd)
  also have "\<dots> = (unat w mod 2 ^ bits) * 64 + v"
  proof -
    have "(unat w mod 2 ^ bits) * 64 + v < 2 ^ (bits + 6)"
    proof -
      have "unat w mod 2 ^ bits + 1 \<le> 2 ^ bits" by (simp add: Suc_leI)
      then have "(unat w mod 2 ^ bits + 1) * 64 \<le> 2 ^ bits * 64" by (rule mult_le_mono1)
      then show ?thesis using assms(1) by (simp add: power_add)
    qed
    moreover have "(unat w * 64) mod 2 ^ (bits + 6) = (unat w mod 2 ^ bits) * 64"
      by (simp add: power_add mod_mult_mult2)
    then have "(unat w * 64 + v) mod 2 ^ (bits + 6) = ((unat w mod 2 ^ bits) * 64 + v) mod 2 ^ (bits + 6)"
      by (metis mod_add_left_eq)
    ultimately show ?thesis by simp
  qed
  finally show ?thesis .
qed

lemma unat_byte: "unat ((w :: 32 word) AND 0xff) = unat w mod 256"
proof -
  have "w AND 0xff = take_bit 8 w"
    by (simp add: take_bit_eq_mask mask_eq_exp_minus_1)
  then have "unat (w AND 0xff) = take_bit 8 (unat w)"
    by (simp only: unsigned_take_bit_eq)
  then show ?thesis by (simp add: take_bit_eq_mod)
qed

text \<open>The byte a step writes: the oldest eight of the bits not yet written.\<close>

lemma buffer_byte: "unat (drop_bit k (w :: 32 word) AND 0xff) = unat w mod 2 ^ (k + 8) div 2 ^ k"
proof -
  have "unat (drop_bit k w AND 0xff) = drop_bit k (unat w) mod 256"
    by (simp only: unat_byte unat_drop_bit_eq)
  also have "\<dots> = unat w div 2 ^ k mod 2 ^ 8"
    by (simp add: drop_bit_eq_div)
  also have "\<dots> = unat w mod (2 ^ k * 2 ^ 8) div 2 ^ k"
    by (simp add: mod_mult2_eq)
  finally show ?thesis by (simp only: power_add)
qed

text \<open>
  The same loop on digits, with the value \<open>x\<close> of the \<open>bits\<close> unwritten bits in place of the buffer.
\<close>

fun b64_bytes :: "nat list \<Rightarrow> nat \<Rightarrow> nat \<Rightarrow> nat list" where
  "b64_bytes [] x bits = []"
| "b64_bytes (v # vs) x bits =
     (if bits < 2 then b64_bytes vs (x * 64 + v) (bits + 6)
      else (x * 64 + v) div 2 ^ (bits - 2) # b64_bytes vs ((x * 64 + v) mod 2 ^ (bits - 2)) (bits - 2))"

definition b64_char :: "nat \<Rightarrow> char" where
  "b64_char v = (if v < 26 then char_of (v + 65) else if v < 52 then char_of (v + 71)
     else if v < 62 then char_of (v - 4) else if v = 62 then CHR ''-'' else CHR ''_'')"

lemma b64_value_char: "v < 64 \<Longrightarrow> b64_value (b64_char v) = Some v"
  by (auto simp: b64_value_def b64_char_def of_char_of Let_def)

lemma b64_loop_bytes:
  assumes "\<forall>v \<in> set vs. v < 64" and "bits < 8"
  shows "b64_loop (map b64_char vs) w bits p =
           Some (p @ map char_of (b64_bytes vs (unat w mod 2 ^ bits) bits))"
  using assms
proof (induction vs arbitrary: w bits p)
  case Nil
  then show ?case by simp
next
  case (Cons v vs)
  let ?w = "push_bit 6 w OR of_nat v" and ?y = "(unat w mod 2 ^ bits) * 64 + v"
  have v: "v < 64" and bits: "bits + 6 \<le> 32" using Cons.prems by simp_all
  have step: "unat ?w mod 2 ^ (bits + 6) = ?y" by (rule buffer_step [OF v bits])
  show ?case
  proof (cases "bits < 2")
    case True
    then show ?thesis
      using Cons.prems Cons.IH [of "bits + 6" ?w p] step v by (simp add: b64_value_char Let_def)
  next
    case False
    then have k: "bits - 2 + 8 = bits + 6" by simp
    have byte: "unat (drop_bit (bits - 2) ?w AND 0xff) = ?y div 2 ^ (bits - 2)"
      unfolding buffer_byte k step ..
    have "unat ?w mod 2 ^ (bits - 2) = unat ?w mod 2 ^ (bits + 6) mod 2 ^ (bits - 2)"
      by (simp only: mod_mod_cancel le_imp_power_dvd)
    then have rest: "unat ?w mod 2 ^ (bits - 2) = ?y mod 2 ^ (bits - 2)"
      by (simp only: step)
    have "b64_loop (map b64_char (v # vs)) w bits p =
        b64_loop (map b64_char vs) ?w (bits - 2) (p @ [char_of (?y div 2 ^ (bits - 2))])"
      using False v byte by (simp add: b64_value_char Let_def del: of_nat_mod)
    also have "\<dots> = Some ((p @ [char_of (?y div 2 ^ (bits - 2))]) @
        map char_of (b64_bytes vs (?y mod 2 ^ (bits - 2)) (bits - 2)))"
      using Cons.prems Cons.IH [of "bits - 2" ?w] rest by simp
    finally show ?thesis using False by simp
  qed
qed

text \<open>The reference encoder: base64url without padding (RFC 4648), three bytes to four digits.\<close>

fun b64_digits :: "nat list \<Rightarrow> nat list" where
  "b64_digits [] = []"
| "b64_digits [a] = [a div 4, a mod 4 * 16]"
| "b64_digits [a, b] = [a div 4, a mod 4 * 16 + b div 16, b mod 16 * 4]"
| "b64_digits (a # b # c # r) =
     [a div 4, a mod 4 * 16 + b div 16, b mod 16 * 4 + c div 64, c mod 64] @ b64_digits r"

definition b64url :: "string \<Rightarrow> string" where
  "b64url s = map b64_char (b64_digits (map byte_of s))"

lemma b64_digits_less: "\<forall>b \<in> set bs. b < 256 \<Longrightarrow> \<forall>v \<in> set (b64_digits bs). v < 64"
  by (induction bs rule: b64_digits.induct) auto

lemma b64_group:
  "(a div 4 * 64 + (a mod 4 * 16 + b div 16)) div 16 = a"
  "(a div 4 * 64 + (a mod 4 * 16 + b div 16)) mod 16 = b div 16"
  "(b div 16 * 64 + (b mod 16 * 4 + c div 64)) div 4 = b"
  "(b div 16 * 64 + (b mod 16 * 4 + c div 64)) mod 4 = c div 64"
  "c div 64 * 64 + c mod 64 = c"
  if "a < 256" "b < 256" "c < 256" for a b c :: nat
proof -
  have b: "b div 16 < 16" and c: "c div 64 < 4" using that by (simp_all add: less_mult_imp_div_less)
  have ea: "a div 4 * 64 + (a mod 4 * 16 + b div 16) = a * 16 + b div 16"
    using div_mult_mod_eq [of a 4] by linarith
  show "(a div 4 * 64 + (a mod 4 * 16 + b div 16)) div 16 = a"
    and "(a div 4 * 64 + (a mod 4 * 16 + b div 16)) mod 16 = b div 16"
    unfolding ea using b by (simp_all only: digit_split)
  have eb: "b div 16 * 64 + (b mod 16 * 4 + c div 64) = b * 4 + c div 64"
    using div_mult_mod_eq [of b 16] by linarith
  show "(b div 16 * 64 + (b mod 16 * 4 + c div 64)) div 4 = b"
    and "(b div 16 * 64 + (b mod 16 * 4 + c div 64)) mod 4 = c div 64"
    unfolding eb using c by (simp_all only: digit_split)
  show "c div 64 * 64 + c mod 64 = c" by simp
qed

lemma b64_bytes_digits: "\<forall>b \<in> set bs. b < 256 \<Longrightarrow> b64_bytes (b64_digits bs) 0 0 = bs"
proof (induction bs rule: b64_digits.induct)
  case (2 a)
  then show ?case using b64_group [of a 0 0] by simp
next
  case (3 a b)
  then show ?case using b64_group [of a b 0] by simp
next
  case (4 a b c r)
  then show ?case using b64_group [of a b c] by simp
qed simp

lemma b64_decode_b64url: "b64_decode (b64url s) = Some s"
proof -
  have b: "\<forall>b \<in> set (map byte_of s). b < 256" by simp
  show ?thesis
    using b64_loop_bytes [OF b64_digits_less [OF b], of 0 0 "[]"] b64_bytes_digits [OF b]
    by (simp add: b64_decode_def b64url_def comp_def)
qed

lemma split_at_dot:
  "CHR ''.'' \<notin> set h \<Longrightarrow> split_at_str ''.'' (h @ CHR ''.'' # r) = Some (h, CHR ''.'' # r)"
  by (induction h) auto

lemma b64_char_no_dot: "v < 64 \<Longrightarrow> b64_char v \<noteq> CHR ''.''"
  using b64_value_char [of v] by (auto simp: b64_value_def)

lemma b64url_no_dot: "CHR ''.'' \<notin> set (b64url s)"
proof -
  have "\<forall>b \<in> set (map byte_of s). b < 256" by simp
  from b64_digits_less [OF this] show ?thesis
    using b64_char_no_dot by (fastforce simp: b64url_def)
qed

text \<open>
  \<^verbatim>\<open>ReadJwtClaims\<close> reads the claims of every token of the JWT form - a header, the base64url text of
  its payload, a signature, joined by dots: whatever the payload, its 32-bit shifting loop decodes
  exactly the payload's bytes, and the claims are those of that JSON document.
\<close>

theorem read_jwt_claims_payload:
  assumes "CHR ''.'' \<notin> set header"
  shows "read_jwt_claims L (header @ ''.'' @ b64url payload @ ''.'' @ signature) =
           claims_of (lb_json L payload)"
  using assms split_at_dot [of header] split_at_dot [OF b64url_no_dot, of payload signature]
  by (simp add: read_jwt_claims_def jwt_payload_def b64_decode_b64url)

definition sample_lib :: lib where
  "sample_lib = \<lparr>lb_lower = map ascii_lower,
     lb_ci_equals = (\<lambda>a b. map ascii_lower a = map ascii_lower b),
     lb_json = (\<lambda>s. if s = ''{}'' then Some (JObj []) else None),
     lb_json_raw = (\<lambda>s. None), lb_timestamp = (\<lambda>s. None)\<rparr>"

theorem read_jwt_claims_payload_witness:
  "jc_is_jwt (read_jwt_claims sample_lib (''eyJ9'' @ ''.'' @ b64url ''{}'' @ ''.'' @ ''sig''))"
  using read_jwt_claims_payload [of "''eyJ9''" sample_lib "''{}''" "''sig''"]
  by (simp add: sample_lib_def claims_of_def)

text \<open>A token that is no JWT names no audience: it is opaque, and nothing is read out of it.\<close>

lemma read_jwt_claims_opaque: "CHR ''.'' \<notin> set token \<Longrightarrow> read_jwt_claims L token = no_claims"
proof -
  assume "CHR ''.'' \<notin> set token"
  then have "split_at_str ''.'' token = None" by (induction token) auto
  then show ?thesis by (simp add: read_jwt_claims_def jwt_payload_def)
qed

end
