(* ===== verification/Tresor_Instance.thy ===== *)
theory Tresor_Instance
  imports Tresor_Json "HOL-Library.AList"
begin

text \<open>
  The state a DuckDB instance holds for tresor in its object cache, shared by every attached catalog:
  the remembered logins (\<^verbatim>\<open>RememberedLogins\<close>), the pages' tokens (\<^verbatim>\<open>PageTokens\<close>) and the logins in
  progress (\<^verbatim>\<open>PendingLogins\<close>). \<open>i_world\<close> stands for everything outside the process - the operating
  system's credential store, the network, the clock - and is never looked into.

  The record \<open>ext\<close> collects the code the sources call and do not contain: duckdb-ext-common's
  keychain and OIDC core, the clock, the hash of the standard library. A call that runs while the
  session's lock is held works on the instance; a call outside every lock (\<open>x_http\<close>) works on the
  whole state \<open>'s\<close>, because any other thread may run meanwhile.
\<close>

section \<open>Keys and tokens\<close>

datatype keychain_mode = AUTO | OFF | MEMORY

record login_key =
  lk_issuer :: string
  lk_client_id :: string
  lk_service :: string

record page_token =
  pt_token :: string
  pt_expires_at :: int

text \<open>The OIDC core's token set and endpoints: the fields the sources use.\<close>

record token_set =
  access_token :: string
  refresh_token :: string
  expires_at :: int
  ts_error :: string
  ts_error_code :: string

definition no_tokens :: token_set where
  "no_tokens = \<lparr>access_token = [], refresh_token = [], expires_at = 0, ts_error = [], ts_error_code = []\<rparr>"

record endpoints =
  ep_token :: string
  ep_authorization :: string
  ep_device_authorization :: string
  ep_revocation :: string
  ep_error :: string

definition no_endpoints :: endpoints where
  "no_endpoints = \<lparr>ep_token = [], ep_authorization = [], ep_device_authorization = [],
     ep_revocation = [], ep_error = []\<rparr>"

record client_auth =
  ca_client_id :: string
  ca_client_secret :: string
  ca_private_key_pem :: string
  ca_key_id :: string
  ca_certificate_pem :: string
  ca_assertion :: string

definition no_auth :: client_auth where
  "no_auth = \<lparr>ca_client_id = [], ca_client_secret = [], ca_private_key_pem = [], ca_key_id = [],
     ca_certificate_pem = [], ca_assertion = []\<rparr>"

section \<open>Logins in progress\<close>

datatype pending_state = STARTING | PENDING | DONE | FAILED

record pending_login =
  pl_key :: login_key
  pl_flow :: string
  pl_service :: string
  pl_state :: pending_state
  pl_url :: string
  pl_user_code :: string
  pl_expires_at :: int
  pl_error :: string
  pl_keep_tokens :: bool
  pl_remember :: bool
  pl_consumed :: bool
  pl_ended_by_logoff :: bool
  pl_tokens :: token_set
  pl_cancelled :: bool

definition new_login :: "login_key \<Rightarrow> string \<Rightarrow> pending_login" where
  "new_login key service = \<lparr>pl_key = key, pl_flow = [], pl_service = service, pl_state = STARTING,
     pl_url = [], pl_user_code = [], pl_expires_at = 0, pl_error = [], pl_keep_tokens = False,
     pl_remember = True, pl_consumed = False, pl_ended_by_logoff = False, pl_tokens = no_tokens,
     pl_cancelled = False\<rparr>"

section \<open>The instance\<close>

record 'w instance_state =
  i_mode :: keychain_mode
  i_memory :: "string \<rightharpoonup> string"                    \<comment> \<open>RememberedLogins::memory\<close>
  i_pages :: "(string \<times> page_token) list"           \<comment> \<open>PageTokens::tokens\<close>
  i_login_of :: "string \<rightharpoonup> string \<times> string"         \<comment> \<open>PageTokens::login_of\<close>
  i_pending :: "string \<rightharpoonup> nat"                      \<comment> \<open>PendingLogins::logins: account to login\<close>
  i_logins :: "nat \<Rightarrow> pending_login"                  \<comment> \<open>the logins, by identity\<close>
  i_world :: 'w

section \<open>The code that is called\<close>

record http_request =
  rq_method :: string
  rq_url :: string
  rq_headers :: "(string \<times> string) list"
  rq_body :: string
  rq_content_type :: string
  rq_timeout :: int

record http_result =
  hr_error :: string
  hr_status :: int
  hr_body :: string

record identity_request =
  ir_resource :: string
  ir_client_id :: string

text \<open>An opened file: what \<^verbatim>\<open>fstat\<close> says, and the bytes \<^verbatim>\<open>read\<close> gives.\<close>

record opened_file =
  of_mode :: "32 word"
  of_regular :: bool
  of_size :: nat
  of_bytes :: string

record ('w, 's) ext = lib +
  x_hash :: "string \<Rightarrow> nat"                                       \<comment> \<open>std::hash\<close>
  x_tokens_ok :: "token_set \<Rightarrow> bool"                              \<comment> \<open>TokenSet::Ok\<close>
  x_kc_available :: "'w \<Rightarrow> bool"                                 \<comment> \<open>keychain::KeychainAvailable\<close>
  x_kc_load :: "string \<Rightarrow> 'w \<Rightarrow> string option"                    \<comment> \<open>KeychainLoad: ok and found\<close>
  x_kc_store :: "string \<Rightarrow> string \<Rightarrow> 'w \<Rightarrow> 'w"                   \<comment> \<open>KeychainStore\<close>
  x_kc_remove :: "string \<Rightarrow> 'w \<Rightarrow> bool \<times> 'w"                     \<comment> \<open>KeychainRemove\<close>
  x_now :: "'w instance_state \<Rightarrow> int \<times> 'w instance_state"         \<comment> \<open>the system clock, in seconds\<close>
  x_steady :: "'w instance_state \<Rightarrow> int \<times> 'w instance_state"      \<comment> \<open>the steady clock, in seconds\<close>
  x_refresh_grant :: "endpoints \<Rightarrow> string \<Rightarrow> string \<Rightarrow> string \<Rightarrow>
    'w instance_state \<Rightarrow> token_set \<times> 'w instance_state"            \<comment> \<open>oidc::RefreshGrant\<close>
  x_client_credentials :: "endpoints \<Rightarrow> client_auth \<Rightarrow> string \<Rightarrow> (string \<times> string) list \<Rightarrow>
    'w instance_state \<Rightarrow> token_set \<times> 'w instance_state"            \<comment> \<open>oidc::ClientCredentials\<close>
  x_managed_identity :: "identity_request \<Rightarrow>
    'w instance_state \<Rightarrow> token_set \<times> 'w instance_state"            \<comment> \<open>oidc::ManagedIdentityToken\<close>
  x_github_token :: "string \<Rightarrow>
    'w instance_state \<Rightarrow> token_set \<times> 'w instance_state"            \<comment> \<open>oidc::GithubActionsToken\<close>
  x_token_exchange :: "endpoints \<Rightarrow> client_auth \<Rightarrow> string \<Rightarrow> string \<Rightarrow> string \<Rightarrow> bool \<Rightarrow>
    's \<Rightarrow> token_set \<times> 's"                                      \<comment> \<open>oidc::TokenExchange\<close>
  x_on_behalf_of :: "endpoints \<Rightarrow> client_auth \<Rightarrow> string \<Rightarrow> string \<Rightarrow>
    's \<Rightarrow> token_set \<times> 's"                                      \<comment> \<open>oidc::OnBehalfOf\<close>
  x_revoke :: "endpoints \<Rightarrow> string \<Rightarrow> string \<Rightarrow> 's \<Rightarrow> bool \<times> 's"        \<comment> \<open>oidc::Revoke\<close>
  x_discover :: "string \<Rightarrow> 's \<Rightarrow> endpoints \<times> 's"                  \<comment> \<open>oidc::Discover\<close>
  x_http :: "http_request \<Rightarrow> 's \<Rightarrow> http_result \<times> 's"               \<comment> \<open>oidc::HttpSend\<close>
  x_read_file :: "string \<Rightarrow> 'w \<Rightarrow> opened_file option"             \<comment> \<open>open, fstat, read\<close>

text \<open>A token set with an error is not a success: the documented meaning of \<^verbatim>\<open>TokenSet::Ok\<close>.\<close>

definition ok_means_no_error :: "('w, 's, 'z) ext_scheme \<Rightarrow> bool" where
  "ok_means_no_error X \<longleftrightarrow> (\<forall>t. ts_error t \<noteq> [] \<longrightarrow> \<not> x_tokens_ok X t)"

section \<open>A sample environment\<close>

text \<open>
  A concrete environment for the witnesses: a clock that stands at 1000, an identity provider that
  answers every refresh with a rotated token, a service answering through \<open>h\<close>, no keychain.
\<close>

definition sample_tokens :: "string \<Rightarrow> string \<Rightarrow> token_set" where
  "sample_tokens a r = \<lparr>access_token = a, refresh_token = r, expires_at = 5000, ts_error = [], ts_error_code = []\<rparr>"

definition sample_ext :: "(http_request \<Rightarrow> 's \<Rightarrow> http_result \<times> 's) \<Rightarrow> (unit, 's) ext" where
  "sample_ext h = \<lparr>lb_lower = map ascii_lower,
     lb_ci_equals = (\<lambda>a b. map ascii_lower a = map ascii_lower b),
     lb_json = (\<lambda>s. if s = ''{}'' then Some (JObj []) else None),
     lb_json_raw = (\<lambda>s. None), lb_timestamp = (\<lambda>s. None),
     x_hash = length, x_tokens_ok = (\<lambda>t. ts_error t = []),
     x_kc_available = (\<lambda>_. False), x_kc_load = (\<lambda>_ _. None),
     x_kc_store = (\<lambda>_ _ w. w), x_kc_remove = (\<lambda>_ w. (False, w)),
     x_now = (\<lambda>i. (1000, i)), x_steady = (\<lambda>i. (50, i)),
     x_refresh_grant = (\<lambda>_ _ r _ i. (sample_tokens (''at-'' @ r) (r @ ''+''), i)),
     x_client_credentials = (\<lambda>_ _ _ _ i. (sample_tokens ''cc'' [], i)),
     x_managed_identity = (\<lambda>_ i. (sample_tokens ''mi'' [], i)),
     x_github_token = (\<lambda>_ i. (sample_tokens ''gh'' [], i)),
     x_token_exchange = (\<lambda>_ _ _ _ _ _ s. (sample_tokens ''tx'' ''rt'', s)),
     x_on_behalf_of = (\<lambda>_ _ _ _ s. (sample_tokens ''obo'' ''rt'', s)),
     x_revoke = (\<lambda>_ _ _ s. (True, s)), x_discover = (\<lambda>_ s. (no_endpoints, s)),
     x_http = h, x_read_file = (\<lambda>_ _. None)\<rparr>"

definition quiet_ext :: "(unit, unit) ext" where
  "quiet_ext = sample_ext (\<lambda>_ s. (\<lparr>hr_error = ''down'', hr_status = 0, hr_body = []\<rparr>, s))"

definition sample_instance :: "unit instance_state" where
  "sample_instance = \<lparr>i_mode = MEMORY, i_memory = Map.empty, i_pages = [], i_login_of = Map.empty,
     i_pending = Map.empty,
     i_logins = (\<lambda>_. new_login \<lparr>lk_issuer = [], lk_client_id = [], lk_service = []\<rparr> []), i_world = ()\<rparr>"

end
