(* ===== verification/Tresor_Remember.thy ===== *)
theory Tresor_Remember
  imports Tresor_Instance
begin

text \<open>
  tresor_remember.cpp: a person's refresh token, kept for the next ATTACH of the same service - in the
  operating system's store (\<open>AUTO\<close>), in this instance's memory (\<open>MEMORY\<close>) or not at all (\<open>OFF\<close>). The
  key's encoding (\<^verbatim>\<open>Account\<close>) is an instance of \<open>keyed_table\<close>; the laws a session relies on are the
  locale \<open>login_store\<close>, interpreted here on the memory store.
\<close>

definition HANDED_OVER_SUBJECT :: string where
  "HANDED_OVER_SUBJECT = ''tresor_web_login''"

definition BACKGROUND_LOGIN_SUBJECT :: string where
  "BACKGROUND_LOGIN_SUBJECT = ''tresor_login''"

section \<open>The setting\<close>

definition try_parse_mode :: "'z lib_scheme \<Rightarrow> string \<Rightarrow> keychain_mode option" where
  "try_parse_mode L text =
     (let lowered = lb_lower L text in
      if lowered = ''auto'' then Some AUTO
      else if lowered = ''off'' then Some OFF
      else if lowered = ''memory'' then Some MEMORY
      else None)"

definition parse_mode :: "'z lib_scheme \<Rightarrow> string \<Rightarrow> error + keychain_mode" where
  "parse_mode L text =
     (case try_parse_mode L text of
        None \<Rightarrow> Inl (InvalidInput ''tresor_keychain'' [text])
      | Some mode \<Rightarrow> Inr mode)"

text \<open>A mode other than memory empties the memory.\<close>

definition set_mode :: "keychain_mode \<Rightarrow> 'w instance_state \<Rightarrow> 'w instance_state" where
  "set_mode mode i =
     (if mode = MEMORY then i\<lparr>i_mode := mode\<rparr> else i\<lparr>i_mode := mode, i_memory := Map.empty\<rparr>)"

text \<open>The setting's callback: \<open>local\<close> is SET SESSION or SET LOCAL, a NULL value reads as \<^verbatim>\<open>auto\<close>.\<close>

definition set_keychain_mode ::
  "'z lib_scheme \<Rightarrow> bool \<Rightarrow> string option \<Rightarrow> 'w instance_state \<Rightarrow> (error + unit) \<times> 'w instance_state" where
  "set_keychain_mode L local parameter i =
     (if local then (Inl (InvalidInput ''tresor_keychain is global'' []), i)
      else case parse_mode L (case parameter of None \<Rightarrow> ''auto'' | Some text \<Rightarrow> text) of
             Inl e \<Rightarrow> (Inl e, i)
           | Inr mode \<Rightarrow> (Inr (), set_mode mode i))"

definition usable :: "('w, 's, 'z) ext_scheme \<Rightarrow> 'w instance_state \<Rightarrow> bool" where
  "usable X i =
     (case i_mode i of OFF \<Rightarrow> False | MEMORY \<Rightarrow> True | AUTO \<Rightarrow> x_kc_available X (i_world i))"

section \<open>The entry's name and value\<close>

definition account :: "login_key \<Rightarrow> string" where
  "account k = sized (strip_slashes (lk_issuer k)) @ '' '' @ sized (lk_client_id k) @ '' '' @ sized (lk_service k)"

definition same_login :: "login_key \<Rightarrow> login_key \<Rightarrow> bool" where
  "same_login a b \<longleftrightarrow> strip_slashes (lk_issuer a) = strip_slashes (lk_issuer b)
     \<and> lk_client_id a = lk_client_id b \<and> lk_service a = lk_service b"

lemma account_eq: "account a = account b \<longleftrightarrow> same_login a b"
proof -
  have last: "sized x = sized y \<longleftrightarrow> x = y" for x y
    using sized_append_inj [of x "[]" y "[]"] by simp
  show ?thesis
    by (simp add: account_def same_login_def sized_append_inj last)
qed

interpretation logins: keyed_table account same_login
  by unfold_locales (rule account_eq)

definition one_line :: "string \<Rightarrow> string" where
  "one_line s = map (\<lambda>c. if c = CHR 0x0A then CHR ''?'' else c) s"

definition encode_login :: "string \<Rightarrow> string \<Rightarrow> string" where
  "encode_login subject refresh = [CHR ''1'', CHR 0x0A] @ one_line subject @ [CHR 0x0A] @ refresh"

definition decode_login :: "string \<Rightarrow> (string \<times> string) option" where
  "decode_login v =
     (if take 2 v \<noteq> [CHR ''1'', CHR 0x0A] then None
      else case split_at_str [CHR 0x0A] (drop 2 v) of
             None \<Rightarrow> None
           | Some (subject, rest) \<Rightarrow>
               if drop 1 rest = [] then None else Some (subject, drop 1 rest))"

lemma one_line_no_newline [simp]: "CHR 0x0A \<notin> set (one_line s)"
  by (auto simp: one_line_def)

lemma one_line_id: "CHR 0x0A \<notin> set s \<Longrightarrow> one_line s = s"
  by (auto simp: one_line_def intro: map_idI)

lemma split_at_newline:
  "CHR 0x0A \<notin> set h \<Longrightarrow> split_at_str [CHR 0x0A] (h @ CHR 0x0A # r) = Some (h, CHR 0x0A # r)"
  by (induction h) auto

lemma decode_encode_login:
  "decode_login (encode_login subject refresh) =
     (if refresh = [] then None else Some (one_line subject, refresh))"
  by (simp add: decode_login_def encode_login_def split_at_newline)

section \<open>The store\<close>

definition load :: "('w, 's, 'z) ext_scheme \<Rightarrow> login_key \<Rightarrow> keychain_mode \<Rightarrow> 'w instance_state \<Rightarrow>
    (string \<times> string) option" where
  "load X key expected i =
     (if i_mode i \<noteq> expected then None
      else case expected of
             OFF \<Rightarrow> None
           | MEMORY \<Rightarrow> (case i_memory i (account key) of None \<Rightarrow> None | Some v \<Rightarrow> decode_login v)
           | AUTO \<Rightarrow>
               (if \<not> x_kc_available X (i_world i) then None
                else case x_kc_load X (account key) (i_world i) of
                       None \<Rightarrow> None | Some v \<Rightarrow> decode_login v))"

definition store :: "('w, 's, 'z) ext_scheme \<Rightarrow> login_key \<Rightarrow> string \<Rightarrow> string \<Rightarrow> keychain_mode \<Rightarrow>
    'w instance_state \<Rightarrow> 'w instance_state" where
  "store X key subject refresh expected i =
     (if refresh = [] \<or> i_mode i \<noteq> expected then i
      else let v = encode_login subject refresh in
        case expected of
          MEMORY \<Rightarrow> i\<lparr>i_memory := (i_memory i)(account key \<mapsto> v)\<rparr>
        | AUTO \<Rightarrow> (if x_kc_available X (i_world i)
                    then i\<lparr>i_world := x_kc_store X (account key) v (i_world i)\<rparr> else i)
        | OFF \<Rightarrow> i)"

text \<open>\<open>only_if\<close> empty: whatever is stored.\<close>

definition remove_matches :: "string \<Rightarrow> string \<Rightarrow> bool" where
  "remove_matches only_if v \<longleftrightarrow>
     only_if = [] \<or> (case decode_login v of None \<Rightarrow> False | Some (_, stored) \<Rightarrow> stored = only_if)"

definition remove :: "('w, 's, 'z) ext_scheme \<Rightarrow> login_key \<Rightarrow> keychain_mode \<Rightarrow> string \<Rightarrow>
    'w instance_state \<Rightarrow> bool \<times> 'w instance_state" where
  "remove X key expected only_if i =
     (if i_mode i \<noteq> expected then (False, i)
      else case expected of
             OFF \<Rightarrow> (False, i)
           | MEMORY \<Rightarrow>
               (case i_memory i (account key) of
                  None \<Rightarrow> (False, i)
                | Some v \<Rightarrow> if remove_matches only_if v
                    then (True, i\<lparr>i_memory := (i_memory i)(account key := None)\<rparr>) else (False, i))
           | AUTO \<Rightarrow>
               (if \<not> x_kc_available X (i_world i) then (False, i)
                else case x_kc_load X (account key) (i_world i) of
                       None \<Rightarrow> (False, i)
                     | Some v \<Rightarrow> if remove_matches only_if v
                         then (let (ok, w) = x_kc_remove X (account key) (i_world i) in (ok, i\<lparr>i_world := w\<rparr>))
                         else (False, i)))"

section \<open>What its users rely on\<close>

locale login_store = keyed_table enc same for enc :: "login_key \<Rightarrow> string" and same +
  fixes ld :: "login_key \<Rightarrow> 'i \<Rightarrow> (string \<times> string) option"
    and st :: "login_key \<Rightarrow> string \<Rightarrow> string \<Rightarrow> 'i \<Rightarrow> 'i"
    and rm :: "login_key \<Rightarrow> string \<Rightarrow> 'i \<Rightarrow> bool \<times> 'i"
    and good :: "'i \<Rightarrow> bool"
  assumes ld_st: "good i \<Longrightarrow> refresh \<noteq> [] \<Longrightarrow>
      ld k (st k' subject refresh i) = (if same k' k then Some (one_line subject, refresh) else ld k i)"
    and ld_rm: "good i \<Longrightarrow> ld k (snd (rm k' only_if i)) =
      (if same k' k \<and> (only_if = [] \<or> map_option snd (ld k' i) = Some only_if) then None else ld k i)"
    and good_st: "good i \<Longrightarrow> good (st k' subject refresh i)"
    and good_rm: "good i \<Longrightarrow> good (snd (rm k' only_if i))"
begin

text \<open>A dead token's removal keeps a newer one; the removal of a logoff keeps nothing.\<close>

lemma remove_dead_keeps_newer:
  "good i \<Longrightarrow> dead \<noteq> [] \<Longrightarrow> ld k i = Some (subject, newer) \<Longrightarrow> newer \<noteq> dead \<Longrightarrow>
     ld k (snd (rm k dead i)) = Some (subject, newer)"
  by (simp add: ld_rm)

lemma remove_all_forgets: "good i \<Longrightarrow> ld k (snd (rm k [] i)) = None"
  by (simp add: ld_rm same_refl)

lemma store_then_remove: "good i \<Longrightarrow> refresh \<noteq> [] \<Longrightarrow>
    ld k (snd (rm k [] (st k subject refresh i))) = None"
  by (simp add: remove_all_forgets good_st)

lemma other_keys_kept: "good i \<Longrightarrow> \<not> same k' k \<Longrightarrow> refresh \<noteq> [] \<Longrightarrow>
    ld k (st k' subject refresh i) = ld k i \<and> ld k (snd (rm k' only_if i)) = ld k i"
  by (simp add: ld_st ld_rm)

end

definition memory_good :: "'w instance_state \<Rightarrow> bool" where
  "memory_good i \<longleftrightarrow> i_mode i = MEMORY"

interpretation memory_store: login_store account same_login
  "\<lambda>k. load X k MEMORY" "\<lambda>k subject refresh. store X k subject refresh MEMORY"
  "\<lambda>k. remove X k MEMORY" memory_good
  for X :: "('w, 's, 'z) ext_scheme"
proof unfold_locales
  fix i :: "'w instance_state" and k k' and subject refresh only_if :: string
  assume good: "memory_good i"
  show "load X k MEMORY (store X k' subject refresh MEMORY i) =
      (if same_login k' k then Some (one_line subject, refresh) else load X k MEMORY i)"
    if "refresh \<noteq> []"
    using good that
    by (auto simp: load_def store_def memory_good_def Let_def decode_encode_login account_eq
        logins.same_sym [of k k'])
  show "load X k MEMORY (snd (remove X k' MEMORY only_if i)) =
      (if same_login k' k \<and> (only_if = [] \<or> map_option snd (load X k' MEMORY i) = Some only_if)
       then None else load X k MEMORY i)"
    using good logins.find_same [of k' k "i_memory i"]
    by (auto simp: load_def remove_def memory_good_def remove_matches_def account_eq
        logins.same_sym [of k k'] split: option.splits)
  show "memory_good (store X k' subject refresh MEMORY i)"
    using good by (simp add: store_def memory_good_def Let_def)
  show "memory_good (snd (remove X k' MEMORY only_if i))"
    using good by (simp add: remove_def memory_good_def split: option.splits)
qed

section \<open>Properties\<close>

text \<open>
  The name under which a login is stored separates exactly the logins that differ: two keys share
  an entry if and only if they have the same client id, the same service and the same issuer up to
  trailing slashes - so a login is never handed to a service it was not made for.
\<close>

theorem account_separates:
  "account a = account b \<longleftrightarrow>
     strip_slashes (lk_issuer a) = strip_slashes (lk_issuer b) \<and>
     lk_client_id a = lk_client_id b \<and> lk_service a = lk_service b"
  by (simp add: account_eq same_login_def)

text \<open>
  C36: in memory mode the store is a map from logins to a person and a refresh token: a stored login is
  loaded back as stored (the subject on one line), every other login is untouched, and a removal
  bound to a token (\<open>only_if\<close>) removes the entry only while that token is the one stored - a session
  whose rotated-away token was refused never removes the one another session stored since.
\<close>

theorem memory_store_laws:
  assumes "i_mode i = MEMORY" and "refresh \<noteq> []"
  shows "load X k MEMORY (store X k' subject refresh MEMORY i) =
           (if same_login k' k then Some (one_line subject, refresh) else load X k MEMORY i)
       \<and> load X k MEMORY (snd (remove X k' MEMORY only_if i)) =
           (if same_login k' k \<and> (only_if = [] \<or> map_option snd (load X k' MEMORY i) = Some only_if)
            then None else load X k MEMORY i)"
  using assms
  by (intro conjI memory_store.ld_st memory_store.ld_rm) (simp_all only: memory_good_def simp_thms)

definition sample_key :: login_key where
  "sample_key = \<lparr>lk_issuer = ''https://idp/'', lk_client_id = ''duckdb'', lk_service = ''secrets.corp''\<rparr>"

theorem memory_store_laws_witness:
  "load quiet_ext sample_key MEMORY
     (store quiet_ext sample_key ''ann'' ''rt'' MEMORY sample_instance) =
       Some (''ann'', ''rt'')"
  using memory_store_laws [of sample_instance "''rt''" quiet_ext sample_key
      sample_key "''ann''" "[]"]
  by (simp add: sample_instance_def logins.same_refl one_line_def)

text \<open>
  A login stays where it was remembered. A call that names a mode the instance no longer has does
  nothing - loads nothing, stores nothing, removes nothing - so a login kept in memory never reaches the
  operating system's store after a switch to \<^verbatim>\<open>auto\<close>, nor the other way round; and leaving memory mode
  forgets what was in memory.
\<close>

theorem mode_mismatch_is_inert:
  assumes "i_mode i \<noteq> expected" and "mode \<noteq> MEMORY"
  shows "load X k expected i = None \<and> store X k subject refresh expected i = i \<and>
         remove X k expected only_if i = (False, i) \<and>
         load X k MEMORY (set_mode MEMORY (set_mode mode i)) = None"
  using assms by (simp add: load_def store_def remove_def set_mode_def)

theorem mode_mismatch_is_inert_witness:
  "store quiet_ext sample_key ''ann'' ''rt'' AUTO sample_instance = sample_instance"
  using mode_mismatch_is_inert [of sample_instance AUTO AUTO quiet_ext sample_key
      "''ann''" "''rt''" "[]"]
  by (simp add: sample_instance_def)

end
