(* ===== verification/Tresor_Pages.thy ===== *)
theory Tresor_Pages
  imports Tresor_Remember
begin

text \<open>
  The access tokens a web page hands over (\<^verbatim>\<open>PageTokens\<close> of \<^verbatim>\<open>tresor_web_token.cpp\<close>): one per issuer and
  service, in the instance's memory. The two hash tables of the class are \<open>i_pages\<close> (an association
  list: the order of iteration is the order of the answer of \<open>Forget\<close>) and \<open>i_login_of\<close>. Wiping the
  freed bytes is not modelled.
\<close>

section \<open>The key\<close>

definition page_key :: "'z lib_scheme \<Rightarrow> string \<Rightarrow> string \<Rightarrow> string" where
  "page_key L issuer service = sized issuer @ lb_lower L service"

definition same_page :: "'z lib_scheme \<Rightarrow> string \<times> string \<Rightarrow> string \<times> string \<Rightarrow> bool" where
  "same_page L a b \<longleftrightarrow> fst a = fst b \<and> lb_lower L (snd a) = lb_lower L (snd b)"

interpretation pages: keyed_table "\<lambda>p. page_key L (fst p) (snd p)" "same_page L"
  for L :: "'z lib_scheme"
  by unfold_locales (simp add: page_key_def same_page_def sized_append_inj)

section \<open>The operations\<close>

definition page_set :: "'z lib_scheme \<Rightarrow> string \<Rightarrow> string \<Rightarrow> page_token \<Rightarrow>
    'w instance_state \<Rightarrow> 'w instance_state" where
  "page_set L issuer service token i =
     (let key = page_key L issuer service
      in i\<lparr>i_pages := AList.update key token (i_pages i),
           i_login_of := (i_login_of i)(key \<mapsto> (lb_lower L service, issuer))\<rparr>)"

definition page_find :: "'z lib_scheme \<Rightarrow> string \<Rightarrow> string \<Rightarrow> 'w instance_state \<Rightarrow> page_token option" where
  "page_find L issuer service i = map_of (i_pages i) (page_key L issuer service)"

text \<open>An absent entry of \<open>login_of\<close> reads as the pair of empty strings (\<^verbatim>\<open>operator[]\<close>).\<close>

definition login_at :: "(string \<rightharpoonup> string \<times> string) \<Rightarrow> string \<Rightarrow> string \<times> string" where
  "login_at m k = (case m k of None \<Rightarrow> ([], []) | Some p \<Rightarrow> p)"

definition kept_page :: "string \<Rightarrow> string \<Rightarrow> string \<times> string \<Rightarrow> bool" where
  "kept_page wanted issuer login \<longleftrightarrow>
     (wanted \<noteq> [] \<and> fst login \<noteq> wanted) \<or> (issuer \<noteq> [] \<and> snd login \<noteq> issuer)"

fun forget_loop :: "string \<Rightarrow> string \<Rightarrow> (string \<times> page_token) list \<Rightarrow> (string \<rightharpoonup> string \<times> string) \<Rightarrow>
    (string \<times> page_token) list \<times> (string \<rightharpoonup> string \<times> string) \<times> (string \<times> string) list" where
  "forget_loop wanted issuer [] m = ([], m, [])"
| "forget_loop wanted issuer (e # es) m =
     (let login = login_at m (fst e)
      in if kept_page wanted issuer login
         then (case forget_loop wanted issuer es (m(fst e \<mapsto> login)) of
                 (rest, m', gone) \<Rightarrow> (e # rest, m', gone))
         else (case forget_loop wanted issuer es (m(fst e := None)) of
                 (rest, m', gone) \<Rightarrow> (rest, m', login # gone)))"

definition page_forget :: "'z lib_scheme \<Rightarrow> string \<Rightarrow> string \<Rightarrow>
    'w instance_state \<Rightarrow> (string \<times> string) list \<times> 'w instance_state" where
  "page_forget L service issuer i =
     (case forget_loop (lb_lower L service) issuer (i_pages i) (i_login_of i) of
        (rest, m, gone) \<Rightarrow> (gone, i\<lparr>i_pages := rest, i_login_of := m\<rparr>))"

section \<open>The invariant\<close>

text \<open>Every token is stored once, and \<open>login_of\<close> says whose it is.\<close>

definition page_entry_ok :: "'z lib_scheme \<Rightarrow> 'w instance_state \<Rightarrow> string \<Rightarrow> bool" where
  "page_entry_ok L i k \<longleftrightarrow> (case i_login_of i k of None \<Rightarrow> False
     | Some (service, issuer) \<Rightarrow> k = sized issuer @ service)"

definition pages_inv :: "'z lib_scheme \<Rightarrow> 'w instance_state \<Rightarrow> bool" where
  "pages_inv L i \<longleftrightarrow> distinct (map fst (i_pages i)) \<and> list_all (page_entry_ok L i) (map fst (i_pages i))"

lemma pages_inv_set: "pages_inv L i \<Longrightarrow> pages_inv L (page_set L issuer service token i)"
  by (auto simp: pages_inv_def page_set_def Let_def distinct_update update_keys page_entry_ok_def
      list_all_iff dom_update page_key_def split: option.splits)

text \<open>On a consistent table, \<open>Forget\<close> is a filter.\<close>

lemma forget_loop_filter:
  assumes "distinct (map fst es)" and "\<And>e. e \<in> set es \<Longrightarrow> m (fst e) \<noteq> None"
  shows "forget_loop wanted issuer es m =
    (filter (\<lambda>e. kept_page wanted issuer (the (m (fst e)))) es,
     (\<lambda>k. if k \<in> fst ` set es \<and> \<not> kept_page wanted issuer (the (m k)) then None else m k),
     map (\<lambda>e. the (m (fst e))) (filter (\<lambda>e. \<not> kept_page wanted issuer (the (m (fst e)))) es))"
  using assms
proof (induction es arbitrary: m)
  case (Cons e es)
  obtain login where m: "m (fst e) = Some login" using Cons.prems(2) [of e] by auto
  have fresh: "\<And>e'. e' \<in> set es \<Longrightarrow> fst e' \<noteq> fst e"
    using Cons.prems(1) by (auto simp: image_iff)
  have same: "filter (\<lambda>e'. P (the ((m(fst e := v)) (fst e')))) es = filter (\<lambda>e'. P (the (m (fst e')))) es"
    for P v using fresh by (auto intro: filter_cong)
  have IH: "forget_loop wanted issuer es (m(fst e := v)) =
    (filter (\<lambda>e. kept_page wanted issuer (the (m (fst e)))) es,
     (\<lambda>k. if k \<in> fst ` set es \<and> \<not> kept_page wanted issuer (the (m k)) then None else (m(fst e := v)) k),
     map (\<lambda>e. the (m (fst e))) (filter (\<lambda>e. \<not> kept_page wanted issuer (the (m (fst e)))) es))" for v
  proof -
    have "distinct (map fst es)" using Cons.prems(1) by simp
    then have "forget_loop wanted issuer es (m(fst e := v)) =
      (filter (\<lambda>e'. kept_page wanted issuer (the ((m(fst e := v)) (fst e')))) es,
       (\<lambda>k. if k \<in> fst ` set es \<and> \<not> kept_page wanted issuer (the ((m(fst e := v)) k)) then None
            else (m(fst e := v)) k),
       map (\<lambda>e'. the ((m(fst e := v)) (fst e')))
         (filter (\<lambda>e'. \<not> kept_page wanted issuer (the ((m(fst e := v)) (fst e')))) es))"
      by (rule Cons.IH) (use Cons.prems(2) fresh in auto)
    then show ?thesis
      by (simp only: same same [where P = "\<lambda>x. \<not> kept_page wanted issuer x"] prod.inject)
        (use fresh in \<open>auto simp: fun_eq_iff dest: fresh\<close>)
  qed
  show ?case
    using fresh by (auto simp: Let_def login_at_def m IH fun_eq_iff image_iff)
qed auto

lemma pages_inv_login: "pages_inv L i \<Longrightarrow> e \<in> set (i_pages i) \<Longrightarrow> i_login_of i (fst e) \<noteq> None"
  by (auto simp: pages_inv_def list_all_iff page_entry_ok_def split: option.splits)

lemma page_forget_filter:
  assumes "pages_inv L i"
  shows "page_forget L service issuer i =
    (map (\<lambda>e. the (i_login_of i (fst e)))
       (filter (\<lambda>e. \<not> kept_page (lb_lower L service) issuer (the (i_login_of i (fst e)))) (i_pages i)),
     i\<lparr>i_pages := filter (\<lambda>e. kept_page (lb_lower L service) issuer (the (i_login_of i (fst e)))) (i_pages i),
       i_login_of := (\<lambda>k. if k \<in> fst ` set (i_pages i) \<and>
         \<not> kept_page (lb_lower L service) issuer (the (i_login_of i k)) then None else i_login_of i k)\<rparr>)"
  using assms forget_loop_filter [of "i_pages i" "i_login_of i"] pages_inv_login [OF assms]
  by (simp add: page_forget_def pages_inv_def)

lemma pages_inv_forget: "pages_inv L i \<Longrightarrow> pages_inv L (snd (page_forget L service issuer i))"
  by (simp add: page_forget_filter)
    (auto simp: pages_inv_def list_all_iff page_entry_ok_def distinct_map_filter split: option.splits)

lemma map_of_filter_key:
  "map_of (filter (\<lambda>e. P (fst e)) es) k = (if P k then map_of es k else None)"
  by (induction es) auto

lemma page_login_of:
  assumes "pages_inv L i" and "page_find L issuer service i \<noteq> None"
  shows "i_login_of i (page_key L issuer service) = Some (lb_lower L service, issuer)"
proof -
  have "page_key L issuer service \<in> set (map fst (i_pages i))"
    using assms(2) by (simp add: page_find_def map_of_eq_None_iff)
  then have "page_entry_ok L i (page_key L issuer service)"
    using assms(1) by (auto simp: pages_inv_def list_all_iff)
  then show ?thesis
    by (auto simp: page_entry_ok_def page_key_def sized_append_inj split: option.splits)
qed

lemma page_find_forget:
  assumes "pages_inv L i"
  shows "page_find L issuer' service' (snd (page_forget L service issuer i)) =
    (if kept_page (lb_lower L service) issuer (lb_lower L service', issuer')
     then page_find L issuer' service' i else None)"
proof (cases "page_find L issuer' service' i = None")
  case True
  then show ?thesis using assms
    by (simp add: page_forget_filter page_find_def map_of_filter_key
        [where P = "\<lambda>k. kept_page (lb_lower L service) issuer (the (i_login_of i k))"])
next
  case False
  then show ?thesis using assms page_login_of [OF assms False]
    by (simp add: page_forget_filter page_find_def map_of_filter_key
        [where P = "\<lambda>k. kept_page (lb_lower L service) issuer (the (i_login_of i k))"])
qed

lemma page_find_set:
  "page_find L issuer' service' (page_set L issuer service token i) =
     (if same_page L (issuer, service) (issuer', service') then Some token
      else page_find L issuer' service' i)"
  by (simp add: page_find_def page_set_def Let_def update_conv' pages.enc_eq [of L "(issuer, service)"
        "(issuer', service')", simplified] fun_upd_def eq_commute [of "page_key L issuer' service'"])

section \<open>Property\<close>

text \<open>
  The pages' tokens are one per issuer and service (the service case-insensitively): the newest
  handed over is found, nobody else's is disturbed, and a logoff (\<open>Forget\<close>) leaves no token of the
  service and issuer it names - an empty name stands for all - and touches no other.
\<close>

theorem page_tokens_laws:
  assumes "pages_inv L i"
  shows "page_find L issuer' service' (page_set L issuer service token i) =
           (if issuer = issuer' \<and> lb_lower L service = lb_lower L service' then Some token
            else page_find L issuer' service' i)
       \<and> page_find L issuer' service' (snd (page_forget L service issuer i)) =
           (if (lb_lower L service = [] \<or> lb_lower L service = lb_lower L service') \<and>
               (issuer = [] \<or> issuer = issuer')
            then None else page_find L issuer' service' i)
       \<and> pages_inv L (page_set L issuer service token i)
       \<and> pages_inv L (snd (page_forget L service issuer i))"
  using assms
  by (auto simp: page_find_set same_page_def page_find_forget kept_page_def pages_inv_set pages_inv_forget)

definition sample_pages :: "unit instance_state" where
  "sample_pages = page_set quiet_ext ''https://idp'' ''secrets.corp''
     \<lparr>pt_token = ''at'', pt_expires_at = 9000\<rparr> sample_instance"

theorem page_tokens_laws_witness:
  "page_find quiet_ext ''https://idp'' ''secrets.corp''
     (snd (page_forget quiet_ext ''secrets.corp'' [] sample_pages)) = None"
proof -
  have "pages_inv quiet_ext sample_pages"
    unfolding sample_pages_def by (rule pages_inv_set) (simp add: pages_inv_def sample_instance_def)
  from page_tokens_laws [OF this, of "''https://idp''" "''secrets.corp''" "[]" "''secrets.corp''"]
  show ?thesis by (simp add: quiet_ext_def sample_ext_def)
qed

end
