(* ===== verification/Tresor_Pending.thy ===== *)
theory Tresor_Pending
  imports Tresor_Pages
begin

text \<open>
  A person's login in progress (\<^verbatim>\<open>tresor_pending.cpp\<close>), and the places where \<^verbatim>\<open>tresor_login.cpp\<close> moves one
  on: the flow shows its URL (\<open>login_shown\<close>), the flow's thread ends (\<open>login_ended\<close>), an ATTACH takes
  the kept tokens (\<open>login_taken\<close>), a logoff cancels it (\<open>pending_cancel\<close>). Each of these runs under the
  login's lock, so a run of the program is a sequence of them: the step relation \<open>login_step\<close>.

  A \<^verbatim>\<open>shared_ptr<PendingLogin>\<close> is its identity, a number; \<open>i_logins\<close> maps it to the object and
  \<open>i_pending\<close> is the registry. Stopping a login is setting its flag; joining its thread is not modelled.
\<close>

section \<open>The registry\<close>

definition pending_account :: "login_key \<Rightarrow> string" where
  "pending_account key = sized (lk_issuer key) @ '' '' @ sized (lk_client_id key) @ '' '' @ sized (lk_service key)"

lemma sized_eq: "sized a = sized b \<longleftrightarrow> a = b"
  using sized_append_inj [of a "[]" b "[]"] by simp

interpretation pendings: keyed_table pending_account "(=)"
  by unfold_locales (auto simp: pending_account_def sized_append_inj sized_eq)

definition login_of_id :: "nat \<Rightarrow> 'w instance_state \<Rightarrow> pending_login" where
  "login_of_id l i = i_logins i l"

definition update_login :: "nat \<Rightarrow> (pending_login \<Rightarrow> pending_login) \<Rightarrow> 'w instance_state \<Rightarrow> 'w instance_state" where
  "update_login l f i = i\<lparr>i_logins := (i_logins i)(l := f (i_logins i l))\<rparr>"

definition stop_login :: "nat \<Rightarrow> 'w instance_state \<Rightarrow> 'w instance_state" where
  "stop_login l = update_login l (pl_cancelled_update (\<lambda>_. True))"

definition pending_find :: "login_key \<Rightarrow> 'w instance_state \<Rightarrow> nat option" where
  "pending_find key i = i_pending i (pending_account key)"

definition pending_find_or_add :: "nat \<Rightarrow> 'w instance_state \<Rightarrow> nat option \<times> 'w instance_state" where
  "pending_find_or_add l i =
     (let key = pending_account (pl_key (i_logins i l))
      in case i_pending i key of
           Some there \<Rightarrow> (Some there, i)
         | None \<Rightarrow> (None, i\<lparr>i_pending := (i_pending i)(key \<mapsto> l)\<rparr>))"

definition pending_remove :: "nat \<Rightarrow> 'w instance_state \<Rightarrow> 'w instance_state" where
  "pending_remove l i =
     (let key = pending_account (pl_key (i_logins i l));
          i' = (if i_pending i key = Some l then i\<lparr>i_pending := (i_pending i)(key := None)\<rparr> else i)
      in stop_login l i')"

definition running :: "pending_login \<Rightarrow> bool" where
  "running p \<longleftrightarrow> pl_state p = STARTING \<or> pl_state p = PENDING"

text \<open>What \<open>Cancel\<close> does to the login under its lock.\<close>

definition cancel_login :: "string \<Rightarrow> pending_login \<Rightarrow> pending_login" where
  "cancel_login why p =
     (let p = p\<lparr>pl_cancelled := True\<rparr>;
          p = (if running p then p\<lparr>pl_state := FAILED, pl_error := why, pl_ended_by_logoff := True\<rparr> else p)
      in p\<lparr>pl_tokens := no_tokens\<rparr>)"

definition pending_cancel :: "login_key \<Rightarrow> string \<Rightarrow> 'w instance_state \<Rightarrow> 'w instance_state" where
  "pending_cancel key why i =
     (case pending_find key i of
        None \<Rightarrow> i
      | Some l \<Rightarrow>
          let was_running = running (i_logins i l);
              i' = update_login l (cancel_login why) i
          in if was_running then i' else pending_remove l i')"

text \<open>
  \<open>WaitBeyond\<close> sleeps in slices and looks again: the list is what it sees each time - the state, the
  clock, the interrupt. \<open>None\<close> is a wait that has not ended by the end of the list.
\<close>

fun wait_beyond :: "pending_state \<Rightarrow> int \<Rightarrow> (pending_state \<times> int \<times> bool) list \<Rightarrow> pending_state option" where
  "wait_beyond old deadline [] = None"
| "wait_beyond old deadline ((state, now, interrupted) # later) =
     (if state = old \<and> now < deadline \<and> \<not> interrupted then wait_beyond old deadline later else Some state)"

section \<open>How a login moves on\<close>

text \<open>The browser's URL (or the device's code) is known.\<close>

definition login_shown :: "string \<Rightarrow> string \<Rightarrow> int \<Rightarrow> pending_login \<Rightarrow> pending_login" where
  "login_shown url code expires p =
     (let p = p\<lparr>pl_url := url, pl_user_code := code, pl_expires_at := expires\<rparr>
      in if pl_state p = STARTING then p\<lparr>pl_state := PENDING\<rparr> else p)"

text \<open>The flow's thread ends with the identity provider's answer. \<open>alive\<close>: the store still exists.\<close>

definition login_ended :: "('w, 's, 'z) ext_scheme \<Rightarrow> nat \<Rightarrow> keychain_mode \<Rightarrow> bool \<Rightarrow> token_set \<Rightarrow>
    'w instance_state \<Rightarrow> 'w instance_state" where
  "login_ended X l mode alive tokens i =
     (let p = i_logins i l
      in if pl_state p = FAILED then i
         else if \<not> x_tokens_ok X tokens then
           update_login l (\<lambda>p. p\<lparr>pl_state := FAILED,
             pl_error := (if ts_error_code tokens = ''cancelled'' then ''cancelled'' else ts_error tokens)\<rparr>) i
         else if \<not> pl_keep_tokens p \<and> alive \<and> refresh_token tokens \<noteq> [] then
           update_login l (pl_state_update (\<lambda>_. DONE))
             (store X (pl_key p) BACKGROUND_LOGIN_SUBJECT (refresh_token tokens) mode i)
         else
           update_login l (\<lambda>p. p\<lparr>pl_keep_tokens := True, pl_tokens := tokens, pl_state := DONE\<rparr>) i)"

text \<open>An ATTACH takes the tokens kept for it.\<close>

definition takeable :: "pending_login \<Rightarrow> bool" where
  "takeable p \<longleftrightarrow> pl_state p = DONE \<and> pl_keep_tokens p \<and> \<not> pl_consumed p \<and>
     (access_token (pl_tokens p) \<noteq> [] \<or> refresh_token (pl_tokens p) \<noteq> [])"

definition login_taken :: "nat \<Rightarrow> 'w instance_state \<Rightarrow> token_set option \<times> 'w instance_state" where
  "login_taken l i =
     (let p = i_logins i l
      in if takeable p
         then (Some (pl_tokens p), update_login l (\<lambda>p. p\<lparr>pl_tokens := no_tokens, pl_consumed := True\<rparr>) i)
         else (None, i))"

section \<open>Runs\<close>

text \<open>
  The flow's thread ends once: while the login runs, or after a logoff failed it. \<open>T\<close> labels a step
  with the tokens an ATTACH took in it.
\<close>

inductive login_step :: "('w, 's, 'z) ext_scheme \<Rightarrow> nat \<Rightarrow> 'w instance_state \<Rightarrow> token_set option \<Rightarrow>
    'w instance_state \<Rightarrow> bool" for X l where
  shown: "login_step X l i None (update_login l (login_shown url code expires) i)"
| ended: "pl_state (i_logins i l) \<noteq> DONE \<Longrightarrow> login_step X l i None (login_ended X l mode alive tokens i)"
| taken: "login_taken l i = (T, i') \<Longrightarrow> login_step X l i T i'"
| cancelled: "login_step X l i None (pending_cancel (pl_key (i_logins i l)) why i)"
| removed: "login_step X l i None (pending_remove l i)"

inductive_simps login_step_iff: "login_step X l i T i'"

inductive login_run :: "('w, 's, 'z) ext_scheme \<Rightarrow> nat \<Rightarrow> 'w instance_state \<Rightarrow> token_set list \<Rightarrow>
    'w instance_state \<Rightarrow> bool" for X l where
  run_nil: "login_run X l i [] i"
| run_step: "login_run X l i Ts i' \<Longrightarrow> login_step X l i' T i'' \<Longrightarrow>
    login_run X l i (Ts @ (case T of None \<Rightarrow> [] | Some t \<Rightarrow> [t])) i''"

text \<open>Taken tokens are gone; what a logoff ended stays failed and holds none.\<close>

definition login_inv :: "pending_login \<Rightarrow> bool" where
  "login_inv p \<longleftrightarrow> (pl_consumed p \<longrightarrow> pl_state p = DONE \<and> pl_tokens p = no_tokens) \<and>
     (pl_ended_by_logoff p \<longrightarrow> pl_state p = FAILED) \<and>
     (pl_state p \<noteq> DONE \<longrightarrow> pl_tokens p = no_tokens)"

lemma other_fields [simp]:
  "i_logins (update_login l f i) k = (if k = l then f (i_logins i l) else i_logins i k)"
  "i_logins (stop_login l i) k =
     (if k = l then (i_logins i l)\<lparr>pl_cancelled := True\<rparr> else i_logins i k)"
  "i_logins (pending_remove l i) k =
     (if k = l then (i_logins i l)\<lparr>pl_cancelled := True\<rparr> else i_logins i k)"
  by (simp_all add: update_login_def stop_login_def pending_remove_def Let_def)

lemma store_logins [simp]: "i_logins (store X k subject refresh mode i) = i_logins i"
  by (simp add: store_def Let_def split: keychain_mode.splits)

lemma pending_cancel_logins:
  "i_logins (pending_cancel key why i) k =
     (if pending_find key i = Some k then
        (let p = cancel_login why (i_logins i k) in p) else i_logins i k)"
  by (auto simp: pending_cancel_def cancel_login_def Let_def split: option.splits)

lemma cancel_login_inv: "login_inv p \<Longrightarrow> login_inv (cancel_login why p)"
  by (cases "pl_state p") (auto simp: login_inv_def cancel_login_def running_def Let_def)

lemma login_step_inv:
  assumes "login_step X l i T i'" and "login_inv (i_logins i l)"
  shows "login_inv (i_logins i' l)"
  using assms
proof cases
  case shown
  then show ?thesis using assms(2) by (auto simp: login_inv_def login_shown_def Let_def)
next
  case ended
  then show ?thesis using assms(2) by (auto simp: login_ended_def login_inv_def Let_def)
next
  case taken
  then show ?thesis using assms(2)
    by (auto simp: login_taken_def takeable_def login_inv_def Let_def split: if_splits)
next
  case cancelled
  then show ?thesis using assms(2) by (auto simp: pending_cancel_logins intro: cancel_login_inv)
next
  case removed
  then show ?thesis using assms(2) by (simp add: login_inv_def)
qed

text \<open>A login as \<^verbatim>\<open>StartPersonLogin\<close> registers it: the flow, the key and the options are its choice.\<close>

definition fresh_login :: "pending_login \<Rightarrow> bool" where
  "fresh_login p \<longleftrightarrow> pl_state p = STARTING \<and> \<not> pl_consumed p \<and> \<not> pl_ended_by_logoff p \<and> pl_tokens p = no_tokens"

interpretation login_progress: invariant_system
  "\<lambda>i. fresh_login (i_logins i l)" "\<lambda>i i'. \<exists>T. login_step X l i T i'" "\<lambda>i. login_inv (i_logins i l)"
  for X :: "('w, 's, 'z) ext_scheme" and l
proof unfold_locales
  show "login_inv (i_logins i l)" if "fresh_login (i_logins i l)" for i :: "'w instance_state"
    using that by (simp add: login_inv_def fresh_login_def)
  show "login_inv (i_logins i' l)" if "login_inv (i_logins i l)" "\<exists>T. login_step X l i T i'"
    for i i' :: "'w instance_state"
    using that login_step_inv by blast
qed

lemma login_run_steps: "login_run X l i Ts i' \<Longrightarrow> (\<lambda>i i'. \<exists>T. login_step X l i T i')\<^sup>*\<^sup>* i i'"
  by (induction rule: login_run.induct) (auto intro: rtranclp.rtrancl_into_rtrancl)

lemma consumed_step:
  "login_step X l i T i' \<Longrightarrow> pl_consumed (i_logins i l) \<Longrightarrow> T = None \<and> pl_consumed (i_logins i' l)"
  by (auto simp: login_step_iff login_shown_def login_ended_def login_taken_def takeable_def
      pending_cancel_logins cancel_login_def Let_def)

lemma taken_step:
  "login_step X l i (Some t) i' \<Longrightarrow> \<not> pl_consumed (i_logins i l) \<and> pl_consumed (i_logins i' l)"
  by (auto simp: login_step_iff login_taken_def takeable_def Let_def split: if_splits)

lemma taken_once:
  "login_run X l i Ts i' \<Longrightarrow> length Ts \<le> 1 \<and> (Ts \<noteq> [] \<longrightarrow> pl_consumed (i_logins i' l))"
proof (induction rule: login_run.induct)
  case (run_step i Ts i' T i'')
  show ?case
  proof (cases T)
    case None
    then show ?thesis using run_step consumed_step by fastforce
  next
    case (Some t)
    then have "Ts = []" using run_step taken_step by blast
    then show ?thesis using Some run_step taken_step by fastforce
  qed
qed simp

section \<open>Properties\<close>

text \<open>
  C37: tokens kept for one ATTACH are taken by one. Along every run of a login - its flow showing the
  URL, ending in any way, ATTACHes looking at it, logoffs cancelling it, in any order - at most one
  ATTACH gets tokens; and a login a logoff ended stays failed, holds no tokens, and its flow's later
  answer changes nothing: neither a kept token nor an entry of the store.
\<close>

theorem kept_tokens_taken_once:
  assumes "fresh_login (i_logins i l)" and "login_run X l i Ts i'"
  shows "length Ts \<le> 1 \<and>
    (pl_ended_by_logoff (i_logins i' l) \<longrightarrow>
       pl_state (i_logins i' l) = FAILED \<and> pl_tokens (i_logins i' l) = no_tokens \<and>
       login_ended X l mode alive tokens i' = i')"
proof -
  have "login_inv (i_logins i' l)"
    using login_progress.reach_inv [OF assms(1) login_run_steps [OF assms(2)]] .
  then show ?thesis
    using taken_once [OF assms(2)] by (auto simp: login_inv_def login_ended_def Let_def)
qed

definition sample_login :: "unit instance_state" where
  "sample_login = sample_instance\<lparr>i_pending := [pending_account (pl_key (i_logins sample_instance 0)) \<mapsto> 0]\<rparr>"

theorem kept_tokens_taken_once_witness:
  "pl_state (i_logins (pending_cancel (pl_key (i_logins sample_login 0)) ''logged off'' sample_login) 0) = FAILED"
proof -
  let ?i = "pending_cancel (pl_key (i_logins sample_login 0)) ''logged off'' sample_login"
  have "login_run quiet_ext 0 sample_login ([] @ (case None of None \<Rightarrow> [] | Some t \<Rightarrow> [t])) ?i"
    by (rule run_step [OF run_nil cancelled])
  moreover have "fresh_login (i_logins sample_login 0)"
    by (simp add: fresh_login_def sample_login_def sample_instance_def new_login_def)
  ultimately have "pl_ended_by_logoff (i_logins ?i 0) \<longrightarrow> pl_state (i_logins ?i 0) = FAILED"
    using kept_tokens_taken_once [of sample_login 0 quiet_ext "[]" ?i] by simp
  moreover have "pl_ended_by_logoff (i_logins ?i 0)"
    by (simp add: pending_cancel_logins pending_find_def sample_login_def sample_instance_def
        new_login_def cancel_login_def running_def)
  ultimately show ?thesis by simp
qed

text \<open>
  The registry holds one login per issuer, client and service. Registering one where another is
  already there reports that one and changes nothing; a login registered is found under exactly its
  own key; removing a login removes the registry's entry only while it is still that login - never
  a newer one of the same key.
\<close>

theorem pending_registry_laws:
  "(case pending_find (pl_key (i_logins i l)) i of
      Some there \<Rightarrow> pending_find_or_add l i = (Some there, i)
    | None \<Rightarrow> fst (pending_find_or_add l i) = None \<and>
        pending_find key (snd (pending_find_or_add l i)) =
          (if key = pl_key (i_logins i l) then Some l else pending_find key i)) \<and>
   pending_find key (pending_remove l i) =
     (if key = pl_key (i_logins i l) \<and> pending_find key i = Some l then None else pending_find key i)"
  by (auto simp: pending_find_def pending_find_or_add_def pending_remove_def stop_login_def
      update_login_def Let_def pendings.enc_eq split: option.splits)

text \<open>
  A wait for a login ends: once the clock the waiter sees reaches the deadline, or the query is
  interrupted, or the state moves on, it returns - with the state it saw then, and with a state other
  than the one it waits to leave unless time ran out or the query was interrupted.
\<close>

theorem wait_beyond_returns:
  "(wait_beyond old deadline seen \<noteq> None) =
     list_ex (\<lambda>(state, now, interrupted). state \<noteq> old \<or> deadline \<le> now \<or> interrupted) seen \<and>
   (case wait_beyond old deadline seen of None \<Rightarrow> True
    | Some state \<Rightarrow> state \<noteq> old \<or>
        list_ex (\<lambda>(st, now, interrupted). st = old \<and> (deadline \<le> now \<or> interrupted)) seen)"
  by (induction old deadline seen rule: wait_beyond.induct) (auto split: option.splits)

theorem wait_beyond_returns_witness:
  "wait_beyond PENDING 100 [(PENDING, 10, False), (PENDING, 60, False), (DONE, 70, False)] = Some DONE \<and>
   wait_beyond PENDING 100 [(PENDING, 10, False), (PENDING, 100, False)] \<noteq> None"
  using wait_beyond_returns [of PENDING 100 "[(PENDING, 10, False), (PENDING, 100, False)]"] by simp

end
