(* ===== verification/Tresor_Credentials.thy ===== *)
theory Tresor_Credentials
  imports Tresor_Pending
begin

unbundle bit_operations_syntax

text \<open>
  How a service proves itself (\<^verbatim>\<open>tresor_credentials.cpp\<close>): a client secret, a private key's file, a federated
  token's file, the platform's own token. The files and the platform's tokens are the environment's; what
  is decided here is which of them may be sent, and where. The modelled build is the POSIX one.
\<close>

section \<open>Files\<close>

definition MAX_FILE_BYTES :: nat where
  "MAX_FILE_BYTES = 64 * 1024"

definition jwt_char :: "char \<Rightarrow> bool" where
  "jwt_char c \<longleftrightarrow> is_alnum c \<or> c = CHR ''-'' \<or> c = CHR ''_''"

fun jwt_scan :: "string \<Rightarrow> nat \<Rightarrow> nat option" where
  "jwt_scan [] dots = Some dots"
| "jwt_scan (c # cs) dots =
     (if c = CHR ''.'' then jwt_scan cs (dots + 1)
      else if \<not> jwt_char c then None else jwt_scan cs dots)"

definition jwt_shaped :: "string \<Rightarrow> bool" where
  "jwt_shaped text \<longleftrightarrow> jwt_scan text 0 = Some 2 \<and> 16 < length text"

definition trim_end :: "string \<Rightarrow> string" where
  "trim_end s = rev (dropWhile is_space (rev s))"

text \<open>\<open>Inl\<close> is the refusal (\<open>why\<close>); the mask is \<^verbatim>\<open>S_IRWXO | S_IWGRP | S_IXGRP\<close>.\<close>

definition read_credential_file :: "('w, 's, 'z) ext_scheme \<Rightarrow> string \<Rightarrow> bool \<Rightarrow> bool \<Rightarrow> 'w \<Rightarrow> string + string" where
  "read_credential_file X path private_to_owner trim w =
     (case x_read_file X path w of
        None \<Rightarrow> Inl (''cannot read '' @ path)
      | Some f \<Rightarrow>
          if \<not> of_regular f then Inl (path @ '' is not a file'')
          else if private_to_owner \<and> of_mode f AND (7 OR 16 OR 8) \<noteq> 0 then
            Inl (path @ '' may be read or written by others than its owner'')
          else if of_size f > MAX_FILE_BYTES then
            Inl (path @ '' is larger than a key, a certificate or a token is'')
          else let out = take (of_size f) (of_bytes f);
                   out = (if trim then trim_end out else out)
               in if out = [] then Inl (path @ '' is empty'') else Inr out)"

section \<open>The credential\<close>

datatype credential_kind = SECRET | PRIVATE_KEY | ASSERTION_FILE | GITHUB_ACTIONS | MANAGED_IDENTITY
  | AZURE_MANAGED_IDENTITY_ASSERTION

record service_credential =
  sc_kind :: credential_kind
  sc_client_id :: string
  sc_client_secret :: string
  sc_private_key_file :: string
  sc_key_id :: string
  sc_certificate_file :: string
  sc_assertion_file :: string
  sc_assertion_audience :: string
  sc_identity_client_id :: string
  sc_audience :: string

definition no_credential :: service_credential where
  "no_credential = \<lparr>sc_kind = SECRET, sc_client_id = [], sc_client_secret = [], sc_private_key_file = [],
     sc_key_id = [], sc_certificate_file = [], sc_assertion_file = [], sc_assertion_audience = [],
     sc_identity_client_id = [], sc_audience = []\<rparr>"

text \<open>DuckDB's sandbox decides per path (\<open>can\<close>); the refusal names the path.\<close>

definition check_access :: "(string \<Rightarrow> bool) \<Rightarrow> service_credential \<Rightarrow> error + unit" where
  "check_access can c =
     (case filter (\<lambda>path. path \<noteq> [] \<and> \<not> can path)
             [sc_private_key_file c, sc_certificate_file c, sc_assertion_file c] of
        [] \<Rightarrow> Inr ()
      | path # _ \<Rightarrow> Inl (Permission ''outside the sandbox'' [path]))"

definition TOKEN_EXCHANGE :: string where
  "TOKEN_EXCHANGE = ''api://AzureADTokenExchange''"

definition TOKEN_EXCHANGE_APP_ID :: string where
  "TOKEN_EXCHANGE_APP_ID = ''fb60f99c-7a34-4190-8149-302f77469936''"

definition meant_for_federation :: "string list \<Rightarrow> string \<Rightarrow> bool" where
  "meant_for_federation audiences asked \<longleftrightarrow>
     asked \<in> set audiences \<or> (asked = TOKEN_EXCHANGE \<and> TOKEN_EXCHANGE_APP_ID \<in> set audiences)"

text \<open>\<open>Auth\<close>: the proof for one request, or why there is none.\<close>

definition cred_auth :: "('w, 's, 'z) ext_scheme \<Rightarrow> service_credential \<Rightarrow> 'w instance_state \<Rightarrow>
    (string + client_auth) \<times> 'w instance_state" where
  "cred_auth X c i =
     (let auth = no_auth\<lparr>ca_client_id := sc_client_id c\<rparr>
      in case sc_kind c of
        SECRET \<Rightarrow> (Inr (auth\<lparr>ca_client_secret := sc_client_secret c\<rparr>), i)
      | PRIVATE_KEY \<Rightarrow>
          (case read_credential_file X (sc_private_key_file c) True False (i_world i) of
             Inl why \<Rightarrow> (Inl why, i)
           | Inr key \<Rightarrow>
               let auth = auth\<lparr>ca_key_id := sc_key_id c, ca_private_key_pem := key\<rparr>
               in if sc_certificate_file c = [] then (Inr auth, i)
                  else case read_credential_file X (sc_certificate_file c) False False (i_world i) of
                         Inl why \<Rightarrow> (Inl why, i)
                       | Inr certificate \<Rightarrow> (Inr (auth\<lparr>ca_certificate_pem := certificate\<rparr>), i))
      | ASSERTION_FILE \<Rightarrow>
          (case read_credential_file X (sc_assertion_file c) False True (i_world i) of
             Inl why \<Rightarrow> (Inl why, i)
           | Inr assertion \<Rightarrow>
               if jwt_shaped assertion then (Inr (auth\<lparr>ca_assertion := assertion\<rparr>), i)
               else (Inl (sc_assertion_file c @ '' does not hold a token (a JWT) - never sent''), i))
      | GITHUB_ACTIONS \<Rightarrow>
          (case x_github_token X (sc_assertion_audience c) i of
             (token, i') \<Rightarrow>
               if x_tokens_ok X token then (Inr (auth\<lparr>ca_assertion := access_token token\<rparr>), i')
               else (Inl (ts_error token), i'))
      | AZURE_MANAGED_IDENTITY_ASSERTION \<Rightarrow>
          (case x_managed_identity X
                  \<lparr>ir_resource = sc_assertion_audience c, ir_client_id = sc_identity_client_id c\<rparr> i of
             (token, i') \<Rightarrow>
               if \<not> x_tokens_ok X token then
                 (Inl (''the managed identity gave no assertion: '' @ ts_error token), i')
               else case jwt_audiences X (access_token token) of
                 (audiences, is_jwt) \<Rightarrow>
                   if is_jwt \<and> meant_for_federation audiences (sc_assertion_audience c)
                   then (Inr (auth\<lparr>ca_assertion := access_token token\<rparr>), i')
                   else (Inl (''the managed identity's token is not meant for '' @ sc_assertion_audience c @
                              '' - not sent''), i'))
      | MANAGED_IDENTITY \<Rightarrow> (Inl ''a managed identity is no client at the identity provider'', i))"

definition cred_mint :: "('w, 's, 'z) ext_scheme \<Rightarrow> service_credential \<Rightarrow> endpoints \<Rightarrow> string \<Rightarrow>
    (string \<times> string) list \<Rightarrow> 'w instance_state \<Rightarrow> token_set \<times> 'w instance_state" where
  "cred_mint X c endpoints scope extra i =
     (if sc_kind c = MANAGED_IDENTITY then
        (case x_managed_identity X \<lparr>ir_resource = sc_audience c, ir_client_id = sc_client_id c\<rparr> i of
           (out, i') \<Rightarrow>
             if x_tokens_ok X out then
               (case jwt_audiences X (access_token out) of
                  (audiences, is_jwt) \<Rightarrow>
                    if is_jwt \<and> sc_audience c \<in> set audiences then (out, i')
                    else (no_tokens\<lparr>ts_error := ''the managed identity's token is not meant for '' @
                            sc_audience c @ '' - not sent''\<rparr>, i'))
             else (out, i'))
      else case cred_auth X c i of
        (Inl why, i') \<Rightarrow> (no_tokens\<lparr>ts_error := why, ts_error_code := ''invalid_client''\<rparr>, i')
      | (Inr auth, i') \<Rightarrow> x_client_credentials X endpoints auth scope extra i')"

definition login_name :: "service_credential \<Rightarrow> string" where
  "login_name c = (case sc_kind c of
       PRIVATE_KEY \<Rightarrow> ''private_key_jwt''
     | ASSERTION_FILE \<Rightarrow> ''federated''
     | GITHUB_ACTIONS \<Rightarrow> ''federated''
     | AZURE_MANAGED_IDENTITY_ASSERTION \<Rightarrow> ''federated''
     | MANAGED_IDENTITY \<Rightarrow> ''managed_identity''
     | SECRET \<Rightarrow> ''client_credentials'')"

definition exchanges_tokens :: "service_credential \<Rightarrow> bool" where
  "exchanges_tokens c \<longleftrightarrow> sc_kind c \<noteq> MANAGED_IDENTITY"

definition wipe_credential :: "service_credential \<Rightarrow> service_credential" where
  "wipe_credential c = c\<lparr>sc_client_secret := []\<rparr>"

section \<open>Lemmas\<close>

lemma jwt_scan_iff:
  "jwt_scan s n = Some m \<longleftrightarrow> list_all (\<lambda>c. c = CHR ''.'' \<or> jwt_char c) s \<and> m = n + count_list s (CHR ''.'')"
  by (induction s n rule: jwt_scan.induct) auto

lemma jwt_shaped_iff: "jwt_shaped s \<longleftrightarrow>
    list_all (\<lambda>c. c = CHR ''.'' \<or> jwt_char c) s \<and> count_list s (CHR ''.'') = 2 \<and> 16 < length s"
  by (auto simp: jwt_shaped_def jwt_scan_iff)

lemma read_credential_private:
  "read_credential_file X path True trim w = Inr out \<Longrightarrow>
     \<exists>f. x_read_file X path w = Some f \<and> of_regular f \<and> of_mode f AND 31 = 0"
  by (auto simp: read_credential_file_def split: option.splits if_splits)

section \<open>Properties\<close>


definition identity_ext :: "(unit, unit) ext" where
  "identity_ext = quiet_ext\<lparr>lb_json := (\<lambda>_. Some (JObj [(''aud'', JStr ''api://vault'')])),
     x_managed_identity := (\<lambda>_ i. (sample_tokens ''h..s'' [], i))\<rparr>"

lemma identity_claims:
  "read_jwt_claims identity_ext ''h..s'' = no_claims\<lparr>jc_is_jwt := True, jc_audiences := [''api://vault'']\<rparr>"
  by (simp add: read_jwt_claims_def jwt_payload_def b64_decode_def claims_of_def identity_ext_def
      jstr_def jget_opt_def no_claims_def cstr_def)

lemma identity_ext_fields:
  "x_managed_identity identity_ext = (\<lambda>_ i. (sample_tokens ''h..s'' [], i))"
  "x_tokens_ok identity_ext = (\<lambda>t. ts_error t = [])"
  by (simp_all add: identity_ext_def quiet_ext_def sample_ext_def)


text \<open>
  A managed identity logs in only where its secret says. Whatever the service's discovery names, the
  platform is asked for the secret's own audience, and the token it answers is used only when it is a
  JWT for exactly that audience; anything else is dropped and the login fails.
\<close>

theorem managed_identity_only_its_audience:
  assumes "sc_kind c = MANAGED_IDENTITY" and "ok_means_no_error X"
    and "cred_mint X c endpoints scope extra i = (tokens, i')" and "x_tokens_ok X tokens"
  shows "jc_is_jwt (read_jwt_claims X (access_token tokens)) \<and>
    sc_audience c \<in> set (jc_audiences (read_jwt_claims X (access_token tokens))) \<and>
    (tokens, i') = x_managed_identity X \<lparr>ir_resource = sc_audience c, ir_client_id = sc_client_id c\<rparr> i"
  using assms
  by (auto simp: cred_mint_def jwt_audiences_def Let_def ok_means_no_error_def no_tokens_def
      split: prod.splits if_splits)

theorem managed_identity_only_its_audience_witness:
  "jc_is_jwt (read_jwt_claims identity_ext ''h..s'')"
proof -
  have "cred_mint identity_ext (no_credential\<lparr>sc_kind := MANAGED_IDENTITY, sc_audience := ''api://vault''\<rparr>)
      no_endpoints [] [] sample_instance = (sample_tokens ''h..s'' [], sample_instance)"
    by (simp add: cred_mint_def jwt_audiences_def sample_tokens_def identity_claims no_claims_def
        identity_ext_fields)
  moreover have "ok_means_no_error identity_ext"
    by (simp add: ok_means_no_error_def identity_ext_fields)
  moreover have "x_tokens_ok identity_ext (sample_tokens ''h..s'' [])"
    by (simp add: identity_ext_fields sample_tokens_def)
  ultimately show ?thesis
    using managed_identity_only_its_audience [of "no_credential\<lparr>sc_kind := MANAGED_IDENTITY,
        sc_audience := ''api://vault''\<rparr>" identity_ext no_endpoints "[]" "[]" sample_instance
        "sample_tokens ''h..s'' []" sample_instance]
    by (simp add: sample_tokens_def)
qed

end
