(* ===== verification/Tresor_Session.thy ===== *)
theory Tresor_Session
  imports Tresor_Credentials
begin

text \<open>
  The logged-in session behind an attached catalog (\<^verbatim>\<open>tresor_session.cpp\<close>). The record \<open>session\<close> has the
  class's fields; the weak pointers to the instance's stores are Booleans (set or not: the stores live as
  long as the instance). \<open>sys\<close> is the state of the process as far as the sessions are concerned: every
  session by identity, and the instance.

  What the sources do while they hold the session's lock is a function of that session and the instance
  (\<open>locked\<close>); a request to the service is sent outside the lock and may change everything
  (\<open>x_http\<close> on the whole state), because any other thread may run meanwhile. The callbacks the catalog
  registers are the record \<open>hooks\<close>.
\<close>

section \<open>State\<close>

datatype login_flow = F_BROWSER | F_DEVICE | F_CLIENT_CREDENTIALS | F_TOKEN | F_REMEMBERED | F_FEDERATED
  | F_MANAGED_IDENTITY | F_PAGE

definition login_flow_name :: "login_flow \<Rightarrow> string" where
  "login_flow_name flow = (case flow of
       F_BROWSER \<Rightarrow> ''browser'' | F_DEVICE \<Rightarrow> ''device'' | F_CLIENT_CREDENTIALS \<Rightarrow> ''client_credentials''
     | F_TOKEN \<Rightarrow> ''token'' | F_REMEMBERED \<Rightarrow> ''remembered'' | F_FEDERATED \<Rightarrow> ''federated''
     | F_MANAGED_IDENTITY \<Rightarrow> ''managed_identity'' | F_PAGE \<Rightarrow> ''page'')"

record service_info =
  si_host :: string
  si_discovery :: string
  si_api :: string
  si_issuer :: string
  si_client_id :: string
  si_scope :: string
  si_audience :: string
  si_audience_parameter :: bool
  si_insecure_http :: bool
  si_capabilities :: "string \<rightharpoonup> bool"
  si_endpoints :: endpoints

record session =
  s_info :: service_info
  s_flow :: login_flow
  s_subject :: string
  s_catalog_name :: string
  s_client :: bool                 \<comment> \<open>http_client has a transport\<close>
  s_tokens :: token_set
  s_issued_at :: int
  s_credential :: service_credential
  s_closed :: bool
  s_closing :: bool
  s_logged_out :: bool
  s_remember :: bool
  s_logged_off :: bool
  s_logged_off_seen :: bool
  s_take_ups :: nat
  s_previous_subject :: string
  s_logged_off_store :: bool
  s_taken_up :: bool
  s_resume_store :: bool
  s_resumed :: bool
  s_remember_mode :: keychain_mode
  s_remember_subject :: string
  s_page_tokens :: bool
  s_page_principal :: string
  s_page_refused :: nat

definition new_session :: "service_info \<Rightarrow> login_flow \<Rightarrow> token_set \<Rightarrow> service_credential \<Rightarrow> int \<Rightarrow> session" where
  "new_session info flow tokens credential now = \<lparr>s_info = info, s_flow = flow, s_subject = [],
     s_catalog_name = [], s_client = False, s_tokens = tokens, s_issued_at = now, s_credential = credential,
     s_closed = False, s_closing = False, s_logged_out = False, s_remember = False, s_logged_off = False,
     s_logged_off_seen = False, s_take_ups = 0, s_previous_subject = [], s_logged_off_store = False,
     s_taken_up = False, s_resume_store = False, s_resumed = False, s_remember_mode = OFF,
     s_remember_subject = [], s_page_tokens = False, s_page_principal = [], s_page_refused = 0\<rparr>"

record 'w sys =
  y_ses :: "nat \<Rightarrow> session"
  y_inst :: "'w instance_state"

record 's hooks =
  on_resumed :: "(string \<Rightarrow> string \<Rightarrow> 's \<Rightarrow> 's) option"
  on_logged_off :: "('s \<Rightarrow> 's) option"
  wait_pending :: "(login_key \<Rightarrow> 's \<Rightarrow> 's) option"

text \<open>Under the session's lock.\<close>

type_synonym ('w, 'a) locked_op = "session \<times> 'w instance_state \<Rightarrow> (error + 'a) \<times> session \<times> 'w instance_state"

definition locked :: "nat \<Rightarrow> ('w, 'a) locked_op \<Rightarrow> (('w, 'z) sys_scheme, 'a) m" where
  "locked sid f = (\<lambda>s. case f (y_ses s sid, y_inst s) of
     (r, se, i) \<Rightarrow> (r, s\<lparr>y_ses := (y_ses s)(sid := se), y_inst := i\<rparr>))"

definition on_instance :: "('w instance_state \<Rightarrow> 'a \<times> 'w instance_state) \<Rightarrow> (('w, 'z) sys_scheme, 'a) m" where
  "on_instance f = (\<lambda>s. case f (y_inst s) of (a, i) \<Rightarrow> (Inr a, s\<lparr>y_inst := i\<rparr>))"

section \<open>The key and the renewal\<close>

definition session_key :: "session \<Rightarrow> login_key" where
  "session_key se = \<lparr>lk_issuer = strip_slashes (si_issuer (s_info se)),
     lk_client_id = si_client_id (s_info se), lk_service = si_host (s_info se)\<rparr>"

definition RENEW_MARGIN_SECONDS :: int where
  "RENEW_MARGIN_SECONDS = 60"

definition margin :: "session \<Rightarrow> int" where
  "margin se = min RENEW_MARGIN_SECONDS (max 0 (half (expires_at (s_tokens se) - s_issued_at se)))"

definition fresh :: "session \<Rightarrow> int \<Rightarrow> bool" where
  "fresh se now \<longleftrightarrow> expires_at (s_tokens se) = 0 \<or> expires_at (s_tokens se) - margin se > now"

definition with_refresh :: "string \<Rightarrow> session \<Rightarrow> session" where
  "with_refresh r se = se\<lparr>s_tokens := (s_tokens se)\<lparr>refresh_token := r\<rparr>\<rparr>"

text \<open>The token stored now, when it is this person's.\<close>

definition adopt :: "('w, 's, 'z) ext_scheme \<Rightarrow> session \<Rightarrow> 'w instance_state \<Rightarrow> bool \<times> session" where
  "adopt X se i =
     (case load X (session_key se) (s_remember_mode se) i of
        None \<Rightarrow> (False, se)
      | Some (subject, current) \<Rightarrow>
          if subject = s_remember_subject se \<and> current \<noteq> refresh_token (s_tokens se)
          then (True, with_refresh current se) else (False, se))"

definition refresh_grant :: "('w, 's, 'z) ext_scheme \<Rightarrow> session \<Rightarrow> 'w instance_state \<Rightarrow> token_set \<times> 'w instance_state" where
  "refresh_grant X se = x_refresh_grant X (si_endpoints (s_info se)) (si_client_id (s_info se))
     (refresh_token (s_tokens se)) (si_scope (s_info se))"

text \<open>A dead token is forgotten, and a newer one another process stored is tried once.\<close>

definition retry_dead :: "('w, 's, 'z) ext_scheme \<Rightarrow> session \<Rightarrow> token_set \<Rightarrow> 'w instance_state \<Rightarrow>
    session \<times> token_set \<times> 'w instance_state" where
  "retry_dead X se renewed i =
     (if s_remember se \<and> \<not> x_tokens_ok X renewed \<and> ts_error_code renewed = ''invalid_grant'' then
        (let i' = snd (remove X (session_key se) (s_remember_mode se) (refresh_token (s_tokens se)) i)
         in case adopt X se i' of
              (True, se') \<Rightarrow> (case refresh_grant X se' i' of (again, i'') \<Rightarrow> (se', again, i''))
            | (False, se') \<Rightarrow> (se', renewed, i'))
      else (se, renewed, i))"

text \<open>The rotated token replaces this person's entry, or a missing one - never another's.\<close>

definition keep_rotated :: "('w, 's, 'z) ext_scheme \<Rightarrow> session \<Rightarrow> token_set \<Rightarrow> 'w instance_state \<Rightarrow> 'w instance_state" where
  "keep_rotated X se renewed i =
     (if s_remember se \<and> x_tokens_ok X renewed \<and> refresh_token renewed \<noteq> refresh_token (s_tokens se) then
        (case load X (session_key se) (s_remember_mode se) i of
           None \<Rightarrow> store X (session_key se) (s_remember_subject se) (refresh_token renewed) (s_remember_mode se) i
         | Some (subject, _) \<Rightarrow>
             if subject = s_remember_subject se
             then store X (session_key se) (s_remember_subject se) (refresh_token renewed) (s_remember_mode se) i
             else i)
      else i)"

definition renew_person :: "('w, 's, 'z) ext_scheme \<Rightarrow> session \<Rightarrow> 'w instance_state \<Rightarrow>
    token_set \<times> session \<times> 'w instance_state" where
  "renew_person X se i =
     (let se = (if s_remember se then snd (adopt X se i) else se)
      in case refresh_grant X se i of (renewed, i) \<Rightarrow>
         (case retry_dead X se renewed i of (se, renewed, i) \<Rightarrow>
            let renewed = (if x_tokens_ok X renewed \<and> refresh_token renewed = []
                           then renewed\<lparr>refresh_token := refresh_token (s_tokens se)\<rparr> else renewed)
            in (renewed, se, keep_rotated X se renewed i)))"

definition audience_extra :: "service_info \<Rightarrow> (string \<times> string) list" where
  "audience_extra info =
     (if si_audience_parameter info \<and> si_audience info \<noteq> [] then [(''audience'', si_audience info)] else [])"

text \<open>The renewal of each flow: the new tokens, or the exception.\<close>

definition renew :: "('w, 's, 'z) ext_scheme \<Rightarrow> ('w, token_set) locked_op" where
  "renew X = (\<lambda>(se, i).
     let host = si_host (s_info se); info = s_info se in
     if s_flow se = F_BROWSER \<or> s_flow se = F_DEVICE \<or> s_flow se = F_REMEMBERED then
       if refresh_token (s_tokens se) = [] then
         (Inl (InvalidInput ''expired, no refresh token'' [host]), se, i)
       else (case renew_person X se i of (renewed, se', i') \<Rightarrow> (Inr renewed, se', i'))
     else if s_flow se = F_CLIENT_CREDENTIALS \<or> s_flow se = F_FEDERATED \<or> s_flow se = F_MANAGED_IDENTITY then
       (case cred_mint X (s_credential se) (si_endpoints info) (si_scope info) (audience_extra info) i of
          (renewed, i') \<Rightarrow> (Inr renewed, se, i'))
     else (Inl (InvalidInput ''the secret's token has expired'' [host]), se, i))"

section \<open>Taking up a login after a logoff\<close>

definition take_up_login :: "('w, 's, 'z) ext_scheme \<Rightarrow> session \<Rightarrow> 'w instance_state \<Rightarrow> bool \<times> session" where
  "take_up_login X se i =
     (if \<not> s_resume_store se then (False, se)
      else case load X (session_key se) (i_mode i) i of
             None \<Rightarrow> (False, se)
           | Some (stored_subject, refresh) \<Rightarrow>
               (True, se\<lparr>s_tokens := no_tokens\<lparr>refresh_token := refresh\<rparr>, s_issued_at := 0,
                  s_logged_out := False, s_taken_up := True, s_take_ups := s_take_ups se + 1,
                  s_remember := True, s_remember_mode := i_mode i, s_remember_subject := stored_subject\<rparr>))"

section \<open>A page's token\<close>

definition page_principal_of :: "'z lib_scheme \<Rightarrow> string \<Rightarrow> string" where
  "page_principal_of L token =
     (let claims = read_jwt_claims L token
      in if jc_is_jwt claims \<and> jc_subject claims \<noteq> [] then jc_issuer claims @ ''|'' @ jc_subject claims else [])"

definition use_page_tokens :: "'z lib_scheme \<Rightarrow> session \<Rightarrow> session" where
  "use_page_tokens L se = se\<lparr>s_page_tokens := True,
     s_page_principal := page_principal_of L (access_token (s_tokens se))\<rparr>"

definition logged_off_page :: "session \<Rightarrow> error" where
  "logged_off_page se = InvalidInput ''logged off - the page hands over a token'' [si_host (s_info se), si_host (s_info se)]"

text \<open>The page's newest token becomes the session's.\<close>

definition take_page :: "'z lib_scheme \<Rightarrow> page_token \<Rightarrow> session \<Rightarrow> session" where
  "take_page L newest se =
     (if pt_token newest = access_token (s_tokens se) then se
      else let principal = page_principal_of L (pt_token newest);
               someone_else = s_logged_off se \<or> principal = [] \<or> principal \<noteq> s_page_principal se;
               se = se\<lparr>s_tokens := (s_tokens se)\<lparr>access_token := pt_token newest, expires_at := pt_expires_at newest\<rparr>,
                       s_page_principal := principal\<rparr>
           in if someone_else
              then se\<lparr>s_logged_off := False, s_logged_off_seen := False, s_logged_out := False, s_resumed := True,
                      s_previous_subject := s_subject se, s_subject := [], s_take_ups := s_take_ups se + 1\<rparr>
              else se)"

text \<open>A token the service refused is not sent again.\<close>

definition mark_refused :: "('w, 's, 'z) ext_scheme \<Rightarrow> bool \<Rightarrow> session \<Rightarrow> session" where
  "mark_refused X refused se =
     (if refused \<and> access_token (s_tokens se) \<noteq> []
      then se\<lparr>s_page_refused := x_hash X (access_token (s_tokens se))\<rparr> else se)"

definition page_access_token :: "('w, 's, 'z) ext_scheme \<Rightarrow> bool \<Rightarrow> ('w, string) locked_op" where
  "page_access_token X refused = (\<lambda>(se, i).
     let se = mark_refused X refused se
     in case (if s_page_tokens se then page_find X (lk_issuer (session_key se)) (si_host (s_info se)) i else None) of
          None \<Rightarrow> (Inl (logged_off_page se), se, i)
        | Some newest \<Rightarrow>
            let se = take_page X newest se in
            if s_logged_off se then (Inl (logged_off_page se), se, i)
            else if s_page_refused se \<noteq> 0 \<and> x_hash X (access_token (s_tokens se)) = s_page_refused se then
              (Inl (InvalidInput ''the page's token has expired or was refused'' [si_host (s_info se), si_host (s_info se)]), se, i)
            else if expires_at (s_tokens se) = 0 then (Inr (access_token (s_tokens se)), se, i)
            else case x_now X i of (now, i) \<Rightarrow>
              if expires_at (s_tokens se) \<le> now then
                (Inl (InvalidInput ''the page's token has expired or was refused'' [si_host (s_info se), si_host (s_info se)]), se, i)
              else (Inr (access_token (s_tokens se)), se, i))"

section \<open>AccessToken\<close>

definition logged_off_error :: "session \<Rightarrow> error" where
  "logged_off_error se = InvalidInput ''logged off - log in'' [si_host (s_info se),
     if s_catalog_name se = [] then ''tresor:'' @ si_host (s_info se) else s_catalog_name se]"

text \<open>What follows a renewal: the tokens kept, or the login over.\<close>

definition renewed_ok :: "token_set \<Rightarrow> int \<Rightarrow> session \<Rightarrow> session" where
  "renewed_ok renewed now se =
     (let se = se\<lparr>s_tokens := renewed, s_issued_at := now\<rparr>
      in if s_taken_up se
         then se\<lparr>s_taken_up := False, s_logged_off := False, s_logged_off_seen := False, s_resumed := True,
                 s_previous_subject := s_subject se, s_subject := []\<rparr>
         else se)"

definition renewed_dead :: "session \<Rightarrow> session" where
  "renewed_dead se = se\<lparr>s_tokens := no_tokens, s_logged_out := True, s_taken_up := False\<rparr>"

definition renew_and_keep :: "('w, 's, 'z) ext_scheme \<Rightarrow> ('w, string) locked_op" where
  "renew_and_keep X = (\<lambda>(se, i).
     case renew X (se, i) of
       (Inl e, se, i) \<Rightarrow> (Inl e, se, i)
     | (Inr renewed, se, i) \<Rightarrow>
         if \<not> x_tokens_ok X renewed then
           if ts_error_code renewed = ''invalid_grant''
           then (Inl (InvalidInput ''the login is over'' [si_host (s_info se), ts_error renewed]), renewed_dead se, i)
           else (Inl (IOErr ''renewing the login failed'' [si_host (s_info se), ts_error renewed]), se, i)
         else case x_now X i of (now, i) \<Rightarrow> (Inr (access_token renewed), renewed_ok renewed now se, i))"

definition access_token_op :: "('w, 's, 'z) ext_scheme \<Rightarrow> bool \<Rightarrow> ('w, string) locked_op" where
  "access_token_op X force = (\<lambda>(se, i).
     if s_closed se then (Inl (InvalidInput ''the session is closed'' [si_host (s_info se)]), se, i)
     else if s_flow se = F_PAGE then page_access_token X force (se, i)
     else case (if s_logged_off se \<and> \<not> s_taken_up se then take_up_login X se i else (True, se)) of
       (False, se) \<Rightarrow> (Inl (logged_off_error se), se, i)
     | (True, se) \<Rightarrow>
         if s_logged_out se then (Inl (InvalidInput ''the login is over'' [si_host (s_info se)]), se, i)
         else case (if expires_at (s_tokens se) = 0 then (True, i)
                    else case x_now X i of (now, i) \<Rightarrow> (fresh se now, i)) of
           (still_fresh, i) \<Rightarrow>
             if still_fresh \<and> \<not> (force \<or> s_taken_up se) then (Inr (access_token (s_tokens se)), se, i)
             else renew_and_keep X (se, i))"

section \<open>Calls to the service\<close>

definition set_ses :: "nat \<Rightarrow> (session \<Rightarrow> session) \<Rightarrow> (('w, 'z) sys_scheme, unit) m" where
  "set_ses sid f = locked sid (\<lambda>(se, i). (Inr (), f se, i))"

definition get_ses :: "nat \<Rightarrow> (session \<Rightarrow> 'a) \<Rightarrow> (('w, 'z) sys_scheme, 'a) m" where
  "get_ses sid f = gets (\<lambda>s. f (y_ses s sid))"

lemma wp_locked [wp_simps]: "wp (locked sid f) Q E s =
    (case f (y_ses s sid, y_inst s) of (r, se, i) \<Rightarrow>
       let t = s\<lparr>y_ses := (y_ses s)(sid := se), y_inst := i\<rparr> in case r of Inl e \<Rightarrow> E e t | Inr a \<Rightarrow> Q a t)"
  by (simp add: wp_def locked_def Let_def split: prod.splits sum.splits)

lemma wp_on_instance [wp_simps]: "wp (on_instance f) Q E s =
    Q (fst (f (y_inst s))) (s\<lparr>y_inst := snd (f (y_inst s))\<rparr>)"
  by (simp add: wp_def on_instance_def split: prod.splits)

lemma wp_set_ses [wp_simps]: "wp (set_ses sid f) Q E s = Q () (s\<lparr>y_ses := (y_ses s)(sid := f (y_ses s sid))\<rparr>)"
  by (simp add: set_ses_def wp_locked)

lemma wp_get_ses [wp_simps]: "wp (get_ses sid f) Q E s = Q (f (y_ses s sid)) s"
  by (simp add: get_ses_def wp_gets)

definition with_headers :: "string \<Rightarrow> (string \<times> string) list \<Rightarrow> (string \<times> string) list" where
  "with_headers token extra = foldl (\<lambda>hs kv. AList.update (fst kv) (snd kv) hs)
     [(''Authorization'', ''Bearer '' @ token), (''Accept'', ''application/json'')] extra"

definition whoami_request :: "session \<Rightarrow> string \<Rightarrow> http_request" where
  "whoami_request se token = \<lparr>rq_method = ''GET'', rq_url = si_api (s_info se) @ ''/v1/whoami'',
     rq_headers = with_headers token [], rq_body = [], rq_content_type = [], rq_timeout = 30\<rparr>"

definition probe_whoami :: "('w, ('w, 'y) sys_scheme, 'z) ext_scheme \<Rightarrow> nat \<Rightarrow> string \<Rightarrow>
    (('w, 'y) sys_scheme, http_result) m" where
  "probe_whoami X sid token =
     bindE (get_ses sid (\<lambda>se. whoami_request se token)) (\<lambda>rq. liftX (x_http X rq))"

text \<open>The stored entry gets the person's name, while it is still the one taken up.\<close>

definition name_entry :: "('w, 's, 'z) ext_scheme \<Rightarrow> string \<Rightarrow> session \<Rightarrow> 'w instance_state \<Rightarrow> 'w instance_state" where
  "name_entry X placeholder se i =
     (if s_remember se \<and> refresh_token (s_tokens se) \<noteq> [] then
        (case load X (session_key se) (s_remember_mode se) i of
           None \<Rightarrow> i
         | Some (stored_subject, stored) \<Rightarrow>
             if stored_subject = placeholder \<and> stored = refresh_token (s_tokens se)
             then store X (session_key se) (s_remember_subject se) (refresh_token (s_tokens se)) (s_remember_mode se) i
             else i)
      else i)"

text \<open>Under the lock, after the answer: is it still this take-up's to name? Then the person is named.\<close>

definition name_subject :: "('w, 's, 'z) ext_scheme \<Rightarrow> nat \<Rightarrow> string \<Rightarrow> string \<Rightarrow> ('w, bool) locked_op" where
  "name_subject X take_up placeholder now = (\<lambda>(se, i).
     if s_logged_off se \<or> s_closed se \<or> s_take_ups se \<noteq> take_up then (Inr False, se, i)
     else let se = se\<lparr>s_subject := now, s_remember_subject := now\<rparr>
          in (Inr True, se, name_entry X placeholder se i))"

definition ask_again :: "nat \<Rightarrow> (('w, 'z) sys_scheme, unit) m" where
  "ask_again sid = set_ses sid (\<lambda>se. se\<lparr>s_resumed := True\<rparr>)"

text \<open>Two attempts: a refused token is renewed once. The answer, and the token it was asked with.\<close>

definition probe_twice :: "('w, ('w, 'y) sys_scheme, 'z) ext_scheme \<Rightarrow> nat \<Rightarrow> string \<Rightarrow>
    (('w, 'y) sys_scheme, string \<times> http_result) m" where
  "probe_twice X sid token =
     bindE (probe_whoami X sid token) (\<lambda>probe.
       if hr_error probe = [] \<and> hr_status probe = 401 then
         bindE (catchE (locked sid (access_token_op X True)) (\<lambda>e. seqE (ask_again sid) (throw e))) (\<lambda>token.
           bindE (probe_whoami X sid token) (\<lambda>probe. ret (token, probe)))
       else ret (token, probe))"

definition start_take_up :: "('w, (string \<times> string \<times> nat) option) locked_op" where
  "start_take_up = (\<lambda>(se, i).
     if \<not> s_resumed se then (Inr None, se, i)
     else (Inr (Some (s_previous_subject se, s_remember_subject se, s_take_ups se)), se\<lparr>s_resumed := False\<rparr>, i))"

definition take_up_whoami :: "('w, ('w, 'y) sys_scheme, 'z) ext_scheme \<Rightarrow> (('w, 'y) sys_scheme, 'h) hooks_scheme \<Rightarrow>
    nat \<Rightarrow> string \<Rightarrow> (('w, 'y) sys_scheme, string) m" where
  "take_up_whoami X H sid token =
     bindE (locked sid start_take_up) (\<lambda>started. case started of
       None \<Rightarrow> ret token
     | Some (before, placeholder, take_up) \<Rightarrow>
         bindE (probe_twice X sid token) (\<lambda>(token, probe).
           if hr_error probe \<noteq> [] \<or> hr_status probe \<noteq> 200 then
             seqE (ask_again sid)
               (bindE (get_ses sid (\<lambda>se. si_host (s_info se))) (\<lambda>host.
                 throw (IOErr ''did not say who logged in'' [host,
                   if hr_error probe = [] then describe_problem X (hr_status probe) (hr_body probe)
                   else hr_error probe])))
           else
             let now = whoami_subject X (hr_body probe)
             in bindE (locked sid (name_subject X take_up placeholder now)) (\<lambda>named.
                  if \<not> named then ret token
                  else case on_resumed H of
                    None \<Rightarrow> ret token
                  | Some told \<Rightarrow> seqE (modifyS (told before now)) (ret token))))"

text \<open>One attempt of a call: the token (renewed when the one just refused is still held), the take-up, the request.\<close>

record call_args =
  c_method :: string
  c_path :: string
  c_body :: string
  c_headers :: "(string \<times> string) list"
  c_timeout :: int

definition call_request :: "call_args \<Rightarrow> session \<Rightarrow> string \<Rightarrow> http_request" where
  "call_request c se token = \<lparr>rq_method = c_method c, rq_url = si_api (s_info se) @ c_path c,
     rq_headers = with_headers token (c_headers c), rq_body = c_body c,
     rq_content_type = (if c_body c = [] then [] else ''application/json''), rq_timeout = c_timeout c\<rparr>"

definition token_for_attempt :: "('w, 's, 'z) ext_scheme \<Rightarrow> string option \<Rightarrow> ('w, string \<times> bool) locked_op" where
  "token_for_attempt X used = (\<lambda>(se, i).
     case access_token_op X (case used of None \<Rightarrow> False | Some t \<Rightarrow> access_token (s_tokens se) = t) (se, i) of
       (Inl e, st) \<Rightarrow> (Inl e, st)
     | (Inr token, se, i) \<Rightarrow> (Inr (token, s_resumed se), se, i))"

definition call_attempt :: "('w, ('w, 'y) sys_scheme, 'z) ext_scheme \<Rightarrow> (('w, 'y) sys_scheme, 'h) hooks_scheme \<Rightarrow>
    nat \<Rightarrow> call_args \<Rightarrow> string option \<Rightarrow> (('w, 'y) sys_scheme, string \<times> http_result) m" where
  "call_attempt X H sid c used =
     bindE (locked sid (token_for_attempt X used)) (\<lambda>(token, take_up).
     bindE (if take_up then take_up_whoami X H sid token else ret token) (\<lambda>token.
     bindE (get_ses sid (\<lambda>se. call_request c se token)) (\<lambda>rq.
     bindE (liftX (x_http X rq)) (\<lambda>result.
       if hr_error result \<noteq> [] then throw (IOErr ''the call failed'' [c_method c, rq_url rq, hr_error result])
       else ret (token, result)))))"

definition answer :: "http_result \<Rightarrow> service_response" where
  "answer r = \<lparr>sr_status = hr_status r, sr_body = hr_body r\<rparr>"

definition wait_login :: "(('w, 'y) sys_scheme, 'h) hooks_scheme \<Rightarrow> nat \<Rightarrow> (('w, 'y) sys_scheme \<Rightarrow> bool) \<Rightarrow>
    (('w, 'y) sys_scheme, unit) m" where
  "wait_login H sid interrupted = (case wait_pending H of
       None \<Rightarrow> ret ()
     | Some wait \<Rightarrow>
         bindE (get_ses sid (\<lambda>se. (s_logged_off se \<and> \<not> s_taken_up se \<and> \<not> s_closed se, session_key se)))
           (\<lambda>(waiting, key). if waiting
              then seqE (modifyS (wait key)) (bindE (gets interrupted) (\<lambda>stop. guardE (\<not> stop) Interrupt))
              else ret ()))"

definition client_set :: "nat \<Rightarrow> (('w, 'y) sys_scheme, unit) m" where
  "client_set sid = bindE (get_ses sid s_client) (\<lambda>ok. guardE ok (IOErr ''a session's HTTP client was not set'' []))"

definition call :: "('w, ('w, 'y) sys_scheme, 'z) ext_scheme \<Rightarrow> (('w, 'y) sys_scheme, 'h) hooks_scheme \<Rightarrow>
    nat \<Rightarrow> call_args \<Rightarrow> (('w, 'y) sys_scheme \<Rightarrow> bool) \<Rightarrow> (('w, 'y) sys_scheme, service_response) m" where
  "call X H sid c interrupted =
     seqE (client_set sid) (seqE (wait_login H sid interrupted)
     (bindE (call_attempt X H sid c None) (\<lambda>(used, first).
        if hr_status first \<noteq> 401 then ret (answer first)
        else bindE (call_attempt X H sid c (Some used)) (\<lambda>(_, second).
          if hr_status second = 401 \<and> map_of (c_headers c) ''Delegation'' = None then
            bindE (get_ses sid (\<lambda>se. si_host (s_info se))) (\<lambda>host.
              throw (InvalidInput ''refused the renewed login'' [host]))
          else ret (answer second)))))"

section \<open>The rest of the class\<close>

definition own_audiences :: "('w, 's, 'x) ext_scheme \<Rightarrow> nat \<Rightarrow> (('w, 'z) sys_scheme, string list \<times> bool) m" where
  "own_audiences X sid = seqE (client_set sid)
     (bindE (locked sid (access_token_op X False)) (\<lambda>token. ret (jwt_audiences X token)))"

definition remember_login :: "('w, 's, 'z) ext_scheme \<Rightarrow> string \<Rightarrow> session \<times> 'w instance_state \<Rightarrow> session \<times> 'w instance_state" where
  "remember_login X started_from = (\<lambda>(se, i).
     let se = se\<lparr>s_remember := True, s_remember_mode := i_mode i, s_remember_subject := s_subject se\<rparr>;
         moved_on = (started_from \<noteq> [] \<and>
           (case load X (session_key se) (s_remember_mode se) i of
              None \<Rightarrow> False | Some (_, stored) \<Rightarrow> stored \<noteq> started_from))
     in if moved_on then (se, i)
        else (se, store X (session_key se) (s_remember_subject se) (refresh_token (s_tokens se)) (s_remember_mode se) i))"

definition remembers :: "login_key \<Rightarrow> session \<Rightarrow> bool" where
  "remembers key se \<longleftrightarrow> s_remember se \<and> session_key se = key"

definition log_off_session :: "session \<Rightarrow> session" where
  "log_off_session se = se\<lparr>s_tokens := no_tokens, s_logged_out := True, s_logged_off := True,
     s_logged_off_seen := True, s_taken_up := False, s_resumed := False, s_take_ups := s_take_ups se + 1,
     s_logged_off_store := (s_remember se \<or> s_logged_off_store se), s_resume_store := False,
     s_remember := False, s_remember_subject := []\<rparr>"

definition log_off :: "(('w, 'y) sys_scheme, 'h) hooks_scheme \<Rightarrow> nat \<Rightarrow> (('w, 'y) sys_scheme, string) m" where
  "log_off H sid =
     bindE (get_ses sid (\<lambda>se. refresh_token (s_tokens se))) (\<lambda>refresh.
     seqE (set_ses sid log_off_session)
     (case on_logged_off H of None \<Rightarrow> ret refresh | Some told \<Rightarrow> seqE (modifyS told) (ret refresh)))"

definition allow_resume :: "session \<Rightarrow> session" where
  "allow_resume se = (if s_logged_off se \<and> s_logged_off_store se then se\<lparr>s_resume_store := True\<rparr> else se)"

definition close_session :: "session \<Rightarrow> session" where
  "close_session se = se\<lparr>s_closing := True, s_closed := True, s_tokens := no_tokens,
     s_credential := wipe_credential (s_credential se)\<rparr>"

definition exchange_for_service :: "('w, ('w, 'y) sys_scheme, 'z) ext_scheme \<Rightarrow> nat \<Rightarrow> string \<Rightarrow> bool \<Rightarrow> string \<Rightarrow> string \<Rightarrow>
    (('w, 'y) sys_scheme, token_set) m" where
  "exchange_for_service X sid subject_token on_behalf_of scope audience =
     seqE (client_set sid) (bindE (get_ses sid id) (\<lambda>se.
       if s_closed se \<or> (s_flow se \<noteq> F_CLIENT_CREDENTIALS \<and> s_flow se \<noteq> F_FEDERATED) then
         ret (no_tokens\<lparr>ts_error := (if s_closed se then ''the session is closed''
                else ''only a client_credentials or federated login exchanges tokens'')\<rparr>)
       else let proof = s_credential se; endpoints = si_endpoints (s_info se) in
         bindE (on_instance (cred_auth X proof)) (\<lambda>authed. case authed of
           Inl why \<Rightarrow> ret (no_tokens\<lparr>ts_error := why, ts_error_code := ''invalid_client''\<rparr>)
         | Inr auth \<Rightarrow>
             bindE (if on_behalf_of then liftX (x_on_behalf_of X endpoints auth subject_token scope)
                    else bindE (liftX (x_token_exchange X endpoints auth subject_token audience scope True)) (\<lambda>out.
                      if \<not> x_tokens_ok X out \<and> ts_error_code out \<noteq> ''invalid_client'' \<and>
                         ts_error_code out \<noteq> ''invalid_grant'' then
                        bindE (on_instance (cred_auth X proof)) (\<lambda>authed. case authed of
                          Inl why \<Rightarrow> ret (no_tokens\<lparr>ts_error := why, ts_error_code := ''invalid_client''\<rparr>)
                        | Inr auth \<Rightarrow>
                            liftX (x_token_exchange X endpoints auth subject_token audience scope False))
                      else ret out))
               (\<lambda>out. ret (out\<lparr>refresh_token := []\<rparr>)))))"

end
