(* ===== verification/Tresor_Session_Laws.thy ===== *)
theory Tresor_Session_Laws
  imports Tresor_Session
begin

text \<open>
  What a session guarantees: its invariant and that every operation under the lock keeps it, that no
  token leaves a closed or logged-off session, when a token is renewed, whose stored login a renewal may
  touch, and that a login taken up after a logoff names its person before anything else is sent.
\<close>

section \<open>The invariant\<close>

definition session_inv :: "session \<Rightarrow> bool" where
  "session_inv se \<longleftrightarrow>
     (s_closed se \<longrightarrow> s_tokens se = no_tokens) \<and>
     s_logged_off_seen se = s_logged_off se \<and>
     (s_taken_up se \<longrightarrow> s_logged_off se) \<and>
     (s_logged_off se \<longrightarrow> access_token (s_tokens se) = []) \<and>
     (s_flow se = F_PAGE \<longrightarrow> \<not> s_taken_up se)"

lemma with_refresh_same: "with_refresh (refresh_token (s_tokens se)) se = se"
  by (simp add: with_refresh_def)

lemma with_refresh_twice: "with_refresh a (with_refresh b se) = with_refresh a se"
  by (simp add: with_refresh_def)

lemma with_refresh_fields [simp]:
  "session_key (with_refresh r se) = session_key se"
  "s_info (with_refresh r se) = s_info se" "s_flow (with_refresh r se) = s_flow se"
  "s_subject (with_refresh r se) = s_subject se" "s_closed (with_refresh r se) = s_closed se"
  "s_logged_off (with_refresh r se) = s_logged_off se" "s_taken_up (with_refresh r se) = s_taken_up se"
  "s_logged_off_seen (with_refresh r se) = s_logged_off_seen se"
  "s_resumed (with_refresh r se) = s_resumed se" "s_remember (with_refresh r se) = s_remember se"
  "s_remember_mode (with_refresh r se) = s_remember_mode se"
  "s_remember_subject (with_refresh r se) = s_remember_subject se"
  "s_take_ups (with_refresh r se) = s_take_ups se" "s_logged_out (with_refresh r se) = s_logged_out se"
  "access_token (s_tokens (with_refresh r se)) = access_token (s_tokens se)"
  "refresh_token (s_tokens (with_refresh r se)) = r"
  "s_previous_subject (with_refresh r se) = s_previous_subject se"
  by (simp_all add: with_refresh_def session_key_def)

text \<open>A renewal changes nothing of the session but the refresh token it holds.\<close>

definition refresh_only :: "session \<Rightarrow> session \<Rightarrow> bool" where
  "refresh_only se se' \<longleftrightarrow> (\<exists>r. se' = with_refresh r se)"

lemma refresh_only_refl [simp]: "refresh_only se se"
  unfolding refresh_only_def by (rule exI) (rule with_refresh_same [symmetric])

lemma refresh_only_with [simp]: "refresh_only se (with_refresh r se)"
  by (auto simp: refresh_only_def)

lemma refresh_only_trans: "refresh_only a b \<Longrightarrow> refresh_only b c \<Longrightarrow> refresh_only a c"
  by (auto simp: refresh_only_def with_refresh_twice)

lemma refresh_onlyE: "refresh_only se se' \<Longrightarrow> (\<And>r. se' = with_refresh r se \<Longrightarrow> P) \<Longrightarrow> P"
  by (auto simp: refresh_only_def)

lemma adopt_frame: "refresh_only se (snd (adopt X se i))"
  by (auto simp: adopt_def split: option.splits)

lemma retry_frame: "refresh_only se (fst (retry_dead X se t i))"
proof -
  let ?i = "snd (remove X (session_key se) (s_remember_mode se) (refresh_token (s_tokens se)) i)"
  show ?thesis using adopt_frame [of se X ?i]
    by (auto simp: retry_dead_def Let_def split: prod.splits bool.splits)
qed

lemma renew_person_frame: "refresh_only se (fst (snd (renew_person X se i)))"
proof -
  let ?se = "if s_remember se then snd (adopt X se i) else se"
  obtain t j where g: "refresh_grant X ?se i = (t, j)" by (cases "refresh_grant X ?se i")
  obtain se' t' j' where r: "retry_dead X ?se t j = (se', t', j')" by (cases "retry_dead X ?se t j")
  have eq: "fst (snd (renew_person X se i)) = se'"
    unfolding renew_person_def Let_def g prod.case r by simp
  have "refresh_only ?se se'" using retry_frame [of ?se X t j] r by simp
  moreover have "refresh_only se ?se" using adopt_frame [of se X i] by simp
  ultimately show ?thesis unfolding eq by (rule refresh_only_trans [rotated])
qed

lemma renew_frame: "renew X (se, i) = (res, se', i') \<Longrightarrow> refresh_only se se'"
  using renew_person_frame [of se X i]
  by (auto simp: renew_def Let_def split: if_splits prod.splits)

lemma take_up_frame:
  "take_up_login X se i = (ok, se') \<Longrightarrow>
     s_info se' = s_info se \<and> s_subject se' = s_subject se \<and> s_closed se' = s_closed se \<and>
     s_logged_off se' = s_logged_off se \<and> s_logged_off_seen se' = s_logged_off_seen se \<and>
     s_flow se' = s_flow se \<and>
     (if ok then s_taken_up se' \<and> access_token (s_tokens se') = [] else se' = se)"
  by (auto simp: take_up_login_def no_tokens_def split: if_splits option.splits)

section \<open>AccessToken\<close>

text \<open>The outcome of a renewal, as far as who is logged in is concerned.\<close>

lemma renew_and_keep_ok:
  assumes "renew_and_keep X (se, i) = (Inr token, se', i')"
  shows "\<exists>renewed now. x_tokens_ok X renewed \<and> token = access_token renewed \<and>
    (\<exists>r. se' = renewed_ok renewed now (with_refresh r se))"
  using assms
  by (auto simp: renew_and_keep_def split: prod.splits sum.splits if_splits
      dest!: renew_frame elim!: refresh_onlyE)

lemma renew_and_keep_error:
  assumes "renew_and_keep X (se, i) = (Inl e, se', i')"
  shows "\<exists>r. se' = with_refresh r se \<or> se' = renewed_dead (with_refresh r se)"
  using assms
  by (auto simp: renew_and_keep_def split: prod.splits sum.splits if_splits
      dest!: renew_frame elim!: refresh_onlyE)

lemma renewed_ok_fields:
  "s_tokens (renewed_ok t now se) = t"
  "s_taken_up (renewed_ok t now se) = False"
  "s_closed (renewed_ok t now se) = s_closed se"
  "s_logged_off (renewed_ok t now se) = (s_logged_off se \<and> \<not> s_taken_up se)"
  "s_logged_off_seen (renewed_ok t now se) = (s_logged_off_seen se \<and> \<not> s_taken_up se)"
  "s_resumed (renewed_ok t now se) = (s_resumed se \<or> s_taken_up se)"
  "s_subject (renewed_ok t now se) = (if s_taken_up se then [] else s_subject se)"
  "s_flow (renewed_ok t now se) = s_flow se"
  "s_previous_subject (renewed_ok t now se) = (if s_taken_up se then s_subject se else s_previous_subject se)"
  by (simp_all add: renewed_ok_def Let_def)

lemma renewed_dead_fields:
  "s_tokens (renewed_dead se) = no_tokens" "\<not> s_taken_up (renewed_dead se)"
  "s_closed (renewed_dead se) = s_closed se" "s_logged_off (renewed_dead se) = s_logged_off se"
  "s_logged_off_seen (renewed_dead se) = s_logged_off_seen se" "s_flow (renewed_dead se) = s_flow se"
  by (simp_all add: renewed_dead_def)

lemma no_tokens_access [simp]: "access_token no_tokens = []" "refresh_token no_tokens = []"
  by (simp_all add: no_tokens_def)

lemma session_inv_renew:
  assumes "renew_and_keep X (se, i) = (res, se', i')" and "session_inv se" and "\<not> s_closed se"
    and "s_logged_off se \<longrightarrow> s_taken_up se"
  shows "session_inv se'"
proof (cases res)
  case (Inl e)
  then show ?thesis using assms renew_and_keep_error [of X se i e]
    by (auto simp: session_inv_def renewed_dead_fields)
next
  case (Inr t)
  then show ?thesis using assms renew_and_keep_ok [of X se i t]
    by (auto simp: session_inv_def renewed_ok_fields)
qed

lemma session_inv_take_page: "session_inv se \<Longrightarrow> \<not> s_closed se \<Longrightarrow> \<not> s_taken_up se \<Longrightarrow> session_inv (take_page L t se)"
  by (auto simp: session_inv_def take_page_def Let_def)

lemma take_page_off:
  "\<not> s_logged_off (take_page L t se) \<Longrightarrow> s_logged_off se \<Longrightarrow>
     s_resumed (take_page L t se) \<and> s_subject (take_page L t se) = [] \<and>
     s_previous_subject (take_page L t se) = s_subject se"
  by (auto simp: take_page_def Let_def split: if_splits)

lemma take_page_closed: "s_closed (take_page L t se) = s_closed se"
  by (auto simp: take_page_def Let_def)

lemma mark_refused_fields [simp]:
  "session_inv (mark_refused X r se) = session_inv se" "s_closed (mark_refused X r se) = s_closed se"
  "s_taken_up (mark_refused X r se) = s_taken_up se" "s_logged_off (mark_refused X r se) = s_logged_off se"
  "s_subject (mark_refused X r se) = s_subject se" "s_page_principal (mark_refused X r se) = s_page_principal se"
  "s_tokens (mark_refused X r se) = s_tokens se"
  by (simp_all add: mark_refused_def session_inv_def)

lemma page_access_ok:
  "page_access_token X refused (se, i) = (Inr token, se', i') \<Longrightarrow>
     \<exists>t. page_find X (lk_issuer (session_key (mark_refused X refused se)))
           (si_host (s_info (mark_refused X refused se))) i = Some t \<and>
       se' = take_page X t (mark_refused X refused se) \<and> \<not> s_logged_off se' \<and>
       token = access_token (s_tokens se')"
  by (auto simp: page_access_token_def Let_def split: option.splits if_splits prod.splits)

lemma session_inv_page:
  assumes "page_access_token X refused (se, i) = (res, se', i')" and "session_inv se" and "\<not> s_closed se"
    and "s_flow se = F_PAGE"
  shows "session_inv se'"
proof -
  have "se' = mark_refused X refused se \<or> (\<exists>t. se' = take_page X t (mark_refused X refused se))"
    using assms(1) by (auto simp: page_access_token_def Let_def split: option.splits if_splits prod.splits)
  moreover have "\<not> s_taken_up se" using assms(2,4) by (simp add: session_inv_def)
  ultimately show ?thesis using assms(2,3) by (auto intro!: session_inv_take_page)
qed

text \<open>The two ways into a renewal, or not: the cases of \<open>access_token_op\<close> past its guards.\<close>

lemma access_token_op_cases:
  assumes "access_token_op X force (se, i) = (res, se', i')"
  obtains (closed) "s_closed se" "se' = se" "i' = i" "\<exists>e. res = Inl e"
    | (page) "\<not> s_closed se" "s_flow se = F_PAGE" "page_access_token X force (se, i) = (res, se', i')"
    | (off) "\<not> s_closed se" "s_logged_off se" "\<not> s_taken_up se" "se' = se" "i' = i"
        "take_up_login X se i = (False, se)" "s_flow se \<noteq> F_PAGE" "\<exists>e. res = Inl e"
    | (on) se1 where "\<not> s_closed se" "s_flow se \<noteq> F_PAGE"
        "se1 = se \<and> (s_logged_off se \<longrightarrow> s_taken_up se) \<or>
           take_up_login X se i = (True, se1) \<and> s_logged_off se \<and> \<not> s_taken_up se"
        "(\<exists>e. res = Inl e) \<and> se' = se1 \<or>
         res = Inr (access_token (s_tokens se1)) \<and> se' = se1 \<and> \<not> s_taken_up se1 \<or>
         (\<exists>j. renew_and_keep X (se1, j) = (res, se', i'))"
proof -
  consider "s_closed se" | "\<not> s_closed se" "s_flow se = F_PAGE"
    | "\<not> s_closed se" "s_flow se \<noteq> F_PAGE" by blast
  then show thesis
  proof cases
    case 1
    show thesis by (rule closed) (use assms 1 in \<open>auto simp: access_token_op_def\<close>)
  next
    case 2
    show thesis by (rule page) (use assms 2 in \<open>auto simp: access_token_op_def\<close>)
  next
    case 3
    define tu where "tu = (if s_logged_off se \<and> \<not> s_taken_up se then take_up_login X se i else (True, se))"
    obtain ok se1 where tu: "tu = (ok, se1)" by (cases tu)
    show thesis
    proof (cases ok)
      case False
      have "take_up_login X se i = (False, se)" "s_logged_off se" "\<not> s_taken_up se" "se1 = se"
        using tu False take_up_frame [of X se i False se1] by (auto simp: tu_def split: if_splits)
      then show thesis by (intro off) (use 3 assms in \<open>auto simp: access_token_op_def\<close>)
    next
      case True
      have "se1 = se \<and> (s_logged_off se \<longrightarrow> s_taken_up se) \<or>
           take_up_login X se i = (True, se1) \<and> s_logged_off se \<and> \<not> s_taken_up se"
        using tu True by (auto simp: tu_def split: if_splits)
      moreover have "(\<exists>e. res = Inl e) \<and> se' = se1 \<or>
         res = Inr (access_token (s_tokens se1)) \<and> se' = se1 \<and> \<not> s_taken_up se1 \<or>
         (\<exists>j. renew_and_keep X (se1, j) = (res, se', i'))"
        using assms 3 tu True
        by (auto simp: access_token_op_def tu_def [symmetric] split: if_splits prod.splits)
      ultimately show thesis by (intro on [OF 3])
    qed
  qed
qed

lemma session_inv_access:
  assumes "access_token_op X force (se, i) = (res, se', i')" and "session_inv se"
  shows "session_inv se'"
  using assms(1)
proof (cases rule: access_token_op_cases)
  case page
  then show ?thesis using session_inv_page assms(2) by blast
next
  case (on se1)
  have inv1: "session_inv se1" "\<not> s_closed se1" "s_logged_off se1 \<longrightarrow> s_taken_up se1"
    using on(1-3) assms(2) take_up_frame [of X se i True se1] by (auto simp: session_inv_def)
  show ?thesis
    using on(4) inv1 session_inv_renew [OF _ inv1] by auto
qed (use assms(2) in auto)

lemma access_token_op_on:
  assumes "access_token_op X force (se, i) = (Inr token, se', i')" and "session_inv se"
  shows "\<not> s_closed se' \<and> \<not> s_logged_off se' \<and> token = access_token (s_tokens se') \<and>
    (s_logged_off se \<longrightarrow> s_resumed se' \<and> s_subject se' = [] \<and> s_previous_subject se' = s_subject se)"
  using assms(1)
proof (cases rule: access_token_op_cases)
  case page
  then obtain t where "se' = take_page X t (mark_refused X force se)" "\<not> s_logged_off se'"
    "token = access_token (s_tokens se')"
    using page_access_ok by blast
  then show ?thesis
    using page(1) take_page_off [of X t "mark_refused X force se"] by (simp add: take_page_closed)
next
  case (on se1)
  have frame: "s_closed se1 = s_closed se" "s_subject se1 = s_subject se" "s_logged_off se1 = s_logged_off se"
    "s_logged_off se1 \<longrightarrow> s_taken_up se1" "s_taken_up se1 \<longrightarrow> s_logged_off se1"
    using on(3) assms(2) take_up_frame [of X se i True se1] by (auto simp: session_inv_def)
  from on(4) consider "token = access_token (s_tokens se1)" "se' = se1" "\<not> s_taken_up se1"
    | j where "renew_and_keep X (se1, j) = (Inr token, se', i')" by blast
  then show ?thesis
  proof cases
    case 1
    then show ?thesis using frame on(1) by auto
  next
    case 2
    then show ?thesis using frame on(1) renew_and_keep_ok [OF 2] by (auto simp: renewed_ok_fields)
  qed
qed auto

section \<open>Properties of AccessToken\<close>

text \<open>
  C1: a token leaves a session only for whoever is logged in. \<^verbatim>\<open>AccessToken\<close> keeps the session's
  invariant whatever happens, and when it returns a token the session is neither closed nor logged off
  and the token is the one it holds; if the session was logged off before - a stored login or a page's
  token was taken up just now - then nobody is named any more, who it was is kept aside, and the next
  call must first ask the service who it is (\<open>s_resumed\<close>).
\<close>

theorem access_token_only_while_logged_in:
  assumes "session_inv se"
  shows "case access_token_op X force (se, i) of
      (Inl e, se', i') \<Rightarrow> session_inv se'
    | (Inr token, se', i') \<Rightarrow> session_inv se' \<and> \<not> s_closed se' \<and> \<not> s_logged_off se' \<and>
        token = access_token (s_tokens se') \<and>
        (s_logged_off se \<longrightarrow> s_resumed se' \<and> s_subject se' = [] \<and> s_previous_subject se' = s_subject se)"
proof (cases "access_token_op X force (se, i)")
  case (fields res se' i')
  show ?thesis
  proof (cases res)
    case (Inr token)
    show ?thesis using session_inv_access [OF fields assms] access_token_op_on [OF fields [unfolded Inr] assms]
      by (simp add: fields Inr)
  qed (use fields session_inv_access [OF fields assms] in simp)
qed

definition sample_info :: service_info where
  "sample_info = \<lparr>si_host = ''secrets.corp'', si_discovery = [], si_api = ''https://secrets.corp'',
     si_issuer = ''https://idp'', si_client_id = ''duckdb'', si_scope = ''openid'', si_audience = [],
     si_audience_parameter = False, si_insecure_http = False, si_capabilities = Map.empty,
     si_endpoints = no_endpoints\<rparr>"

definition sample_session :: session where
  "sample_session = (new_session sample_info F_BROWSER (sample_tokens ''at'' ''rt'') no_credential 1000)
     \<lparr>s_client := True, s_subject := ''subject:https://idp|ann'', s_remember := True, s_remember_mode := MEMORY,
      s_remember_subject := ''subject:https://idp|ann''\<rparr>"

text \<open>A logged-off session in a state where another person's login is stored and may be taken up.\<close>

definition off_session :: session where
  "off_session = allow_resume (log_off_session sample_session)"

definition bob_instance :: "unit instance_state" where
  "bob_instance = store quiet_ext (session_key off_session) ''subject:https://idp|bob'' ''bob-rt'' MEMORY sample_instance"

lemma off_session_inv: "session_inv off_session"
  by (simp add: off_session_def allow_resume_def log_off_session_def session_inv_def sample_session_def
      new_session_def)

definition bob_session :: session where
  "bob_session = off_session\<lparr>s_tokens := no_tokens\<lparr>refresh_token := ''bob-rt''\<rparr>, s_issued_at := 0,
     s_logged_out := False, s_taken_up := True, s_take_ups := s_take_ups off_session + 1, s_remember := True,
     s_remember_mode := MEMORY, s_remember_subject := ''subject:https://idp|bob''\<rparr>"

lemma bob_loaded:
  "load quiet_ext (session_key off_session) MEMORY bob_instance = Some (''subject:https://idp|bob'', ''bob-rt'')"
  unfolding bob_instance_def
  by (subst memory_store.ld_st) (simp_all add: memory_good_def sample_instance_def logins.same_refl one_line_def)

lemma off_session_fields:
  "s_resume_store off_session" "s_logged_off off_session" "\<not> s_taken_up off_session" "\<not> s_closed off_session"
  "s_flow off_session = F_BROWSER" "session_key bob_session = session_key off_session"
  by (simp_all add: off_session_def allow_resume_def log_off_session_def sample_session_def new_session_def
      bob_session_def session_key_def)

lemma quiet_fields:
  "x_refresh_grant quiet_ext = (\<lambda>_ _ r _ i. (sample_tokens (''at-'' @ r) (r @ ''+''), i))"
  "x_tokens_ok quiet_ext = (\<lambda>t. ts_error t = [])" "x_now quiet_ext = (\<lambda>i. (1000, i))"
  by (simp_all add: quiet_ext_def sample_ext_def)

lemma bob_taken_up: "take_up_login quiet_ext off_session bob_instance = (True, bob_session)"
proof -
  have "i_mode bob_instance = MEMORY"
    by (simp add: bob_instance_def store_def sample_instance_def Let_def)
  then show ?thesis by (simp add: take_up_login_def bob_loaded off_session_fields bob_session_def)
qed

lemma bob_fields:
  "\<not> s_logged_out bob_session" "s_taken_up bob_session" "expires_at (s_tokens bob_session) = 0"
  "s_flow bob_session = F_BROWSER" "refresh_token (s_tokens bob_session) = ''bob-rt''"
  "s_remember_mode bob_session = MEMORY" "s_remember_subject bob_session = ''subject:https://idp|bob''"
  by (simp_all add: bob_session_def off_session_fields no_tokens_def)

lemma bob_renewed: "\<exists>i. renew quiet_ext (bob_session, bob_instance) = (Inr (sample_tokens ''at-bob-rt'' ''bob-rt+''), bob_session, i)"
proof -
  have "adopt quiet_ext bob_session bob_instance = (False, bob_session)"
    by (simp add: adopt_def bob_fields off_session_fields bob_loaded)
  moreover have "refresh_grant quiet_ext bob_session bob_instance = (sample_tokens ''at-bob-rt'' ''bob-rt+'', bob_instance)"
    by (simp add: refresh_grant_def quiet_fields bob_fields)
  moreover have "retry_dead quiet_ext bob_session (sample_tokens ''at-bob-rt'' ''bob-rt+'') bob_instance =
      (bob_session, sample_tokens ''at-bob-rt'' ''bob-rt+'', bob_instance)"
    by (simp add: retry_dead_def quiet_fields sample_tokens_def)
  ultimately show ?thesis
    by (simp add: renew_def bob_fields renew_person_def sample_tokens_def Let_def)
qed

lemma bob_logged_in: "fst (access_token_op quiet_ext False (off_session, bob_instance)) = Inr ''at-bob-rt''"
  using bob_renewed
  by (auto simp: access_token_op_def bob_taken_up off_session_fields bob_fields renew_and_keep_def quiet_fields
      sample_tokens_def)

theorem access_token_only_while_logged_in_witness:
  "s_subject (fst (snd (access_token_op quiet_ext False (off_session, bob_instance)))) = []"
  using access_token_only_while_logged_in [OF off_session_inv, of quiet_ext False bob_instance] bob_logged_in
  by (cases "access_token_op quiet_ext False (off_session, bob_instance)") (auto simp: off_session_fields)

text \<open>
  A token is renewed ahead of its end, never so early that a short-lived one is always renewed: the
  margin is at most a minute and at most half the token's life, and never negative; so a token returned
  without a renewal either names no end or is still valid at the moment it is returned, by more than the
  margin.
\<close>

theorem token_renewed_in_time:
  "0 \<le> margin se \<and> margin se \<le> 60 \<and>
   (s_issued_at se \<le> expires_at (s_tokens se) \<longrightarrow> 2 * margin se \<le> expires_at (s_tokens se) - s_issued_at se) \<and>
   (fresh se now \<longrightarrow> expires_at (s_tokens se) = 0 \<or> now + margin se < expires_at (s_tokens se)) \<and>
   (\<not> fresh se now \<and> \<not> s_closed se \<and> s_flow se \<noteq> F_PAGE \<and> \<not> s_logged_off se \<and> \<not> s_logged_out se \<and>
      x_now X i = (now, j) \<longrightarrow> access_token_op X force (se, i) = renew_and_keep X (se, j))"
  using half_bounds [of "expires_at (s_tokens se) - s_issued_at se"]
  by (auto simp: margin_def fresh_def RENEW_MARGIN_SECONDS_def access_token_op_def)

theorem token_renewed_in_time_witness:
  "access_token_op quiet_ext False
     (sample_session\<lparr>s_tokens := (sample_tokens ''at'' ''rt'')\<lparr>expires_at := 1030\<rparr>, s_issued_at := 700\<rparr>, sample_instance) =
   renew_and_keep quiet_ext
     (sample_session\<lparr>s_tokens := (sample_tokens ''at'' ''rt'')\<lparr>expires_at := 1030\<rparr>, s_issued_at := 700\<rparr>, sample_instance)"
  using token_renewed_in_time [of "sample_session\<lparr>s_tokens := (sample_tokens ''at'' ''rt'')\<lparr>expires_at := 1030\<rparr>,
      s_issued_at := 700\<rparr>" 1000 quiet_ext sample_instance sample_instance False]
  by (simp add: sample_session_def new_session_def sample_tokens_def quiet_fields fresh_def margin_def
      RENEW_MARGIN_SECONDS_def half_def)

section \<open>Whose stored login a renewal touches\<close>

text \<open>
  While a renewal of a chain runs, the chain's lock keeps every other thread off its entry; the identity
  provider's call itself does not write to the store.
\<close>

definition grants_keep_store :: "('w, 's, 'z) ext_scheme \<Rightarrow> bool" where
  "grants_keep_store X \<longleftrightarrow> (\<forall>e c r sc i.
     i_mode (snd (x_refresh_grant X e c r sc i)) = i_mode i \<and>
     i_memory (snd (x_refresh_grant X e c r sc i)) = i_memory i)"

lemma load_memory_cong: "i_mode i = i_mode j \<Longrightarrow> i_memory i = i_memory j \<Longrightarrow> load X k MEMORY i = load X k MEMORY j"
  by (simp add: load_def)

lemma load_same: "same_login a b \<Longrightarrow> load X a mode i = load X b mode i"
  by (simp add: load_def logins.enc_eq [symmetric] split: keychain_mode.split)

lemma grant_store:
  "grants_keep_store X \<Longrightarrow> load X k MEMORY (snd (refresh_grant X se i)) = load X k MEMORY i \<and>
     (memory_good (snd (refresh_grant X se i)) = memory_good i)"
  by (simp add: grants_keep_store_def refresh_grant_def memory_good_def load_def)

text \<open>Someone else's entry: another login's, or this login's under another person's name.\<close>

definition others_entry :: "('w, 's, 'z) ext_scheme \<Rightarrow> session \<Rightarrow> login_key \<Rightarrow> string \<Rightarrow> string \<Rightarrow> 'w instance_state \<Rightarrow> bool" where
  "others_entry X se k person token i \<longleftrightarrow> load X k MEMORY i = Some (person, token) \<and>
     (same_login (session_key se) k \<longrightarrow> person \<noteq> s_remember_subject se)"

lemma adopt_others: "others_entry X se k person token i \<Longrightarrow> same_login (session_key se) k \<Longrightarrow>
    s_remember_mode se = MEMORY \<Longrightarrow> adopt X se i = (False, se)"
  using load_same [of "session_key se" k X MEMORY i] by (auto simp: others_entry_def adopt_def)

lemma others_entry_refresh [simp]: "others_entry X (with_refresh r se) k person token i = others_entry X se k person token i"
  by (simp add: others_entry_def)

lemma remove_others:
  assumes "others_entry X se k person token i" and "memory_good i"
    and "same_login (session_key se) k \<longrightarrow> refresh \<noteq> [] \<and> token \<noteq> refresh"
  shows "others_entry X se k person token (snd (remove X (session_key se) MEMORY refresh i))"
  using assms load_same [of "session_key se" k X MEMORY i]
  by (auto simp: memory_store.ld_rm others_entry_def)

lemma keep_others:
  assumes "others_entry X se k person token i" and "memory_good i" and "s_remember_mode se = MEMORY"
  shows "load X k MEMORY (keep_rotated X se t i) = Some (person, token)"
proof (cases "same_login (session_key se) k")
  case True
  then show ?thesis using assms load_same [OF True, of X MEMORY i]
    by (auto simp: keep_rotated_def others_entry_def)
next
  case False
  have "load X k MEMORY (store X (session_key se) subject r MEMORY i) = load X k MEMORY i" for subject r
    using False by (cases "r = []") (simp add: store_def, simp add: memory_store.ld_st [OF assms(2)])
  then show ?thesis using assms by (auto simp: keep_rotated_def others_entry_def split: option.splits)
qed

lemma retry_others:
  assumes "others_entry X se k person token i" and "memory_good i" and "s_remember_mode se = MEMORY"
    and "same_login (session_key se) k \<longrightarrow> refresh_token (s_tokens se) \<noteq> [] \<and> token \<noteq> refresh_token (s_tokens se)"
    and "grants_keep_store X" and "retry_dead X se t i = (se', t', i')"
  shows "others_entry X se' k person token i' \<and> memory_good i' \<and> s_remember_mode se' = MEMORY"
proof -
  let ?i = "snd (remove X (session_key se) MEMORY (refresh_token (s_tokens se)) i)"
  have gone: "others_entry X se k person token ?i" "memory_good ?i"
    using remove_others [OF assms(1,2,4)] memory_store.good_rm [OF assms(2)] by auto
  obtain r where r: "snd (adopt X se ?i) = with_refresh r se"
    using adopt_frame [of se X ?i] by (auto simp: refresh_only_def)
  have "others_entry X (with_refresh r se) k person token (snd (refresh_grant X (with_refresh r se) ?i))"
    "memory_good (snd (refresh_grant X (with_refresh r se) ?i))"
    using gone grant_store [OF assms(5)] by (simp_all add: others_entry_def)
  then show ?thesis
    using assms gone r by (auto simp: retry_dead_def Let_def split: if_splits prod.splits bool.splits)
qed

lemma renew_others:
  assumes "others_entry X se k person token i" and "memory_good i" and "s_remember_mode se = MEMORY"
    and "same_login (session_key se) k \<longrightarrow> refresh_token (s_tokens se) \<noteq> [] \<and> token \<noteq> refresh_token (s_tokens se)"
    and "grants_keep_store X"
  shows "load X k MEMORY (snd (snd (renew_person X se i))) = Some (person, token)"
proof -
  let ?se = "if s_remember se then snd (adopt X se i) else se"
  have "refresh_only se ?se" using adopt_frame [of se X i] by simp
  then obtain r where r: "?se = with_refresh r se" by (elim refresh_onlyE)
  have same: "same_login (session_key se) k \<longrightarrow> ?se = se"
    using adopt_others [OF assms(1) _ assms(3)] by simp
  obtain t j where g: "refresh_grant X ?se i = (t, j)" by (cases "refresh_grant X ?se i")
  have j: "others_entry X ?se k person token j" "memory_good j"
    using assms(1,2) grant_store [OF assms(5), of k ?se i] g by (auto simp: r others_entry_def)
  obtain se' t' j' where d: "retry_dead X ?se t j = (se', t', j')" by (cases "retry_dead X ?se t j")
  have "others_entry X se' k person token j' \<and> memory_good j' \<and> s_remember_mode se' = MEMORY"
    by (rule retry_others [OF j _ _ assms(5) d]) (use assms(3,4) same r in auto)
  then show ?thesis
    unfolding renew_person_def Let_def g prod.case d by (simp add: keep_others)
qed



section \<open>Logoff, DETACH, calls\<close>

text \<open>
  C7: a logoff is final until a new login, and a DETACH for good. After \<^verbatim>\<open>LogOff\<close> the session holds no
  token and asking for one fails, changing nothing and asking nobody - even though the login is still
  stored, until \<^verbatim>\<open>AllowResume\<close>; from then on it still fails as long as nothing is stored under its key.
  A closed session fails at once, whatever it was, and a page's session fails when the page's token
  was forgotten.
\<close>

theorem log_off_is_final:
  "(\<not> s_closed se \<and> s_flow se \<noteq> F_PAGE \<longrightarrow>
      access_token_op X force (log_off_session se, i) = (Inl (logged_off_error se), log_off_session se, i) \<and>
      (load X (session_key se) (i_mode i) i = None \<longrightarrow>
        access_token_op X force (allow_resume (log_off_session se), i) =
          (Inl (logged_off_error se), allow_resume (log_off_session se), i))) \<and>
   (\<not> s_closed se \<and> s_flow se = F_PAGE \<and> page_find X (lk_issuer (session_key se)) (si_host (s_info se)) i = None \<longrightarrow>
      access_token_op X force (log_off_session se, i) = (Inl (logged_off_page se), log_off_session se, i)) \<and>
   access_token_op X force (close_session se, i) =
     (Inl (InvalidInput ''the session is closed'' [si_host (s_info se)]), close_session se, i) \<and>
   s_tokens (log_off_session se) = no_tokens \<and> s_tokens (close_session se) = no_tokens"
  by (auto simp: access_token_op_def log_off_session_def close_session_def take_up_login_def allow_resume_def
      logged_off_error_def session_key_def page_access_token_def mark_refused_def logged_off_page_def
      Let_def split: option.splits)

theorem log_off_is_final_witness:
  "access_token_op quiet_ext True (log_off_session sample_session, bob_instance) =
     (Inl (logged_off_error sample_session), log_off_session sample_session, bob_instance)"
  using log_off_is_final [of sample_session quiet_ext True bob_instance]
  by (simp add: sample_session_def new_session_def)

text \<open>
  A token exchanged for a user is only what it must be. Whatever the identity provider answers, the
  refresh token of an exchange is dropped; a session that is closed, or that logged in as anything but
  a client with a secret, a key or a federated assertion, exchanges nothing: it answers an error, no
  token, and nothing is asked of anyone.
\<close>

theorem exchange_for_service_safe:
  "case exchange_for_service X sid subject_token obo scope audience s of
     (Inl e, t) \<Rightarrow> \<not> s_client (y_ses s sid) \<and> t = s
   | (Inr tokens, t) \<Rightarrow> refresh_token tokens = [] \<and>
       (s_closed (y_ses s sid) \<or> s_flow (y_ses s sid) \<noteq> F_CLIENT_CREDENTIALS \<and> s_flow (y_ses s sid) \<noteq> F_FEDERATED \<longrightarrow>
          t = s \<and> access_token tokens = [] \<and> ts_error tokens \<noteq> [])"
proof -
  have "wp (exchange_for_service X sid subject_token obo scope audience)
    (\<lambda>tokens t. refresh_token tokens = [] \<and>
       (s_closed (y_ses s sid) \<or> s_flow (y_ses s sid) \<noteq> F_CLIENT_CREDENTIALS \<and> s_flow (y_ses s sid) \<noteq> F_FEDERATED \<longrightarrow>
          t = s \<and> access_token tokens = [] \<and> ts_error tokens \<noteq> []))
    (\<lambda>e t. \<not> s_client (y_ses s sid) \<and> t = s) s"
    by (auto simp: exchange_for_service_def Let_def wp_simps client_set_def split: sum.splits)
  then show ?thesis by (auto simp: wp_def split: prod.splits sum.splits)
qed

definition answering :: "int \<Rightarrow> string \<Rightarrow> (unit, unit sys) ext" where
  "answering status body = sample_ext (\<lambda>_ s. (\<lparr>hr_error = [], hr_status = status, hr_body = body\<rparr>, s))"

definition sample_hooks :: "unit sys hooks" where
  "sample_hooks = \<lparr>on_resumed = None, on_logged_off = None, wait_pending = None\<rparr>"

definition sample_sys :: "unit sys" where
  "sample_sys = \<lparr>y_ses = (\<lambda>_. sample_session), y_inst = sample_instance\<rparr>"

theorem exchange_for_service_safe_witness:
  "snd (exchange_for_service (answering 200 []) 0 ''user-token'' False ''scope'' ''aud'' sample_sys) = sample_sys"
  using exchange_for_service_safe [where X = "answering 200 []" and sid = 0 and subject_token = "''user-token''" and
      obo = False and scope = "''scope''" and audience = "''aud''" and s = sample_sys]
  by (cases "exchange_for_service (answering 200 []) 0 ''user-token'' False ''scope'' ''aud'' sample_sys")
    (auto simp: sample_sys_def sample_session_def new_session_def split: sum.splits)


definition resumed_sys :: "unit sys" where
  "resumed_sys = sample_sys\<lparr>y_ses := (\<lambda>_. sample_session\<lparr>s_resumed := True, s_subject := [],
     s_previous_subject := ''subject:https://idp|ann''\<rparr>)\<rparr>"


text \<open>
  C10: a call asks at most twice, and hands back a refusal of the login only to who can use it. A closed
  session sends nothing and changes nothing. A session that has to ask who logged in, and gets no 200
  for it, fails without sending the call itself. And an answer of 401 - after the one renewal and retry -
  reaches a caller only when the call carried a delegation, where it means that grant; every
  other caller gets the error that the login is refused.
\<close>

lemma call_401_delegated:
  "wp (call X H sid c interrupted)
     (\<lambda>r _. sr_status r = 401 \<longrightarrow> map_of (c_headers c) ''Delegation'' \<noteq> None) (\<lambda>_ _. True) s"
proof -
  let ?Q = "\<lambda>r _. sr_status r = 401 \<longrightarrow> map_of (c_headers c) ''Delegation'' \<noteq> None"
  have retry: "wp (bindE (call_attempt X H sid c (Some used)) (\<lambda>(_, second).
          if hr_status second = 401 \<and> map_of (c_headers c) ''Delegation'' = None then
            bindE (get_ses sid (\<lambda>se. si_host (s_info se))) (\<lambda>host.
              throw (InvalidInput ''refused the renewed login'' [host]))
          else ret (answer second))) ?Q (\<lambda>_ _. True) t" for used t
    unfolding wp_bindE by (rule wp_drop) (auto simp: wp_simps answer_def split: prod.splits)
  show ?thesis
    unfolding call_def wp_bindE wp_seqE
    by (intro wp_drop) (use retry in \<open>auto simp: wp_ret answer_def split: prod.splits\<close>)
qed

theorem call_asks_and_refuses:
  "(s_client (y_ses s sid) \<and> s_closed (y_ses s sid) \<longrightarrow>
      call X H sid c interrupted s =
        (Inl (InvalidInput ''the session is closed'' [si_host (s_info (y_ses s sid))]), s)) \<and>
   (\<forall>token t e t'. s_client (y_ses s sid) \<and> \<not> s_logged_off (y_ses s sid) \<and>
      locked sid (token_for_attempt X None) s = (Inr (token, True), t) \<and>
      take_up_whoami X H sid token t = (Inl e, t') \<longrightarrow> call X H sid c interrupted s = (Inl e, t')) \<and>
   (case call X H sid c interrupted s of (Inl e, t) \<Rightarrow> True
    | (Inr r, t) \<Rightarrow> sr_status r = 401 \<longrightarrow> map_of (c_headers c) ''Delegation'' \<noteq> None)"
proof (intro conjI)
  show "s_client (y_ses s sid) \<and> s_closed (y_ses s sid) \<longrightarrow> call X H sid c interrupted s =
        (Inl (InvalidInput ''the session is closed'' [si_host (s_info (y_ses s sid))]), s)"
    by (auto simp: call_def client_set_def wait_login_def call_attempt_def locked_def token_for_attempt_def
        access_token_op_def get_ses_def monad_defs split: option.splits)
  show "\<forall>token t e t'. s_client (y_ses s sid) \<and> \<not> s_logged_off (y_ses s sid) \<and>
      locked sid (token_for_attempt X None) s = (Inr (token, True), t) \<and>
      take_up_whoami X H sid token t = (Inl e, t') \<longrightarrow> call X H sid c interrupted s = (Inl e, t')"
    by (auto simp: call_def client_set_def wait_login_def call_attempt_def get_ses_def monad_defs
        split: option.splits)
  show "case call X H sid c interrupted s of (Inl e, t) \<Rightarrow> True
    | (Inr r, t) \<Rightarrow> sr_status r = 401 \<longrightarrow> map_of (c_headers c) ''Delegation'' \<noteq> None"
    using call_401_delegated [of X H sid c interrupted s] by (auto simp: wp_def split: prod.splits sum.splits)
qed

definition sample_call :: call_args where
  "sample_call = \<lparr>c_method = ''GET'', c_path = ''/v1/secrets'', c_body = [], c_headers = [], c_timeout = 30\<rparr>"

theorem call_asks_and_refuses_witness:
  "call (answering 200 []) sample_hooks 0 sample_call (\<lambda>_. False)
       (sample_sys\<lparr>y_ses := (\<lambda>_. close_session sample_session)\<rparr>) =
     (Inl (InvalidInput ''the session is closed'' [''secrets.corp'']),
      sample_sys\<lparr>y_ses := (\<lambda>_. close_session sample_session)\<rparr>)"
  using call_asks_and_refuses [where s = "sample_sys\<lparr>y_ses := (\<lambda>_. close_session sample_session)\<rparr>" and sid = 0 and
      X = "answering 200 []" and H = sample_hooks and c = sample_call and interrupted = "\<lambda>_. False"]
  by (simp add: close_session_def sample_session_def new_session_def sample_info_def)

end
