(* ===== verification/Tresor_Events.thy ===== *)
theory Tresor_Events
  imports Tresor_Session_Laws
begin

text \<open>
  The audit (\<^verbatim>\<open>tresor_events.cpp\<close>): what is told of an operation, to the log and to the sinks of the
  audit contract. \<open>audit\<close> is the instance's audit: the level, whether a sink listens, the sequence
  number, and - as the observable effect - the events written to DuckDB's log, those pushed to the
  delivery to the sinks, and the counters' increments. Times and durations are left out. \<open>audited\<close> is one
  operation's entry; the exit paths of the sources call one of its outcomes, and \<open>audited_end\<close> is its
  destructor.
\<close>

section \<open>Whom a call goes as\<close>

text \<open>\<open>cl_rejects\<close>: the caller's \<^verbatim>\<open>rejected\<close> callback is set (it forgets the acl session's grant).\<close>

record caller =
  cl_session :: "nat option"
  cl_acl_session :: string
  cl_grant :: string
  cl_refused :: string
  cl_user :: string
  cl_correlation_id :: string
  cl_traceparent :: string
  cl_rejects :: bool

definition no_caller :: caller where
  "no_caller = \<lparr>cl_session = None, cl_acl_session = [], cl_grant = [], cl_refused = [], cl_user = [],
     cl_correlation_id = [], cl_traceparent = [], cl_rejects = False\<rparr>"

definition is_node :: "caller \<Rightarrow> bool" where
  "is_node c \<longleftrightarrow> cl_acl_session c = []"

definition usable_caller :: "caller \<Rightarrow> bool" where
  "usable_caller c \<longleftrightarrow> cl_session c \<noteq> None \<and> cl_refused c = []"

section \<open>Trace contexts and reasons\<close>

definition lower_hex :: "char \<Rightarrow> bool" where
  "lower_hex c \<longleftrightarrow> byte_of c \<in> {48..57} \<or> byte_of c \<in> {97..102}"

definition is_lower_hex :: "string \<Rightarrow> nat \<Rightarrow> nat \<Rightarrow> bool" where
  "is_lower_hex text first count \<longleftrightarrow> list_all lower_hex (take count (drop first text))"

definition valid_traceparent :: "string \<Rightarrow> string" where
  "valid_traceparent text =
     (if length text \<noteq> 55 \<or> text ! 0 \<noteq> CHR ''0'' \<or> text ! 1 \<noteq> CHR ''0'' \<or> text ! 2 \<noteq> CHR ''-'' \<or>
         text ! 35 \<noteq> CHR ''-'' \<or> text ! 52 \<noteq> CHR ''-'' then []
      else if \<not> is_lower_hex text 0 2 \<or> \<not> is_lower_hex text 3 32 \<or> \<not> is_lower_hex text 36 16 \<or>
         \<not> is_lower_hex text 53 2 then []
      else if take 32 (drop 3 text) = replicate 32 (CHR ''0'') \<or>
         take 16 (drop 36 text) = replicate 16 (CHR ''0'') then []
      else text)"

definition own_words :: "string \<Rightarrow> string" where
  "own_words text = (case split_at_str '': '' text of None \<Rightarrow> text | Some (before, _) \<Rightarrow> before)"

section \<open>The audit\<close>

datatype audit_level = L_OFF | L_DENIED | L_ALL

record audit_event =
  ev_kind :: string
  ev_outcome :: string
  ev_reason_code :: string
  ev_reason :: string
  ev_service :: string
  ev_host :: string
  ev_login :: string
  ev_principal :: string
  ev_user :: string
  ev_acl_session :: string
  ev_correlation_id :: string
  ev_traceparent :: string
  ev_secret :: string
  ev_secret_type :: string
  ev_cached :: bool
  ev_dynamic :: bool
  ev_target :: string
  ev_detail :: string
  ev_seq :: int

definition no_event :: audit_event where
  "no_event = \<lparr>ev_kind = [], ev_outcome = [], ev_reason_code = [], ev_reason = [], ev_service = [], ev_host = [],
     ev_login = [], ev_principal = [], ev_user = [], ev_acl_session = [], ev_correlation_id = [],
     ev_traceparent = [], ev_secret = [], ev_secret_type = [], ev_cached = False, ev_dynamic = False,
     ev_target = [], ev_detail = [], ev_seq = 0\<rparr>"

record audit =
  au_level :: audit_level
  au_sinks :: bool                               \<comment> \<open>hooks reached, and a sink listens\<close>
  au_stopped :: bool
  au_seq :: int
  au_log :: "audit_event list"
  au_sent :: "audit_event list"
  au_counts :: "(string \<times> string \<times> bool) list"

definition parse_level :: "'z lib_scheme \<Rightarrow> string \<Rightarrow> error + audit_level" where
  "parse_level L text =
     (let lowered = lb_lower L text in
      if lowered = ''off'' then Inr L_OFF
      else if lowered = ''denied'' then Inr L_DENIED
      else if lowered = ''all'' then Inr L_ALL
      else Inl (InvalidInput ''tresor_audit_level is off, denied or all'' [text]))"

definition set_audit_level :: "'z lib_scheme \<Rightarrow> bool \<Rightarrow> string option \<Rightarrow> audit \<Rightarrow> (error + unit) \<times> audit" where
  "set_audit_level L local parameter a =
     (if local then (Inl (InvalidInput ''tresor_audit_level is set for the whole instance'' []), a)
      else case parse_level L (case parameter of None \<Rightarrow> ''off'' | Some text \<Rightarrow> text) of
             Inl e \<Rightarrow> (Inl e, a)
           | Inr level \<Rightarrow> (Inr (), a\<lparr>au_level := level\<rparr>))"

definition wanted :: "audit \<Rightarrow> string \<Rightarrow> bool" where
  "wanted a outcome \<longleftrightarrow> au_sinks a \<or> au_level a = L_ALL \<or>
     (au_level a = L_DENIED \<and> (outcome = [] \<or> outcome = ''denied'' \<or> outcome = ''error''))"

definition count_event :: "string \<Rightarrow> string \<Rightarrow> bool \<Rightarrow> audit \<Rightarrow> audit" where
  "count_event kind outcome cached a =
     (if au_sinks a then a\<lparr>au_counts := au_counts a @ [(kind, outcome, cached)]\<rparr> else a)"

text \<open>Whether DuckDB's logger itself takes the entry (\<^verbatim>\<open>ShouldLog\<close>) is DuckDB's; \<open>au_log\<close> is what it is given.\<close>

definition emit :: "audit_event \<Rightarrow> audit \<Rightarrow> audit" where
  "emit event a =
     (let a = count_event (ev_kind event) (ev_outcome event) (ev_cached event) a;
          refusal = (ev_outcome event = ''denied'' \<or> ev_outcome event = ''error'');
          log = (au_level a = L_ALL \<or> (au_level a = L_DENIED \<and> refusal));
          event = event\<lparr>ev_seq := au_seq a + 1\<rparr>;
          a = a\<lparr>au_seq := au_seq a + 1\<rparr>;
          a = (if au_sinks a \<and> \<not> au_stopped a then a\<lparr>au_sent := au_sent a @ [event]\<rparr> else a)
      in if log then a\<lparr>au_log := au_log a @ [event]\<rparr> else a)"

section \<open>One audited operation\<close>

record audited =
  ad_live :: bool       \<comment> \<open>someone may want it\<close>
  ad_event :: audit_event
  ad_finished :: bool

definition audited_new :: "audit \<Rightarrow> string \<Rightarrow> audited" where
  "audited_new a kind =
     (if wanted a [] then \<lparr>ad_live = True, ad_event = no_event\<lparr>ev_kind := kind\<rparr>, ad_finished = False\<rparr>
      else \<lparr>ad_live = False, ad_event = no_event, ad_finished = False\<rparr>)"

definition session_login_name :: "session \<Rightarrow> string" where
  "session_login_name se =
     (if s_flow se = F_CLIENT_CREDENTIALS then login_name (s_credential se) else login_flow_name (s_flow se))"

definition on_event :: "(audit_event \<Rightarrow> audit_event) \<Rightarrow> audited \<Rightarrow> audited" where
  "on_event f d = (if ad_live d then d\<lparr>ad_event := f (ad_event d)\<rparr> else d)"

definition audited_for :: "(nat \<Rightarrow> session) \<Rightarrow> caller \<Rightarrow> string \<Rightarrow> audited \<Rightarrow> audited" where
  "audited_for ses c service = on_event (\<lambda>e.
     let e = e\<lparr>ev_service := service\<rparr>;
         e = (case cl_session c of None \<Rightarrow> e
              | Some sid \<Rightarrow> e\<lparr>ev_host := si_host (s_info (ses sid)), ev_login := session_login_name (ses sid),
                              ev_principal := take 512 (s_subject (ses sid))\<rparr>)
     in e\<lparr>ev_user := cl_user c, ev_acl_session := cl_acl_session c, ev_correlation_id := cl_correlation_id c,
          ev_traceparent := cl_traceparent c\<rparr>)"

definition audited_secret :: "string \<Rightarrow> string \<Rightarrow> bool \<Rightarrow> audited \<Rightarrow> audited" where
  "audited_secret name kind dynamic = on_event (\<lambda>e. e\<lparr>ev_secret := name, ev_secret_type := kind, ev_dynamic := dynamic\<rparr>)"

definition audited_target :: "string \<Rightarrow> audited \<Rightarrow> audited" where
  "audited_target who = on_event (\<lambda>e. e\<lparr>ev_target := who\<rparr>)"

definition audited_detail :: "string \<Rightarrow> audited \<Rightarrow> audited" where
  "audited_detail detail = on_event (\<lambda>e. e\<lparr>ev_detail := detail\<rparr>)"

definition audited_cached :: "bool \<Rightarrow> audited \<Rightarrow> audited" where
  "audited_cached cached = on_event (\<lambda>e. e\<lparr>ev_cached := cached\<rparr>)"

definition REASON_MAX :: nat where
  "REASON_MAX = 300"

definition finish :: "string \<Rightarrow> string \<Rightarrow> string \<Rightarrow> audited \<times> audit \<Rightarrow> audited \<times> audit" where
  "finish outcome code reason = (\<lambda>(d, a).
     if ad_finished d then (d, a)
     else let d = d\<lparr>ad_finished := True\<rparr> in
       if \<not> ad_live d \<or> \<not> wanted a outcome then (d, a)
       else (d, emit ((ad_event d)\<lparr>ev_outcome := outcome, ev_reason_code := code,
                 ev_reason := (if length reason > REASON_MAX then take REASON_MAX reason else reason)\<rparr>) a))"

definition audit_ok :: "audited \<times> audit \<Rightarrow> audited \<times> audit" where
  "audit_ok = finish ''ok'' [] []"

definition audit_none :: "audited \<times> audit \<Rightarrow> audited \<times> audit" where
  "audit_none = finish ''none'' [] []"

definition audit_denied :: "string \<Rightarrow> string \<Rightarrow> audited \<times> audit \<Rightarrow> audited \<times> audit" where
  "audit_denied = finish ''denied''"

definition audit_error :: "string \<Rightarrow> string \<Rightarrow> audited \<times> audit \<Rightarrow> audited \<times> audit" where
  "audit_error = finish ''error''"

definition audit_answer :: "'z lib_scheme \<Rightarrow> service_response \<Rightarrow> audited \<times> audit \<Rightarrow> audited \<times> audit" where
  "audit_answer L response =
     (if sr_status response div 100 = 2 then audit_ok
      else let code = reason_code L response; reason = ''the service answered HTTP '' @ show_int (sr_status response)
           in if sr_status response = 403 \<or> sr_status response = 401 then audit_denied code reason
              else audit_error code reason)"

definition audit_failed :: "error \<Rightarrow> audited \<times> audit \<Rightarrow> audited \<times> audit" where
  "audit_failed ex = (case ex of
       Permission _ _ \<Rightarrow> finish ''denied'' ''no_grant''
         ''this caller may not reach the service (no usable delegation grant)''
     | IOErr _ _ \<Rightarrow> finish ''error'' ''transport'' ''the service or the identity provider failed, or could not be reached''
     | InvalidInput _ _ \<Rightarrow> finish ''error'' ''invalid'' ''refused as invalid''
     | _ \<Rightarrow> finish ''error'' ''other'' ''failed'')"

definition audited_end :: "audited \<times> audit \<Rightarrow> audited \<times> audit" where
  "audited_end = finish ''error'' ''other'' ''ended without an outcome''"

section \<open>Lemmas\<close>

lemma finish_finished: "ad_finished (fst (finish outcome code reason da))"
  by (auto simp: finish_def Let_def split: prod.splits)

lemma finish_again: "ad_finished (fst da) \<Longrightarrow> finish outcome code reason da = da"
  by (auto simp: finish_def split: prod.splits)

lemma own_words_prefix: "\<exists>rest. text = own_words text @ rest"
  by (auto simp: own_words_def split: option.splits dest: split_at_str_append)

lemma split_first: "split_at_str [c, d] s = Some (a, b) \<Longrightarrow> split_at_str [c, d] a = None"
proof (induction s arbitrary: a b)
  case (Cons x xs)
  show ?case
  proof (cases "take 2 (x # xs) = [c, d]")
    case True
    then show ?thesis using Cons.prems by simp
  next
    case False
    then obtain a' where a: "a = x # a'" "split_at_str [c, d] xs = Some (a', b)"
      using Cons.prems by (auto simp: numeral_2_eq_2 split: if_splits)
    have "take 2 (x # a') \<noteq> [c, d]"
    proof
      assume "take 2 (x # a') = [c, d]"
      then obtain t where "x = c" "a' = d # t" by (cases a') (auto simp: numeral_2_eq_2)
      moreover have "xs = a' @ b" using split_at_str_append a(2) by simp
      ultimately show False using False by (simp add: numeral_2_eq_2)
    qed
    then show ?thesis using a Cons.IH [OF a(2)] by (simp add: numeral_2_eq_2)
  qed
qed simp

text \<open>The pieces of a trace context.\<close>

definition traceparent_form :: "string \<Rightarrow> string \<Rightarrow> string \<Rightarrow> string \<Rightarrow> bool" where
  "traceparent_form text trace span flags \<longleftrightarrow>
     text = ''00-'' @ trace @ ''-'' @ span @ ''-'' @ flags \<and>
     length trace = 32 \<and> length span = 16 \<and> length flags = 2 \<and>
     list_all lower_hex trace \<and> list_all lower_hex span \<and> list_all lower_hex flags \<and>
     trace \<noteq> replicate 32 (CHR ''0'') \<and> span \<noteq> replicate 16 (CHR ''0'')"

lemma cut_at: "n < length s \<Longrightarrow> s = take n s @ s ! n # drop (Suc n) s"
  by (rule id_take_nth_drop)

lemma traceparent_cut:
  assumes "length text = 55"
  shows "text = [text ! 0, text ! 1, text ! 2] @ take 32 (drop 3 text) @ [text ! 35] @
    take 16 (drop 36 text) @ [text ! 52] @ drop 53 text"
proof -
  have "text = take 3 text @ take 32 (drop 3 text) @ drop 35 text"
    using append_take_drop_id [of 3 "text"] append_take_drop_id [of 32 "drop 3 text"] by simp
  moreover have "take 3 text = [text ! 0, text ! 1, text ! 2]"
    using assms by (simp add: numeral_3_eq_3 numeral_2_eq_2 take_Suc_conv_app_nth)
  moreover have "drop 35 text = text ! 35 # drop 36 text"
    using assms Cons_nth_drop_Suc [of 35 "text"] by simp
  moreover have "drop 36 text = take 16 (drop 36 text) @ drop 52 text"
    using append_take_drop_id [of 16 "drop 36 text"] by simp
  moreover have "drop 52 text = text ! 52 # drop 53 text"
    using assms Cons_nth_drop_Suc [of 52 "text"] by simp
  ultimately show ?thesis by (metis append_Cons append_Nil)
qed

lemma emit_effect:
  "(au_log (emit e a) = au_log a \<or> au_log (emit e a) = au_log a @ [e\<lparr>ev_seq := au_seq a + 1\<rparr>]) \<and>
   (au_sent (emit e a) = au_sent a \<or> au_sent (emit e a) = au_sent a @ [e\<lparr>ev_seq := au_seq a + 1\<rparr>])"
  by (simp add: emit_def count_event_def Let_def)

section \<open>Properties\<close>

text \<open>
  Only a well-formed trace context is carried on: \<^verbatim>\<open>ValidTraceparent\<close> answers its argument exactly when
  that is version 00 of the W3C form - 32 lower-case hexadecimal digits, 16, and 2, with neither
  identifier all zeros - and the empty string for everything else.
\<close>

theorem valid_traceparent_exact:
  "valid_traceparent text = (if \<exists>trace span flags. traceparent_form text trace span flags then text else [])"
proof (cases "\<exists>trace span flags. traceparent_form text trace span flags")
  case True
  then obtain a b c where f: "traceparent_form text a b c" by blast
  then have "take 32 (drop 3 text) = a" "take 16 (drop 36 text) = b" "take 2 (drop 53 text) = c"
    "text ! 0 = CHR ''0''" "text ! 1 = CHR ''0''" "text ! 2 = CHR ''-''" "text ! 35 = CHR ''-''" "text ! 52 = CHR ''-''"
    "length text = 55" "take 2 text = ''00''"
    by (auto simp: traceparent_form_def nth_append)
  then show ?thesis using f True
    by (simp add: valid_traceparent_def is_lower_hex_def traceparent_form_def lower_hex_def)
next
  case False
  show ?thesis
  proof (rule ccontr)
    assume "\<not> ?thesis"
    then have v: "valid_traceparent text \<noteq> []" using False by simp
    then have len: "length text = 55" by (auto simp: valid_traceparent_def split: if_splits)
    have "traceparent_form text (take 32 (drop 3 text)) (take 16 (drop 36 text)) (drop 53 text)"
      using v len traceparent_cut [OF len]
      by (auto simp: valid_traceparent_def is_lower_hex_def traceparent_form_def split: if_splits)
    then show False using False by blast
  qed
qed

text \<open>
  An operation is told once, and briefly. Whatever outcome an operation's entry is finished with,
  every later outcome - and its destructor - changes nothing; at most one event reaches the log and at
  most one the sinks, with the next sequence number and a reason of at most 300 characters; nothing at all
  happens to the audit when nobody wants that outcome, and with the log at \<^verbatim>\<open>denied\<close> and no sink, that is
  every outcome but a refusal or a failure.
\<close>

theorem audited_told_once:
  "case finish outcome code reason (d, a) of (d', a') \<Rightarrow>
     finish outcome2 code2 reason2 (d', a') = (d', a') \<and> audited_end (d', a') = (d', a') \<and>
     (au_log a' = au_log a \<or> (\<exists>e. au_log a' = au_log a @ [e] \<and> length (ev_reason e) \<le> 300 \<and> ev_seq e = au_seq a + 1)) \<and>
     (au_sent a' = au_sent a \<or> (\<exists>e. au_sent a' = au_sent a @ [e] \<and> length (ev_reason e) \<le> 300 \<and> ev_seq e = au_seq a + 1)) \<and>
     (\<not> wanted a outcome \<longrightarrow> a' = a) \<and>
     (au_level a = L_DENIED \<and> \<not> au_sinks a \<and> outcome \<in> {''ok'', ''none''} \<longrightarrow> a' = a)"
proof -
  have "ad_finished (fst (finish outcome code reason (d, a)))" by (rule finish_finished)
  then have again: "finish o2 c2 r2 (finish outcome code reason (d, a)) = finish outcome code reason (d, a)" for o2 c2 r2
    by (rule finish_again)
  obtain d' a' where f: "finish outcome code reason (d, a) = (d', a')" by (cases "finish outcome code reason (d, a)")
  have "a' = a \<or> wanted a outcome \<and> (\<exists>e. a' = emit e a \<and> length (ev_reason e) \<le> 300)"
    using f by (auto simp: finish_def Let_def REASON_MAX_def split: if_splits)
  then consider "a' = a" | e where "wanted a outcome" "a' = emit e a" "length (ev_reason e) \<le> 300" by blast
  then show ?thesis
  proof cases
    case 1
    then show ?thesis using again by (simp add: f audited_end_def)
  next
    case 2
    then show ?thesis using again emit_effect [of e a] by (auto simp: f audited_end_def wanted_def)
  qed
qed

definition sample_audit :: audit where
  "sample_audit = \<lparr>au_level = L_DENIED, au_sinks = False, au_stopped = False, au_seq = 4, au_log = [], au_sent = [],
     au_counts = []\<rparr>"

theorem audited_told_once_witness:
  "case finish ''ok'' [] [] (audited_new sample_audit ''lookup'', sample_audit) of (d, a) \<Rightarrow> a = sample_audit"
  using audited_told_once [where outcome = "''ok''" and code = "[]" and reason = "[]" and a = sample_audit and
      d = "audited_new sample_audit ''lookup''"]
  by (auto simp: sample_audit_def split: prod.splits)

text \<open>
  The audit never passes on the service's words. What is told of an answer depends on its status and
  on a code from a fixed set of nine only - never otherwise on its body, which may quote a value; what
  is told of an exception depends on its class only - never on its message.
\<close>

theorem audit_carries_no_service_text:
  "reason_code L r \<in> reason_codes \<and>
   (sr_status r = sr_status r' \<and> reason_code L r = reason_code L r' \<longrightarrow> audit_answer L r = audit_answer L r') \<and>
   audit_failed (IOErr t as) = audit_failed (IOErr t' as') \<and>
   audit_failed (Permission t as) = audit_failed (Permission t' as') \<and>
   audit_failed (InvalidInput t as) = audit_failed (InvalidInput t' as') \<and>
   audit_failed (InternalErr t as) = audit_failed (BinderErr t' as')"
  by (simp add: audit_answer_def audit_failed_def reason_code_bounded)

theorem audit_carries_no_service_text_witness:
  "audit_answer sample_lib \<lparr>sr_status = 500, sr_body = ''secret=42''\<rparr> =
   audit_answer sample_lib \<lparr>sr_status = 500, sr_body = []\<rparr>"
  using audit_carries_no_service_text [of sample_lib "\<lparr>sr_status = 500, sr_body = ''secret=42''\<rparr>"
      "\<lparr>sr_status = 500, sr_body = []\<rparr>"]
  by (simp add: reason_code_def sample_lib_def jstr_def jget_opt_def known_problem_def)

end
