(* ===== verification/Tresor_Actor.thy ===== *)
theory Tresor_Actor
  imports Tresor_Events
begin

text \<open>
  Acting for duckdb-acl's sessions (\<^verbatim>\<open>tresor_actor.cpp\<close>). \<open>actor\<close> has the class's fields under its lock:
  the entry of every acl session it serves and the queue of its workers. What runs under the lock is
  a function on that record (\<open>opened\<close>, \<open>closed\<close>, \<open>grant_look\<close>, \<open>fail_entry\<close>, \<open>grant_arrived\<close>, \<open>stop_actor\<close>,
  \<open>pop_job\<close>); what talks to the identity provider or the service (\<open>exchange_job\<close>, \<open>revoke_job\<close>, \<open>work\<close>) is an
  operation on the whole state, in which other threads run during every call. The storage's
  callback when a session goes is run by whoever calls \<open>closed\<close> when its first result says so.
\<close>

section \<open>State\<close>

datatype grant_state = G_PENDING | G_READY | G_FAILED

record entry =
  en_state :: grant_state
  en_wait_until :: int
  en_closed :: bool
  en_grant :: string
  en_grant_expires_at :: int
  en_why :: string
  en_user :: string

record job =
  jb_revoke :: bool
  jb_acl_session :: string
  jb_user :: string
  jb_token :: string
  jb_issuer :: string
  jb_expires_at :: int

record actor_options =
  ao_on_behalf_of :: bool
  ao_scope :: string
  ao_audience :: string
  ao_grant_wait_seconds :: int
  ao_service :: string

record actor =
  ac_session :: nat
  ac_options :: actor_options
  ac_jobs :: "job list"
  ac_sessions :: "(string \<times> entry) list"
  ac_stopping :: bool
  ac_stop_deadline :: int
  ac_revoke_failed :: bool
  ac_gone :: bool              \<comment> \<open>the callback is set\<close>

record 'w act_sys = "'w sys" +
  y_audit :: audit
  y_actor :: "nat \<Rightarrow> actor"

definition new_actor :: "nat \<Rightarrow> actor_options \<Rightarrow> actor" where
  "new_actor sid options = \<lparr>ac_session = sid, ac_options = options, ac_jobs = [], ac_sessions = [],
     ac_stopping = False, ac_stop_deadline = 0, ac_revoke_failed = False, ac_gone = False\<rparr>"

definition find_entry :: "string \<Rightarrow> actor \<Rightarrow> entry option" where
  "find_entry acl a = map_of (ac_sessions a) acl"

definition put_entry :: "string \<Rightarrow> entry \<Rightarrow> actor \<Rightarrow> actor" where
  "put_entry acl e a = a\<lparr>ac_sessions := AList.update acl e (ac_sessions a)\<rparr>"

definition drop_entry :: "string \<Rightarrow> actor \<Rightarrow> actor" where
  "drop_entry acl a = a\<lparr>ac_sessions := AList.delete acl (ac_sessions a)\<rparr>"

definition push_job :: "job \<Rightarrow> actor \<Rightarrow> actor" where
  "push_job j a = a\<lparr>ac_jobs := ac_jobs a @ [j]\<rparr>"

section \<open>What the node may act with\<close>

definition acting_options :: "('w, 's, 'x) ext_scheme \<Rightarrow> nat \<Rightarrow> bool \<Rightarrow> string \<Rightarrow> string \<Rightarrow> int \<Rightarrow> string \<Rightarrow>
    (('w, 'z) sys_scheme, actor_options) m" where
  "acting_options X sid obo scope exchange_audience grant_wait service =
     bindE (get_ses sid id) (\<lambda>se. let info = s_info se in
       seqE (guardE (s_flow se = F_CLIENT_CREDENTIALS \<or> s_flow se = F_FEDERATED)
         (InvalidInput ''acting for sessions needs a service login'' []))
       (seqE (guardE (\<not> (obo \<and> scope = [])) (InvalidInput ''on_behalf_of needs EXCHANGE_SCOPE'' []))
       (seqE (guardE (\<not> (si_audience_parameter info \<and> exchange_audience = []))
         (InvalidInput ''pins the audience with EXCHANGE_AUDIENCE'' [si_host info]))
       (bindE (if exchange_audience \<noteq> [] then ret exchange_audience
               else if si_audience info \<noteq> [] \<and> \<not> obo then
                 bindE (own_audiences X sid) (\<lambda>(own, is_jwt).
                   if si_audience info \<in> set own then ret (si_audience info)
                   else throw (InvalidInput ''names an audience the node's own token is not issued for''
                          [si_host info, si_audience info]))
               else ret []) (\<lambda>audience.
          let audience = (if obo then [] else audience) in
          if audience = [] \<and> scope = [] then
            throw (InvalidInput ''nothing to exchange a session's token for'' [si_host info])
          else ret \<lparr>ao_on_behalf_of = obo, ao_scope = scope, ao_audience = audience,
                    ao_grant_wait_seconds = grant_wait, ao_service = service\<rparr>)))))"

section \<open>Under the actor's lock\<close>

definition opened :: "int \<Rightarrow> string \<Rightarrow> string \<Rightarrow> string \<Rightarrow> int \<Rightarrow> string \<Rightarrow> actor \<Rightarrow> actor" where
  "opened steady acl user token_issuer expires token a =
     (if ac_stopping a \<or> acl = [] \<or> find_entry acl a \<noteq> None then a
      else push_job \<lparr>jb_revoke = False, jb_acl_session = acl, jb_user = user, jb_token = token,
             jb_issuer = token_issuer, jb_expires_at = expires\<rparr>
           (put_entry acl \<lparr>en_state = G_PENDING,
              en_wait_until = steady + ao_grant_wait_seconds (ac_options a), en_closed = False, en_grant = [],
              en_grant_expires_at = 0, en_why = [], en_user = user\<rparr> a))"

definition exchange_of :: "string \<Rightarrow> job \<Rightarrow> bool" where
  "exchange_of acl j \<longleftrightarrow> \<not> jb_revoke j \<and> jb_acl_session j = acl"

fun drop_first :: "('a \<Rightarrow> bool) \<Rightarrow> 'a list \<Rightarrow> 'a list" where
  "drop_first P [] = []"
| "drop_first P (x # xs) = (if P x then xs else x # drop_first P xs)"

definition revoke_of :: "string \<Rightarrow> entry \<Rightarrow> job" where
  "revoke_of acl e = \<lparr>jb_revoke = True, jb_acl_session = acl, jb_user = en_user e, jb_token = en_grant e,
     jb_issuer = [], jb_expires_at = 0\<rparr>"

text \<open>The result says whether the storage is told.\<close>

definition closed :: "string \<Rightarrow> actor \<Rightarrow> bool \<times> actor" where
  "closed acl a =
     (case find_entry acl a of
        None \<Rightarrow> (False, a)
      | Some e \<Rightarrow> (ac_gone a,
          if en_state e = G_PENDING then
            if list_ex (exchange_of acl) (ac_jobs a)
            then drop_entry acl (a\<lparr>ac_jobs := drop_first (exchange_of acl) (ac_jobs a)\<rparr>)
            else put_entry acl (e\<lparr>en_closed := True\<rparr>) a
          else if en_state e = G_READY \<and> \<not> ac_stopping a
            then drop_entry acl (push_job (revoke_of acl e) a)
          else drop_entry acl a))"

definition serves_session :: "string \<Rightarrow> actor \<Rightarrow> bool" where
  "serves_session acl a = (case find_entry acl a of None \<Rightarrow> False | Some e \<Rightarrow> \<not> en_closed e)"

text \<open>
  One look of \<open>GrantFor\<close>: the grant, or why there is none (and whether its expiry is told), or wait.
\<close>

datatype look = Granted string | NoGrant string bool | Wait

definition grant_look :: "int \<Rightarrow> int \<Rightarrow> bool \<Rightarrow> string \<Rightarrow> actor \<Rightarrow> look \<times> actor" where
  "grant_look now steady interrupted acl a =
     (case find_entry acl a of
        None \<Rightarrow> (NoGrant ''this acl session has no delegation grant here (it opened before this catalog acted for sessions, or is over)'' False, a)
      | Some e \<Rightarrow>
          if en_closed e then (NoGrant ''this acl session has no delegation grant here (it opened before this catalog acted for sessions, or is over)'' False, a)
          else if en_state e = G_FAILED then (NoGrant (en_why e) False, a)
          else if en_state e = G_READY then
            if en_grant_expires_at e \<noteq> 0 \<and> en_grant_expires_at e \<le> now
            then (NoGrant ''this acl session's delegation grant has expired'' True,
                  put_entry acl (e\<lparr>en_state := G_FAILED,
                    en_why := ''this acl session's delegation grant has expired'', en_grant := []\<rparr>) a)
            else (Granted (en_grant e), a)
          else if en_wait_until e \<le> steady then (NoGrant ''this acl session's delegation grant is still pending (SESSION_GRANT_WAIT)'' False, a)
          else if interrupted then (NoGrant ''interrupted while waiting for this acl session's delegation grant'' False, a)
          else (Wait, a))"

definition fail_entry :: "string \<Rightarrow> string \<Rightarrow> actor \<Rightarrow> actor" where
  "fail_entry acl why a =
     (case find_entry acl a of
        None \<Rightarrow> a
      | Some e \<Rightarrow> if en_closed e then drop_entry acl a
                  else put_entry acl (e\<lparr>en_grant := [], en_state := G_FAILED, en_why := why\<rparr>) a)"

text \<open>The grant is here: kept, or - the session ended meanwhile - to be revoked at once.\<close>

definition grant_arrived :: "string \<Rightarrow> string \<Rightarrow> int \<Rightarrow> actor \<Rightarrow> bool \<times> actor" where
  "grant_arrived acl grant expires a =
     (case find_entry acl a of
        None \<Rightarrow> (True, a)
      | Some e \<Rightarrow>
          if en_closed e \<or> ac_stopping a then (True, drop_entry acl a)
          else (False, put_entry acl (e\<lparr>en_state := G_READY, en_grant := grant, en_grant_expires_at := expires\<rparr>) a))"

definition pop_job :: "actor \<Rightarrow> job option \<times> actor" where
  "pop_job a = (case ac_jobs a of [] \<Rightarrow> (None, a) | j # js \<Rightarrow> (Some j, a\<lparr>ac_jobs := js\<rparr>))"

definition STOP_SECONDS :: int where
  "STOP_SECONDS = 10"

text \<open>Queued exchanges go; the grants still held become revocations; nothing is served any more.\<close>

definition stop_actor :: "int \<Rightarrow> actor \<Rightarrow> actor" where
  "stop_actor steady a =
     (if ac_stopping a then a
      else a\<lparr>ac_stopping := True, ac_stop_deadline := steady + STOP_SECONDS, ac_gone := False,
             ac_jobs := filter jb_revoke (ac_jobs a) @
               map (\<lambda>(acl, e). revoke_of acl e) (filter (\<lambda>(acl, e). en_state e = G_READY) (ac_sessions a)),
             ac_sessions := []\<rparr>)"

definition revoke_allowed :: "int \<Rightarrow> actor \<Rightarrow> bool" where
  "revoke_allowed steady a \<longleftrightarrow> \<not> ac_stopping a \<or> (\<not> ac_revoke_failed a \<and> steady < ac_stop_deadline a)"

section \<open>With the service\<close>

definition with_actor :: "nat \<Rightarrow> (actor \<Rightarrow> 'a \<times> actor) \<Rightarrow> (('w, 'z) act_sys_scheme, 'a) m" where
  "with_actor aid f = (\<lambda>s. case f (y_actor s aid) of (r, a) \<Rightarrow> (Inr r, s\<lparr>y_actor := (y_actor s)(aid := a)\<rparr>))"

definition get_actor :: "nat \<Rightarrow> (actor \<Rightarrow> 'a) \<Rightarrow> (('w, 'z) act_sys_scheme, 'a) m" where
  "get_actor aid f = gets (\<lambda>s. f (y_actor s aid))"

definition tell :: "nat \<Rightarrow> string \<Rightarrow> string \<Rightarrow> string \<Rightarrow> string \<Rightarrow> string \<Rightarrow> string \<Rightarrow> (('w, 'z) act_sys_scheme, unit) m" where
  "tell aid acl user detail outcome code reason = modifyS (\<lambda>s.
     let a = y_actor s aid;
         c = no_caller\<lparr>cl_session := Some (ac_session a), cl_acl_session := acl, cl_user := user\<rparr>;
         d = audited_detail detail (audited_for (y_ses s) c (ao_service (ac_options a))
               (audited_new (y_audit s) ''session_grant''))
     in s\<lparr>y_audit := snd ((if outcome = ''ok'' then audit_ok
                           else if outcome = ''denied'' then audit_denied code reason
                           else audit_error code reason) (d, y_audit s))\<rparr>)"

definition fail :: "nat \<Rightarrow> string \<Rightarrow> string \<Rightarrow> string \<Rightarrow> string \<Rightarrow> (('w, 'z) act_sys_scheme, unit) m" where
  "fail aid acl why code detail =
     bindE (get_actor aid (find_entry acl)) (\<lambda>found. case found of
       None \<Rightarrow> ret ()
     | Some e \<Rightarrow>
         seqE (with_actor aid (\<lambda>a. ((), fail_entry acl why a)))
           (tell aid acl (en_user e) detail (if detail = ''rejected'' then ''denied'' else ''error'') code (own_words why)))"

definition rejected :: "nat \<Rightarrow> string \<Rightarrow> (('w, 'z) act_sys_scheme, unit) m" where
  "rejected aid acl = fail aid acl ''the service no longer accepts this acl session's delegation grant''
     ''unauthenticated'' ''rejected''"

text \<open>
  Waiting for a pending grant, in slices: the list says what the other threads do during each. A wait
  that has not ended with the list is the error \<open>still waiting\<close>, which no code throws.
\<close>

definition look_once :: "('w, 's, 'x) ext_scheme \<Rightarrow> nat \<Rightarrow> string \<Rightarrow> (('w, 'z) act_sys_scheme \<Rightarrow> bool) \<Rightarrow>
    (('w, 'z) act_sys_scheme, look) m" where
  "look_once X aid acl interrupted =
     bindE (on_instance (x_now X)) (\<lambda>now. bindE (on_instance (x_steady X)) (\<lambda>steady.
     bindE (gets interrupted) (\<lambda>stop. with_actor aid (grant_look now steady stop acl))))"

fun grant_for :: "('w, 's, 'x) ext_scheme \<Rightarrow> nat \<Rightarrow> string \<Rightarrow> (('w, 'z) act_sys_scheme \<Rightarrow> bool) \<Rightarrow>
    (('w, 'z) act_sys_scheme \<Rightarrow> ('w, 'z) act_sys_scheme) list \<Rightarrow> (('w, 'z) act_sys_scheme, string + string) m" where
  "grant_for X aid acl interrupted slices =
     bindE (get_actor aid (find_entry acl)) (\<lambda>found.
     bindE (look_once X aid acl interrupted) (\<lambda>look. case look of
       Granted g \<Rightarrow> ret (Inr g)
     | NoGrant why expired \<Rightarrow>
         seqE (if expired then tell aid acl (case found of None \<Rightarrow> [] | Some e \<Rightarrow> en_user e) ''expired'' ''denied'' ''no_grant'' why
               else ret ())
           (ret (Inl why))
     | Wait \<Rightarrow> (case slices of
           [] \<Rightarrow> throw (InternalErr ''still waiting'' [])
         | other # later \<Rightarrow> seqE (modifyS other) (grant_for X aid acl interrupted later))))"

declare grant_for.simps [simp del]

definition REVOKE_TIMEOUT_SECONDS :: int where
  "REVOKE_TIMEOUT_SECONDS = 5"

definition revoke_call :: "string \<Rightarrow> call_args" where
  "revoke_call grant = \<lparr>c_method = ''DELETE'', c_path = ''/v1/delegations/'' @ encode_segment grant, c_body = [],
     c_headers = [], c_timeout = REVOKE_TIMEOUT_SECONDS\<rparr>"

definition revoke_job :: "('w, ('w, 'y) act_sys_scheme, 'x) ext_scheme \<Rightarrow> (('w, 'y) act_sys_scheme, 'h) hooks_scheme \<Rightarrow>
    nat \<Rightarrow> job \<Rightarrow> (('w, 'y) act_sys_scheme, unit) m" where
  "revoke_job X H aid j =
     bindE (on_instance (x_steady X)) (\<lambda>steady. bindE (get_actor aid (revoke_allowed steady)) (\<lambda>allowed.
       if \<not> allowed then
         tell aid (jb_acl_session j) (jb_user j) ''revoked'' ''error'' ''service_unavailable''
           ''not revoked at DETACH (the service did not answer in time); the grant ends with its ttl''
       else bindE (get_actor aid ac_session) (\<lambda>sid.
         catchE
           (bindE (call X H sid (revoke_call (jb_token j)) (\<lambda>_. False)) (\<lambda>response.
              if sr_status response div 100 = 2 \<or> sr_status response = 404
              then tell aid (jb_acl_session j) (jb_user j) ''revoked'' ''ok'' [] []
              else tell aid (jb_acl_session j) (jb_user j) ''revoked'' ''error'' (reason_code X response)
                     (''the service refused to revoke the grant (HTTP '' @ show_int (sr_status response) @ '')'')))
           (\<lambda>e. seqE (with_actor aid (\<lambda>a. ((), a\<lparr>ac_revoke_failed := ac_stopping a\<rparr>)))
              (tell aid (jb_acl_session j) (jb_user j) ''revoked'' ''error'' ''transport''
                 ''the service did not answer the revocation; the grant ends with its ttl'')))))"

definition delegation_body :: "string \<Rightarrow> int \<Rightarrow> int \<Rightarrow> string" where
  "delegation_body token expires now = ''{\"subject_token\":'' @ json_text token @
     (if expires > 0 then '',\"ttl\":'' @ show_int (max 1 (expires - now)) else []) @ ''}''"

definition delegation_call :: "string \<Rightarrow> call_args" where
  "delegation_call body = \<lparr>c_method = ''POST'', c_path = ''/v1/delegations'', c_body = body, c_headers = [], c_timeout = 30\<rparr>"

definition grant_of :: "'x lib_scheme \<Rightarrow> service_response \<Rightarrow> string \<times> int" where
  "grant_of L response =
     (let root = lb_json L (sr_body response)
      in (jstr root ''id'',
          case jget_opt root ''expires_at'' of
            Some (JStr t) \<Rightarrow> (case lb_timestamp L (cstr t) of None \<Rightarrow> 0 | Some at \<Rightarrow> at)
          | _ \<Rightarrow> 0))"

text \<open>The service's answer to the delegation is here.\<close>

definition delegation_answered :: "('w, ('w, 'y) act_sys_scheme, 'x) ext_scheme \<Rightarrow> (('w, 'y) act_sys_scheme, 'h) hooks_scheme \<Rightarrow>
    nat \<Rightarrow> job \<Rightarrow> service_response \<Rightarrow> (('w, 'y) act_sys_scheme, unit) m" where
  "delegation_answered X H aid j response =
     (let acl = jb_acl_session j in
      if sr_status response \<noteq> 201 \<and> sr_status response \<noteq> 200 then
        fail aid acl (''the service refused a delegation grant for this acl session: '' @
          describe_problem X (sr_status response) (sr_body response)) (reason_code X response) ''failed''
      else case grant_of X response of (grant, expires) \<Rightarrow>
        if grant = [] then fail aid acl ''the service answered the delegation grant without an id'' ''other'' ''failed''
        else bindE (with_actor aid (grant_arrived acl grant expires)) (\<lambda>revoke_now.
          if \<not> revoke_now then tell aid acl (jb_user j) ''obtained'' ''ok'' [] []
          else revoke_job X H aid (j\<lparr>jb_revoke := True, jb_token := grant\<rparr>)))"

definition exchange_job :: "('w, ('w, 'y) act_sys_scheme, 'x) ext_scheme \<Rightarrow> (('w, 'y) act_sys_scheme, 'h) hooks_scheme \<Rightarrow>
    nat \<Rightarrow> job \<Rightarrow> (('w, 'y) act_sys_scheme, unit) m" where
  "exchange_job X H aid j =
     bindE (get_actor aid (\<lambda>a. (ac_session a, ac_options a))) (\<lambda>(sid, options).
     bindE (get_ses sid s_info) (\<lambda>info. let acl = jb_acl_session j in
       if strip_slashes (jb_issuer j) \<noteq> strip_slashes (si_issuer info) then
         fail aid acl (''this acl session's token is from another issuer than '' @ si_host info @
           [CHR 0x27] @ ''s login - it cannot be exchanged here'') ''other'' ''failed''
       else bindE (exchange_for_service X sid (jb_token j) (ao_on_behalf_of options) (ao_scope options)
                     (ao_audience options)) (\<lambda>exchanged.
         if \<not> x_tokens_ok X exchanged then
           fail aid acl (''the identity provider refused to exchange this acl session's token: '' @ ts_error exchanged)
             ''other'' ''failed''
         else if ao_audience options \<noteq> [] \<and> (case jwt_audiences X (access_token exchanged) of (audiences, is_jwt) \<Rightarrow>
                   is_jwt \<and> ao_audience options \<notin> set audiences) then
           fail aid acl (''the identity provider exchanged this acl session's token for one not meant for '' @
             ao_audience options @ '' - not sent'') ''other'' ''failed''
         else bindE (on_instance (x_now X)) (\<lambda>now.
           bindE (call X H sid (delegation_call (delegation_body (access_token exchanged) (jb_expires_at j) now)) (\<lambda>_. False))
             (delegation_answered X H aid j)))))"

text \<open>One turn of a worker; the result is whether there was a job.\<close>

definition work :: "('w, ('w, 'y) act_sys_scheme, 'x) ext_scheme \<Rightarrow> (('w, 'y) act_sys_scheme, 'h) hooks_scheme \<Rightarrow>
    nat \<Rightarrow> (('w, 'y) act_sys_scheme, bool) m" where
  "work X H aid =
     bindE (with_actor aid pop_job) (\<lambda>job. case job of
       None \<Rightarrow> ret False
     | Some j \<Rightarrow> seqE
         (catchE (if jb_revoke j then revoke_job X H aid j else exchange_job X H aid j)
            (\<lambda>e. if jb_revoke j then ret ()
                 else fail aid (jb_acl_session j)
                   ''the delegation grant could not be obtained (the service or the IdP failed)'' ''transport'' ''failed''))
         (ret True))"

section \<open>A call as a caller\<close>

text \<open>
  \<^verbatim>\<open>Caller::Call\<close>. \<open>on_rejected\<close> is the caller's callback, which the storage gives
  (\<^verbatim>\<open>TresorSecretStorage::GrantRejected\<close>); it runs when the callback is set.
\<close>

definition caller_args :: "caller \<Rightarrow> string \<Rightarrow> string \<Rightarrow> string \<Rightarrow> (string \<times> string) list \<Rightarrow> call_args" where
  "caller_args c verb path body headers =
     (let headers = (if cl_traceparent c \<noteq> [] then AList.update ''traceparent'' (cl_traceparent c) headers else headers);
          headers = (if is_node c then headers else AList.update ''Delegation'' (cl_grant c) headers)
      in \<lparr>c_method = verb, c_path = path, c_body = body, c_headers = headers, c_timeout = 30\<rparr>)"

definition caller_call :: "('w, ('w, 'y) sys_scheme, 'x) ext_scheme \<Rightarrow> (('w, 'y) sys_scheme, 'h) hooks_scheme \<Rightarrow>
    (caller \<Rightarrow> (('w, 'y) sys_scheme, unit) m) \<Rightarrow> (('w, 'y) sys_scheme \<Rightarrow> bool) \<Rightarrow> caller \<Rightarrow> string \<Rightarrow> string \<Rightarrow> string \<Rightarrow>
    (string \<times> string) list \<Rightarrow> (('w, 'y) sys_scheme, service_response) m" where
  "caller_call X H on_rejected interrupted c verb path body headers =
     (case cl_session c of
        None \<Rightarrow> throw (InvalidInput ''the catalog is detached'' [])
      | Some sid \<Rightarrow>
          if cl_refused c \<noteq> [] then throw (Permission ''refused'' [cl_refused c])
          else bindE (call X H sid (caller_args c verb path body headers) interrupted) (\<lambda>response.
            if \<not> is_node c \<and> sr_status response = 401 then
              seqE (if cl_rejects c then on_rejected c else ret ())
                (throw (Permission ''the service no longer accepts this acl session's delegation grant'' []))
            else ret response))"

end
