(* ===== verification/Tresor_Actor_Laws.thy ===== *)
theory Tresor_Actor_Laws
  imports Tresor_Actor
begin

text \<open>
  What the actor guarantees, over every interleaving of what runs under its lock: acl opening and closing
  sessions, statements asking for grants, workers taking jobs, exchanges succeeding or failing, the
  service rejecting a grant, the DETACH. \<open>actor_run\<close> adds what is not in the class's fields: the
  sessions whose exchange a worker is busy with (\<open>r_flying\<close>), the grants obtained from the service and
  the grants whose life is over here - handed to a revocation, or dropped as expired or rejected.
\<close>

section \<open>Runs\<close>

record actor_run =
  r_actor :: actor
  r_flying :: "string set"
  r_obtained :: "string set"
  r_ended :: "string set"

definition held_grant :: "string \<Rightarrow> actor \<Rightarrow> string set" where
  "held_grant acl a = (case find_entry acl a of None \<Rightarrow> {} | Some e \<Rightarrow> if en_state e = G_READY then {en_grant e} else {})"

definition on_actor :: "actor \<Rightarrow> actor_run \<Rightarrow> actor_run" where
  "on_actor a r = r\<lparr>r_actor := a\<rparr>"

inductive actor_step :: "actor_run \<Rightarrow> actor_run \<Rightarrow> bool" where
  step_opening: "actor_step r (on_actor (opened steady acl user issuer expires token (r_actor r)) r)"
| step_closing: "actor_step r (on_actor (snd (closed acl (r_actor r))) r)"
| step_asking: "grant_look now steady interrupted acl (r_actor r) = (l, a) \<Longrightarrow>
    actor_step r ((on_actor a r)\<lparr>r_ended := r_ended r \<union>
      (case l of NoGrant why True \<Rightarrow> held_grant acl (r_actor r) | _ \<Rightarrow> {})\<rparr>)"
| step_revoking: "pop_job (r_actor r) = (Some j, a) \<Longrightarrow> jb_revoke j \<Longrightarrow>
    actor_step r ((on_actor a r)\<lparr>r_ended := insert (jb_token j) (r_ended r)\<rparr>)"
| step_exchanging: "pop_job (r_actor r) = (Some j, a) \<Longrightarrow> \<not> jb_revoke j \<Longrightarrow>
    actor_step r ((on_actor a r)\<lparr>r_flying := insert (jb_acl_session j) (r_flying r)\<rparr>)"
| step_arriving: "acl \<in> r_flying r \<Longrightarrow> grant_arrived acl grant expires (r_actor r) = (revoke_now, a) \<Longrightarrow>
    actor_step r ((on_actor a r)\<lparr>r_flying := r_flying r - {acl}, r_obtained := insert grant (r_obtained r),
      r_ended := r_ended r \<union> (if revoke_now then {grant} else {})\<rparr>)"
| step_failing: "acl \<in> r_flying r \<Longrightarrow>
    actor_step r ((on_actor (fail_entry acl why (r_actor r)) r)\<lparr>r_flying := r_flying r - {acl}\<rparr>)"
| step_rejecting: "find_entry acl (r_actor r) = Some e \<Longrightarrow> en_state e \<noteq> G_PENDING \<Longrightarrow>
    actor_step r ((on_actor (fail_entry acl why (r_actor r)) r)\<lparr>r_ended := r_ended r \<union> held_grant acl (r_actor r)\<rparr>)"
| step_stopping: "actor_step r (on_actor (stop_actor steady (r_actor r)) r)"

definition new_run :: "actor_run \<Rightarrow> bool" where
  "new_run r \<longleftrightarrow> (\<exists>sid options. r_actor r = new_actor sid options) \<and> r_flying r = {} \<and> r_obtained r = {} \<and> r_ended r = {}"

section \<open>The invariant\<close>

definition exchanges :: "job list \<Rightarrow> string list" where
  "exchanges js = map jb_acl_session (filter (\<lambda>j. \<not> jb_revoke j) js)"

definition queued_revokes :: "actor \<Rightarrow> string set" where
  "queued_revokes a = jb_token ` {j \<in> set (ac_jobs a). jb_revoke j}"

definition ready_grants :: "actor \<Rightarrow> string set" where
  "ready_grants a = (\<Union>acl. held_grant acl a)"

definition entries_ok :: "actor_run \<Rightarrow> bool" where
  "entries_ok r \<longleftrightarrow> (\<forall>acl e. find_entry acl (r_actor r) = Some e \<longrightarrow> en_closed e \<longrightarrow> en_state e = G_PENDING)"

definition pending_entry :: "string \<Rightarrow> actor \<Rightarrow> bool" where
  "pending_entry acl a \<longleftrightarrow> (case find_entry acl a of None \<Rightarrow> False | Some e \<Rightarrow> en_state e = G_PENDING)"

text \<open>A session being exchanged is pending, and is not also queued; a queued one is pending, and queued once.\<close>

definition flying_ok :: "actor_run \<Rightarrow> bool" where
  "flying_ok r \<longleftrightarrow> (\<forall>acl \<in> r_flying r. \<not> ac_stopping (r_actor r) \<longrightarrow>
     pending_entry acl (r_actor r) \<and> acl \<notin> set (exchanges (ac_jobs (r_actor r))))"

definition queue_ok :: "actor_run \<Rightarrow> bool" where
  "queue_ok r \<longleftrightarrow> distinct (exchanges (ac_jobs (r_actor r))) \<and>
     (\<forall>acl \<in> set (exchanges (ac_jobs (r_actor r))). pending_entry acl (r_actor r))"

definition stopped_ok :: "actor_run \<Rightarrow> bool" where
  "stopped_ok r \<longleftrightarrow> (ac_stopping (r_actor r) \<longrightarrow> ac_sessions (r_actor r) = [] \<and> list_all jb_revoke (ac_jobs (r_actor r)))"

definition grants_ok :: "actor_run \<Rightarrow> bool" where
  "grants_ok r \<longleftrightarrow> r_obtained r \<subseteq> ready_grants (r_actor r) \<union> queued_revokes (r_actor r) \<union> r_ended r"

definition run_ok :: "actor_run \<Rightarrow> bool" where
  "run_ok r \<longleftrightarrow> entries_ok r \<and> flying_ok r \<and> queue_ok r \<and> stopped_ok r \<and> grants_ok r"

lemmas run_ok_defs = run_ok_def entries_ok_def flying_ok_def queue_ok_def stopped_ok_def grants_ok_def

lemma find_entry_put [simp]: "find_entry acl (put_entry b e a) = (if acl = b then Some e else find_entry acl a)"
  by (simp add: find_entry_def put_entry_def update_conv')

lemma find_entry_drop [simp]: "find_entry acl (drop_entry b a) = (if acl = b then None else find_entry acl a)"
  by (simp add: find_entry_def drop_entry_def delete_conv')

lemma actor_fields [simp]:
  "ac_jobs (put_entry b e a) = ac_jobs a" "ac_stopping (put_entry b e a) = ac_stopping a"
  "ac_jobs (drop_entry b a) = ac_jobs a" "ac_stopping (drop_entry b a) = ac_stopping a"
  "find_entry acl (push_job j a) = find_entry acl a" "ac_stopping (push_job j a) = ac_stopping a"
  "ac_jobs (push_job j a) = ac_jobs a @ [j]" "ac_sessions (push_job j a) = ac_sessions a"
  "find_entry acl (a\<lparr>ac_jobs := js\<rparr>) = find_entry acl a"
  by (simp_all add: put_entry_def drop_entry_def push_job_def find_entry_def)

lemma no_sessions: "ac_sessions a = [] \<Longrightarrow> find_entry acl a = None"
  by (simp add: find_entry_def)

lemma exchanges_simps [simp]:
  "exchanges [] = []" "exchanges (j # js) = (if jb_revoke j then exchanges js else jb_acl_session j # exchanges js)"
  "exchanges (js @ ks) = exchanges js @ exchanges ks"
  by (simp_all add: exchanges_def)

lemma exchanges_set: "acl \<in> set (exchanges js) \<longleftrightarrow> list_ex (exchange_of acl) js"
  by (induction js) (auto simp: exchange_of_def)

lemma exchanges_drop: "exchanges (drop_first (exchange_of acl) js) = remove1 acl (exchanges js)"
  by (induction js) (auto simp: exchange_of_def)

lemma revokes_drop: "{j \<in> set (drop_first (exchange_of acl) js). jb_revoke j} = {j \<in> set js. jb_revoke j}"
  by (induction js) (auto simp: exchange_of_def)

text \<open>The grant a step takes from an entry goes where the invariant looks.\<close>

lemma held_put: "held_grant acl (put_entry b e a) =
    (if acl = b then (if en_state e = G_READY then {en_grant e} else {}) else held_grant acl a)"
  by (simp add: held_grant_def)

lemma held_drop: "held_grant acl (drop_entry b a) = (if acl = b then {} else held_grant acl a)"
  by (simp add: held_grant_def)

lemma ready_put_pending: "find_entry b a = Some e' \<Longrightarrow> en_state e' = G_PENDING \<Longrightarrow> en_state e = G_PENDING \<Longrightarrow>
    ready_grants (put_entry b e a) = ready_grants a"
  by (auto simp: ready_grants_def held_put) (auto simp: held_grant_def split: option.splits if_splits)

lemma ready_drop: "ready_grants a \<subseteq> ready_grants (drop_entry b a) \<union> held_grant b a"
  by (auto simp: ready_grants_def held_drop)

lemma ready_put: "ready_grants a \<subseteq> ready_grants (put_entry b e a) \<union> held_grant b a"
  by (auto simp: ready_grants_def held_put)

lemma ready_push [simp]: "ready_grants (push_job j a) = ready_grants a" "held_grant acl (push_job j a) = held_grant acl a"
  by (simp_all add: ready_grants_def held_grant_def)

lemma ready_jobs [simp]: "ready_grants (a\<lparr>ac_jobs := js\<rparr>) = ready_grants a"
  by (simp add: ready_grants_def held_grant_def)

lemma queued_simps [simp]:
  "queued_revokes (put_entry b e a) = queued_revokes a" "queued_revokes (drop_entry b a) = queued_revokes a"
  by (simp_all add: queued_revokes_def)

lemma pending_simps [simp]:
  "pending_entry acl (put_entry b e a) = (if acl = b then en_state e = G_PENDING else pending_entry acl a)"
  "pending_entry acl (drop_entry b a) = (acl \<noteq> b \<and> pending_entry acl a)"
  "pending_entry acl (push_job j a) = pending_entry acl a"
  "pending_entry acl (a\<lparr>ac_jobs := js\<rparr>) = pending_entry acl a"
  by (simp_all add: pending_entry_def)

lemma pending_found: "find_entry acl a = Some e \<Longrightarrow> pending_entry acl a = (en_state e = G_PENDING)"
  by (simp add: pending_entry_def)

lemma queued_push: "queued_revokes (push_job j a) = queued_revokes a \<union> (if jb_revoke j then {jb_token j} else {})"
  by (auto simp: queued_revokes_def)

lemma stopped_no_entry: "stopped_ok r \<Longrightarrow> find_entry acl (r_actor r) = Some e \<Longrightarrow> \<not> ac_stopping (r_actor r)"
  by (auto simp: stopped_ok_def find_entry_def)

section \<open>Every step keeps it\<close>

lemma on_actor_fields [simp]:
  "r_actor (on_actor a r) = a" "r_flying (on_actor a r) = r_flying r" "r_obtained (on_actor a r) = r_obtained r"
  "r_ended (on_actor a r) = r_ended r"
  by (simp_all add: on_actor_def)

lemma opened_ok:
  assumes "run_ok r"
  shows "run_ok (on_actor (opened steady acl user issuer expires token (r_actor r)) r)"
proof (cases "ac_stopping (r_actor r) \<or> acl = [] \<or> find_entry acl (r_actor r) \<noteq> None")
  case True
  then show ?thesis using assms by (simp add: opened_def on_actor_def)
next
  case False
  let ?e = "\<lparr>en_state = G_PENDING, en_wait_until = steady + ao_grant_wait_seconds (ac_options (r_actor r)),
    en_closed = False, en_grant = [], en_grant_expires_at = 0, en_why = [], en_user = user\<rparr>"
  have new: "acl \<notin> set (exchanges (ac_jobs (r_actor r)))" "acl \<notin> r_flying r" "held_grant acl (r_actor r) = {}"
    using assms False by (auto simp: run_ok_defs held_grant_def pending_entry_def)
  have "ready_grants (r_actor r) \<subseteq> ready_grants (put_entry acl ?e (r_actor r))"
    using ready_put [of "r_actor r" acl ?e] new(3) by auto
  then have "grants_ok (on_actor (opened steady acl user issuer expires token (r_actor r)) r)"
    using assms False by (auto simp: opened_def run_ok_def grants_ok_def queued_push)
  moreover have "entries_ok (on_actor (opened steady acl user issuer expires token (r_actor r)) r)"
    using assms False by (simp add: opened_def run_ok_def entries_ok_def)
  moreover have "flying_ok (on_actor (opened steady acl user issuer expires token (r_actor r)) r)"
    using assms False new by (auto simp: opened_def run_ok_def flying_ok_def)
  moreover have "queue_ok (on_actor (opened steady acl user issuer expires token (r_actor r)) r)"
    using assms False new by (simp add: opened_def run_ok_def queue_ok_def)
  moreover have "stopped_ok (on_actor (opened steady acl user issuer expires token (r_actor r)) r)"
    using False by (simp add: opened_def stopped_ok_def)
  ultimately show ?thesis by (simp add: run_ok_def)
qed

text \<open>An entry that goes, or changes, with the grant it held accounted for.\<close>

lemma run_ok_entry:
  assumes ok: "run_ok r" and found: "find_entry acl (r_actor r) = Some e"
    and a: "a = drop_entry acl b \<or> (\<exists>e'. a = put_entry acl e' b \<and> (en_closed e' \<longrightarrow> en_state e' = G_PENDING) \<and>
      (en_state e = G_PENDING \<longrightarrow> acl \<in> fly \<union> set (exchanges (ac_jobs b)) \<longrightarrow> en_state e' = G_PENDING))"
    and b: "\<And>x. find_entry x b = find_entry x (r_actor r)" "ac_stopping b = ac_stopping (r_actor r)"
      "distinct (exchanges (ac_jobs b))" "set (exchanges (ac_jobs b)) \<subseteq> set (exchanges (ac_jobs (r_actor r)))"
    and gone: "find_entry acl a = None \<longrightarrow> acl \<notin> fly \<union> set (exchanges (ac_jobs b))"
    and fly: "fly \<subseteq> r_flying r"
    and grants: "obtained \<subseteq> (\<Union>x \<in> - {acl}. held_grant x (r_actor r)) \<union> held_grant acl a \<union> queued_revokes b \<union> ended"
  shows "run_ok (r\<lparr>r_actor := a, r_flying := fly, r_obtained := obtained, r_ended := ended\<rparr>)"
proof -
  have running: "\<not> ac_stopping (r_actor r)" using ok found stopped_no_entry by (simp add: run_ok_def)
  have pend: "pending_entry x b = pending_entry x (r_actor r)" "held_grant x b = held_grant x (r_actor r)" for x
    using b(1) by (simp_all add: pending_entry_def held_grant_def)
  let ?r = "r\<lparr>r_actor := a, r_flying := fly, r_obtained := obtained, r_ended := ended\<rparr>"
  have 1: "entries_ok ?r" using ok a by (auto simp: run_ok_def entries_ok_def b(1) split: if_splits)
  have 2: "stopped_ok ?r" using running a b(2) by (auto simp: stopped_ok_def)
  have jobs: "ac_jobs a = ac_jobs b" using a by auto
  have was: "x \<in> fly \<Longrightarrow> pending_entry x (r_actor r) \<and> x \<notin> set (exchanges (ac_jobs b))"
    "x \<in> set (exchanges (ac_jobs b)) \<Longrightarrow> pending_entry x (r_actor r)" for x
    using ok fly running b(4) unfolding run_ok_def flying_ok_def queue_ok_def by blast+
  have still: "pending_entry x a" if "x \<in> fly \<union> set (exchanges (ac_jobs b))" for x
  proof (cases "x = acl")
    case True
    then have "en_state e = G_PENDING" using that was [of acl] pending_found [OF found] by auto
    then show ?thesis using a gone that True by auto
  next
    case False
    then show ?thesis using a that was [of x] pend(1) [of x] by auto
  qed
  have 3: "flying_ok ?r" using still was(1) by (auto simp: flying_ok_def jobs)
  have 4: "queue_ok ?r" using still b(3) by (auto simp: queue_ok_def jobs)
  have held: "(\<Union>x \<in> - {acl}. held_grant x (r_actor r)) \<union> held_grant acl a \<subseteq> ready_grants a"
    using a by (auto simp: ready_grants_def held_put held_drop pend)
  have "queued_revokes b \<subseteq> queued_revokes a" by (simp add: queued_revokes_def jobs)
  then have "obtained \<subseteq> ready_grants a \<union> queued_revokes a \<union> ended"
    by (intro subset_trans [OF grants] Un_mono held order.refl)
  then have "grants_ok ?r" by (simp add: grants_ok_def)
  with 1 2 3 4 show ?thesis by (simp add: run_ok_def)
qed

lemma ready_split: "ready_grants a = (\<Union>x \<in> - {acl}. held_grant x a) \<union> held_grant acl a"
  by (auto simp: ready_grants_def)

lemma run_ok_grants: "run_ok r \<Longrightarrow>
    r_obtained r \<subseteq> (\<Union>x \<in> - {acl}. held_grant x (r_actor r)) \<union> held_grant acl (r_actor r) \<union> queued_revokes (r_actor r) \<union> r_ended r"
  unfolding run_ok_def grants_ok_def ready_split [of "r_actor r" acl] by blast

lemma held_found: "find_entry acl a = Some e \<Longrightarrow> held_grant acl a = (if en_state e = G_READY then {en_grant e} else {})"
  by (simp add: held_grant_def)

lemma run_ok_pending:
  "run_ok r \<Longrightarrow> find_entry acl (r_actor r) = Some e \<Longrightarrow> en_state e \<noteq> G_PENDING \<Longrightarrow>
     acl \<notin> r_flying r \<union> set (exchanges (ac_jobs (r_actor r)))"
  using stopped_no_entry [of r acl e] pending_found [of acl "r_actor r" e]
  by (auto simp: run_ok_def flying_ok_def queue_ok_def)

lemma on_actor_full: "on_actor a r = r\<lparr>r_actor := a, r_flying := r_flying r, r_obtained := r_obtained r, r_ended := r_ended r\<rparr>"
  by (simp add: on_actor_def)

lemma run_ok_distinct: "run_ok r \<Longrightarrow> distinct (exchanges (ac_jobs (r_actor r)))"
  by (simp add: run_ok_def queue_ok_def)

lemma closed_ok:
  assumes ok: "run_ok r"
  shows "run_ok (on_actor (snd (closed acl (r_actor r))) r)"
proof (cases "find_entry acl (r_actor r)")
  case None
  then show ?thesis using ok by (simp add: closed_def on_actor_def)
next
  case (Some e)
  let ?a = "r_actor r"
  note held = held_found [OF Some]
  have running: "\<not> ac_stopping ?a" using ok Some stopped_no_entry by (simp add: run_ok_def)
  consider (queued) "en_state e = G_PENDING" "acl \<in> set (exchanges (ac_jobs ?a))"
    | (flying) "en_state e = G_PENDING" "acl \<notin> set (exchanges (ac_jobs ?a))"
    | (ready) "en_state e = G_READY" | (failed) "en_state e = G_FAILED"
    by (cases "en_state e") auto
  then show ?thesis
  proof cases
    case queued
    let ?b = "?a\<lparr>ac_jobs := drop_first (exchange_of acl) (ac_jobs ?a)\<rparr>"
    have nofly: "acl \<notin> r_flying r" using ok queued running by (auto simp: run_ok_def flying_ok_def)
    have revokes: "queued_revokes ?b = queued_revokes ?a" by (simp add: queued_revokes_def revokes_drop)
    have "run_ok (r\<lparr>r_actor := drop_entry acl ?b, r_flying := r_flying r, r_obtained := r_obtained r, r_ended := r_ended r\<rparr>)"
      by (rule run_ok_entry [OF ok Some, where b = "?b"])
        (use run_ok_distinct [OF ok] run_ok_grants [OF ok, of acl] queued nofly revokes held set_remove1_subset [of acl]
          in \<open>auto simp: exchanges_drop held_drop\<close>)
    then show ?thesis
      using queued Some by (simp add: closed_def on_actor_full exchanges_set)
  next
    case flying
    have "run_ok (r\<lparr>r_actor := put_entry acl (e\<lparr>en_closed := True\<rparr>) ?a, r_flying := r_flying r,
        r_obtained := r_obtained r, r_ended := r_ended r\<rparr>)"
      by (rule run_ok_entry [OF ok Some, where b = "?a"])
        (use run_ok_distinct [OF ok] run_ok_grants [OF ok, of acl] flying held in \<open>auto simp: held_put\<close>)
    then show ?thesis
      using flying Some by (simp add: closed_def on_actor_full exchanges_set)
  next
    case ready
    have "run_ok (r\<lparr>r_actor := drop_entry acl (push_job (revoke_of acl e) ?a), r_flying := r_flying r,
        r_obtained := r_obtained r, r_ended := r_ended r\<rparr>)"
      by (rule run_ok_entry [OF ok Some, where b = "push_job (revoke_of acl e) ?a"])
        (use run_ok_distinct [OF ok] run_ok_grants [OF ok, of acl] run_ok_pending [OF ok Some] ready held
          in \<open>auto simp: held_drop revoke_of_def queued_push\<close>)
    then show ?thesis
      using ready Some running by (simp add: closed_def on_actor_full)
  next
    case failed
    have "run_ok (r\<lparr>r_actor := drop_entry acl ?a, r_flying := r_flying r,
        r_obtained := r_obtained r, r_ended := r_ended r\<rparr>)"
      by (rule run_ok_entry [OF ok Some, where b = "?a"])
        (use run_ok_distinct [OF ok] run_ok_grants [OF ok, of acl] run_ok_pending [OF ok Some] failed held
          in \<open>auto simp: held_drop\<close>)
    then show ?thesis
      using failed Some by (simp add: closed_def on_actor_full)
  qed
qed

lemma asked_ok:
  assumes ok: "run_ok r" and l: "grant_look now steady interrupted acl (r_actor r) = (l, a)"
  shows "run_ok ((on_actor a r)\<lparr>r_ended := r_ended r \<union>
      (case l of NoGrant why True \<Rightarrow> held_grant acl (r_actor r) | _ \<Rightarrow> {})\<rparr>)"
proof (cases "a = r_actor r")
  case True
  have "r_ended r \<subseteq> r_ended r \<union> E" for E by auto
  then show ?thesis
    using ok True by (auto simp: run_ok_defs on_actor_def)
next
  case False
  let ?a = "r_actor r" and ?why = "''this acl session's delegation grant has expired''"
  obtain e where e: "find_entry acl ?a = Some e" "en_state e = G_READY" "l = NoGrant ?why True"
    "a = put_entry acl (e\<lparr>en_state := G_FAILED, en_why := ?why, en_grant := []\<rparr>) ?a" "\<not> en_closed e"
    using l False by (auto simp: grant_look_def split: option.splits if_splits)
  have "run_ok (r\<lparr>r_actor := a, r_flying := r_flying r, r_obtained := r_obtained r,
      r_ended := r_ended r \<union> held_grant acl ?a\<rparr>)"
    by (rule run_ok_entry [OF ok e(1), where b = ?a])
      (use run_ok_distinct [OF ok] run_ok_grants [OF ok, of acl] e run_ok_pending [OF ok e(1)] held_found [OF e(1)]
        in \<open>auto simp: held_put\<close>)
  then show ?thesis using e(3) by (simp add: on_actor_def)
qed

lemma failed_ok:
  assumes ok: "run_ok r" and fly: "fly \<subseteq> r_flying r" "acl \<notin> fly" "acl \<notin> set (exchanges (ac_jobs (r_actor r)))"
    and ended: "r_ended r \<union> held_grant acl (r_actor r) \<subseteq> ended"
  shows "run_ok ((on_actor (fail_entry acl why (r_actor r)) r)\<lparr>r_flying := fly, r_ended := ended\<rparr>)"
proof (cases "find_entry acl (r_actor r)")
  case None
  then show ?thesis
    using ok fly ended by (auto simp: fail_entry_def on_actor_def run_ok_defs)
next
  case (Some e)
  let ?a = "r_actor r"
  have "run_ok (r\<lparr>r_actor := fail_entry acl why ?a, r_flying := fly, r_obtained := r_obtained r, r_ended := ended\<rparr>)"
    by (rule run_ok_entry [OF ok Some, where b = ?a])
      (use run_ok_distinct [OF ok] run_ok_grants [OF ok, of acl] fly ended Some
        in \<open>auto simp: fail_entry_def held_put held_drop\<close>)
  then show ?thesis by (simp add: on_actor_def)
qed

lemma arrived_ok:
  assumes ok: "run_ok r" and fly: "acl \<in> r_flying r"
    and g: "grant_arrived acl grant expires (r_actor r) = (revoke_now, a)"
  shows "run_ok ((on_actor a r)\<lparr>r_flying := r_flying r - {acl}, r_obtained := insert grant (r_obtained r),
      r_ended := r_ended r \<union> (if revoke_now then {grant} else {})\<rparr>)"
proof (cases "find_entry acl (r_actor r)")
  case None
  then show ?thesis
    using ok g by (auto simp: grant_arrived_def on_actor_def run_ok_defs)
next
  case (Some e)
  let ?a = "r_actor r"
  have running: "\<not> ac_stopping ?a" using ok Some stopped_no_entry by (simp add: run_ok_def)
  have pending: "en_state e = G_PENDING" "acl \<notin> set (exchanges (ac_jobs ?a))"
    using ok fly running pending_found [OF Some] by (auto simp: run_ok_def flying_ok_def)
  have "run_ok (r\<lparr>r_actor := a, r_flying := r_flying r - {acl}, r_obtained := insert grant (r_obtained r),
      r_ended := r_ended r \<union> (if revoke_now then {grant} else {})\<rparr>)"
    by (rule run_ok_entry [OF ok Some, where b = ?a])
      (use run_ok_distinct [OF ok] run_ok_grants [OF ok, of acl] pending g Some held_found [OF Some] running
        in \<open>auto simp: grant_arrived_def held_put held_drop split: if_splits\<close>)
  then show ?thesis by (simp add: on_actor_def)
qed

lemma popped_ok:
  assumes ok: "run_ok r" and p: "pop_job (r_actor r) = (Some j, a)"
  shows "jb_revoke j \<Longrightarrow> run_ok ((on_actor a r)\<lparr>r_ended := insert (jb_token j) (r_ended r)\<rparr>)"
    and "\<not> jb_revoke j \<Longrightarrow> run_ok ((on_actor a r)\<lparr>r_flying := insert (jb_acl_session j) (r_flying r)\<rparr>)"
proof -
  obtain js where js: "ac_jobs (r_actor r) = j # js" "a = (r_actor r)\<lparr>ac_jobs := js\<rparr>"
    using p by (auto simp: pop_job_def split: list.splits)
  show "jb_revoke j \<Longrightarrow> run_ok ((on_actor a r)\<lparr>r_ended := insert (jb_token j) (r_ended r)\<rparr>)"
    using ok js by (auto simp: run_ok_defs queued_revokes_def)
  show "\<not> jb_revoke j \<Longrightarrow> run_ok ((on_actor a r)\<lparr>r_flying := insert (jb_acl_session j) (r_flying r)\<rparr>)"
    using ok js by (auto simp: run_ok_defs queued_revokes_def)
qed

lemma stopped_ok_step:
  assumes ok: "run_ok r"
  shows "run_ok (on_actor (stop_actor steady (r_actor r)) r)"
proof (cases "ac_stopping (r_actor r)")
  case True
  then show ?thesis using ok by (simp add: stop_actor_def on_actor_def)
next
  case False
  let ?a = "r_actor r" and ?b = "stop_actor steady (r_actor r)"
  have "ready_grants ?a \<subseteq> queued_revokes ?b"
  proof
    fix g assume "g \<in> ready_grants ?a"
    then obtain acl e where "map_of (ac_sessions ?a) acl = Some e" "en_state e = G_READY" "g = en_grant e"
      by (auto simp: ready_grants_def held_grant_def find_entry_def split: option.splits if_splits)
    then have "(acl, e) \<in> set (filter (\<lambda>(acl, e). en_state e = G_READY) (ac_sessions ?a))"
      by (auto dest: map_of_SomeD)
    then have "revoke_of acl e \<in> {j \<in> set (ac_jobs ?b). jb_revoke j}"
      using False by (force simp: stop_actor_def revoke_of_def)
    then show "g \<in> queued_revokes ?b"
      using \<open>g = en_grant e\<close> by (force simp: queued_revokes_def revoke_of_def)
  qed
  moreover have "queued_revokes ?a \<subseteq> queued_revokes ?b"
    using False by (auto simp: stop_actor_def queued_revokes_def)
  moreover have "exchanges (ac_jobs ?b) = []"
    using False by (auto simp: stop_actor_def exchanges_def filter_empty_conv revoke_of_def)
  moreover have "ac_sessions ?b = []" "ac_stopping ?b" "list_all jb_revoke (ac_jobs ?b)"
    using False by (auto simp: stop_actor_def list_all_iff revoke_of_def)
  ultimately show ?thesis
    using ok by (auto simp: run_ok_defs find_entry_def)
qed

lemma run_ok_step: "actor_step r r' \<Longrightarrow> run_ok r \<Longrightarrow> run_ok r'"
proof (induction rule: actor_step.induct)
  case (step_failing acl r why)
  have "acl \<notin> set (exchanges (ac_jobs (r_actor r))) \<and> held_grant acl (r_actor r) = {} \<or> find_entry acl (r_actor r) = None"
    using step_failing stopped_no_entry [of r acl]
    by (cases "find_entry acl (r_actor r)")
      (auto simp: run_ok_def flying_ok_def held_grant_def pending_entry_def split: if_splits)
  then consider "acl \<notin> set (exchanges (ac_jobs (r_actor r)))" "held_grant acl (r_actor r) = {}"
    | "find_entry acl (r_actor r) = None" by (elim disjE conjE)
  then show ?case
  proof cases
    case 1
    then show ?thesis
      using failed_ok [OF step_failing(2), of "r_flying r - {acl}" acl "r_ended r" why] by (simp add: on_actor_def)
  next
    case 2
    then show ?thesis using step_failing(2) by (auto simp: fail_entry_def on_actor_def run_ok_defs)
  qed
next
  case (step_rejecting acl r e why)
  then show ?case
    using failed_ok [OF step_rejecting(3), of "r_flying r" acl "r_ended r \<union> held_grant acl (r_actor r)" why]
      run_ok_pending [OF step_rejecting(3,1,2)] by (simp add: on_actor_def)
qed (blast intro: opened_ok closed_ok asked_ok arrived_ok popped_ok stopped_ok_step)+

interpretation acting: invariant_system new_run actor_step run_ok
proof unfold_locales
  show "run_ok r" if "new_run r" for r
    using that by (auto simp: new_run_def run_ok_defs new_actor_def find_entry_def)
qed (rule run_ok_step)

section \<open>Properties\<close>

text \<open>
  C20: no delegation grant is forgotten. After any sequence of acl opening and closing sessions, statements
  asking, workers exchanging, grants arriving early or late, failing, being rejected, and the DETACH: every
  grant the service ever gave this node is either held by a session that is still open, or queued
  for its revocation, or was handed to a revocation or dropped as expired or rejected. Once the actor
  has stopped and its queue is empty, none is left over.
\<close>

lemma run_ok_held: "run_ok r \<Longrightarrow> g \<in> ready_grants (r_actor r) \<Longrightarrow>
    \<exists>acl e. find_entry acl (r_actor r) = Some e \<and> en_state e = G_READY \<and> \<not> en_closed e \<and> en_grant e = g"
  by (fastforce simp: ready_grants_def held_grant_def run_ok_def entries_ok_def split: option.splits if_splits)


definition run0 :: actor_run where
  "run0 = \<lparr>r_actor = new_actor 0 \<lparr>ao_on_behalf_of = False, ao_scope = ''s'', ao_audience = [], ao_grant_wait_seconds = 10,
     ao_service = ''corp''\<rparr>, r_flying = {}, r_obtained = {}, r_ended = {}\<rparr>"

definition run1 :: actor_run where
  "run1 = on_actor (opened 0 ''s1'' ''ann'' ''https://idp'' 0 ''tok'' (r_actor run0)) run0"

definition run2 :: actor_run where
  "run2 = (on_actor (snd (pop_job (r_actor run1))) run1)\<lparr>r_flying := insert ''s1'' (r_flying run1)\<rparr>"

definition run3 :: actor_run where
  "run3 = (on_actor (snd (grant_arrived ''s1'' ''g1'' 0 (r_actor run2))) run2)\<lparr>r_flying := r_flying run2 - {''s1''},
     r_obtained := insert ''g1'' (r_obtained run2), r_ended := r_ended run2 \<union> {}\<rparr>"

definition run4 :: actor_run where
  "run4 = on_actor (stop_actor 5 (r_actor run3)) run3"

lemmas run_defs = run0_def run1_def run2_def run3_def run4_def new_actor_def on_actor_def opened_def find_entry_def
  push_job_def put_entry_def pop_job_def grant_arrived_def stop_actor_def revoke_of_def


text \<open>
  C21: where users' tokens may go is the node's decision. Acting options exist only for a login that is a
  client at the identity provider; the audience they pin is the one the operator named, or the service's
  own - and that only when the node's own token, issued by the identity provider, is meant for it; an
  On-Behalf-Of exchange pins none and has a scope; and there is always an audience or a scope.
\<close>

theorem acting_audience_pinned:
  "case acting_options X sid obo scope given grant_wait service s of
     (Inl e, t) \<Rightarrow> True
   | (Inr options, t) \<Rightarrow>
       (s_flow (y_ses s sid) = F_CLIENT_CREDENTIALS \<or> s_flow (y_ses s sid) = F_FEDERATED) \<and>
       (ao_audience options = [] \<or> ao_audience options = given \<or>
        ao_audience options = si_audience (s_info (y_ses s sid)) \<and>
          (\<exists>own is_jwt. fst (own_audiences X sid s) = Inr (own, is_jwt) \<and> ao_audience options \<in> set own)) \<and>
       (if obo then ao_audience options = [] \<and> scope \<noteq> [] else ao_audience options = [] \<longrightarrow> scope \<noteq> [])"
  by (auto simp: acting_options_def get_ses_def gets_def bindE_def seqE_def guardE_def throw_def ret_def Let_def
      split: prod.splits sum.splits if_splits)

definition node_session :: session where
  "node_session = sample_session\<lparr>s_flow := F_FEDERATED\<rparr>"

theorem acting_audience_pinned_witness:
  "case acting_options (answering 200 []) 0 True ''api://vault/.default'' [] 10 ''corp'' (sample_sys\<lparr>y_ses := (\<lambda>_. node_session)\<rparr>) of
     (Inl e, t) \<Rightarrow> False | (Inr options, t) \<Rightarrow> ao_audience options = []"
proof -
  let ?s = "sample_sys\<lparr>y_ses := (\<lambda>_. node_session)\<rparr>"
  have "\<exists>options. acting_options (answering 200 []) 0 True ''api://vault/.default'' [] 10 ''corp'' ?s = (Inr options, ?s)"
    by (simp add: acting_options_def monad_defs get_ses_def node_session_def sample_session_def new_session_def
        sample_info_def)
  then show ?thesis
    using acting_audience_pinned [where X = "answering 200 []" and sid = 0 and obo = True and
        scope = "''api://vault/.default''" and given = "[]" and grant_wait = 10 and service = "''corp''" and s = ?s]
    by auto
qed



end
