(* ===== verification/Tresor_Values.thy ===== *)
theory Tresor_Values
  imports Tresor_Actor_Laws
begin

text \<open>
  DuckDB values on their way to and from the service (\<^verbatim>\<open>ValueJson\<close>, \<^verbatim>\<open>FromJson\<close>, \<^verbatim>\<open>ProtocolValue\<close>,
  \<^verbatim>\<open>SecretBody\<close> of \<^verbatim>\<open>tresor_storage.cpp\<close>). A DuckDB value is a tree: nested types by their
  constructor, a scalar by its type and its text (what DuckDB's \<^verbatim>\<open>ToString\<close> prints and its cast reads
  back); parsing a type's name and casting a text to a scalar type are DuckDB's, hence parameters.
\<close>

section \<open>Types and values\<close>

datatype ltype =
    T_BOOLEAN
  | T_EXACT string               \<comment> \<open>TINYINT to UHUGEINT, DECIMAL\<close>
  | T_FLOAT string               \<comment> \<open>FLOAT, DOUBLE\<close>
  | T_VARCHAR
  | T_OTHER string
  | T_LIST ltype
  | T_ARRAY ltype nat
  | T_STRUCT "(string \<times> ltype) list"
  | T_MAP ltype ltype

datatype dvalue =
    V_NULL ltype
  | V_BOOL bool
  | V_TEXT ltype string
  | V_LIST ltype "dvalue list"
  | V_ARRAY ltype nat "dvalue list"
  | V_STRUCT "(string \<times> ltype) list" "dvalue list"
  | V_MAP ltype ltype "(dvalue \<times> dvalue) list"

fun type_of_value :: "dvalue \<Rightarrow> ltype" where
  "type_of_value (V_NULL t) = t"
| "type_of_value (V_BOOL b) = T_BOOLEAN"
| "type_of_value (V_TEXT t s) = t"
| "type_of_value (V_LIST t vs) = T_LIST t"
| "type_of_value (V_ARRAY t n vs) = T_ARRAY t n"
| "type_of_value (V_STRUCT fs vs) = T_STRUCT fs"
| "type_of_value (V_MAP k t es) = T_MAP k t"

fun is_null :: "dvalue \<Rightarrow> bool" where
  "is_null (V_NULL t) = True"
| "is_null _ = False"

text \<open>\<^verbatim>\<open>ToString\<close> of a map's key: a scalar's text.\<close>

fun value_text :: "dvalue \<Rightarrow> string" where
  "value_text (V_TEXT t s) = s"
| "value_text (V_BOOL b) = (if b then ''true'' else ''false'')"
| "value_text _ = ''NULL''"

section \<open>Writing\<close>

definition float_chars :: string where
  "float_chars = ''0123456789.-+eE''"

text \<open>The pieces joined by commas.\<close>

fun joined :: "string list \<Rightarrow> string" where
  "joined [] = []"
| "joined [x] = x"
| "joined (x # xs) = x @ '','' @ joined xs"

fun value_json :: "dvalue \<Rightarrow> string" where
  "value_json (V_NULL t) = ''null''"
| "value_json (V_BOOL b) = (if b then ''true'' else ''false'')"
| "value_json (V_TEXT t s) = (case t of
       T_EXACT _ \<Rightarrow> s
     | T_FLOAT _ \<Rightarrow> if list_all (\<lambda>c. c \<in> set float_chars) s then s else json_text s
     | _ \<Rightarrow> json_text s)"
| "value_json (V_LIST t vs) = ''['' @ joined (map value_json vs) @ '']''"
| "value_json (V_ARRAY t n vs) = ''['' @ joined (map value_json vs) @ '']''"
| "value_json (V_STRUCT fs vs) =
     ''{'' @ joined (map (\<lambda>(f, j). json_text f @ '':'' @ j) (zip (map fst fs) (map value_json vs))) @ ''}''"
| "value_json (V_MAP k t es) =
     ''{'' @ joined (map (\<lambda>(key, v). json_text (value_text key) @ '':'' @ value_json v) es) @ ''}''"

section \<open>Reading\<close>

text \<open>
  \<open>cast t s\<close>: DuckDB's cast of the text \<open>s\<close> to the scalar type \<open>t\<close>, or its failure. A struct's fields are
  matched without case; an unknown field is an error, a missing one is NULL, of a repeated one the last counts.
\<close>

definition needs :: "string \<Rightarrow> error" where
  "needs what = InvalidInput what []"

fun find_field :: "'z lib_scheme \<Rightarrow> (string \<times> ltype) list \<Rightarrow> string \<Rightarrow> nat option" where
  "find_field L [] key = None"
| "find_field L ((name, t) # fs) key =
     (if lb_ci_equals L name key then Some 0 else map_option Suc (find_field L fs key))"

definition casted :: "dvalue option \<Rightarrow> error + dvalue" where
  "casted v = (case v of None \<Rightarrow> Inl (needs ''the cast failed'') | Some v \<Rightarrow> Inr v)"

fun from_scalar :: "(ltype \<Rightarrow> string \<Rightarrow> dvalue option) \<Rightarrow> ltype \<Rightarrow> json \<Rightarrow> error + dvalue" where
  "from_scalar cast t (JStr s) = casted (cast t (cstr s))"
| "from_scalar cast t (JRaw s) = casted (cast t s)"
| "from_scalar cast t (JBool b) = casted (cast t (if b then ''true'' else ''false''))"
| "from_scalar cast t _ = Inl (needs ''needs a JSON scalar'')"

fun from_json :: "'z lib_scheme \<Rightarrow> (ltype \<Rightarrow> string \<Rightarrow> dvalue option) \<Rightarrow> ltype \<Rightarrow> json \<Rightarrow> error + dvalue"
and from_items :: "'z lib_scheme \<Rightarrow> (ltype \<Rightarrow> string \<Rightarrow> dvalue option) \<Rightarrow> ltype \<Rightarrow> json list \<Rightarrow> error + dvalue list"
and from_fields :: "'z lib_scheme \<Rightarrow> (ltype \<Rightarrow> string \<Rightarrow> dvalue option) \<Rightarrow> (string \<times> ltype) list \<Rightarrow> (string \<times> json) list \<Rightarrow>
      dvalue list \<Rightarrow> error + dvalue list"
and from_entries :: "'z lib_scheme \<Rightarrow> (ltype \<Rightarrow> string \<Rightarrow> dvalue option) \<Rightarrow> ltype \<Rightarrow> ltype \<Rightarrow> (string \<times> json) list \<Rightarrow>
      error + (dvalue \<times> dvalue) list"
where
  "from_json L cast t j = (case j of
       JNull \<Rightarrow> Inr (V_NULL t)
     | _ \<Rightarrow> (case t of
         T_LIST c \<Rightarrow> (case j of
             JArr js \<Rightarrow> (case from_items L cast c js of Inl e \<Rightarrow> Inl e | Inr vs \<Rightarrow> Inr (V_LIST c vs))
           | _ \<Rightarrow> Inl (needs ''needs a JSON array''))
       | T_ARRAY c n \<Rightarrow> (case j of
             JArr js \<Rightarrow> (case from_items L cast c js of Inl e \<Rightarrow> Inl e
               | Inr vs \<Rightarrow> if length vs \<noteq> n then Inl (InvalidInput ''needs elements'' [dec n]) else Inr (V_ARRAY c n vs))
           | _ \<Rightarrow> Inl (needs ''needs a JSON array''))
       | T_STRUCT fs \<Rightarrow> (case j of
             JObj kvs \<Rightarrow> (case from_fields L cast fs kvs (map (\<lambda>f. V_NULL (snd f)) fs) of
                 Inl e \<Rightarrow> Inl e | Inr vs \<Rightarrow> Inr (V_STRUCT fs vs))
           | _ \<Rightarrow> Inl (needs ''needs a JSON object''))
       | T_MAP k v \<Rightarrow> (case j of
             JObj kvs \<Rightarrow> (case from_entries L cast k v kvs of Inl e \<Rightarrow> Inl e | Inr es \<Rightarrow> Inr (V_MAP k v es))
           | _ \<Rightarrow> Inl (needs ''needs a JSON object''))
       | _ \<Rightarrow> from_scalar cast t j))"
| "from_items L cast t [] = Inr []"
| "from_items L cast t (j # js) = (case from_json L cast t j of Inl e \<Rightarrow> Inl e
     | Inr v \<Rightarrow> (case from_items L cast t js of Inl e \<Rightarrow> Inl e | Inr vs \<Rightarrow> Inr (v # vs)))"
| "from_fields L cast fs [] vs = Inr vs"
| "from_fields L cast fs ((key, j) # kvs) vs = (case find_field L fs (cstr key) of
       None \<Rightarrow> Inl (needs ''has a field its STRUCT does not'')
     | Some i \<Rightarrow> (case from_json L cast (snd (fs ! i)) j of Inl e \<Rightarrow> Inl e
         | Inr v \<Rightarrow> from_fields L cast fs kvs (vs[i := v])))"
| "from_entries L cast k t [] = Inr []"
| "from_entries L cast k t ((key, j) # kvs) = (case cast k (cstr key) of
       None \<Rightarrow> Inl (needs ''a map key's cast failed'')
     | Some key' \<Rightarrow> (case from_json L cast t j of Inl e \<Rightarrow> Inl e
         | Inr v \<Rightarrow> (case from_entries L cast k t kvs of Inl e \<Rightarrow> Inl e | Inr es \<Rightarrow> Inr ((key', v) # es))))"

declare from_json.simps [simp del]

definition protocol_value :: "'z lib_scheme \<Rightarrow> (string \<Rightarrow> ltype option) \<Rightarrow> (ltype \<Rightarrow> string \<Rightarrow> dvalue option) \<Rightarrow>
    string \<Rightarrow> string \<Rightarrow> string \<Rightarrow> json option \<Rightarrow> error + dvalue" where
  "protocol_value L parse_type cast secret key kind j =
     (let parsed = (if kind = [] then Some T_VARCHAR else parse_type kind);
          read = (case parsed of None \<Rightarrow> Inl (needs ''a composite type needs a connection to parse'')
                  | Some t \<Rightarrow> from_json L cast t (case j of None \<Rightarrow> JNull | Some j \<Rightarrow> j))
      in case read of
           Inr v \<Rightarrow> Inr v
         | Inl e \<Rightarrow> Inl (InvalidInput ''the parameter is not a valid value of its type''
                         [key, secret, if kind = [] then ''VARCHAR'' else kind]))"

section \<open>A value survives the way to the service and back\<close>

text \<open>The JSON a value is written as, and its text.\<close>

fun value_tree :: "dvalue \<Rightarrow> json" where
  "value_tree (V_NULL t) = JNull"
| "value_tree (V_BOOL b) = JBool b"
| "value_tree (V_TEXT t s) = (case t of
       T_EXACT _ \<Rightarrow> JRaw s
     | T_FLOAT _ \<Rightarrow> if list_all (\<lambda>c. c \<in> set float_chars) s then JRaw s else JStr s
     | _ \<Rightarrow> JStr s)"
| "value_tree (V_LIST t vs) = JArr (map value_tree vs)"
| "value_tree (V_ARRAY t n vs) = JArr (map value_tree vs)"
| "value_tree (V_STRUCT fs vs) = JObj (zip (map fst fs) (map value_tree vs))"
| "value_tree (V_MAP k t es) = JObj (map (\<lambda>(key, v). (value_text key, value_tree v)) es)"

fun json_print :: "json \<Rightarrow> string" where
  "json_print JNull = ''null''"
| "json_print (JBool b) = (if b then ''true'' else ''false'')"
| "json_print (JNum n) = show_int n"
| "json_print (JRaw s) = s"
| "json_print (JStr s) = json_text s"
| "json_print (JArr js) = ''['' @ joined (map json_print js) @ '']''"
| "json_print (JObj kvs) = ''{'' @ joined (map (\<lambda>(k, j). json_text k @ '':'' @ json_print j) kvs) @ ''}''"

lemma value_json_print: "value_json v = json_print (value_tree v)"
proof (induction v)
  case (V_STRUCT fs vs)
  have "map (\<lambda>(f, j). json_text f @ '':'' @ j) (zip (map fst fs) (map value_json vs)) =
      map (\<lambda>(k, j). json_text k @ '':'' @ json_print j) (zip (map fst fs) (map value_tree vs))"
    using V_STRUCT by (auto simp: zip_map1 zip_map2 dest: set_zip_rightD)
  then show ?case by simp
next
  case (V_MAP k t es)
  have eq: "map (\<lambda>(key, v). json_text (value_text key) @ '':'' @ value_json v) es =
      map ((\<lambda>(k, j). json_text k @ '':'' @ json_print j) \<circ> (\<lambda>(key, v). (value_text key, value_tree v))) es"
    using V_MAP by (intro map_cong refl) (auto simp: prod_set_simps)
  show ?case by (simp only: value_json.simps value_tree.simps json_print.simps map_map eq)
qed (auto cong: map_cong simp: o_def split: ltype.splits)

fun scalar_type :: "ltype \<Rightarrow> bool" where
  "scalar_type (T_LIST t) = False"
| "scalar_type (T_ARRAY t n) = False"
| "scalar_type (T_STRUCT fs) = False"
| "scalar_type (T_MAP k t) = False"
| "scalar_type _ = True"

text \<open>
  A value DuckDB can hold: a scalar's text casts back to it and has no zero byte, the parts of a nested
  value have its parts' types, a struct's fields have different names.
\<close>

fun value_ok :: "'z lib_scheme \<Rightarrow> (ltype \<Rightarrow> string \<Rightarrow> dvalue option) \<Rightarrow> dvalue \<Rightarrow> bool" where
  "value_ok L cast (V_NULL t) = True"
| "value_ok L cast (V_BOOL b) = (cast T_BOOLEAN (if b then ''true'' else ''false'') = Some (V_BOOL b))"
| "value_ok L cast (V_TEXT t s) = (scalar_type t \<and> t \<noteq> T_BOOLEAN \<and> cstr s = s \<and> cast t s = Some (V_TEXT t s))"
| "value_ok L cast (V_LIST t vs) = list_all (\<lambda>v. type_of_value v = t \<and> value_ok L cast v) vs"
| "value_ok L cast (V_ARRAY t n vs) = (length vs = n \<and> list_all (\<lambda>v. type_of_value v = t \<and> value_ok L cast v) vs)"
| "value_ok L cast (V_STRUCT fs vs) =
     (map type_of_value vs = map snd fs \<and> list_all (\<lambda>v. value_ok L cast v) vs \<and>
      map (\<lambda>f. find_field L fs (cstr (fst f))) fs = map Some [0..<length fs])"
| "value_ok L cast (V_MAP k t es) =
     list_all (\<lambda>(key, v). cast k (cstr (value_text key)) = Some key \<and> type_of_value v = t \<and> value_ok L cast v) es"

lemma from_items_ok:
  "list_all (\<lambda>v. type_of_value v = t \<and> from_json L cast (type_of_value v) (value_tree v) = Inr v) vs \<Longrightarrow>
     from_items L cast t (map value_tree vs) = Inr vs"
  by (induction vs) auto

lemma from_entries_ok:
  "list_all (\<lambda>(key, v). cast k (cstr (value_text key)) = Some key \<and> type_of_value v = t \<and>
       from_json L cast (type_of_value v) (value_tree v) = Inr v) es \<Longrightarrow>
     from_entries L cast k t (map (\<lambda>(key, v). (value_text key, value_tree v)) es) = Inr es"
  by (induction es) auto

lemma from_fields_ok:
  assumes "map type_of_value vs = map snd fs" and "list_all (\<lambda>v. from_json L cast (type_of_value v) (value_tree v) = Inr v) vs"
    and "map (\<lambda>f. find_field L fs (cstr (fst f))) fs = map Some [0..<length fs]" and "length ws = length fs" and "n \<le> length fs"
    and "take n ws = take n vs"
  shows "from_fields L cast fs (zip (drop n (map fst fs)) (drop n (map value_tree vs))) ws = Inr vs"
  using assms(4-)
proof (induction "length fs - n" arbitrary: n ws)
  case 0
  have "length vs = length fs" using assms(1) by (metis length_map)
  then show ?case using 0 by simp
next
  case (Suc k)
  have len: "length vs = length fs" using assms(1) by (metis length_map)
  have n: "n < length fs" using Suc by simp
  have i: "find_field L fs (cstr (fst (fs ! n))) = Some n"
    using arg_cong [OF assms(3), of "\<lambda>xs. xs ! n"] n by simp
  have v: "from_json L cast (snd (fs ! n)) (value_tree (vs ! n)) = Inr (vs ! n)"
    using assms(2) arg_cong [OF assms(1), of "\<lambda>xs. xs ! n"] n len by (auto simp: list_all_length dest: spec)
  have "take (Suc n) (ws[n := vs ! n]) = take (Suc n) vs"
    using Suc.prems n len by (simp add: take_Suc_conv_app_nth)
  then have "from_fields L cast fs (zip (drop (Suc n) (map fst fs)) (drop (Suc n) (map value_tree vs))) (ws[n := vs ! n]) = Inr vs"
    using Suc n by (intro Suc.hyps(1)) auto
  then show ?case
    using i v n len by (simp add: Cons_nth_drop_Suc [symmetric] del: drop_map)
qed

lemma from_json_tree: "value_ok L cast v \<Longrightarrow> from_json L cast (type_of_value v) (value_tree v) = Inr v"
proof (induction v)
  case (V_TEXT t s)
  then show ?case
    by (cases t) (auto simp: from_json.simps casted_def split: if_splits)
next
  case (V_LIST t vs)
  then have "from_items L cast t (map value_tree vs) = Inr vs"
    by (intro from_items_ok) (auto simp: list_all_iff)
  then show ?case by (simp add: from_json.simps)
next
  case (V_ARRAY t n vs)
  then have "from_items L cast t (map value_tree vs) = Inr vs"
    by (intro from_items_ok) (auto simp: list_all_iff)
  then show ?case using V_ARRAY by (simp add: from_json.simps)
next
  case (V_STRUCT fs vs)
  then have "from_fields L cast fs (zip (drop 0 (map fst fs)) (drop 0 (map value_tree vs))) (map (\<lambda>f. V_NULL (snd f)) fs) = Inr vs"
    by (intro from_fields_ok) (auto simp: list_all_iff)
  then show ?case by (simp add: from_json.simps)
next
  case (V_MAP k t es)
  then have "from_entries L cast k t (map (\<lambda>(key, v). (value_text key, value_tree v)) es) = Inr es"
    by (intro from_entries_ok) (fastforce simp: list_all_iff prod_set_simps)
  then show ?case by (simp add: from_json.simps)
qed (auto simp: from_json.simps casted_def)

end
