(* ===== verification/Tresor_Body.thy ===== *)
theory Tresor_Body
  imports Tresor_Values
begin

text \<open>
  A secret as the protocol carries it (\<^verbatim>\<open>SecretBody\<close>, the reading half of \<^verbatim>\<open>MaterialOf\<close>, the descriptors of
  \<^verbatim>\<open>FetchDescriptors\<close>, and the small rules of \<^verbatim>\<open>tresor_storage.cpp\<close> about them). A key-value secret's map
  and its redact keys are lists in their order of iteration; DuckDB's identifiers compare without case.
\<close>

section \<open>Descriptors and rules\<close>

record descriptor =
  d_name :: string
  d_type :: string
  d_provider :: string
  d_scope :: "string list"
  d_comment :: string
  d_owner :: string
  d_permissions :: "string list"
  d_dynamic :: bool
  d_updated_at :: string
  d_version :: string

definition may :: "string \<Rightarrow> descriptor \<Rightarrow> bool" where
  "may verb d \<longleftrightarrow> verb \<in> set (d_permissions d)"

definition is_refresh_key :: "string \<Rightarrow> bool" where
  "is_refresh_key key \<longleftrightarrow> key = ''refresh'' \<or> key = ''refresh_info''"

definition refreshable_type :: "string \<Rightarrow> bool" where
  "refreshable_type kind \<longleftrightarrow> kind = ''s3'' \<or> kind = ''r2'' \<or> kind = ''gcs'' \<or> kind = ''aws''"

definition provider_of :: "descriptor \<Rightarrow> string" where
  "provider_of d = (if d_dynamic d \<and> refreshable_type (d_type d) then ''tresor'' else d_provider d)"

definition lookupable :: "descriptor \<Rightarrow> bool" where
  "lookupable d \<longleftrightarrow> d_type d \<noteq> ''tresor''"

definition always_redacted :: "string list" where
  "always_redacted = [''secret'', ''password'', ''token'', ''session_token'', ''private_key'', ''client_secret'',
     ''bearer_token'', ''access_token'', ''account_key'', ''connection_string'']"

definition descriptor_of :: "'z lib_scheme \<Rightarrow> json \<Rightarrow> descriptor" where
  "descriptor_of L item =
     (let provider = jstr (Some item) ''provider''
      in \<lparr>d_name = jstr (Some item) ''name'', d_type = lb_lower L (jstr (Some item) ''type''),
          d_provider = (if provider = [] then ''config'' else provider),
          d_scope = str_list (jget item ''scope''), d_comment = jstr (Some item) ''comment'',
          d_owner = jstr (Some item) ''owner'', d_permissions = str_list (jget item ''permissions''),
          d_dynamic = jtrue (jget item ''dynamic''), d_updated_at = jstr (Some item) ''updated_at'',
          d_version = jstr (Some item) ''version''\<rparr>)"

text \<open>An item without a name or a type is left out.\<close>

definition descriptors_of :: "'z lib_scheme \<Rightarrow> json list \<Rightarrow> descriptor list" where
  "descriptors_of L items = filter (\<lambda>d. d_name d \<noteq> [] \<and> d_type d \<noteq> []) (map (descriptor_of L) items)"

section \<open>Secrets\<close>

record secret =
  sec_scope :: "string list"
  sec_type :: string
  sec_provider :: string
  sec_name :: string
  sec_map :: "(string \<times> dvalue) list"
  sec_redact :: "string list"

text \<open>\<^verbatim>\<open>secret_map.find\<close>: DuckDB's identifiers compare without case.\<close>

definition find_param :: "'z lib_scheme \<Rightarrow> (string \<times> dvalue) list \<Rightarrow> string \<Rightarrow> dvalue option" where
  "find_param L kvs key = (case filter (\<lambda>kv. lb_ci_equals L (fst kv) key) kvs of [] \<Rightarrow> None | kv # _ \<Rightarrow> Some (snd kv))"

section \<open>Writing a secret\<close>

text \<open>\<open>type_name\<close> is DuckDB's name of a type.\<close>

definition param_json :: "(ltype \<Rightarrow> string) \<Rightarrow> dvalue \<Rightarrow> string" where
  "param_json type_name v =
     (if type_of_value v = T_VARCHAR then json_text (value_text v)
      else ''{\"type\":'' @ json_text (type_name (type_of_value v)) @ '',\"value\":'' @ value_json v @ ''}'')"

definition written_params :: "'z lib_scheme \<Rightarrow> secret \<Rightarrow> (string \<times> dvalue) list" where
  "written_params L s = filter (\<lambda>(key, v). \<not> is_null v \<and> \<not> is_refresh_key (lb_lower L key)) (sec_map s)"

definition written_redact :: "'z lib_scheme \<Rightarrow> secret \<Rightarrow> string list" where
  "written_redact L s = map (lb_lower L) (filter (\<lambda>key.
     (case find_param L (sec_map s) key of None \<Rightarrow> False | Some v \<Rightarrow> \<not> is_null v) \<and>
     \<not> is_refresh_key (lb_lower L key)) (sec_redact s))"

definition secret_body :: "'z lib_scheme \<Rightarrow> (ltype \<Rightarrow> string) \<Rightarrow> secret \<Rightarrow> string" where
  "secret_body L type_name s =
     ''{\"type\":'' @ json_text (lb_lower L (sec_type s)) @ '',\"provider\":'' @ json_text (sec_provider s) @
     '',\"scope\":['' @ joined (map json_text (sec_scope s)) @ ''],\"params\":{'' @
     joined (map (\<lambda>(key, v). json_text (lb_lower L key) @ '':'' @ param_json type_name v) (written_params L s)) @
     ''},\"redact_keys\":['' @ joined (map json_text (written_redact L s)) @ '']}''"

section \<open>Reading a secret\<close>

definition read_param :: "'z lib_scheme \<Rightarrow> (string \<Rightarrow> ltype option) \<Rightarrow> (ltype \<Rightarrow> string \<Rightarrow> dvalue option) \<Rightarrow>
    string \<Rightarrow> string \<Rightarrow> json \<Rightarrow> error + dvalue" where
  "read_param L parse_type cast secret name item =
     (case item of
        JStr s \<Rightarrow> Inr (V_TEXT T_VARCHAR (cstr s))
      | _ \<Rightarrow> if is_obj item \<and> jstr (Some item) ''type'' \<noteq> []
             then protocol_value L parse_type cast secret name (jstr (Some item) ''type'') (jget item ''value'')
             else Inl (InvalidInput ''the parameter is neither a string nor {type, value}'' [name, secret]))"

fun read_params :: "'z lib_scheme \<Rightarrow> (string \<Rightarrow> ltype option) \<Rightarrow> (ltype \<Rightarrow> string \<Rightarrow> dvalue option) \<Rightarrow>
    string \<Rightarrow> (string \<times> json) list \<Rightarrow> (string \<times> dvalue) list \<Rightarrow> error + (string \<times> dvalue) list" where
  "read_params L parse_type cast secret [] m = Inr m"
| "read_params L parse_type cast secret ((key, item) # kvs) m =
     (let name = cstr key; lowered = lb_lower L name in
      if is_refresh_key lowered then read_params L parse_type cast secret kvs m
      else case read_param L parse_type cast secret name item of
             Inl e \<Rightarrow> Inl e
           | Inr v \<Rightarrow> read_params L parse_type cast secret kvs (AList.update lowered v m))"

definition refresh_recipe :: "string \<Rightarrow> descriptor \<Rightarrow> dvalue" where
  "refresh_recipe storage_name d =
     V_STRUCT [(''tresor_service'', T_VARCHAR), (''tresor_secret'', T_VARCHAR)]
       [V_TEXT T_VARCHAR storage_name, V_TEXT T_VARCHAR (d_name d)]"

text \<open>The served secret, from the service's \<open>params\<close> and \<open>redact_keys\<close>.\<close>

definition insert_key :: "string \<Rightarrow> string list \<Rightarrow> string list" where
  "insert_key k ks = (if k \<in> set ks then ks else ks @ [k])"

definition build_secret :: "'z lib_scheme \<Rightarrow> (string \<Rightarrow> ltype option) \<Rightarrow> (ltype \<Rightarrow> string \<Rightarrow> dvalue option) \<Rightarrow>
    string \<Rightarrow> descriptor \<Rightarrow> (string \<times> json) list \<Rightarrow> string list \<Rightarrow> error + secret" where
  "build_secret L parse_type cast storage_name d params redact =
     (let start = (if d_dynamic d \<and> refreshable_type (d_type d) then [(''refresh_info'', refresh_recipe storage_name d)] else [])
      in case read_params L parse_type cast (d_name d) params start of
           Inl e \<Rightarrow> Inl e
         | Inr m \<Rightarrow>
             let keys = foldl (\<lambda>ks k. insert_key (lb_lower L k) ks) [] redact;
                 keys = foldl (\<lambda>ks k. if find_param L m k \<noteq> None then insert_key k ks else ks) keys always_redacted
             in Inr \<lparr>sec_scope = d_scope d, sec_type = d_type d, sec_provider = provider_of d, sec_name = d_name d,
                     sec_map = m, sec_redact = keys\<rparr>)"

section \<open>Lemmas\<close>

text \<open>The parameters as JSON.\<close>

definition param_tree :: "(ltype \<Rightarrow> string) \<Rightarrow> dvalue \<Rightarrow> json" where
  "param_tree type_name v =
     (if type_of_value v = T_VARCHAR then JStr (value_text v)
      else JObj [(''type'', JStr (type_name (type_of_value v))), (''value'', value_tree v)])"

definition secret_tree :: "'z lib_scheme \<Rightarrow> (ltype \<Rightarrow> string) \<Rightarrow> secret \<Rightarrow> json" where
  "secret_tree L type_name s = JObj [(''type'', JStr (lb_lower L (sec_type s))), (''provider'', JStr (sec_provider s)),
     (''scope'', JArr (map JStr (sec_scope s))),
     (''params'', JObj (map (\<lambda>(key, v). (lb_lower L key, param_tree type_name v)) (written_params L s))),
     (''redact_keys'', JArr (map JStr (written_redact L s)))]"

lemma param_json_print: "param_json type_name v = json_print (param_tree type_name v)"
proof -
  have "json_text ''type'' = ''\"type\"''" "json_text ''value'' = ''\"value\"''" by code_simp+
  then show ?thesis by (simp add: param_json_def param_tree_def value_json_print)
qed

lemma secret_body_print: "secret_body L type_name s = json_print (secret_tree L type_name s)"
proof -
  have keys: "json_text ''type'' = ''\"type\"''" "json_text ''provider'' = ''\"provider\"''"
    "json_text ''scope'' = ''\"scope\"''" "json_text ''params'' = ''\"params\"''"
    "json_text ''redact_keys'' = ''\"redact_keys\"''" by code_simp+
  have eq: "map (\<lambda>(key, v). json_text (lb_lower L key) @ '':'' @ param_json type_name v) (written_params L s) =
      map ((\<lambda>(k, j). json_text k @ '':'' @ json_print j) \<circ> (\<lambda>(key, v). (lb_lower L key, param_tree type_name v)))
        (written_params L s)"
    by (simp add: param_json_print o_def case_prod_beta)
  show ?thesis
    unfolding secret_body_def eq by (simp add: secret_tree_def keys o_def)
qed

text \<open>
  What DuckDB promises of a secret's parameters: their keys differ without case, the values can be held,
  and a type's name parses to the type.
\<close>

definition param_ok :: "'z lib_scheme \<Rightarrow> (string \<Rightarrow> ltype option) \<Rightarrow> (ltype \<Rightarrow> string) \<Rightarrow> (ltype \<Rightarrow> string \<Rightarrow> dvalue option) \<Rightarrow>
    string \<times> dvalue \<Rightarrow> bool" where
  "param_ok L parse_type type_name cast = (\<lambda>(key, v).
     cstr (lb_lower L key) = lb_lower L key \<and> lb_lower L (lb_lower L key) = lb_lower L key \<and> value_ok L cast v \<and>
     (let name = type_name (type_of_value v) in
        name \<noteq> [] \<and> cstr name = name \<and> parse_type name = Some (type_of_value v)))"

lemma varchar_value: "value_ok L cast v \<Longrightarrow> \<not> is_null v \<Longrightarrow> type_of_value v = T_VARCHAR \<Longrightarrow>
    V_TEXT T_VARCHAR (cstr (value_text v)) = v"
  by (cases v) auto

lemma read_param_tree:
  assumes "param_ok L parse_type type_name cast (key, v)" and "\<not> is_null v"
  shows "read_param L parse_type cast secret name (param_tree type_name v) = Inr v"
  using assms varchar_value [of L cast v] from_json_tree [of L cast v]
  by (auto simp: read_param_def param_tree_def param_ok_def Let_def jstr_def jget_opt_def protocol_value_def)

lemma read_params_tree:
  assumes "list_all (param_ok L parse_type type_name cast) ps"
    and "list_all (\<lambda>(key, v). \<not> is_null v \<and> \<not> is_refresh_key (lb_lower L key)) ps"
    and "distinct (map fst m @ map (\<lambda>(key, v). lb_lower L key) ps)"
  shows "read_params L parse_type cast secret (map (\<lambda>(key, v). (lb_lower L key, param_tree type_name v)) ps) m =
    Inr (m @ map (\<lambda>(key, v). (lb_lower L key, v)) ps)"
  using assms
proof (induction ps arbitrary: m)
  case (Cons p ps)
  obtain key v where p: "p = (key, v)" by (cases p)
  have k: "cstr (lb_lower L key) = lb_lower L key" "lb_lower L (lb_lower L key) = lb_lower L key"
    "\<not> is_refresh_key (lb_lower L key)" "lb_lower L key \<notin> fst ` set m"
    using Cons.prems p by (auto simp: param_ok_def)
  have v: "read_param L parse_type cast secret (lb_lower L key) (param_tree type_name v) = Inr v"
    using Cons.prems p read_param_tree by auto
  have "AList.update (lb_lower L key) v m = m @ [(lb_lower L key, v)]"
    using k(4) by (simp add: update_nonempty update_conv' ) (induction m, auto)
  then show ?case
    using Cons.IH [of "m @ [(lb_lower L key, v)]"] Cons.prems p k v by (simp add: Let_def)
qed simp

lemma read_params_refresh:
  "read_params L parse_type cast secret kvs m = Inr m' \<Longrightarrow> is_refresh_key k \<Longrightarrow> map_of m' k = map_of m k"
  by (induction L parse_type cast secret kvs m rule: read_params.induct)
    (auto simp: Let_def update_conv' split: if_splits sum.splits)

lemma insert_key_set [simp]: "set (insert_key k ks) = insert k (set ks)"
  by (auto simp: insert_key_def)

lemma redact_fold:
  "set (foldl (\<lambda>ks k. if P k then insert_key k ks else ks) ks xs) = set ks \<union> {k \<in> set xs. P k}"
  by (induction xs arbitrary: ks) auto

section \<open>Properties\<close>


definition sample_cast :: "ltype \<Rightarrow> string \<Rightarrow> dvalue option" where
  "sample_cast t s = (if t = T_BOOLEAN then Some (V_BOOL (s = ''true'')) else Some (V_TEXT t s))"

definition sample_secret :: secret where
  "sample_secret = \<lparr>sec_scope = [''s3://b''], sec_type = ''s3'', sec_provider = ''config'', sec_name = ''lake'',
     sec_map = [(''region'', V_TEXT T_VARCHAR ''eu''), (''use_ssl'', V_BOOL True), (''key_id'', V_NULL T_VARCHAR),
       (''refresh'', V_TEXT T_VARCHAR ''auto'')], sec_redact = []\<rparr>"

definition sample_type_name :: "ltype \<Rightarrow> string" where
  "sample_type_name t = (if t = T_BOOLEAN then ''BOOLEAN'' else ''VARCHAR'')"

definition sample_parse_type :: "string \<Rightarrow> ltype option" where
  "sample_parse_type s = (if s = ''BOOLEAN'' then Some T_BOOLEAN else if s = ''VARCHAR'' then Some T_VARCHAR else None)"

definition plain_lib :: lib where
  "plain_lib = sample_lib\<lparr>lb_lower := id, lb_ci_equals := (=)\<rparr>"


text \<open>
  C30: a served secret is guarded whatever the service sends. Every parameter under one of the ten names
  that always hold a credential is redacted, even when the service forgot to say so; no refresh recipe
  comes from the service - \<^verbatim>\<open>refresh\<close> is never there, and \<^verbatim>\<open>refresh_info\<close> is tresor's own recipe for a dynamic
  secret of a refreshable type, and absent otherwise; its name, type and scope are the ones listed.
\<close>

theorem served_secret_is_guarded:
  "case build_secret L parse_type cast storage_name d params redact of
     Inl e \<Rightarrow> True
   | Inr s \<Rightarrow>
       list_all (\<lambda>k. find_param L (sec_map s) k = None \<or> k \<in> set (sec_redact s)) always_redacted \<and>
       map_of (sec_map s) ''refresh'' = None \<and>
       map_of (sec_map s) ''refresh_info'' =
         (if d_dynamic d \<and> refreshable_type (d_type d) then Some (refresh_recipe storage_name d) else None) \<and>
       sec_name s = d_name d \<and> sec_type s = d_type d \<and> sec_scope s = d_scope d \<and>
       set (map (lb_lower L) redact) \<subseteq> set (sec_redact s)"
proof -
  have keys: "set (foldl (\<lambda>ks k. insert_key (lb_lower L k) ks) ks xs) = set ks \<union> set (map (lb_lower L) xs)" for ks xs
    by (induction xs arbitrary: ks) auto
  have "is_refresh_key ''refresh''" "is_refresh_key ''refresh_info''" by (simp_all add: is_refresh_key_def)
  then show ?thesis
    by (auto simp: build_secret_def Let_def redact_fold keys list_all_iff read_params_refresh split: sum.splits)
qed

end
