(* ===== verification/Tresor_Storage.thy ===== *)
theory Tresor_Storage
  imports Tresor_Body
begin

text \<open>
  The secret storage of one attached service (\<^verbatim>\<open>TresorSecretStorage\<close> of \<^verbatim>\<open>tresor_storage.cpp\<close>). A view - what
  one caller sees: the node, or one acl session - is an object with an identity, because the sources
  compare the pointers (\<^verbatim>\<open>Serves\<close>): \<open>st_views\<close> is the heap of views, \<open>st_node\<close> and \<open>st_acl_views\<close> point into
  it, and a view nobody points to any more stays with whoever still holds it. What runs under the
  storage's lock is a function of \<open>storage\<close>; every request to the service lets other threads change
  everything, the storage included. A view's \<open>fetch_lock\<close> is the flag \<open>v_fetching\<close>.

  DuckDB's part - parsing and naming types, casting, the deserializer of a secret type, the scoring of
  a match, waiting for a lock - is in the record \<open>sext\<close>.
\<close>

section \<open>State\<close>

record material =
  mt_version :: string
  mt_refreshed_at :: int
  mt_valid_until :: int
  mt_secret :: secret
  mt_typed :: bool

record view =
  v_fetching :: bool
  v_descriptors :: "descriptor list"
  v_listed_at :: int
  v_failed_at :: int
  v_listed :: bool
  v_materials :: "string \<rightharpoonup> material"
  v_variables :: "string \<rightharpoonup> string \<times> int"

definition new_view :: view where
  "new_view = \<lparr>v_fetching = False, v_descriptors = [], v_listed_at = 0, v_failed_at = 0, v_listed = False,
     v_materials = Map.empty, v_variables = Map.empty\<rparr>"

record storage =
  st_name :: string
  st_offset :: int
  st_refusals :: "string list"
  st_session :: "nat option"
  st_actor :: "nat option"
  st_node :: "nat option"
  st_acl_views :: "(string \<times> nat) list"
  st_views :: "nat \<Rightarrow> view"
  st_next :: nat                   \<comment> \<open>the identity of the next view\<close>
  st_generation :: nat
  st_epoch :: nat

record 'w sto_sys = "'w act_sys" +
  y_sto :: storage

text \<open>What a type's own deserializer makes of a key-value secret: its class, nothing it can read, or an error that goes on.\<close>

datatype deserialized = Typed secret | Unread | Fatal error

record ('w, 's) sext = "('w, 's) ext" +
  x_transform_type :: "string \<Rightarrow> ltype option"            \<comment> \<open>TransformStringToLogicalType, on a connection\<close>
  x_transform_id :: "string \<Rightarrow> ltype option"              \<comment> \<open>TransformStringToLogicalTypeId; None: UNBOUND or INVALID\<close>
  x_cast :: "ltype \<Rightarrow> string \<Rightarrow> dvalue option"
  x_type_name :: "ltype \<Rightarrow> string"
  x_secret_types :: "'s \<Rightarrow> (string \<times> bool) list"         \<comment> \<open>AllSecretTypes: has it a deserializer\<close>
  x_deserialize :: "secret \<Rightarrow> deserialized"             \<comment> \<open>serialized, read back by its type's deserializer\<close>
  x_select :: "secret \<Rightarrow> string \<Rightarrow> int \<Rightarrow> (secret \<times> int) option \<Rightarrow> (secret \<times> int) option"  \<comment> \<open>SelectBestMatch\<close>
  x_await :: "nat \<Rightarrow> 's \<Rightarrow> 's"                          \<comment> \<open>waiting for a view's fetch lock\<close>
  x_probe :: "login_key \<Rightarrow> 's \<Rightarrow> bool"                  \<comment> \<open>LoginInProgress\<close>

section \<open>Times\<close>

definition LIST_TTL_SECONDS :: int where "LIST_TTL_SECONDS = 30"
definition RETRY_AFTER_SECONDS :: int where "RETRY_AFTER_SECONDS = 5"
definition STATIC_MATERIAL_SECONDS :: int where "STATIC_MATERIAL_SECONDS = 300"
definition DYNAMIC_MARGIN_SECONDS :: int where "DYNAMIC_MARGIN_SECONDS = 30"
definition FRESH_MINT_SECONDS :: int where "FRESH_MINT_SECONDS = 2"

definition valid_until :: "'z lib_scheme \<Rightarrow> json option \<Rightarrow> int \<Rightarrow> int \<Rightarrow> bool \<Rightarrow> int" where
  "valid_until L root now lifetime expiry_required =
     (case jget_opt root ''expires_at'' of
        None \<Rightarrow> if expiry_required then now else now + lifetime
      | Some JNull \<Rightarrow> if expiry_required then now else now + lifetime
      | Some field \<Rightarrow>
          (case (case field of JStr s \<Rightarrow> if cstr s = [] then None else lb_timestamp L (cstr s) | _ \<Rightarrow> None) of
             None \<Rightarrow> now
           | Some expires \<Rightarrow>
               let margin = min DYNAMIC_MARGIN_SECONDS (max 0 (half (expires - now)))
               in min (now + lifetime) (expires - margin)))"

section \<open>Under the storage's lock\<close>

definition view_at :: "nat \<Rightarrow> storage \<Rightarrow> view" where
  "view_at v st = st_views st v"

definition upd_view :: "nat \<Rightarrow> (view \<Rightarrow> view) \<Rightarrow> storage \<Rightarrow> storage" where
  "upd_view v f st = st\<lparr>st_views := (st_views st)(v := f (st_views st v))\<rparr>"

definition add_view :: "view \<Rightarrow> storage \<Rightarrow> nat \<times> storage" where
  "add_view w st = (st_next st, st\<lparr>st_views := (st_views st)(st_next st := w), st_next := st_next st + 1\<rparr>)"

definition activate :: "nat \<Rightarrow> descriptor list \<Rightarrow> nat option \<Rightarrow> int \<Rightarrow> storage \<Rightarrow> storage" where
  "activate sid initial aid now st =
     (case add_view (new_view\<lparr>v_descriptors := initial, v_listed_at := now, v_listed := True\<rparr>) st of
        (v, st) \<Rightarrow> st\<lparr>st_session := Some sid, st_actor := aid, st_node := Some v, st_acl_views := []\<rparr>)"

definition set_actor :: "nat \<Rightarrow> nat option \<Rightarrow> storage \<Rightarrow> storage" where
  "set_actor which aid st =
     (if st_session st \<noteq> Some which then st else st\<lparr>st_actor := aid, st_acl_views := []\<rparr>)"

definition deactivate :: "nat \<Rightarrow> storage \<Rightarrow> storage" where
  "deactivate which st =
     (if st_session st \<noteq> Some which then st
      else st\<lparr>st_session := None, st_actor := None, st_node := None, st_acl_views := []\<rparr>)"

definition include_in_lookups :: "storage \<Rightarrow> bool" where
  "include_in_lookups st \<longleftrightarrow> st_session st \<noteq> None"

definition forget_session :: "string \<Rightarrow> storage \<Rightarrow> storage" where
  "forget_session acl st = st\<lparr>st_acl_views := AList.delete acl (st_acl_views st),
     st_refusals := filter (\<lambda>a. a \<noteq> acl) (st_refusals st)\<rparr>"

definition first_refusal :: "string \<Rightarrow> storage \<Rightarrow> bool \<times> storage" where
  "first_refusal acl st =
     (let told = (if length (st_refusals st) \<ge> 10000 then [] else st_refusals st)
      in (acl \<notin> set told, st\<lparr>st_refusals := List.insert acl told\<rparr>))"

definition serves :: "caller \<Rightarrow> nat \<Rightarrow> storage \<Rightarrow> bool" where
  "serves c v st \<longleftrightarrow> st_session st = cl_session c \<and>
     (if is_node c then st_node st = Some v else map_of (st_acl_views st) (cl_acl_session c) = Some v)"

definition view_of :: "caller \<Rightarrow> (nat \<Rightarrow> actor) \<Rightarrow> storage \<Rightarrow> nat option \<times> storage" where
  "view_of c actors st =
     (if \<not> usable_caller c \<or> st_session st \<noteq> cl_session c then (None, st)
      else if is_node c then (st_node st, st)
      else case map_of (st_acl_views st) (cl_acl_session c) of
             Some v \<Rightarrow> (Some v, st)
           | None \<Rightarrow>
               (case st_actor st of
                  None \<Rightarrow> (None, st)
                | Some aid \<Rightarrow>
                    if \<not> serves_session (cl_acl_session c) (actors aid) then (None, st)
                    else case add_view new_view st of
                           (v, st) \<Rightarrow> (Some v, st\<lparr>st_acl_views := AList.update (cl_acl_session c) v (st_acl_views st)\<rparr>)))"

definition reset_caches :: "nat \<Rightarrow> storage \<Rightarrow> storage" where
  "reset_caches which st =
     (if st_session st \<noteq> Some which then st
      else case add_view new_view st of
             (v, st) \<Rightarrow> st\<lparr>st_node := Some v, st_acl_views := [], st_refusals := [],
                           st_generation := st_generation st + 1, st_epoch := st_epoch st + 1\<rparr>)"

text \<open>The views in use: the node's and every acl session's.\<close>

definition in_use :: "storage \<Rightarrow> nat \<Rightarrow> bool" where
  "in_use st v \<longleftrightarrow> st_node st = Some v \<or> v \<in> set (map snd (st_acl_views st))"

definition in_every_view :: "(view \<Rightarrow> view) \<Rightarrow> storage \<Rightarrow> storage" where
  "in_every_view f st = st\<lparr>st_views := (\<lambda>v. if in_use st v then f (st_views st v) else st_views st v)\<rparr>"

definition invalidate_variable :: "string \<Rightarrow> storage \<Rightarrow> storage" where
  "invalidate_variable name = in_every_view (\<lambda>w. w\<lparr>v_variables := (v_variables w)(name := None)\<rparr>)"

definition invalidate :: "string \<Rightarrow> storage \<Rightarrow> storage" where
  "invalidate name st = in_every_view (\<lambda>w. w\<lparr>v_listed_at := 0, v_failed_at := 0,
       v_materials := (v_materials w)(name := None)\<rparr>) (st\<lparr>st_generation := st_generation st + 1\<rparr>)"

section \<open>Access to the state\<close>

definition with_sto :: "(storage \<Rightarrow> 'a \<times> storage) \<Rightarrow> (('w, 'y) sto_sys_scheme, 'a) m" where
  "with_sto f = (\<lambda>s. case f (y_sto s) of (r, st) \<Rightarrow> (Inr r, s\<lparr>y_sto := st\<rparr>))"

definition on_sto :: "(storage \<Rightarrow> storage) \<Rightarrow> (('w, 'y) sto_sys_scheme, unit) m" where
  "on_sto f = modifyS (\<lambda>s. s\<lparr>y_sto := f (y_sto s)\<rparr>)"

definition get_sto :: "(storage \<Rightarrow> 'a) \<Rightarrow> (('w, 'y) sto_sys_scheme, 'a) m" where
  "get_sto f = gets (\<lambda>s. f (y_sto s))"

definition get_now :: "('w, 's, 'x) ext_scheme \<Rightarrow> (('w, 'y) sys_scheme, int) m" where
  "get_now X = on_instance (x_now X)"

definition find_view :: "caller \<Rightarrow> (('w, 'y) sto_sys_scheme, nat option) m" where
  "find_view c = (\<lambda>s. case view_of c (y_actor s) (y_sto s) of (v, st) \<Rightarrow> (Inr v, s\<lparr>y_sto := st\<rparr>))"

definition on_audit :: "(audited \<times> audit \<Rightarrow> audited \<times> audit) \<Rightarrow> audited \<Rightarrow> (('w, 'y) act_sys_scheme, unit) m" where
  "on_audit f d = modifyS (\<lambda>s. s\<lparr>y_audit := snd (f (d, y_audit s))\<rparr>)"

definition start_audit :: "string \<Rightarrow> caller \<Rightarrow> (('w, 'y) sto_sys_scheme, audited) m" where
  "start_audit kind c = gets (\<lambda>s. audited_for (y_ses s) c (st_name (y_sto s)) (audited_new (y_audit s) kind))"

definition count_hit :: "string \<Rightarrow> (('w, 'y) act_sys_scheme, unit) m" where
  "count_hit kind = modifyS (\<lambda>s. s\<lparr>y_audit := count_event kind ''ok'' True (y_audit s)\<rparr>)"

definition logged_off_of :: "caller \<Rightarrow> (('w, 'y) sys_scheme, bool) m" where
  "logged_off_of c = gets (\<lambda>s. case cl_session c of None \<Rightarrow> False | Some sid \<Rightarrow> s_logged_off_seen (y_ses s sid))"

definition host_of :: "caller \<Rightarrow> (('w, 'y) sys_scheme, string) m" where
  "host_of c = gets (\<lambda>s. case cl_session c of None \<Rightarrow> [] | Some sid \<Rightarrow> si_host (s_info (y_ses s sid)))"

section \<open>Whose statement it is\<close>

text \<open>What duckdb-acl publishes on a statement's connection: its contract unreachable, no session, or one.\<close>

record acl_view =
  av_session_id :: string
  av_issuer :: string
  av_subject :: string
  av_correlation_id :: string
  av_traceparent :: string

definition grant_rejected :: "caller \<Rightarrow> (('w, 'y) sto_sys_scheme, unit) m" where
  "grant_rejected c =
     bindE (get_sto st_actor) (\<lambda>acting.
     seqE (on_sto (\<lambda>st. st\<lparr>st_acl_views := AList.delete (cl_acl_session c) (st_acl_views st)\<rparr>))
       (case acting of None \<Rightarrow> ret ()
        | Some aid \<Rightarrow> if is_node c then ret () else rejected aid (cl_acl_session c)))"

definition caller_for :: "('w, 's, 'x) ext_scheme \<Rightarrow> (('w, 'y) sto_sys_scheme \<Rightarrow> bool) \<Rightarrow>
    (('w, 'y) sto_sys_scheme \<Rightarrow> ('w, 'y) sto_sys_scheme) list \<Rightarrow> (string + acl_view option) option \<Rightarrow>
    (('w, 'y) sto_sys_scheme, caller) m" where
  "caller_for X interrupted slices statement =
     bindE (get_sto (\<lambda>st. (st_session st, st_actor st, st_name st))) (\<lambda>(sid, acting, name).
       let c = no_caller\<lparr>cl_session := sid\<rparr> in
       if sid = None then ret c
       else case statement of
         None \<Rightarrow> ret c
       | Some (Inl why) \<Rightarrow> ret (c\<lparr>cl_acl_session := ''?'', cl_refused := ''cannot tell whose statement this is: '' @ why\<rparr>)
       | Some (Inr None) \<Rightarrow> ret c
       | Some (Inr (Some view)) \<Rightarrow>
           let c = c\<lparr>cl_acl_session := (if av_session_id view = [] then ''?'' else av_session_id view),
                 cl_user := (if av_issuer view = [] then av_subject view
                             else ''subject:'' @ av_issuer view @ ''|'' @ av_subject view),
                 cl_correlation_id := av_correlation_id view, cl_traceparent := valid_traceparent (av_traceparent view)\<rparr>
           in case acting of
                None \<Rightarrow> ret (c\<lparr>cl_refused := name @ '' does not act for duckdb-acl sessions (ATTACH it with ACT_FOR_SESSIONS, or CALL '' @
                              name @ ''.act_for_sessions())''\<rparr>)
              | Some aid \<Rightarrow>
                  bindE (grant_for X aid (av_session_id view) interrupted slices) (\<lambda>grant. case grant of
                    Inl why \<Rightarrow> ret (c\<lparr>cl_refused := (if why = [] then ''this acl session has no delegation grant'' else why)\<rparr>)
                  | Inr g \<Rightarrow> if g = [] then ret (c\<lparr>cl_refused := ''this acl session has no delegation grant''\<rparr>)
                             else ret (c\<lparr>cl_grant := g, cl_rejects := True\<rparr>)))"

definition storage_call :: "('w, ('w, 'y) sto_sys_scheme, 'x) ext_scheme \<Rightarrow> (('w, 'y) sto_sys_scheme, 'h) hooks_scheme \<Rightarrow>
    (('w, 'y) sto_sys_scheme \<Rightarrow> bool) \<Rightarrow> caller \<Rightarrow> string \<Rightarrow> string \<Rightarrow> string \<Rightarrow> (string \<times> string) list \<Rightarrow>
    (('w, 'y) sto_sys_scheme, service_response) m" where
  "storage_call X H = caller_call X H grant_rejected"

section \<open>The list\<close>

definition fetch_descriptors :: "('w, ('w, 'y) sto_sys_scheme, 'x) ext_scheme \<Rightarrow> (('w, 'y) sto_sys_scheme, 'h) hooks_scheme \<Rightarrow>
    (('w, 'y) sto_sys_scheme \<Rightarrow> bool) \<Rightarrow> caller \<Rightarrow> (('w, 'y) sto_sys_scheme, descriptor list) m" where
  "fetch_descriptors X H interrupted c =
     bindE (storage_call X H interrupted c ''GET'' ''/v1/secrets'' [] []) (\<lambda>response.
     bindE (host_of c) (\<lambda>host.
       if sr_status response \<noteq> 200 then
         throw (IOErr ''listing the secrets'' [host, describe_problem X (sr_status response) (sr_body response)])
       else case lb_json X (sr_body response) of
         Some (JArr items) \<Rightarrow> ret (descriptors_of X items)
       | _ \<Rightarrow> throw (IOErr ''answered the secrets list with no JSON array'' [host])))"

text \<open>
  One round of \<open>Snapshot\<close>: an answer - the list and the view, or nothing - or another round. The three
  parts are what happens before the fetch lock is had, with it before the request, and with the answer.
\<close>

datatype round = Answer "descriptor list" "nat option" | Again

definition list_of :: "nat \<Rightarrow> storage \<Rightarrow> round" where
  "list_of v st = Answer (v_descriptors (view_at v st)) (Some v)"

definition nothing :: round where
  "nothing = Answer [] None"

text \<open>\<open>None\<close>: the list is stale, go on and fetch it (\<open>first\<close>: there is none yet).\<close>

definition held_list :: "caller \<Rightarrow> nat \<Rightarrow> bool \<Rightarrow> bool \<Rightarrow> int \<Rightarrow> storage \<Rightarrow> round option" where
  "held_list c v logged_off in_progress now st =
     (let w = view_at v st in
      if \<not> serves c v st then Some Again
      else if logged_off \<and> \<not> in_progress \<and> now - v_failed_at w < RETRY_AFTER_SECONDS then Some nothing
      else if \<not> logged_off \<and> (now - v_failed_at w < RETRY_AFTER_SECONDS \<or>
                (v_listed w \<and> now - v_listed_at w < LIST_TTL_SECONDS)) then Some (list_of v st)
      else None)"

definition lock_fetch :: "nat \<Rightarrow> storage \<Rightarrow> storage" where
  "lock_fetch v = upd_view v (\<lambda>w. w\<lparr>v_fetching := True\<rparr>)"

definition unlock_fetch :: "nat \<Rightarrow> storage \<Rightarrow> storage" where
  "unlock_fetch v = upd_view v (\<lambda>w. w\<lparr>v_fetching := False\<rparr>)"

text \<open>The answer of the service is here; \<open>started\<close> and \<open>epoch\<close> are from before the request.\<close>

definition land_list :: "caller \<Rightarrow> nat \<Rightarrow> nat \<Rightarrow> nat \<Rightarrow> descriptor list \<Rightarrow> int \<Rightarrow> storage \<Rightarrow> round \<times> storage" where
  "land_list c v started epoch list now st =
     (if st_epoch st \<noteq> epoch \<or> \<not> serves c v st then (Again, st)
      else let st = (if st_generation st = started
                     then upd_view v (\<lambda>w. w\<lparr>v_descriptors := list, v_listed_at := now, v_listed := True\<rparr>) st else st)
           in (list_of v st, st))"

text \<open>The request failed: \<open>quiet\<close> when nothing at all is to be answered (logged off).\<close>

definition land_failure :: "caller \<Rightarrow> nat \<Rightarrow> nat \<Rightarrow> bool \<Rightarrow> int \<Rightarrow> storage \<Rightarrow> round \<times> storage" where
  "land_failure c v epoch quiet now st =
     (if st_epoch st \<noteq> epoch \<or> \<not> serves c v st then (nothing, st)
      else let st = upd_view v (\<lambda>w. w\<lparr>v_failed_at := now\<rparr>) st
           in if quiet then (nothing, st) else (list_of v st, st))"

fun is_permission :: "error \<Rightarrow> bool" where
  "is_permission (Permission _ _) = True"
| "is_permission _ = False"

definition fetch_round :: "('w, ('w, 'y) sto_sys_scheme, 'x) ext_scheme \<Rightarrow> (('w, 'y) sto_sys_scheme, 'h) hooks_scheme \<Rightarrow>
    (('w, 'y) sto_sys_scheme \<Rightarrow> bool) \<Rightarrow> caller \<Rightarrow> nat \<Rightarrow> bool \<Rightarrow> bool \<Rightarrow> (('w, 'y) sto_sys_scheme, round) m" where
  "fetch_round X H interrupted c v first logged_off =
     bindE (get_sto id) (\<lambda>st.
       if \<not> serves c v st then ret Again
       else if first \<and> v_listed (view_at v st) \<and> \<not> logged_off then ret (list_of v st)
       else let started = st_generation st; epoch = st_epoch st in
         catchE
           (bindE (fetch_descriptors X H interrupted c) (\<lambda>list.
              bindE (get_now X) (\<lambda>now. with_sto (land_list c v started epoch list now))))
           (\<lambda>e. if is_permission e \<and> \<not> is_node c then ret (Answer [] (Some v))
                else bindE (get_now X) (\<lambda>now. bindE (logged_off_of c) (\<lambda>off.
                  with_sto (land_failure c v epoch (\<not> is_permission e \<and> off) now)))))"

definition snapshot_round :: "('w, ('w, 'y) sto_sys_scheme, 'x) sext_scheme \<Rightarrow> (('w, 'y) sto_sys_scheme, 'h) hooks_scheme \<Rightarrow>
    (('w, 'y) sto_sys_scheme \<Rightarrow> bool) \<Rightarrow> caller \<Rightarrow> (('w, 'y) sto_sys_scheme, round) m" where
  "snapshot_round X H interrupted c =
     bindE (find_view c) (\<lambda>found. case found of
       None \<Rightarrow> ret nothing
     | Some v \<Rightarrow>
         bindE (logged_off_of c) (\<lambda>logged_off.
         bindE (gets (\<lambda>s. logged_off \<and> (case cl_session c of None \<Rightarrow> False | Some sid \<Rightarrow> x_probe X (session_key (y_ses s sid)) s)))
           (\<lambda>in_progress.
         bindE (get_now X) (\<lambda>now. bindE (get_sto id) (\<lambda>st.
           case held_list c v logged_off in_progress now st of
             Some known \<Rightarrow> ret known
           | None \<Rightarrow>
               let first = (\<not> v_listed (view_at v st)) in
               if first \<and> \<not> logged_off then
                 seqE (modifyS (x_await X v)) (seqE (on_sto (lock_fetch v))
                   (bindE (fetch_round X H interrupted c v first logged_off) (\<lambda>r. seqE (on_sto (unlock_fetch v)) (ret r))))
               else if v_fetching (view_at v st) then
                 ret (if logged_off \<or> \<not> serves c v st then nothing else list_of v st)
               else seqE (on_sto (lock_fetch v))
                 (bindE (fetch_round X H interrupted c v first logged_off) (\<lambda>r. seqE (on_sto (unlock_fetch v)) (ret r))))))))"

text \<open>Twice at most.\<close>

definition snapshot :: "('w, ('w, 'y) sto_sys_scheme, 'x) sext_scheme \<Rightarrow> (('w, 'y) sto_sys_scheme, 'h) hooks_scheme \<Rightarrow>
    (('w, 'y) sto_sys_scheme \<Rightarrow> bool) \<Rightarrow> caller \<Rightarrow> (('w, 'y) sto_sys_scheme, descriptor list \<times> nat option) m" where
  "snapshot X H interrupted c =
     bindE (snapshot_round X H interrupted c) (\<lambda>r. case r of
       Answer list v \<Rightarrow> ret (list, v)
     | Again \<Rightarrow> bindE (snapshot_round X H interrupted c) (\<lambda>r. case r of
           Answer list v \<Rightarrow> ret (list, v)
         | Again \<Rightarrow> ret ([], None)))"

text \<open>A refresh's list, asked for when the epoch was \<open>epoch\<close>.\<close>

definition land_refresh :: "caller \<Rightarrow> nat \<Rightarrow> nat \<Rightarrow> descriptor list \<Rightarrow> int \<Rightarrow> storage \<Rightarrow> storage" where
  "land_refresh c v epoch list now st =
     (if serves c v st \<and> st_epoch st = epoch
      then upd_view v (\<lambda>w. w\<lparr>v_descriptors := list, v_listed_at := now, v_failed_at := 0, v_listed := True\<rparr>) st else st)"

definition refresh_list :: "('w, ('w, 'y) sto_sys_scheme, 'x) ext_scheme \<Rightarrow> (('w, 'y) sto_sys_scheme, 'h) hooks_scheme \<Rightarrow>
    (('w, 'y) sto_sys_scheme \<Rightarrow> bool) \<Rightarrow> caller \<Rightarrow> (('w, 'y) sto_sys_scheme, descriptor list) m" where
  "refresh_list X H interrupted c =
     bindE (get_sto (\<lambda>st. (st_name st, st_epoch st))) (\<lambda>(name, epoch).
       if cl_session c = None then throw (InvalidInput ''is detached'' [name])
       else bindE (fetch_descriptors X H interrupted c) (\<lambda>fresh_list.
         bindE (find_view c) (\<lambda>found. bindE (get_now X) (\<lambda>now.
         seqE (on_sto (\<lambda>st. case found of None \<Rightarrow> st | Some v \<Rightarrow> land_refresh c v epoch fresh_list now st))
           (ret fresh_list)))))"

end
