(* ===== verification/Tresor_Lookup.thy ===== *)
theory Tresor_Lookup
  imports Tresor_Storage
begin

text \<open>
  The operations DuckDB's secret manager calls on a storage (\<^verbatim>\<open>tresor_storage.cpp\<close>, second half): a
  secret's material from the cache or the service, the lookup by path, by name, the listing, a
  variable's value, the refresh, storing and dropping, and the registry that gives each storage its
  tie-break offset. \<open>statement\<close> is the connection the operation runs for: \<open>sm_acl = None\<close> means there is none.
\<close>

record 's statement =
  sm_acl :: "(string + acl_view option) option"
  sm_interrupted :: "'s \<Rightarrow> bool"
  sm_slices :: "('s \<Rightarrow> 's) list"

definition interrupted_of :: "'s statement \<Rightarrow> 's \<Rightarrow> bool" where
  "interrupted_of S = (if sm_acl S = None then (\<lambda>_. False) else sm_interrupted S)"

definition caller_of :: "('w, 's, 'x) ext_scheme \<Rightarrow> ('w, 'y) sto_sys_scheme statement \<Rightarrow> (('w, 'y) sto_sys_scheme, caller) m" where
  "caller_of X S = caller_for X (interrupted_of S) (sm_slices S) (sm_acl S)"

section \<open>Material\<close>

text \<open>Without a connection only the simple types are parsed.\<close>

definition parse_type :: "('w, 's, 'x) sext_scheme \<Rightarrow> bool \<Rightarrow> string \<Rightarrow> ltype option" where
  "parse_type X connected type = (if connected then x_transform_type X type else x_transform_id X type)"

text \<open>The types registered at that moment: an extension may be loaded between two lookups.\<close>

definition deserializer_of :: "('w, 's, 'x) sext_scheme \<Rightarrow> string \<Rightarrow> ('s, bool) m" where
  "deserializer_of X type = gets (\<lambda>s.
     case List.find (\<lambda>registered. lb_ci_equals X (fst registered) type) (x_secret_types X s) of
       None \<Rightarrow> False
     | Some registered \<Rightarrow> snd registered)"

text \<open>A key-value secret its type cannot read is served as built; it is one whenever this is asked.\<close>

definition as_type :: "('w, 's, 'x) sext_scheme \<Rightarrow> bool \<Rightarrow> secret \<Rightarrow> ('t, secret) m" where
  "as_type X deserialize s =
     (if \<not> deserialize then ret s
      else case x_deserialize X s of
             Typed t \<Rightarrow> ret t
           | Unread \<Rightarrow> ret s
           | Fatal e \<Rightarrow> throw e)"

definition cached_material :: "caller \<Rightarrow> nat \<Rightarrow> descriptor \<Rightarrow> int \<Rightarrow> storage \<Rightarrow> material option" where
  "cached_material c v d now st =
     (if \<not> serves c v st then None
      else case v_materials (view_at v st) (d_name d) of
             None \<Rightarrow> None
           | Some m \<Rightarrow> if mt_version m = d_version d \<and> mt_valid_until m > now then Some m else None)"

text \<open>Expired entries go; the new one is kept while it may be served. A view nobody has any more keeps nothing.\<close>

definition keep_material :: "caller \<Rightarrow> nat \<Rightarrow> descriptor \<Rightarrow> int \<Rightarrow> int \<Rightarrow> secret \<Rightarrow> bool \<Rightarrow> storage \<Rightarrow> storage" where
  "keep_material c v d now until served typed st =
     (if \<not> serves c v st then st
      else upd_view v (\<lambda>w.
        let kept = (\<lambda>n. case v_materials w n of None \<Rightarrow> None | Some m \<Rightarrow> if mt_valid_until m \<le> now then None else Some m)
        in w\<lparr>v_materials := (if until > now
               then kept(d_name d \<mapsto> \<lparr>mt_version = d_version d, mt_refreshed_at = 0, mt_valid_until = until,
                                     mt_secret = served, mt_typed = typed\<rparr>)
               else kept)\<rparr>) st)"

text \<open>The exit of an operation: its outcome told, then the exception.\<close>

definition told_throw :: "(audited \<times> audit \<Rightarrow> audited \<times> audit) \<Rightarrow> audited \<Rightarrow> error \<Rightarrow> (('w, 'y) act_sys_scheme, 'a) m" where
  "told_throw f a e = seqE (on_audit f a) (throw e)"

text \<open>The service's answer to the request for a secret.\<close>

definition material_answered :: "('w, ('w, 'y) sto_sys_scheme, 'x) sext_scheme \<Rightarrow> bool \<Rightarrow> caller \<Rightarrow> nat \<Rightarrow> descriptor \<Rightarrow> int \<Rightarrow> audited \<Rightarrow>
    service_response \<Rightarrow> (('w, 'y) sto_sys_scheme, secret option) m" where
  "material_answered X connected c v d now a response =
     bindE (host_of c) (\<lambda>host. bindE (get_sto st_name) (\<lambda>storage_name.
       let status = sr_status response;
           failed = IOErr ''the secret'' [d_name d, host, describe_problem X status (sr_body response)] in
       if status = 403 \<and> problem_type X (sr_body response) = ''mint_refused'' then told_throw (audit_answer X response) a failed
       else if status = 404 \<or> status = 403 then
         seqE (on_audit (audit_denied (reason_code X response) (''the service answered HTTP '' @ show_int status)) a)
           (seqE (on_sto (upd_view v (\<lambda>w. w\<lparr>v_listed_at := 0\<rparr>))) (ret None))
       else if status \<noteq> 200 then told_throw (audit_answer X response) a failed
       else let root = lb_json_raw X (sr_body response) in
         case jget_opt root ''params'' of
           Some (JObj params) \<Rightarrow>
             (case build_secret X (parse_type X connected) (x_cast X) storage_name d params
                     (str_list (jget_opt root ''redact_keys'')) of
                Inl e \<Rightarrow> told_throw audited_end a e
              | Inr built \<Rightarrow>
                  let until = valid_until X root now STATIC_MATERIAL_SECONDS (d_dynamic d) in
                  bindE (deserializer_of X (sec_type built)) (\<lambda>deserialize.
                  bindE (catchE (as_type X deserialize built) (\<lambda>e. told_throw audited_end a e)) (\<lambda>served.
                  seqE (on_audit audit_ok a)
                    (seqE (on_sto (keep_material c v d now until served deserialize)) (ret (Some served))))))
         | _ \<Rightarrow> told_throw audited_end a (IOErr ''came without params'' [d_name d, host])))"

definition material_of :: "('w, ('w, 'y) sto_sys_scheme, 'x) sext_scheme \<Rightarrow> (('w, 'y) sto_sys_scheme, 'h) hooks_scheme \<Rightarrow>
    ('w, 'y) sto_sys_scheme statement \<Rightarrow> string \<Rightarrow> caller \<Rightarrow> nat \<Rightarrow> descriptor \<Rightarrow> (('w, 'y) sto_sys_scheme, secret option) m" where
  "material_of X H S kind c v d =
     bindE (get_now X) (\<lambda>now. bindE (logged_off_of c) (\<lambda>logged_off.
     bindE (get_sto (cached_material c v d now)) (\<lambda>cached.
       case (if logged_off then None else cached) of
         Some m \<Rightarrow>
           bindE (if mt_typed m then ret (mt_secret m)
                  else bindE (deserializer_of X (sec_type (mt_secret m))) (\<lambda>deserialize. as_type X deserialize (mt_secret m)))
             (\<lambda>hit. seqE (count_hit kind) (ret (Some hit)))
       | None \<Rightarrow>
           bindE (start_audit kind c) (\<lambda>a.
             let a = audited_secret (d_name d) (d_type d) (d_dynamic d) a in
             bindE (catchE
                 (bindE (storage_call X H (interrupted_of S) c ''GET'' (''/v1/secrets/'' @ encode_segment (d_name d)) [] [])
                    (\<lambda>response. ret (Some response)))
                 (\<lambda>e. if is_permission e \<and> \<not> is_node c then seqE (on_audit (audit_failed e) a) (ret None)
                      else told_throw (audit_failed e) a e))
               (\<lambda>called. case called of
                  None \<Rightarrow> ret None
                | Some response \<Rightarrow> material_answered X (sm_acl S \<noteq> None) c v d now a response)))))"

section \<open>Lookups\<close>

record secret_entry =
  sy_secret :: secret
  sy_persistent :: bool
  sy_storage_mode :: string

definition entry_of :: "string \<Rightarrow> secret \<Rightarrow> secret_entry" where
  "entry_of storage_name s = \<lparr>sy_secret = s, sy_persistent = True, sy_storage_mode = storage_name\<rparr>"

definition placeholder :: "string \<Rightarrow> descriptor \<Rightarrow> secret" where
  "placeholder provider d = \<lparr>sec_scope = d_scope d, sec_type = d_type d, sec_provider = provider, sec_name = d_name d,
     sec_map = [], sec_redact = []\<rparr>"

definition matches :: "'z lib_scheme \<Rightarrow> string \<Rightarrow> descriptor \<Rightarrow> bool" where
  "matches L kind d \<longleftrightarrow> lookupable d \<and> lb_ci_equals L (d_type d) kind \<and> may ''use'' d"

text \<open>The best match so far, and the descriptor it is from. DuckDB's \<open>SelectBestMatch\<close> never loses a match, so there is a best one whenever there is a descriptor.\<close>

fun best_match :: "('w, 's, 'x) sext_scheme \<Rightarrow> string \<Rightarrow> string \<Rightarrow> int \<Rightarrow> descriptor list \<Rightarrow>
    (secret \<times> int) option \<Rightarrow> descriptor option \<Rightarrow> (secret \<times> int) option \<times> descriptor option" where
  "best_match X path kind offset [] best from_d = (best, from_d)"
| "best_match X path kind offset (d # ds) best from_d =
     (if \<not> matches X kind d then best_match X path kind offset ds best from_d
      else let best = x_select X (placeholder (d_provider d) d) path offset best;
               from_d = (case best of None \<Rightarrow> from_d
                         | Some (s, _) \<Rightarrow> if sec_name s = d_name d then Some d else from_d)
           in best_match X path kind offset ds best from_d)"

definition tell_refusal :: "string \<Rightarrow> caller \<Rightarrow> (('w, 'y) sto_sys_scheme, unit) m" where
  "tell_refusal kind c =
     (if cl_session c \<noteq> None \<and> cl_refused c \<noteq> [] then
        bindE (with_sto (first_refusal (cl_acl_session c))) (\<lambda>first.
          if first then bindE (start_audit ''lookup'' c) (\<lambda>a.
            on_audit (audit_denied ''no_grant'' (own_words (cl_refused c))) (audited_secret [] kind False a))
          else ret ())
      else ret ())"

definition lookup_secret :: "('w, ('w, 'y) sto_sys_scheme, 'x) sext_scheme \<Rightarrow> (('w, 'y) sto_sys_scheme, 'h) hooks_scheme \<Rightarrow>
    ('w, 'y) sto_sys_scheme statement \<Rightarrow> string \<Rightarrow> string \<Rightarrow> (('w, 'y) sto_sys_scheme, (secret_entry \<times> int) option) m" where
  "lookup_secret X H S path kind =
     bindE (caller_of X S) (\<lambda>c.
     bindE (snapshot X H (interrupted_of S) c) (\<lambda>(list, found). case found of
       None \<Rightarrow> seqE (tell_refusal kind c) (ret None)
     | Some v \<Rightarrow>
         bindE (get_sto (\<lambda>st. (st_name st, st_offset st))) (\<lambda>(storage_name, offset).
           case best_match X path kind offset list None None of
             (Some (s, score), Some d) \<Rightarrow>
               bindE (material_of X H S ''lookup'' c v d) (\<lambda>material. case material of
                 None \<Rightarrow> ret None
               | Some served \<Rightarrow> ret (Some (entry_of storage_name served, score)))
           | _ \<Rightarrow> ret None)))"

definition get_secret_by_name :: "('w, ('w, 'y) sto_sys_scheme, 'x) sext_scheme \<Rightarrow> (('w, 'y) sto_sys_scheme, 'h) hooks_scheme \<Rightarrow>
    ('w, 'y) sto_sys_scheme statement \<Rightarrow> string \<Rightarrow> (('w, 'y) sto_sys_scheme, secret_entry option) m" where
  "get_secret_by_name X H S name =
     bindE (caller_of X S) (\<lambda>c.
     bindE (snapshot X H (interrupted_of S) c) (\<lambda>(list, found). case found of
       None \<Rightarrow> ret None
     | Some v \<Rightarrow>
         (case find (\<lambda>d. lb_ci_equals X (d_name d) name \<and> lookupable d \<and> may ''use'' d) list of
            None \<Rightarrow> ret None
          | Some d \<Rightarrow> bindE (get_sto st_name) (\<lambda>storage_name.
              bindE (material_of X H S ''lookup'' c v d) (\<lambda>material.
                ret (map_option (entry_of storage_name) material))))))"

definition all_secrets :: "('w, ('w, 'y) sto_sys_scheme, 'x) sext_scheme \<Rightarrow> (('w, 'y) sto_sys_scheme, 'h) hooks_scheme \<Rightarrow>
    ('w, 'y) sto_sys_scheme statement \<Rightarrow> (('w, 'y) sto_sys_scheme, secret_entry list) m" where
  "all_secrets X H S =
     bindE (caller_of X S) (\<lambda>c.
     bindE (snapshot X H (interrupted_of S) c) (\<lambda>(list, found).
     bindE (get_sto st_name) (\<lambda>storage_name.
       ret (case found of None \<Rightarrow> []
            | Some v \<Rightarrow> map (\<lambda>d. entry_of storage_name (placeholder (provider_of d) d)) (filter lookupable list)))))"

section \<open>Variables\<close>

definition cached_variable :: "caller \<Rightarrow> nat \<Rightarrow> string \<Rightarrow> int \<Rightarrow> storage \<Rightarrow> string option" where
  "cached_variable c v name now st =
     (if \<not> serves c v st then None
      else case v_variables (view_at v st) name of
             None \<Rightarrow> None
           | Some (known, until) \<Rightarrow> if until > now then Some known else None)"

definition keep_variable :: "caller \<Rightarrow> nat \<Rightarrow> string \<Rightarrow> int \<Rightarrow> int \<Rightarrow> string \<Rightarrow> storage \<Rightarrow> storage" where
  "keep_variable c v name now until known st =
     (if \<not> serves c v st then st
      else upd_view v (\<lambda>w. w\<lparr>v_variables := (v_variables w)(name := (if until > now then Some (known, until) else None))\<rparr>) st)"

definition variable_answered :: "('w, 's, 'x) ext_scheme \<Rightarrow> caller \<Rightarrow> nat \<Rightarrow> string \<Rightarrow> int \<Rightarrow> audited \<Rightarrow>
    service_response \<Rightarrow> (('w, 'y) sto_sys_scheme, string option) m" where
  "variable_answered X c v name now a response =
     bindE (host_of c) (\<lambda>host.
       let status = sr_status response; why = describe_problem X status (sr_body response) in
       if status = 404 then seqE (on_audit (audit_answer X response) a) (ret None)
       else if status = 403 then
         told_throw (audit_answer X response) a (Permission ''you may not use the variable'' [name, host, why])
       else if status \<noteq> 200 then told_throw (audit_answer X response) a (IOErr ''the variable'' [name, host, why])
       else let root = lb_json X (sr_body response) in
         case jget_opt root ''value'' of
           Some (JStr known) \<Rightarrow>
             let lifetime = (if jtrue (jget_opt root ''sensitive'') then STATIC_MATERIAL_SECONDS else LIST_TTL_SECONDS);
                 until = valid_until X root now lifetime False
             in seqE (on_sto (keep_variable c v name now until known))
                  (seqE (on_audit audit_ok a) (ret (Some known)))
         | _ \<Rightarrow> told_throw (audit_error ''invalid'' ''the variable came without a string value'') a
                  (IOErr ''the variable came without a string value'' [name, host]))"

definition variable_of :: "('w, ('w, 'y) sto_sys_scheme, 'x) ext_scheme \<Rightarrow> (('w, 'y) sto_sys_scheme, 'h) hooks_scheme \<Rightarrow>
    (('w, 'y) sto_sys_scheme \<Rightarrow> bool) \<Rightarrow> caller \<Rightarrow> string \<Rightarrow> (('w, 'y) sto_sys_scheme, string option) m" where
  "variable_of X H interrupted c name =
     bindE (get_sto st_name) (\<lambda>storage_name.
     seqE (guardE (cl_refused c = []) (Permission ''refused'' [storage_name, cl_refused c]))
     (bindE (find_view c) (\<lambda>found. case found of
        None \<Rightarrow> throw (InvalidInput ''is detached'' [storage_name])
      | Some v \<Rightarrow>
          bindE (get_now X) (\<lambda>now. bindE (logged_off_of c) (\<lambda>logged_off.
          bindE (get_sto (cached_variable c v name now)) (\<lambda>cached.
            case (if logged_off then None else cached) of
              Some known \<Rightarrow> seqE (count_hit ''lookup'') (ret (Some known))
            | None \<Rightarrow>
                bindE (start_audit ''lookup'' c) (\<lambda>a.
                  let a = audited_secret name ''variable'' False a in
                  bindE (catchE (storage_call X H interrupted c ''GET'' (''/v1/variables/'' @ encode_segment name) [] [])
                          (\<lambda>e. told_throw (audit_failed e) a e))
                    (variable_answered X c v name now a))))))))"

section \<open>Refresh\<close>

definition forget_material :: "nat \<Rightarrow> string \<Rightarrow> storage \<Rightarrow> storage" where
  "forget_material v name = upd_view v (\<lambda>w. w\<lparr>v_materials := (v_materials w)(name := None)\<rparr>)"

text \<open>A mint another refresh made a moment ago; otherwise the cached one goes.\<close>

definition just_minted :: "caller \<Rightarrow> nat \<Rightarrow> descriptor \<Rightarrow> int \<Rightarrow> storage \<Rightarrow> secret option \<times> storage" where
  "just_minted c v d now st =
     (case (if serves c v st then v_materials (view_at v st) (d_name d) else None) of
        None \<Rightarrow> (None, forget_material v (d_name d) st)
      | Some m \<Rightarrow>
          if mt_version m = d_version d \<and> mt_refreshed_at m \<noteq> 0 \<and> now - mt_refreshed_at m < FRESH_MINT_SECONDS \<and>
             mt_valid_until m > now
          then (Some (mt_secret m), st) else (None, forget_material v (d_name d) st))"

definition mark_refreshed :: "nat \<Rightarrow> string \<Rightarrow> int \<Rightarrow> storage \<Rightarrow> storage" where
  "mark_refreshed v name now = upd_view v (\<lambda>w. case v_materials w name of None \<Rightarrow> w
     | Some m \<Rightarrow> w\<lparr>v_materials := (v_materials w)(name \<mapsto> m\<lparr>mt_refreshed_at := now\<rparr>)\<rparr>)"

definition not_refreshed :: "caller \<Rightarrow> string \<Rightarrow> (('w, 'y) sto_sys_scheme, 'a) m" where
  "not_refreshed c name = bindE (get_sto st_name) (\<lambda>storage_name.
     if cl_session c = None then throw (InvalidInput ''is detached'' [storage_name])
     else if cl_refused c \<noteq> [] then throw (Permission ''refused'' [cl_refused c])
     else throw (InvalidInput ''has no secret this caller may use'' [storage_name, name]))"

definition refresh_material :: "('w, ('w, 'y) sto_sys_scheme, 'x) sext_scheme \<Rightarrow> (('w, 'y) sto_sys_scheme, 'h) hooks_scheme \<Rightarrow>
    ('w, 'y) sto_sys_scheme statement \<Rightarrow> string \<Rightarrow> (('w, 'y) sto_sys_scheme, secret) m" where
  "refresh_material X H S name =
     bindE (caller_of X S) (\<lambda>c.
     bindE (snapshot X H (interrupted_of S) c) (\<lambda>(list, found).
       case (found, find (\<lambda>d. lb_ci_equals X (d_name d) name \<and> lookupable d \<and> may ''use'' d) list) of
         (Some v, Some d) \<Rightarrow>
           if \<not> d_dynamic d \<or> \<not> refreshable_type (d_type d) then
             bindE (get_sto st_name) (\<lambda>storage_name.
               throw (InvalidInput ''is not a dynamic secret - there is nothing to refresh'' [d_name d, storage_name, d_type d]))
           else bindE (get_now X) (\<lambda>now. bindE (with_sto (just_minted c v d now)) (\<lambda>minted. case minted of
             Some s \<Rightarrow> ret s
           | None \<Rightarrow>
               bindE (material_of X H S ''refresh'' c v d) (\<lambda>material. case material of
                 None \<Rightarrow> not_refreshed c name
               | Some served \<Rightarrow>
                   bindE (get_now X) (\<lambda>now. seqE (on_sto (mark_refreshed v (d_name d) now)) (ret served)))))
       | _ \<Rightarrow> not_refreshed c name))"

section \<open>Writes\<close>

definition canonical_name :: "'z lib_scheme \<Rightarrow> string \<Rightarrow> string" where
  "canonical_name L name = lb_lower L name"

definition service_name :: "('w, ('w, 'y) sto_sys_scheme, 'x) sext_scheme \<Rightarrow> (('w, 'y) sto_sys_scheme, 'h) hooks_scheme \<Rightarrow>
    (('w, 'y) sto_sys_scheme \<Rightarrow> bool) \<Rightarrow> caller \<Rightarrow> string \<Rightarrow> (('w, 'y) sto_sys_scheme, string) m" where
  "service_name X H interrupted c name =
     bindE (snapshot X H interrupted c) (\<lambda>(list, found).
       ret (case find (\<lambda>d. lb_ci_equals X (d_name d) name) list of
              None \<Rightarrow> canonical_name X name | Some d \<Rightarrow> d_name d))"

datatype on_conflict = ERROR_ON_CONFLICT | IGNORE_ON_CONFLICT | REPLACE_ON_CONFLICT | ALTER_ON_CONFLICT

definition store_outcome :: "'z lib_scheme \<Rightarrow> on_conflict \<Rightarrow> service_response \<Rightarrow> audited \<times> audit \<Rightarrow> audited \<times> audit" where
  "store_outcome L conflict response =
     (if sr_status response = 412 \<and> conflict = IGNORE_ON_CONFLICT then audit_none
      else if sr_status response = 412 then audit_error ''invalid'' ''a secret of this name already exists''
      else audit_answer L response)"

definition store_result :: "'z lib_scheme \<Rightarrow> on_conflict \<Rightarrow> string \<Rightarrow> string \<Rightarrow> service_response \<Rightarrow> secret \<Rightarrow>
    error + secret_entry option" where
  "store_result L conflict name storage_name response s =
     (let status = sr_status response; why = describe_problem L status (sr_body response) in
      if status = 412 then
        if conflict = IGNORE_ON_CONFLICT then Inr None
        else Inl (InvalidInput ''Persistent secret with name already exists in secret storage'' [name, storage_name])
      else if status = 403 then
        Inl (Permission ''you may not write the secret''
          [if conflict = REPLACE_ON_CONFLICT then ''create or replace'' else ''create'', name, storage_name, why])
      else if status \<noteq> 200 \<and> status \<noteq> 201 then Inl (InvalidInput ''storing the secret'' [name, storage_name, why])
      else Inr (Some (entry_of storage_name s)))"

definition liftE :: "error + 'a \<Rightarrow> ('s, 'a) m" where
  "liftE r = (case r of Inl e \<Rightarrow> throw e | Inr a \<Rightarrow> ret a)"

text \<open>The secret is \<open>None\<close> when it is not a key-value secret.\<close>

definition store_secret :: "('w, ('w, 'y) sto_sys_scheme, 'x) sext_scheme \<Rightarrow> (('w, 'y) sto_sys_scheme, 'h) hooks_scheme \<Rightarrow>
    ('w, 'y) sto_sys_scheme statement \<Rightarrow> secret option \<Rightarrow> on_conflict \<Rightarrow> (('w, 'y) sto_sys_scheme, secret_entry option) m" where
  "store_secret X H S given conflict =
     bindE (caller_of X S) (\<lambda>c. bindE (get_sto st_name) (\<lambda>storage_name.
       if cl_session c = None then throw (InvalidInput ''is detached'' [storage_name])
       else case given of
         None \<Rightarrow> throw (InvalidInput ''only key-value secrets can be stored'' [storage_name])
       | Some s \<Rightarrow>
           if lb_ci_equals X (sec_provider s) ''tresor'' then ret (Some (entry_of storage_name s))
           else case protocol_name (canonical_name X (sec_name s)) of
             Inl why \<Rightarrow> throw (InvalidInput ''a secret's name'' [storage_name, why])
           | Inr _ \<Rightarrow>
               bindE (service_name X H (interrupted_of S) c (sec_name s)) (\<lambda>name.
               bindE (start_audit ''write'' c) (\<lambda>a.
                 let a = audited_secret name (sec_type s) False a in
                 if conflict = ALTER_ON_CONFLICT then
                   told_throw audited_end a (InternalErr ''unexpected conflict mode for a secret'' [])
                 else
                   let headers = (if conflict = ERROR_ON_CONFLICT \<or> conflict = IGNORE_ON_CONFLICT
                                  then [(''If-None-Match'', ''*'')] else [])
                   in bindE (catchE (storage_call X H (interrupted_of S) c ''PUT'' (''/v1/secrets/'' @ encode_segment name)
                                       (secret_body X (x_type_name X) s) headers)
                               (\<lambda>e. told_throw (audit_failed e) a e)) (\<lambda>response.
                        seqE (on_sto (invalidate name)) (seqE (on_audit (store_outcome X conflict response) a)
                          (liftE (store_result X conflict name storage_name response s))))))))"

definition drop_result :: "'z lib_scheme \<Rightarrow> bool \<Rightarrow> string \<Rightarrow> string \<Rightarrow> service_response \<Rightarrow> error + unit" where
  "drop_result L must_exist name storage_name response =
     (let status = sr_status response; why = describe_problem L status (sr_body response) in
      if status = 404 then
        if must_exist then Inl (InvalidInput ''Failed to remove non-existent persistent secret'' [name, storage_name]) else Inr ()
      else if status = 403 then Inl (Permission ''you may not delete the secret'' [name, storage_name, why])
      else if status \<noteq> 204 \<and> status \<noteq> 200 then Inl (InvalidInput ''deleting the secret'' [name, storage_name, why])
      else Inr ())"

definition drop_secret_by_name :: "('w, ('w, 'y) sto_sys_scheme, 'x) sext_scheme \<Rightarrow> (('w, 'y) sto_sys_scheme, 'h) hooks_scheme \<Rightarrow>
    ('w, 'y) sto_sys_scheme statement \<Rightarrow> string \<Rightarrow> bool \<Rightarrow> (('w, 'y) sto_sys_scheme, unit) m" where
  "drop_secret_by_name X H S given must_exist =
     bindE (caller_of X S) (\<lambda>c. bindE (get_sto st_name) (\<lambda>storage_name.
       if cl_session c = None then throw (InvalidInput ''is detached'' [storage_name])
       else
         bindE (service_name X H (interrupted_of S) c given) (\<lambda>name.
         bindE (start_audit ''drop'' c) (\<lambda>a. let a = audited_secret name [] False a in
           bindE (catchE (storage_call X H (interrupted_of S) c ''DELETE'' (''/v1/secrets/'' @ encode_segment name) [] [])
                    (\<lambda>e. told_throw (audit_failed e) a e)) (\<lambda>response.
             seqE (on_sto (invalidate name))
               (seqE (on_audit (if sr_status response = 404 \<and> \<not> must_exist then audit_none else audit_answer X response) a)
                 (liftE (drop_result X must_exist name storage_name response))))))))"

section \<open>The registry of storages\<close>

text \<open>
  \<open>rg_storages\<close> has the name and the offset of every storage by its key. DuckDB's secret manager takes a
  storage, refuses its offset as taken, or refuses it with a message.
\<close>

datatype loaded = Loaded | Collides | Refused string

record registry =
  rg_storages :: "(string \<times> string \<times> int) list"
  rg_next_offset :: int

definition new_registry :: registry where
  "new_registry = \<lparr>rg_storages = [], rg_next_offset = 40\<rparr>"

definition find_storage :: "'z lib_scheme \<Rightarrow> string \<Rightarrow> registry \<Rightarrow> (string \<times> int) option" where
  "find_storage L name r = map_of (rg_storages r) (lb_lower L name)"

function load_storage :: "(string \<Rightarrow> int \<Rightarrow> loaded) \<Rightarrow> string \<Rightarrow> string \<Rightarrow> registry \<Rightarrow> (error + string \<times> int) \<times> registry" where
  "load_storage loads key name r =
     (if rg_next_offset r < 100 then
        let offset = rg_next_offset r; r = r\<lparr>rg_next_offset := offset + 1\<rparr>
        in case loads name offset of
             Loaded \<Rightarrow> (Inr (name, offset), r\<lparr>rg_storages := AList.update key (name, offset) (rg_storages r)\<rparr>)
           | Collides \<Rightarrow> load_storage loads key name r
           | Refused why \<Rightarrow> (Inl (InvalidInput ''cannot attach'' [name, why]), r)
      else (Inl (InvalidInput ''too many distinct names attached in this process'' []), r))"
  by pat_completeness auto
termination by (relation "measure (\<lambda>(loads, key, name, r). nat (100 - rg_next_offset r))") auto

declare load_storage.simps [simp del]

definition storage_for :: "'z lib_scheme \<Rightarrow> (string \<Rightarrow> int \<Rightarrow> loaded) \<Rightarrow> string \<Rightarrow> registry \<Rightarrow> (error + string \<times> int) \<times> registry" where
  "storage_for L loads name r =
     (case find_storage L name r of
        Some s \<Rightarrow> (Inr s, r)
      | None \<Rightarrow> load_storage loads (lb_lower L name) name r)"

end
