(* ===== verification/Tresor_Storage_Laws.thy ===== *)
theory Tresor_Storage_Laws
  imports Tresor_Lookup
begin

text \<open>
  What a storage guarantees. \<open>sto_step\<close> interleaves everything that runs under the storage's lock - the
  ATTACH and DETACH, callers taking their views, lists, materials and variables landing in them, writes
  emptying them, grants rejected, acl sessions closing, logoffs. \<open>sto_run\<close> adds what the fields do not
  tell: for whom a view was made (\<open>rn_owner\<close>), which calls took which view and when (\<open>rn_calls\<close>), and
  whose answers a view holds (\<open>rn_writers\<close>): the session, the acl session and the epoch of the call.
\<close>

section \<open>Runs\<close>

type_synonym who = "nat option \<times> string \<times> nat"

record sto_run =
  rn_sto :: storage
  rn_owner :: "nat \<Rightarrow> who"
  rn_calls :: "(caller \<times> nat \<times> nat) set"
  rn_writers :: "nat \<Rightarrow> who set"

text \<open>The storage moves on to \<open>st\<close>; a view made by the step is made for the session and acl session given.\<close>

definition moved :: "nat option \<Rightarrow> string \<Rightarrow> storage \<Rightarrow> sto_run \<Rightarrow> sto_run" where
  "moved sid acl st r = r\<lparr>rn_sto := st,
     rn_owner := (\<lambda>v. if v < st_next (rn_sto r) then rn_owner r v else (sid, acl, st_epoch st))\<rparr>"

definition wrote :: "bool \<Rightarrow> nat \<Rightarrow> who \<Rightarrow> sto_run \<Rightarrow> sto_run" where
  "wrote really v who r = (if really then r\<lparr>rn_writers := (rn_writers r)(v := insert who (rn_writers r v))\<rparr> else r)"

text \<open>What may change in a view without an answer of the service in it: nothing is added.\<close>

definition only_less :: "(view \<Rightarrow> view) \<Rightarrow> bool" where
  "only_less f \<longleftrightarrow> (\<forall>w. set (v_descriptors (f w)) \<subseteq> set (v_descriptors w) \<and>
     dom (v_materials (f w)) \<subseteq> dom (v_materials w) \<and> dom (v_variables (f w)) \<subseteq> dom (v_variables w))"

inductive sto_step :: "sto_run \<Rightarrow> sto_run \<Rightarrow> bool" where
  sto_activating: "sto_step r (wrote True (st_next (rn_sto r)) (Some sid, [], st_epoch (rn_sto r))
    (moved (Some sid) [] (activate sid initial aid now (rn_sto r)) r))"
| sto_acting: "sto_step r (moved (Some sid) [] (set_actor sid aid (rn_sto r)) r)"
| sto_deactivating: "sto_step r (moved (Some sid) [] (deactivate sid (rn_sto r)) r)"
| sto_forgetting: "sto_step r (moved None [] (forget_session acl (rn_sto r)) r)"
| sto_rejecting: "sto_step r (moved None [] ((rn_sto r)\<lparr>st_acl_views := AList.delete acl (st_acl_views (rn_sto r))\<rparr>) r)"
| sto_refusing: "sto_step r (moved None [] (snd (first_refusal acl (rn_sto r))) r)"
| sto_viewing: "view_of c actors (rn_sto r) = (found, st) \<Longrightarrow>
    sto_step r ((moved (cl_session c) (cl_acl_session c) st r)\<lparr>rn_calls := rn_calls r \<union>
      (case found of None \<Rightarrow> {} | Some v \<Rightarrow> {(c, v, st_epoch (rn_sto r))})\<rparr>)"
| sto_resetting: "sto_step r (moved (Some sid) [] (reset_caches sid (rn_sto r)) r)"
| sto_writing: "sto_step r (moved None [] (invalidate name (rn_sto r)) r)"
| sto_setting: "sto_step r (moved None [] (invalidate_variable name (rn_sto r)) r)"
| sto_emptying: "only_less f \<Longrightarrow> sto_step r (moved None [] (upd_view v f (rn_sto r)) r)"
| sto_landing: "sto_step r (wrote (st_epoch (rn_sto r) = epoch \<and> serves c v (rn_sto r)) v (cl_session c, cl_acl_session c, epoch)
    (moved None [] (snd (land_list c v started epoch list now (rn_sto r))) r))"
| sto_failing: "sto_step r (moved None [] (snd (land_failure c v epoch quiet now (rn_sto r))) r)"
| sto_refreshing: "sto_step r (wrote (st_epoch (rn_sto r) = epoch \<and> serves c v (rn_sto r)) v (cl_session c, cl_acl_session c, epoch)
    (moved None [] (land_refresh c v epoch list now (rn_sto r)) r))"
| sto_keeping: "(c, v, e) \<in> rn_calls r \<Longrightarrow>
    sto_step r (wrote (serves c v (rn_sto r)) v (cl_session c, cl_acl_session c, e)
      (moved None [] (keep_material c v d now until served typed (rn_sto r)) r))"
| sto_keeping_variable: "(c, v, e) \<in> rn_calls r \<Longrightarrow>
    sto_step r (wrote (serves c v (rn_sto r)) v (cl_session c, cl_acl_session c, e)
      (moved None [] (keep_variable c v name now until known (rn_sto r)) r))"

definition new_storage :: "string \<Rightarrow> int \<Rightarrow> storage" where
  "new_storage name offset = \<lparr>st_name = name, st_offset = offset, st_refusals = [], st_session = None, st_actor = None,
     st_node = None, st_acl_views = [], st_views = (\<lambda>_. new_view), st_next = 0, st_generation = 0, st_epoch = 0\<rparr>"

definition new_sto_run :: "sto_run \<Rightarrow> bool" where
  "new_sto_run r \<longleftrightarrow> (\<exists>name offset. rn_sto r = new_storage name offset) \<and> rn_calls r = {} \<and> rn_writers r = (\<lambda>_. {})"

section \<open>The invariant\<close>

definition holds :: "view \<Rightarrow> bool" where
  "holds w \<longleftrightarrow> v_descriptors w \<noteq> [] \<or> v_materials w \<noteq> Map.empty \<or> v_variables w \<noteq> Map.empty"

definition views_ok :: "(nat \<Rightarrow> who) \<Rightarrow> storage \<Rightarrow> bool" where
  "views_ok owner st \<longleftrightarrow>
     (\<forall>v. st_node st = Some v \<longrightarrow> v < st_next st \<and> owner v = (st_session st, [], st_epoch st)) \<and>
     (\<forall>acl v. map_of (st_acl_views st) acl = Some v \<longrightarrow>
        v < st_next st \<and> owner v = (st_session st, acl, st_epoch st) \<and> acl \<noteq> [])"

definition calls_ok :: "sto_run \<Rightarrow> bool" where
  "calls_ok r \<longleftrightarrow> (\<forall>(c, v, e) \<in> rn_calls r. v < st_next (rn_sto r) \<and> rn_owner r v = (cl_session c, cl_acl_session c, e))"

definition writers_ok :: "sto_run \<Rightarrow> bool" where
  "writers_ok r \<longleftrightarrow> (\<forall>v. if v < st_next (rn_sto r)
     then rn_writers r v \<subseteq> {rn_owner r v} \<and> (holds (st_views (rn_sto r) v) \<longrightarrow> rn_writers r v \<noteq> {})
     else rn_writers r v = {})"

definition sto_ok :: "sto_run \<Rightarrow> bool" where
  "sto_ok r \<longleftrightarrow> views_ok (rn_owner r) (rn_sto r) \<and> calls_ok r \<and> writers_ok r"

lemmas sto_ok_defs = sto_ok_def views_ok_def calls_ok_def writers_ok_def

lemma serves_owner: "views_ok owner st \<Longrightarrow> serves c v st \<Longrightarrow> v < st_next st \<and> owner v = (cl_session c, cl_acl_session c, st_epoch st)"
  by (auto simp: serves_def views_ok_def is_node_def split: if_splits)

text \<open>A step that makes no view, keeps who points where, and adds nothing to a view keeps the invariant.\<close>

lemma step_less:
  assumes "sto_ok r" and "st_next st = st_next (rn_sto r)"
    and "views_ok (rn_owner r) st" and "\<And>v. holds (st_views st v) \<Longrightarrow> holds (st_views (rn_sto r) v)"
  shows "sto_ok (moved sid acl st r)"
  using assms by (auto simp: sto_ok_defs moved_def split: if_splits)

lemma views_ok_keep: "views_ok owner st \<Longrightarrow> st_node st' = st_node st \<Longrightarrow> st_acl_views st' = st_acl_views st \<Longrightarrow>
    st_next st' = st_next st \<Longrightarrow> st_session st' = st_session st \<Longrightarrow> st_epoch st' = st_epoch st \<Longrightarrow> views_ok owner st'"
  by (simp add: views_ok_def)

lemma upd_view_fields [simp]:
  "st_node (upd_view v f st) = st_node st" "st_acl_views (upd_view v f st) = st_acl_views st"
  "st_next (upd_view v f st) = st_next st" "st_session (upd_view v f st) = st_session st"
  "st_epoch (upd_view v f st) = st_epoch st" "st_actor (upd_view v f st) = st_actor st"
  "st_generation (upd_view v f st) = st_generation st" "st_name (upd_view v f st) = st_name st"
  "st_views (upd_view v f st) = (st_views st)(v := f (st_views st v))"
  by (simp_all add: upd_view_def)

lemma in_every_view_fields [simp]:
  "st_node (in_every_view f st) = st_node st" "st_acl_views (in_every_view f st) = st_acl_views st"
  "st_next (in_every_view f st) = st_next st" "st_session (in_every_view f st) = st_session st"
  "st_epoch (in_every_view f st) = st_epoch st" "st_generation (in_every_view f st) = st_generation st"
  "st_views (in_every_view f st) = (\<lambda>v. if in_use st v then f (st_views st v) else st_views st v)"
  by (simp_all add: in_every_view_def)

lemma serves_upd_view [simp]: "serves c w (upd_view v f st) = serves c w st"
  by (simp add: serves_def)

lemma writers_owner: "sto_ok r \<Longrightarrow> v < st_next (rn_sto r) \<Longrightarrow> w \<in> rn_writers r v \<Longrightarrow> w = rn_owner r v"
  by (auto simp: sto_ok_def writers_ok_def dest!: spec [of _ v])

text \<open>A view the step changes: still as owned, with the answer's writer recorded.\<close>

lemma step_write:
  assumes "sto_ok r" and "really \<Longrightarrow> v < st_next (rn_sto r) \<and> rn_owner r v = who"
    and "st = (if really then upd_view v f (rn_sto r) else rn_sto r)"
  shows "sto_ok (wrote really v who (moved sid acl st r))"
proof (cases really)
  case True
  then have st: "st = upd_view v f (rn_sto r)" and v: "v < st_next (rn_sto r)" "rn_owner r v = who" using assms by auto
  have "views_ok (rn_owner r) st"
    using assms(1) unfolding st sto_ok_def by (auto intro: views_ok_keep)
  then have "views_ok (rn_owner (moved sid acl st r)) st"
    unfolding views_ok_def by (simp add: moved_def st)
  moreover have "calls_ok (wrote really v who (moved sid acl st r))"
    using assms(1) True by (auto simp: sto_ok_def calls_ok_def moved_def wrote_def st)
  moreover have "writers_ok (wrote really v who (moved sid acl st r))"
    using assms(1) True v writers_owner [of r] by (auto simp: sto_ok_def writers_ok_def moved_def wrote_def st)
  ultimately show ?thesis
    using True by (simp add: sto_ok_def wrote_def moved_def)
next
  case False
  then show ?thesis using assms step_less [of r "rn_sto r"] by (simp add: wrote_def sto_ok_def)
qed

lemma step_new:
  assumes "sto_ok r" and "st_next st = st_next (rn_sto r) + 1"
    and "views_ok (\<lambda>v. if v < st_next (rn_sto r) then rn_owner r v else (sid, acl, st_epoch st)) st"
    and "st_views st = (st_views (rn_sto r))(st_next (rn_sto r) := w)" and "\<not> holds w"
  shows "sto_ok (moved sid acl st r)"
  using assms by (auto simp: sto_ok_defs moved_def split: if_splits)

lemma holds_new_view [simp]: "\<not> holds new_view"
  by (simp add: holds_def new_view_def)

lemma holds_alt: "holds w \<longleftrightarrow> set (v_descriptors w) \<noteq> {} \<or> dom (v_materials w) \<noteq> {} \<or> dom (v_variables w) \<noteq> {}"
  by (simp add: holds_def)

lemma only_less_holds: "only_less f \<Longrightarrow> holds (f w) \<Longrightarrow> holds w"
  unfolding only_less_def holds_alt by (drule spec [of _ w]) auto

lemma sto_ok_calls: "sto_ok r \<Longrightarrow> \<forall>(c, v, e) \<in> cs. v < st_next (rn_sto r) \<and> rn_owner r v = (cl_session c, cl_acl_session c, e) \<Longrightarrow>
    sto_ok (r\<lparr>rn_calls := rn_calls r \<union> cs\<rparr>)"
  by (auto simp: sto_ok_defs)

lemma view_of_ok:
  assumes "sto_ok r" and "view_of c actors (rn_sto r) = (found, st)"
  defines "r' \<equiv> moved (cl_session c) (cl_acl_session c) st r"
  shows "sto_ok r' \<and> (\<forall>v. found = Some v \<longrightarrow> v < st_next st \<and>
    rn_owner r' v = (cl_session c, cl_acl_session c, st_epoch (rn_sto r)))"
proof (cases "st = rn_sto r")
  case True
  have ok: "sto_ok r'"
    unfolding r'_def True by (rule step_less) (use assms(1) in \<open>auto simp: sto_ok_def\<close>)
  have "serves c v (rn_sto r)" if "found = Some v" for v
    using assms(2) that True
    by (auto simp: view_of_def serves_def add_view_def Let_def split: if_splits option.splits)
      (metis n_not_Suc_n storage.select_convs(9) storage.simps storage.surjective storage.update_convs)+
  then show ?thesis
    using ok serves_owner [of "rn_owner r" "rn_sto r" c] assms(1) True by (auto simp: r'_def moved_def sto_ok_def)
next
  case False
  then have st: "found = Some (st_next (rn_sto r))" "st_session (rn_sto r) = cl_session c" "\<not> is_node c"
    "st = (rn_sto r)\<lparr>st_views := (st_views (rn_sto r))(st_next (rn_sto r) := new_view), st_next := st_next (rn_sto r) + 1,
       st_acl_views := AList.update (cl_acl_session c) (st_next (rn_sto r)) (st_acl_views (rn_sto r))\<rparr>"
    using assms(2) by (auto simp: view_of_def add_view_def split: if_splits option.splits)
  have "sto_ok r'"
    unfolding r'_def using assms(1) st(2,3)
    by (intro step_new [where w = new_view])
      (auto simp: st(4) sto_ok_def views_ok_def update_conv' is_node_def less_Suc_eq split: if_splits)
  then show ?thesis using st by (simp add: r'_def moved_def)
qed

lemma same_views:
  assumes "sto_ok r" and "st_node st = st_node (rn_sto r)" and "st_acl_views st = st_acl_views (rn_sto r)"
    and "st_next st = st_next (rn_sto r)" and "st_session st = st_session (rn_sto r)" and "st_epoch st = st_epoch (rn_sto r)"
    and "\<And>v. holds (st_views st v) \<Longrightarrow> holds (st_views (rn_sto r) v)"
  shows "sto_ok (moved sid acl st r)"
  by (rule step_less) (use assms in \<open>auto simp: sto_ok_def intro: views_ok_keep\<close>)

lemma reset_ok: "sto_ok r \<Longrightarrow> sto_ok (moved (Some sid) [] (reset_caches sid (rn_sto r)) r)"
proof (cases "st_session (rn_sto r) = Some sid")
  case True
  assume "sto_ok r"
  then show ?thesis
    by (intro step_new [where w = new_view]) (auto simp: reset_caches_def add_view_def True views_ok_def)
next
  case False
  assume "sto_ok r"
  then show ?thesis by (intro same_views) (auto simp: reset_caches_def False)
qed

lemma activate_ok:
  assumes "sto_ok r"
  shows "sto_ok (wrote True (st_next (rn_sto r)) (Some sid, [], st_epoch (rn_sto r))
    (moved (Some sid) [] (activate sid initial aid now (rn_sto r)) r))"
proof -
  let ?r = "moved (Some sid) [] (activate sid initial aid now (rn_sto r)) r"
  have "views_ok (rn_owner ?r) (rn_sto ?r)" by (simp add: views_ok_def moved_def activate_def add_view_def)
  moreover have "calls_ok ?r"
    using assms by (auto simp: sto_ok_def calls_ok_def moved_def activate_def add_view_def)
  moreover have "writers_ok (wrote True (st_next (rn_sto r)) (Some sid, [], st_epoch (rn_sto r)) ?r)"
    using assms by (auto simp: sto_ok_def writers_ok_def moved_def wrote_def activate_def add_view_def less_Suc_eq)
  ultimately show ?thesis by (simp add: sto_ok_def wrote_def calls_ok_def)
qed

lemma delete_views_ok: "views_ok owner st \<Longrightarrow> views_ok owner (st\<lparr>st_acl_views := AList.delete acl (st_acl_views st)\<rparr>)"
  by (auto simp: views_ok_def delete_conv' split: if_splits)

lemma in_every_view_ok:
  assumes "sto_ok r" and "only_less f" and "st_views st = st_views (rn_sto r)" and "st_node st = st_node (rn_sto r)"
    and "st_acl_views st = st_acl_views (rn_sto r)" and "st_next st = st_next (rn_sto r)"
    and "st_session st = st_session (rn_sto r)" and "st_epoch st = st_epoch (rn_sto r)"
  shows "sto_ok (moved sid acl (in_every_view f st) r)"
  by (rule same_views) (use assms only_less_holds [OF assms(2)] in \<open>auto split: if_splits\<close>)

lemma keep_material_upd: "\<exists>f. keep_material c v d now until served typed st = (if serves c v st then upd_view v f st else st)"
  by (auto simp: keep_material_def)

lemma keep_variable_upd: "\<exists>f. keep_variable c v name now until known st = (if serves c v st then upd_view v f st else st)"
  by (auto simp: keep_variable_def)

lemma land_list_upd: "\<exists>f. snd (land_list c v started epoch list now st) =
    (if st_epoch st = epoch \<and> serves c v st then upd_view v f st else st)"
  by (auto simp: land_list_def Let_def upd_view_def intro: exI [of _ id])

lemma sto_step_ok:
  assumes ok: "sto_ok r" and step: "sto_step r r'"
  shows "sto_ok r'"
proof -
  have views: "views_ok (rn_owner r) (rn_sto r)" using ok by (simp add: sto_ok_def)
  have call: "rn_owner r v = (cl_session c, cl_acl_session c, e)" if "(c, v, e) \<in> rn_calls r" for c v e
    using ok that by (auto simp: sto_ok_def calls_ok_def)
  have serve: "v < st_next (rn_sto r) \<and> rn_owner r v = (cl_session c, cl_acl_session c, st_epoch (rn_sto r))"
    if "serves c v (rn_sto r)" for c v
    using serves_owner [OF views that] .
  from step show ?thesis
  proof cases
    case (sto_activating sid initial aid now)
    then show ?thesis using activate_ok [OF ok] by simp
  next
    case (sto_acting sid aid)
    show ?thesis unfolding sto_acting
      by (rule step_less [OF ok]) (use views in \<open>auto simp: set_actor_def views_ok_def split: if_splits\<close>)
  next
    case (sto_deactivating sid)
    show ?thesis unfolding sto_deactivating
      by (rule step_less [OF ok]) (use views in \<open>auto simp: deactivate_def views_ok_def split: if_splits\<close>)
  next
    case (sto_forgetting acl)
    show ?thesis unfolding sto_forgetting
      by (rule step_less [OF ok]) (use views in \<open>auto simp: forget_session_def views_ok_def delete_conv' split: if_splits\<close>)
  next
    case (sto_rejecting acl)
    show ?thesis unfolding sto_rejecting
      by (rule step_less [OF ok]) (use views in \<open>auto simp: delete_views_ok\<close>)
  next
    case (sto_refusing acl)
    show ?thesis unfolding sto_refusing by (rule same_views [OF ok]) (auto simp: first_refusal_def Let_def)
  next
    case (sto_viewing c actors found st)
    then show ?thesis
      using view_of_ok [OF ok, of c actors found st]
        sto_ok_calls [of "moved (cl_session c) (cl_acl_session c) st r"
          "case found of None \<Rightarrow> {} | Some v \<Rightarrow> {(c, v, st_epoch (rn_sto r))}"]
      by (auto simp: moved_def split: option.splits)
  next
    case (sto_resetting sid)
    then show ?thesis using reset_ok [OF ok] by simp
  next
    case (sto_writing name)
    show ?thesis unfolding sto_writing invalidate_def
      by (rule in_every_view_ok [OF ok]) (auto simp: only_less_def)
  next
    case (sto_setting name)
    show ?thesis unfolding sto_setting invalidate_variable_def
      by (rule in_every_view_ok [OF ok]) (auto simp: only_less_def)
  next
    case (sto_emptying f v)
    show ?thesis unfolding sto_emptying
      by (rule same_views [OF ok]) (use only_less_holds [OF sto_emptying(2)] in \<open>auto split: if_splits\<close>)
  next
    case (sto_landing epoch c v started list now)
    show ?thesis unfolding sto_landing using land_list_upd [of c v started epoch list now "rn_sto r"] serve
      by (auto intro!: step_write [OF ok])
  next
    case (sto_failing c v epoch quiet now)
    show ?thesis unfolding sto_failing
      by (rule same_views [OF ok]) (auto simp: land_failure_def Let_def holds_def split: if_splits)
  next
    case (sto_refreshing epoch c v list now)
    show ?thesis unfolding sto_refreshing
      by (rule step_write [OF ok]) (use serve in \<open>auto simp: land_refresh_def conj_commute\<close>)
  next
    case (sto_keeping c v e d now until served typed)
    obtain f where "keep_material c v d now until served typed (rn_sto r) =
        (if serves c v (rn_sto r) then upd_view v f (rn_sto r) else rn_sto r)"
      using keep_material_upd by blast
    then show ?thesis unfolding sto_keeping(1)
      by (intro step_write [OF ok]) (use serve call [OF sto_keeping(2)] in auto)
  next
    case (sto_keeping_variable c v e name now until known)
    obtain f where "keep_variable c v name now until known (rn_sto r) =
        (if serves c v (rn_sto r) then upd_view v f (rn_sto r) else rn_sto r)"
      using keep_variable_upd by blast
    then show ?thesis unfolding sto_keeping_variable(1)
      by (intro step_write [OF ok]) (use serve call [OF sto_keeping_variable(2)] in auto)
  qed
qed

interpretation views: invariant_system new_sto_run sto_step sto_ok
proof unfold_locales
  show "sto_ok r" if "new_sto_run r" for r
    using that by (auto simp: new_sto_run_def new_storage_def sto_ok_defs)
qed (rule sto_step_ok)

section \<open>Weakest preconditions\<close>

lemma wp_with_sto [wp_simps]: "wp (with_sto f) Q E s = (case f (y_sto s) of (r, st) \<Rightarrow> Q r (s\<lparr>y_sto := st\<rparr>))"
  by (simp add: wp_def with_sto_def split: prod.splits)

lemma wp_on_sto [wp_simps]: "wp (on_sto f) Q E s = Q () (s\<lparr>y_sto := f (y_sto s)\<rparr>)"
  by (simp add: on_sto_def wp_modifyS)

lemma wp_get_sto [wp_simps]: "wp (get_sto f) Q E s = Q (f (y_sto s)) s"
  by (simp add: get_sto_def wp_gets)

lemma wp_get_now [wp_simps]: "wp (get_now X) Q E s = Q (fst (x_now X (y_inst s))) (s\<lparr>y_inst := snd (x_now X (y_inst s))\<rparr>)"
  by (simp add: get_now_def wp_on_instance)

lemma wp_find_view [wp_simps]: "wp (find_view c) Q E s =
    (case view_of c (y_actor s) (y_sto s) of (v, st) \<Rightarrow> Q v (s\<lparr>y_sto := st\<rparr>))"
  by (simp add: wp_def find_view_def split: prod.splits)

lemma wp_logged_off_of [wp_simps]: "wp (logged_off_of c) Q E s =
    Q (case cl_session c of None \<Rightarrow> False | Some sid \<Rightarrow> s_logged_off_seen (y_ses s sid)) s"
  by (simp add: logged_off_of_def wp_gets)

lemma wp_any: "(\<And>a t. Q a t) \<Longrightarrow> (\<And>e t. E e t) \<Longrightarrow> wp f Q E s"
  by (rule wp_mono [OF wp_triv]) auto

section \<open>The list a caller decides with\<close>

text \<open>What a round may answer: nothing, or the list the caller's view holds now - or none, to an acl session refused.\<close>

definition listed_for :: "caller \<Rightarrow> descriptor list \<Rightarrow> nat option \<Rightarrow> storage \<Rightarrow> bool" where
  "listed_for c list found st = (case found of
       None \<Rightarrow> list = []
     | Some v \<Rightarrow> (serves c v st \<and> list = v_descriptors (view_at v st)) \<or> (list = [] \<and> \<not> is_node c))"

definition round_for :: "caller \<Rightarrow> round \<Rightarrow> storage \<Rightarrow> bool" where
  "round_for c r st = (case r of Again \<Rightarrow> True | Answer list found \<Rightarrow> listed_for c list found st)"

lemma round_for_simps [simp]:
  "round_for c Again st" "round_for c nothing st" "round_for c (list_of v st) st \<longleftrightarrow> serves c v st \<or> (v_descriptors (view_at v st) = [] \<and> \<not> is_node c)"
  by (auto simp: round_for_def nothing_def list_of_def listed_for_def)

lemma held_list_for: "held_list c v off busy now st = Some r \<Longrightarrow> round_for c r st"
  by (auto simp: held_list_def Let_def split: if_splits)

lemma land_list_for: "land_list c v started epoch list now st = (r, st') \<Longrightarrow> round_for c r st'"
  by (auto simp: land_list_def Let_def split: if_splits)

lemma land_failure_for: "land_failure c v epoch quiet now st = (r, st') \<Longrightarrow> round_for c r st'"
  by (auto simp: land_failure_def Let_def split: if_splits)

lemma wp_catch_any:
  assumes "\<And>a t. wp (g a) Q (\<lambda>e. wp (h e) Q E) t" and "\<And>e t. wp (h e) Q E t"
  shows "wp (catchE (bindE f g) h) Q E s"
  unfolding wp_catchE wp_bindE by (rule wp_any) (use assms in auto)

lemma round_for_unlock [simp]: "round_for c r (unlock_fetch v st) = round_for c r st"
  by (auto simp: round_for_def listed_for_def unlock_fetch_def view_at_def split: round.splits option.splits)

lemma round_for_refused [simp]: "round_for c (Answer [] (Some v)) st \<longleftrightarrow> \<not> is_node c \<or> (serves c v st \<and> v_descriptors (view_at v st) = [])"
  by (auto simp: round_for_def listed_for_def)

lemma fetch_round_for: "wp (fetch_round X H interrupted c v first off) (\<lambda>r t. round_for c r (y_sto t)) (\<lambda>_ _. False) s"
proof -
  have land: "wp (bindE (get_now X) (\<lambda>now. with_sto (land_list c v started epoch list now)))
      (\<lambda>r t. round_for c r (y_sto t)) E t" for started epoch list E t
    by (auto simp: wp_simps dest: land_list_for split: prod.splits)
  have failed: "wp (if is_permission e \<and> \<not> is_node c then ret (Answer [] (Some v))
      else bindE (get_now X) (\<lambda>now. bindE (logged_off_of c) (\<lambda>off.
        with_sto (land_failure c v epoch (\<not> is_permission e \<and> off) now))))
      (\<lambda>r t. round_for c r (y_sto t)) (\<lambda>_ _. False) t" for epoch e t
    by (auto simp: wp_simps dest: land_failure_for split: prod.splits)
  show ?thesis
    unfolding fetch_round_def wp_bindE [of "get_sto id"] Let_def
    by (auto simp: wp_simps(11) wp_get_sto wp_if wp_ret intro: wp_catch_any [OF land failed])
qed

lemma locked_round_for: "wp (fetch_round X H interrupted c v first off)
    (\<lambda>r. wp (seqE (on_sto (unlock_fetch v)) (ret r)) (\<lambda>r t. round_for c r (y_sto t)) (\<lambda>_ _. False)) (\<lambda>_ _. False) s"
  by (rule wp_mono [OF fetch_round_for]) (auto simp: wp_simps)

lemma snapshot_round_for: "wp (snapshot_round X H interrupted c) (\<lambda>r t. round_for c r (y_sto t)) (\<lambda>_ _. False) s"
  unfolding snapshot_round_def
  by (auto simp: wp_simps Let_def locked_round_for dest: held_list_for split: prod.splits option.splits)

lemma snapshot_for: "wp (snapshot X H interrupted c) (\<lambda>(list, found) t. listed_for c list found (y_sto t)) (\<lambda>_ _. False) s"
proof -
  have "wp (case r of Answer list v \<Rightarrow> ret (list, v) | Again \<Rightarrow> ret ([], None))
      (\<lambda>(list, found) t. listed_for c list found (y_sto t)) (\<lambda>_ _. False) t"
    if "round_for c r (y_sto t)" for r and t :: "('a, 'b) sto_sys_scheme"
    using that by (cases r) (auto simp: wp_simps round_for_def listed_for_def [of c "[]" None])
  then have last: "wp (snapshot_round X H interrupted c)
      (\<lambda>r. wp (case r of Answer list v \<Rightarrow> ret (list, v) | Again \<Rightarrow> ret ([], None))
        (\<lambda>(list, found) t. listed_for c list found (y_sto t)) (\<lambda>_ _. False)) (\<lambda>_ _. False) t" for t
    by (rule wp_mono [OF snapshot_round_for]) auto
  show ?thesis
    unfolding snapshot_def wp_bindE [of "snapshot_round X H interrupted c"]
    by (rule wp_mono [OF snapshot_round_for]) (auto simp: wp_ret round_for_def last wp_bindE split: round.splits)
qed

section \<open>Properties\<close>

text \<open>
  C18: no caller is ever answered from what another caller, another login or an earlier login fetched.
  Along every interleaving of everything that happens to a storage, the view a caller is served from
  holds only answers of calls made as exactly that caller - the same ATTACH's session, the same acl
  session or the node - since the last logoff or taken-up login (the epoch); a view that holds anything
  has such a call; and no two callers share a view.
\<close>

theorem views_isolated:
  assumes "new_sto_run r" and "sto_step\<^sup>*\<^sup>* r r'" and "serves c v (rn_sto r')"
  shows "rn_writers r' v \<subseteq> {(cl_session c, cl_acl_session c, st_epoch (rn_sto r'))} \<and>
    (rn_writers r' v = {} \<longrightarrow> \<not> holds (view_at v (rn_sto r'))) \<and>
    (serves c' v (rn_sto r') \<longrightarrow> cl_session c' = cl_session c \<and> cl_acl_session c' = cl_acl_session c)"
proof -
  have ok: "sto_ok r'" using views.reach_inv assms(1,2) .
  have v: "v < st_next (rn_sto r') \<and> rn_owner r' v = (cl_session c, cl_acl_session c, st_epoch (rn_sto r'))"
    if "serves c v (rn_sto r')" for c
    using ok that serves_owner [of "rn_owner r'" "rn_sto r'"] by (simp add: sto_ok_def)
  have "writers_ok r'" using ok by (simp add: sto_ok_def)
  then have "rn_writers r' v \<subseteq> {rn_owner r' v} \<and> (holds (view_at v (rn_sto r')) \<longrightarrow> rn_writers r' v \<noteq> {})"
    using v [OF assms(3)] by (auto simp: writers_ok_def view_at_def dest!: spec [of _ v])
  then show ?thesis
    using v [OF assms(3)] v [of c'] by auto
qed

text \<open>An acl session's variable, kept: ATTACH, its statement takes a view, the answer lands.\<close>

definition sample_caller :: caller where
  "sample_caller = no_caller\<lparr>cl_session := Some 7, cl_acl_session := ''s1'', cl_grant := ''g''\<rparr>"

definition sample_actors :: "nat \<Rightarrow> actor" where
  "sample_actors = (\<lambda>_. opened 0 ''s1'' ''u'' ''i'' 0 ''t'' (new_actor 7 \<lparr>ao_on_behalf_of = False, ao_scope = [],
     ao_audience = ''a'', ao_grant_wait_seconds = 10, ao_service = ''corp''\<rparr>))"

definition sto_run0 :: sto_run where
  "sto_run0 = \<lparr>rn_sto = new_storage ''corp'' 40, rn_owner = (\<lambda>_. (None, [], 0)), rn_calls = {}, rn_writers = (\<lambda>_. {})\<rparr>"

definition sto_run1 :: sto_run where
  "sto_run1 = wrote True 0 (Some 7, [], 0) (moved (Some 7) [] (activate 7 [] (Some 3) 1000 (rn_sto sto_run0)) sto_run0)"

definition sto_run2 :: sto_run where
  "sto_run2 = (moved (Some 7) ''s1'' (snd (view_of sample_caller sample_actors (rn_sto sto_run1))) sto_run1)
     \<lparr>rn_calls := {(sample_caller, 1, 0)}\<rparr>"

definition sto_run3 :: sto_run where
  "sto_run3 = wrote True 1 (Some 7, ''s1'', 0)
     (moved None [] (keep_variable sample_caller 1 ''city'' 1000 1030 ''Oslo'' (rn_sto sto_run2)) sto_run2)"

lemmas sto_runs = sto_run0_def sto_run1_def sto_run2_def sto_run3_def sample_caller_def sample_actors_def new_storage_def
  activate_def add_view_def moved_def wrote_def view_of_def usable_caller_def is_node_def no_caller_def serves_session_def
  find_entry_def opened_def new_actor_def push_job_def put_entry_def

lemma sample_view: "view_of sample_caller sample_actors (rn_sto sto_run1) = (Some 1, snd (view_of sample_caller sample_actors (rn_sto sto_run1)))"
  by (simp add: sto_runs)

lemma sample_serves: "serves sample_caller 1 (rn_sto sto_run2)" "serves sample_caller 1 (rn_sto sto_run3)"
  by (simp_all add: sto_runs serves_def keep_variable_def upd_view_def)

lemma sample_sto_run: "sto_step\<^sup>*\<^sup>* sto_run0 sto_run3"
proof -
  have 1: "sto_step sto_run0 sto_run1"
    using sto_activating [of sto_run0 7 "[]" "Some 3" 1000] by (simp add: sto_run1_def sto_run0_def new_storage_def)
  have 2: "sto_step sto_run1 sto_run2"
  proof -
    have "rn_calls sto_run1 = {}" "st_epoch (rn_sto sto_run1) = 0" "cl_session sample_caller = Some 7"
      "cl_acl_session sample_caller = ''s1''" by (simp_all add: sto_runs)
    then show ?thesis using sto_viewing [OF sample_view] by (simp add: sto_run2_def)
  qed
  have 3: "sto_step sto_run2 sto_run3"
    using sto_keeping_variable [of sample_caller 1 0 sto_run2 "''city''" 1000 1030 "''Oslo''"] sample_serves
    by (simp add: sto_run3_def sample_caller_def) (simp add: sto_run2_def sample_caller_def no_caller_def)
  show ?thesis
    using 3 converse_rtranclp_into_rtranclp [of sto_step, OF 1 converse_rtranclp_into_rtranclp [of sto_step, OF 2 r_into_rtranclp]]
    by blast
qed

theorem views_isolated_witness:
  "serves sample_caller 1 (rn_sto sto_run3) \<and> holds (view_at 1 (rn_sto sto_run3)) \<and>
    rn_writers sto_run3 1 = {(Some 7, ''s1'', 0)}"
proof -
  have init: "new_sto_run sto_run0" by (auto simp: new_sto_run_def sto_run0_def)
  have "holds (view_at 1 (rn_sto sto_run3))"
    using sample_serves(1) by (simp add: sto_run3_def moved_def wrote_def keep_variable_def holds_alt view_at_def)
  moreover have "st_epoch (rn_sto sto_run3) = 0"
    using sample_serves(1) by (simp add: sto_run3_def moved_def wrote_def keep_variable_def) (simp add: sto_runs)
  ultimately show ?thesis
    using views_isolated [OF init sample_sto_run sample_serves(2), of sample_caller] sample_serves(2)
    by (auto simp: sample_caller_def no_caller_def)
qed

text \<open>
  C32: asking a storage for its list never fails and never answers for someone else. Whatever the service
  and the identity provider do, whatever other threads do meanwhile, \<^verbatim>\<open>Snapshot\<close> returns: with nothing; or
  with a view that is the caller's at that moment and exactly the list that view holds; or - to an acl
  session whose grant was refused - with an empty list.
\<close>

theorem snapshot_answers_own_view:
  "case snapshot X H interrupted c s of
     (Inl e, t) \<Rightarrow> False
   | (Inr (list, found), t) \<Rightarrow>
       (case found of
          None \<Rightarrow> list = []
        | Some v \<Rightarrow> (serves c v (y_sto t) \<and> list = v_descriptors (view_at v (y_sto t))) \<or> (list = [] \<and> \<not> is_node c))"
  using snapshot_for [of X H interrupted c s]
  by (auto simp: wp_def listed_for_def split: prod.splits sum.splits)

text \<open>
  C34: how long a value of the service may be served from memory. Never longer than its lifetime, never up
  to the expiry the service gives or past it - yet a value that has not expired is kept for a while, at
  least half of what is left up to the lifetime, so that a scan does not fetch it for every file. Without
  a readable expiry, where one is needed, nothing is kept.
\<close>

theorem valid_until_bounds:
  assumes "0 < lifetime"
  shows "valid_until L root now lifetime required \<le> now + lifetime \<and>
    (case jget_opt root ''expires_at'' of
       Some (JStr t) \<Rightarrow>
         (case (if cstr t = [] then None else lb_timestamp L (cstr t)) of
            None \<Rightarrow> valid_until L root now lifetime required = now
          | Some e \<Rightarrow> valid_until L root now lifetime required \<le> e \<and>
              (now < e \<longrightarrow> now < valid_until L root now lifetime required \<and>
                 min lifetime (half (e - now)) \<le> valid_until L root now lifetime required - now))
     | Some JNull \<Rightarrow> valid_until L root now lifetime required = (if required then now else now + lifetime)
     | None \<Rightarrow> valid_until L root now lifetime required = (if required then now else now + lifetime)
     | Some _ \<Rightarrow> valid_until L root now lifetime required = now)"
proof -
  have "0 \<le> half (e - now) \<and> 2 * half (e - now) \<le> e - now" if "now < e" for e
    using that half_bounds [of "e - now"] by simp
  then show ?thesis
    using assms by (force simp: valid_until_def Let_def DYNAMIC_MARGIN_SECONDS_def split: option.splits json.splits if_splits)
qed

definition timed_lib :: lib where
  "timed_lib = sample_lib\<lparr>lb_timestamp := (\<lambda>t. if t = ''soon'' then Some 1040 else None)\<rparr>"

theorem valid_until_bounds_witness:
  "valid_until timed_lib (Some (JObj [(''expires_at'', JStr ''soon'')])) 1000 300 True = 1020 \<and>
   valid_until timed_lib (Some (JObj [(''expires_at'', JStr ''soon'')])) 1000 300 True \<le> 1300"
  using valid_until_bounds [of 300 timed_lib "Some (JObj [(''expires_at'', JStr ''soon'')])" 1000 True]
  by (simp add: valid_until_def timed_lib_def jget_opt_def cstr_def half_def DYNAMIC_MARGIN_SECONDS_def Let_def)

text \<open>
  C33: after a write nobody decides with what was there before. Once a secret is stored or dropped here,
  every caller's list is stale - the next lookup asks the service again - and the secret's material is in
  nobody's cache; and a list that was already being fetched when the write happened is not kept: its
  answer goes on with the list the view had.
\<close>

theorem writes_are_seen:
  assumes "serves c v st" and "30 \<le> now" and "started \<le> st_generation st"
  shows "cached_material c v d now' (invalidate (d_name d) st) = None \<and>
    held_list c v False in_progress now (invalidate name st) = None \<and>
    (case land_list c v started epoch list now (invalidate name st) of
       (Again, st') \<Rightarrow> st' = invalidate name st
     | (Answer answered found, st') \<Rightarrow> st' = invalidate name st \<and> answered = v_descriptors (view_at v st))"
proof -
  have "in_use st v"
    using assms(1) by (auto simp: serves_def in_use_def dest!: map_of_SomeD split: if_splits intro: rev_image_eqI)
  then have v: "view_at v (invalidate name st) = (view_at v st)\<lparr>v_listed_at := 0, v_failed_at := 0,
      v_materials := (v_materials (view_at v st))(name := None)\<rparr>" for name
    by (simp add: invalidate_def view_at_def in_use_def)
  have "serves c v (invalidate name st)" "st_generation (invalidate name st) = st_generation st + 1" for name
    using assms(1) by (simp_all add: serves_def invalidate_def)
  then show ?thesis
    using assms v by (auto simp: cached_material_def held_list_def land_list_def list_of_def Let_def
        RETRY_AFTER_SECONDS_def LIST_TTL_SECONDS_def)
qed

theorem writes_are_seen_witness:
  "held_list sample_caller 1 False False 1000 (invalidate ''lake'' (rn_sto sto_run3)) = None"
  using writes_are_seen [of sample_caller 1 "rn_sto sto_run3" 1000 0 _ _ False "''lake''"] sample_serves(2)
  by simp

end
