(* ===== verification/Tresor_Lookup_Laws.thy ===== *)
theory Tresor_Lookup_Laws
  imports Tresor_Storage_Laws
begin

text \<open>
  What the lookups, the caches and the writes of a storage guarantee: nothing is served after a logoff, a
  cache is the abstract last-write-with-an-expiry map (the locale \<open>expiring_cache\<close>, interpreted on the
  materials and on the variables), a lookup answers only a secret the caller may use, a name the protocol
  refuses is never sent, and the storages' tie-break offsets are distinct and bounded.
\<close>

section \<open>After a logoff\<close>

definition off_for_good :: "nat \<Rightarrow> ('w, 'y) sys_scheme \<Rightarrow> bool" where
  "off_for_good sid t \<longleftrightarrow> (let se = y_ses t sid in
     s_logged_off se \<and> s_logged_off_seen se \<and> \<not> s_taken_up se \<and> \<not> s_resume_store se \<and> s_flow se \<noteq> F_PAGE)"

text \<open>No login is completed and taken up while a call waits for one.\<close>

definition stays_off :: "(('w, 'y) sys_scheme, 'h) hooks_scheme \<Rightarrow> nat \<Rightarrow> bool" where
  "stays_off H sid \<longleftrightarrow> (\<forall>wait key t. wait_pending H = Some wait \<longrightarrow> off_for_good sid t \<longrightarrow> off_for_good sid (wait key t))"

lemma off_token: "off_for_good sid s \<Longrightarrow>
    \<exists>e. access_token_op X force (y_ses s sid, y_inst s) = (Inl e, y_ses s sid, y_inst s) \<and> \<not> is_permission e"
  by (auto simp: off_for_good_def Let_def access_token_op_def take_up_login_def logged_off_error_def)

lemma off_for_good_upd [simp]:
  "off_for_good sid (s\<lparr>y_inst := i\<rparr>) = off_for_good sid s"
  "off_for_good sid (t\<lparr>y_sto := st\<rparr>) = off_for_good sid t"
  "off_for_good sid (u\<lparr>y_audit := a\<rparr>) = off_for_good sid u"
  by (simp_all add: off_for_good_def)

lemma off_attempt:
  assumes "off_for_good sid s"
  shows "wp (call_attempt X H sid c None) Q (\<lambda>e t. off_for_good sid t \<and> \<not> is_permission e) s"
proof -
  obtain e where "access_token_op X False (y_ses s sid, y_inst s) = (Inl e, y_ses s sid, y_inst s)" "\<not> is_permission e"
    using off_token [OF assms] by blast
  then show ?thesis
    using assms by (simp add: call_attempt_def wp_simps token_for_attempt_def Let_def off_for_good_def)
qed

lemma off_call:
  assumes "off_for_good sid s" and "stays_off H sid"
  shows "wp (call X H sid c interrupted) Q (\<lambda>e t. off_for_good sid t \<and> \<not> is_permission e) s"
  using assms
  by (auto simp: call_def client_set_def wait_login_def wp_simps stays_off_def split: option.splits intro!: off_attempt)

lemma off_storage_call:
  assumes "off_for_good sid s" and "stays_off H sid" and "cl_session c = Some sid" and "cl_refused c = []"
  shows "wp (storage_call X H interrupted c verb path body headers) Q (\<lambda>e t. off_for_good sid t \<and> \<not> is_permission e) s"
  using assms by (auto simp: storage_call_def caller_call_def wp_simps intro: off_call)

lemma off_fetch:
  assumes "off_for_good sid s" and "stays_off H sid" and "cl_session c = Some sid" and "cl_refused c = []"
  shows "wp (fetch_descriptors X H interrupted c) Q (\<lambda>e t. off_for_good sid t \<and> \<not> is_permission e) s"
  unfolding fetch_descriptors_def wp_bindE [of "storage_call _ _ _ _ _ _ _ _"] using off_storage_call [OF assms] .

definition quiet_round :: "round \<Rightarrow> bool" where
  "quiet_round r \<longleftrightarrow> r = Again \<or> r = nothing"

lemma off_fetch_round:
  assumes "off_for_good sid s" and "stays_off H sid" and "cl_session c = Some sid" and "cl_refused c = []"
  shows "wp (fetch_round X H interrupted c v first True) (\<lambda>r t. quiet_round r \<and> off_for_good sid t) (\<lambda>_ _. False) s"
proof -
  have "wp (bindE (fetch_descriptors X H interrupted c) g) Q
      (\<lambda>e. wp (if is_permission e \<and> \<not> is_node c then ret (Answer [] (Some v))
         else bindE (get_now X) (\<lambda>now. bindE (logged_off_of c) (\<lambda>off.
           with_sto (land_failure c v epoch (\<not> is_permission e \<and> off) now))))
        (\<lambda>r t. quiet_round r \<and> off_for_good sid t) (\<lambda>_ _. False)) s" for g Q epoch
    unfolding wp_bindE [of "fetch_descriptors X H interrupted c"]
    by (rule wp_mono [OF off_fetch [OF assms]])
      (auto simp: wp_simps assms(3) land_failure_def quiet_round_def off_for_good_def Let_def)
  then show ?thesis
    using assms(1) by (auto simp: fetch_round_def wp_simps(1-10) wp_get_sto wp_if Let_def quiet_round_def wp_catchE wp_bindE [of "get_sto id"])
qed

lemma off_locked_round:
  assumes "off_for_good sid s" and "stays_off H sid" and "cl_session c = Some sid" and "cl_refused c = []"
  shows "wp (fetch_round X H interrupted c v first True)
    (\<lambda>r. wp (seqE (on_sto (unlock_fetch v)) (ret r)) (\<lambda>r t. quiet_round r \<and> off_for_good sid t) (\<lambda>_ _. False)) (\<lambda>_ _. False) s"
  by (rule wp_mono [OF off_fetch_round [OF assms]]) (auto simp: wp_simps)

lemma off_held_list: "held_list c v True busy now st = Some r \<Longrightarrow> quiet_round r"
  by (auto simp: held_list_def Let_def quiet_round_def split: if_splits)

lemma off_snapshot_round:
  assumes "off_for_good sid s" and "stays_off H sid" and "cl_session c = Some sid" and "cl_refused c = []"
  shows "wp (snapshot_round X H interrupted c) (\<lambda>r t. quiet_round r \<and> off_for_good sid t) (\<lambda>_ _. False) s"
proof -
  have off: "s_logged_off_seen (y_ses s sid)" using assms(1) by (simp add: off_for_good_def Let_def)
  show ?thesis
    unfolding snapshot_round_def
    by (auto simp: wp_simps Let_def assms(1,3) off quiet_round_def [of nothing] intro!: off_locked_round assms
        dest: off_held_list split: prod.splits option.splits)
qed

lemma off_snapshot:
  assumes "off_for_good sid s" and "stays_off H sid" and "cl_session c = Some sid" and "cl_refused c = []"
  shows "wp (snapshot X H interrupted c) (\<lambda>(list, found) t. list = [] \<and> found = None \<and> off_for_good sid t) (\<lambda>_ _. False) s"
proof -
  have last: "wp (snapshot_round X H interrupted c)
      (\<lambda>r. wp (case r of Answer list v \<Rightarrow> ret (list, v) | Again \<Rightarrow> ret ([], None))
        (\<lambda>(list, found) t. list = [] \<and> found = None \<and> off_for_good sid t) (\<lambda>_ _. False)) (\<lambda>_ _. False) t"
    if "off_for_good sid t" for t
    by (rule wp_mono [OF off_snapshot_round [OF that assms(2-4)]]) (auto simp: quiet_round_def nothing_def wp_simps)
  show ?thesis
    unfolding snapshot_def wp_bindE [of "snapshot_round X H interrupted c"]
    by (rule wp_mono [OF off_snapshot_round [OF assms]]) (auto simp: quiet_round_def nothing_def wp_ret wp_bindE last)
qed

definition node_caller :: "nat \<Rightarrow> caller" where
  "node_caller sid = no_caller\<lparr>cl_session := Some sid\<rparr>"

lemma node_caller_fields [simp]: "cl_session (node_caller sid) = Some sid" "cl_refused (node_caller sid) = []"
  "is_node (node_caller sid)"
  by (simp_all add: node_caller_def no_caller_def is_node_def)

lemma wp_caller_of_none: "sm_acl S = None \<Longrightarrow> wp (caller_of X S) Q E s = Q (no_caller\<lparr>cl_session := st_session (y_sto s)\<rparr>) s"
  by (cases "st_session (y_sto s)") (simp_all add: caller_of_def caller_for_def wp_simps no_caller_def Let_def)

lemma wp_caller_of_node: "sm_acl S = None \<Longrightarrow> st_session (y_sto s) = Some sid \<Longrightarrow> wp (caller_of X S) Q E s = Q (node_caller sid) s"
  by (simp add: caller_of_def caller_for_def wp_simps node_caller_def)

lemma wp_start_audit: "wp (start_audit kind c) Q E s =
    Q (audited_for (y_ses s) c (st_name (y_sto s)) (audited_new (y_audit s) kind)) s"
  by (simp add: start_audit_def wp_gets)

lemma wp_on_audit: "wp (on_audit f a) Q E s = Q () (s\<lparr>y_audit := snd (f (a, y_audit s))\<rparr>)"
  by (simp add: on_audit_def wp_modifyS)

lemma wp_told_throw: "wp (told_throw f a e) Q E s = E e (s\<lparr>y_audit := snd (f (a, y_audit s))\<rparr>)"
  by (simp add: told_throw_def wp_seqE wp_on_audit wp_throw)

lemmas wp_audits [wp_simps] = wp_start_audit wp_on_audit wp_told_throw

lemma off_variable:
  assumes "off_for_good sid s" and "stays_off H sid"
  shows "wp (variable_of X H interrupted (node_caller sid) name) (\<lambda>_ _. False) (\<lambda>_ _. True) s"
proof -
  have off: "s_logged_off_seen (y_ses s sid)" using assms(1) by (simp add: off_for_good_def Let_def)
  have call: "wp (storage_call X H interrupted (node_caller sid) verb path body headers) Q E t"
    if "off_for_good sid t" and "\<And>e u. E e u" for verb path body headers Q E t
    by (rule wp_mono [OF off_storage_call [OF that(1) assms(2)]]) (use that(2) in auto)
  show ?thesis
    by (auto simp: variable_of_def wp_simps off assms(1) Let_def intro!: call split: prod.splits option.splits)
qed

section \<open>A cache with expiries\<close>

text \<open>
  The abstract cache: the last value put under a key, until its time. A value that may not be kept at all
  leaves what was there, or wipes it (\<open>wipes\<close>). Materials and variables are held in such caches - a
  variable's wipes -, read only while the view is the caller's (\<open>reaches\<close>).
\<close>

fun latest :: "bool \<Rightarrow> 'k \<Rightarrow> int \<Rightarrow> ('k \<times> int \<times> int \<times> 'v) list \<Rightarrow> 'v option \<Rightarrow> 'v option" where
  "latest wipes k t [] before = before"
| "latest wipes k t ((k', now, until, x) # puts) before =
     latest wipes k t puts (if k' = k \<and> (wipes \<or> now < until) then (if t < until then Some x else None) else before)"

locale expiring_cache =
  fixes held :: "'k \<Rightarrow> int \<Rightarrow> 'st \<Rightarrow> 'v option" and keep :: "'k \<Rightarrow> int \<Rightarrow> int \<Rightarrow> 'v \<Rightarrow> 'st \<Rightarrow> 'st" and reaches :: "'st \<Rightarrow> bool"
    and wipes :: bool
  assumes held_keep: "reaches st \<Longrightarrow> now \<le> t \<Longrightarrow>
      held k t (keep k' now until x st) = (if k' = k \<and> (wipes \<or> now < until) then (if t < until then Some x else None) else held k t st)"
    and reaches_keep: "reaches (keep k now until x st) = reaches st"
    and unreached: "\<not> reaches st \<Longrightarrow> held k t st = None"
begin

definition keep_all :: "('k \<times> int \<times> int \<times> 'v) list \<Rightarrow> 'st \<Rightarrow> 'st" where
  "keep_all = fold (\<lambda>(k, now, until, x). keep k now until x)"

lemma held_keep_all:
  "list_all (\<lambda>(k, now, until, x). now \<le> t) puts \<Longrightarrow>
   held k t (keep_all puts st) = (if reaches st then latest wipes k t puts (held k t st) else None)"
proof (induction puts arbitrary: st)
  case Nil
  then show ?case by (simp add: keep_all_def unreached)
next
  case (Cons p puts)
  obtain k' now until x where p: "p = (k', now, until, x)" by (cases p)
  show ?case
    using Cons by (auto simp: p keep_all_def held_keep reaches_keep)
qed

end

definition held_material :: "caller \<Rightarrow> nat \<Rightarrow> string \<Rightarrow> int \<Rightarrow> storage \<Rightarrow> (string \<times> secret \<times> bool) option" where
  "held_material c v name t st =
     (if \<not> serves c v st then None
      else case v_materials (view_at v st) name of
             None \<Rightarrow> None
           | Some m \<Rightarrow> if mt_valid_until m > t then Some (mt_version m, mt_secret m, mt_typed m) else None)"

lemma cached_material_held: "map_option (\<lambda>m. (mt_secret m, mt_typed m)) (cached_material c v d t st) =
    (case held_material c v (d_name d) t st of None \<Rightarrow> None
     | Some (version, s, typed) \<Rightarrow> if version = d_version d then Some (s, typed) else None)"
  by (auto simp: cached_material_def held_material_def split: option.splits)

definition named :: "string \<Rightarrow> string \<Rightarrow> descriptor" where
  "named name version = \<lparr>d_name = name, d_type = [], d_provider = [], d_scope = [], d_comment = [], d_owner = [],
     d_permissions = [], d_dynamic = False, d_updated_at = [], d_version = version\<rparr>"

interpretation materials: expiring_cache "held_material c v"
  "\<lambda>name now until (version, s, typed). keep_material c v (named name version) now until s typed" "serves c v" False for c v
proof unfold_locales
  fix st and now t until :: int and k k' and x :: "string \<times> secret \<times> bool"
  assume "serves c v st" "now \<le> t"
  then show "held_material c v k t ((case x of (version, s, typed) \<Rightarrow> keep_material c v (named k' version) now until s typed) st) =
      (if k' = k \<and> (False \<or> now < until) then (if t < until then Some x else None) else held_material c v k t st)"
    by (cases x) (auto simp: held_material_def keep_material_def named_def view_at_def Let_def split: option.splits)
next
  fix st and k now until and x :: "string \<times> secret \<times> bool"
  show "serves c v ((case x of (version, s, typed) \<Rightarrow> keep_material c v (named k version) now until s typed) st) = serves c v st"
    by (cases x) (auto simp: keep_material_def)
qed (simp add: held_material_def)

interpretation variables: expiring_cache "cached_variable c v" "keep_variable c v" "serves c v" True for c v
  by unfold_locales (auto simp: cached_variable_def keep_variable_def view_at_def split: option.splits)

section \<open>The class of a served secret\<close>

text \<open>
  A secret cached before its type's extension was loaded is of the type's class from then on; one the type cannot read,
  and one of a type without a deserializer, is served as it was built, and only an allocation or an internal error fails
  the lookup. Nothing is asked of the service.
\<close>

lemma cached_before_its_extension:
  assumes "cached_material c v d (fst (x_now X (y_inst s))) (y_sto s) = Some m" and "\<not> mt_typed m"
    and "cl_session c = Some sid" and "\<not> s_logged_off_seen (y_ses s sid)"
    and "deserializer_of X (sec_type (mt_secret m)) (s\<lparr>y_inst := snd (x_now X (y_inst s))\<rparr>) = (Inr deserialize, t)"
  shows "fst (material_of X H S kind c v d s) =
    (if deserialize then case x_deserialize X (mt_secret m) of
        Typed typed \<Rightarrow> Inr (Some typed) | Unread \<Rightarrow> Inr (Some (mt_secret m)) | Fatal e \<Rightarrow> Inl e
     else Inr (Some (mt_secret m)))"
  using assms
  by (auto simp: material_of_def get_now_def on_instance_def logged_off_of_def get_sto_def count_hit_def deserializer_of_def
      as_type_def monad_defs split: prod.splits deserialized.splits)

section \<open>Choosing a match\<close>

text \<open>What DuckDB documents of \<open>SelectBestMatch\<close>: the better of the best match so far and the entry, with its score.\<close>

definition selects :: "('w, 's, 'x) sext_scheme \<Rightarrow> bool" where
  "selects X \<longleftrightarrow> (\<forall>s path offset best. x_select X s path offset best = best \<or> (\<exists>score. x_select X s path offset best = Some (s, score)))"

definition best_ok :: "'z lib_scheme \<Rightarrow> string \<Rightarrow> descriptor list \<Rightarrow> (secret \<times> int) option \<Rightarrow> descriptor option \<Rightarrow> bool" where
  "best_ok L kind list best from_d = (case (best, from_d) of
       (None, None) \<Rightarrow> True
     | (Some (s, score), Some d) \<Rightarrow> d \<in> set list \<and> matches L kind d \<and> sec_name s = d_name d
     | _ \<Rightarrow> False)"

lemma best_match_ok:
  assumes "selects X" and "best_ok X kind (seen @ list) best from_d"
    and "best_match X path kind offset list best from_d = (b, f)"
  shows "best_ok X kind (seen @ list) b f"
  using assms(2,3)
proof (induction list arbitrary: seen best from_d)
  case (Cons d ds)
  have pick: "x_select X (placeholder (d_provider d) d) path offset best = best \<or>
      (\<exists>score. x_select X (placeholder (d_provider d) d) path offset best = Some (placeholder (d_provider d) d, score))"
    using assms(1) by (simp add: selects_def)
  show ?case
  proof (cases "matches X kind d")
    case False
    then show ?thesis using Cons.IH [of "seen @ [d]" best from_d] Cons.prems by simp
  next
    case True
    let ?best = "x_select X (placeholder (d_provider d) d) path offset best"
    let ?from = "case ?best of None \<Rightarrow> from_d | Some (s, _) \<Rightarrow> if sec_name s = d_name d then Some d else from_d"
    have "best_ok X kind (seen @ d # ds) ?best ?from"
      using pick Cons.prems(1) True
      by (auto simp: best_ok_def placeholder_def split: option.splits prod.splits if_splits)
    then show ?thesis using Cons.IH [of "seen @ [d]" ?best ?from] Cons.prems(2) True by (simp add: Let_def)
  qed
qed simp

section \<open>Properties\<close>


definition sample_sto_ext :: "(http_request \<Rightarrow> 's \<Rightarrow> http_result \<times> 's) \<Rightarrow> (unit, 's) sext" where
  "sample_sto_ext h = ext.extend (sample_ext h) \<lparr>x_transform_type = (\<lambda>_. None), x_transform_id = (\<lambda>_. None), x_cast = (\<lambda>_ _. None), x_type_name = (\<lambda>_. []),
     x_secret_types = (\<lambda>_. []), x_deserialize = (\<lambda>_. Unread),
     x_select = (\<lambda>s _ offset best. case best of None \<Rightarrow> Some (s, offset) | Some b \<Rightarrow> Some b),
     x_await = (\<lambda>_ s. s), x_probe = (\<lambda>_ _. False)\<rparr>"

definition sto_hooks :: "unit sto_sys hooks" where
  "sto_hooks = \<lparr>on_resumed = None, on_logged_off = None, wait_pending = None\<rparr>"

definition sample_audit_off :: audit where
  "sample_audit_off = \<lparr>au_level = L_OFF, au_sinks = False, au_stopped = False, au_seq = 0, au_log = [], au_sent = [], au_counts = []\<rparr>"

definition sample_sto_sys :: "session \<Rightarrow> unit sto_sys" where
  "sample_sto_sys se = \<lparr>y_ses = (\<lambda>_. se), y_inst = sample_instance, y_audit = sample_audit_off, y_actor = sample_actors,
     y_sto = rn_sto sto_run1\<rparr>"

definition no_statement :: "'s statement" where
  "no_statement = \<lparr>sm_acl = None, sm_interrupted = (\<lambda>_. False), sm_slices = []\<rparr>"


text \<open>
  C31: a view's caches are maps with expiries. After any sequence of answers kept in a view that is the
  caller's, what a lookup may take from the cache is exactly the secret last kept under the name - for
  the version the list names, and before its time - and what a variable's value is, exactly the value
  last kept, before its time; an answer that may not be kept wipes a variable's value, and leaves a
  secret's material as it was. From a view that is not the caller's any more nothing is taken.
\<close>

theorem caches_refine_expiring_maps:
  assumes "list_all (\<lambda>(d, now, until, s, typed). now \<le> t) kept" and "list_all (\<lambda>(n, now, until, known). now \<le> t) set_values"
  shows "map_option (\<lambda>m. (mt_secret m, mt_typed m))
      (cached_material c v d t (fold (\<lambda>(d, now, until, s, typed). keep_material c v d now until s typed) kept st)) =
    (if \<not> serves c v st then None
     else case latest False (d_name d) t (map (\<lambda>(d, now, until, s, typed). (d_name d, now, until, (d_version d, s, typed))) kept)
              (held_material c v (d_name d) t st) of
            None \<Rightarrow> None | Some (version, s, typed) \<Rightarrow> if version = d_version d then Some (s, typed) else None) \<and>
   cached_variable c v name t (fold (\<lambda>(n, now, until, known). keep_variable c v n now until known) set_values st) =
     (if serves c v st then latest True name t set_values (cached_variable c v name t st) else None)"
proof -
  let ?puts = "map (\<lambda>(d, now, until, s, typed). (d_name d, now, until, (d_version d, s, typed))) kept"
  have "keep_material c v d now until s typed = keep_material c v (named (d_name d) (d_version d)) now until s typed"
    for d now until s typed
    by (rule ext) (simp add: keep_material_def named_def Let_def cong: if_cong)
  then have "fold (\<lambda>(d, now, until, s, typed). keep_material c v d now until s typed) kept st = materials.keep_all c v ?puts st"
    unfolding materials.keep_all_def fold_map by (intro fold_cong) (auto simp: o_def)
  moreover have "list_all (\<lambda>(k, now, until, x). now \<le> t) ?puts"
    using assms(1) by (auto simp: list_all_iff)
  ultimately show ?thesis
    using materials.held_keep_all [of t ?puts c v "d_name d" st] variables.held_keep_all [OF assms(2), of c v name st]
    by (auto simp: cached_material_held variables.keep_all_def split: option.splits)
qed

theorem caches_refine_expiring_maps_witness:
  "cached_variable sample_caller 1 ''city'' 1020
     (fold (\<lambda>(n, now, until, known). keep_variable sample_caller 1 n now until known)
       [(''city'', 1000, 1030, ''Oslo''), (''zip'', 1001, 1031, ''0150''), (''city'', 1010, 1040, ''Bergen'')] (rn_sto sto_run2)) =
   Some ''Bergen''"
  using caches_refine_expiring_maps [of 1020 "[]" "[(''city'', 1000, 1030, ''Oslo''), (''zip'', 1001, 1031, ''0150''),
      (''city'', 1010, 1040, ''Bergen'')]" sample_caller 1 "named [] []" "rn_sto sto_run2" "''city''"] sample_serves(1)
  by simp

text \<open>
  C35: a lookup decides for a secret of the service that is listed, of the type asked for, that the caller
  may use and that is no login of tresor's own - and its score is that of an entry of the same name: the
  answer competes with other storages' under the name whose material is fetched.
\<close>

theorem lookup_matches_usable:
  assumes "selects X" and "best_match X path kind offset list None None = (b, f)"
  shows "case (b, f) of
      (None, None) \<Rightarrow> True
    | (Some (s, score), Some d) \<Rightarrow> d \<in> set list \<and> d_type d \<noteq> ''tresor'' \<and> lb_ci_equals X (d_type d) kind \<and>
        ''use'' \<in> set (d_permissions d) \<and> sec_name s = d_name d
    | _ \<Rightarrow> False"
  using best_match_ok [OF assms(1), of kind "[]" list None None path offset b f] assms(2)
  by (auto simp: best_ok_def matches_def lookupable_def may_def split: option.splits prod.splits)

theorem lookup_matches_usable_witness:
  "best_match (sample_sto_ext (\<lambda>_ s. (\<lparr>hr_error = [], hr_status = 0, hr_body = []\<rparr>, s))) ''s3://b/k'' ''s3'' 40
     [(named ''login'' [])\<lparr>d_type := ''tresor'', d_permissions := [''use'']\<rparr>, (named ''seen'' [])\<lparr>d_type := ''s3''\<rparr>,
      (named ''lake'' [])\<lparr>d_type := ''s3'', d_permissions := [''see'', ''use'']\<rparr>] None None =
   (Some (placeholder [] ((named ''lake'' [])\<lparr>d_type := ''s3'', d_permissions := [''see'', ''use'']\<rparr>), 40),
    Some ((named ''lake'' [])\<lparr>d_type := ''s3'', d_permissions := [''see'', ''use'']\<rparr>)) \<and>
   selects (sample_sto_ext (\<lambda>_ s :: unit sto_sys. (\<lparr>hr_error = [], hr_status = 0, hr_body = []\<rparr>, s)))"
proof -
  let ?X = "sample_sto_ext (\<lambda>_ s. (\<lparr>hr_error = [], hr_status = 0, hr_body = []\<rparr>, s))"
  have "selects ?X" by (auto simp: selects_def sample_sto_ext_def ext.defs split: option.splits)
  then show ?thesis
    using lookup_matches_usable [of ?X]
    by (auto simp: selects_def matches_def lookupable_def may_def named_def placeholder_def sample_sto_ext_def ext.defs
        sample_ext_def ascii_lower_def split: option.splits)
qed

section \<open>Writes\<close>

text \<open>
  A name the protocol lets a service refuse is never sent. Storing a secret whose name is empty, too
  long, not UTF-8, blank at an edge or holding a control character fails before any request - nothing
  changes, nobody is asked; a secret that tresor itself refreshed goes back to nobody either; and a
  detached storage takes no write.
\<close>

theorem store_refuses_before_sending:
  assumes "sm_acl S = None"
  shows "(st_session (y_sto s) = None \<longrightarrow>
      store_secret X H S given conflict s = (Inl (InvalidInput ''is detached'' [st_name (y_sto s)]), s)) \<and>
    (st_session (y_sto s) \<noteq> None \<longrightarrow>
      (given = Some sec \<and> lb_ci_equals X (sec_provider sec) ''tresor'' \<longrightarrow>
         store_secret X H S given conflict s = (Inr (Some (entry_of (st_name (y_sto s)) sec)), s)) \<and>
      (given = Some sec \<and> \<not> lb_ci_equals X (sec_provider sec) ''tresor'' \<and> protocol_name (lb_lower X (sec_name sec)) = Inl why \<longrightarrow>
         store_secret X H S given conflict s = (Inl (InvalidInput ''a secret's name'' [st_name (y_sto s), why]), s)))"
  using assms
  by (auto simp: store_secret_def caller_of_def caller_for_def bindE_def get_sto_def gets_def ret_def throw_def no_caller_def
      canonical_name_def split: prod.splits sum.splits)

theorem store_refuses_before_sending_witness:
  "store_secret (sample_sto_ext (\<lambda>_ s. (\<lparr>hr_error = [], hr_status = 201, hr_body = []\<rparr>, s))) sto_hooks no_statement
     (Some (sample_secret\<lparr>sec_name := []\<rparr>)) REPLACE_ON_CONFLICT (sample_sto_sys sample_session) =
   (Inl (InvalidInput ''a secret's name'' [''corp'', ''is empty'']), sample_sto_sys sample_session)"
  using store_refuses_before_sending [of no_statement "sample_sto_sys sample_session"
      "sample_sto_ext (\<lambda>_ s. (\<lparr>hr_error = [], hr_status = 201, hr_body = []\<rparr>, s))" sto_hooks
      "Some (sample_secret\<lparr>sec_name := []\<rparr>)" REPLACE_ON_CONFLICT "sample_secret\<lparr>sec_name := []\<rparr>" "''is empty''"]
  by (simp add: no_statement_def sample_sto_sys_def sto_runs sample_sto_ext_def ext.defs sample_ext_def sample_secret_def
      ascii_lower_def protocol_name_def)

text \<open>
  A write that succeeded emptied the caches. Whatever else happens meanwhile, when storing a secret or
  dropping one returns without an error, the last thing done to the storage is to invalidate the name
  written - every caller's material of it is gone, every list is stale; a stored secret's entry is the
  one given, and there is none only with IF NOT EXISTS.
\<close>

theorem writes_invalidate:
  assumes "sm_acl S = None"
  shows "(case store_secret X H S (Some sec) conflict s of
      (Inl e, t) \<Rightarrow> True
    | (Inr r, t) \<Rightarrow> if lb_ci_equals X (sec_provider sec) ''tresor'' then t = s
        else (r = (if r = None then None else Some (entry_of (st_name (y_sto s)) sec))) \<and>
          (r = None \<longrightarrow> conflict = IGNORE_ON_CONFLICT) \<and> (\<exists>name st. y_sto t = invalidate name st)) \<and>
    (case drop_secret_by_name X H S given must_exist s of
      (Inl e, t) \<Rightarrow> True
    | (Inr _, t) \<Rightarrow> \<exists>name st. y_sto t = invalidate name st)"
proof -
  define Q :: "on_conflict \<Rightarrow> secret_entry option \<Rightarrow> ('a, 'b) sto_sys_scheme \<Rightarrow> bool" where "Q = (\<lambda>conf r t. (r = (if r = None then None else Some (entry_of (st_name (y_sto s)) sec))) \<and>
      (r = None \<longrightarrow> conf = IGNORE_ON_CONFLICT) \<and> (\<exists>name st. y_sto t = invalidate name st))"
  let ?D = "\<lambda>_ t. \<exists>name st. y_sto t = invalidate name st"
  have outcome: "wp (liftE (store_result X conf name (st_name (y_sto s)) response sec)) (Q conf) (\<lambda>_ _. True)
      (t\<lparr>y_sto := invalidate name (y_sto t), y_audit := a\<rparr>)" for conf name response t a
    by (auto simp: liftE_def store_result_def Let_def wp_simps Q_def)
  have dropped: "wp (liftE (drop_result X must_exist name n response)) ?D (\<lambda>_ _. True)
      (t\<lparr>y_sto := invalidate name (y_sto t), y_audit := a\<rparr>)" for name n response t a
    by (auto simp: liftE_def drop_result_def Let_def wp_simps)
  have put: "wp (bindE (catchE (storage_call X H (interrupted_of S) c verb path body headers) (\<lambda>e. told_throw (audit_failed e) a e))
      (\<lambda>response. seqE (on_sto (invalidate name)) (seqE (on_audit (f response) a)
         (liftE (store_result X conf name (st_name (y_sto s)) response sec))))) (Q conf) (\<lambda>_ _. True) t"
    for conf c verb path body headers a f name t
    unfolding wp_bindE by (rule wp_drop) (simp add: wp_simps outcome)
  have del: "wp (bindE (catchE (storage_call X H (interrupted_of S) c verb path body headers) (\<lambda>e. told_throw (audit_failed e) a e))
      (\<lambda>response. seqE (on_sto (invalidate name)) (seqE (on_audit (f response) a)
         (liftE (drop_result X must_exist name n response))))) ?D (\<lambda>_ _. True) t"
    for c verb path body headers a f name n t
    unfolding wp_bindE by (rule wp_drop) (simp add: wp_simps dropped)
  have written: "wp (service_name X H (interrupted_of S) c n) (\<lambda>name. wp (g name) Q (\<lambda>_ _. True)) (\<lambda>_ _. True) t"
    if "\<And>name t. wp (g name) Q (\<lambda>_ _. True) t" for c n g Q t
    by (rule wp_drop) (rule that)
  have stored: "wp (store_secret X H S (Some sec) conflict)
      (\<lambda>r t. if lb_ci_equals X (sec_provider sec) ''tresor'' then t = s else Q conflict r t) (\<lambda>_ _. True) s"
    unfolding store_secret_def wp_bindE [of "caller_of X S"] wp_caller_of_none [OF assms]
    by (auto simp: wp_bindE [of "get_sto _"] wp_bindE [of "service_name _ _ _ _ _"] wp_bindE [of "start_audit _ _"]
        wp_get_sto wp_throw wp_ret wp_audits Let_def put split: sum.splits intro!: written)
  have gone: "wp (drop_secret_by_name X H S given must_exist) ?D (\<lambda>_ _. True) s"
    unfolding drop_secret_by_name_def wp_bindE [of "caller_of X S"] wp_caller_of_none [OF assms]
    by (auto simp: wp_bindE [of "get_sto _"] wp_bindE [of "service_name _ _ _ _ _"] wp_bindE [of "start_audit _ _"]
        wp_get_sto wp_throw wp_audits Let_def del intro!: written)
  from stored gone show ?thesis unfolding Q_def by (auto simp: wp_def split: prod.splits sum.splits)
qed

theorem writes_invalidate_witness:
  "sm_acl (no_statement :: unit sto_sys statement) = None \<and>
   (case drop_secret_by_name (sample_sto_ext (\<lambda>_ s. (\<lparr>hr_error = [], hr_status = 204, hr_body = []\<rparr>, s))) sto_hooks no_statement
      ''lake'' True (sample_sto_sys sample_session) of
    (Inl e, t) \<Rightarrow> True | (Inr _, t) \<Rightarrow> \<exists>name st. y_sto t = invalidate name st)"
  using writes_invalidate [where S = no_statement and X = "sample_sto_ext (\<lambda>_ s. (\<lparr>hr_error = [], hr_status = 204, hr_body = []\<rparr>, s))"
      and H = sto_hooks and s = "sample_sto_sys sample_session" and given = "''lake''" and must_exist = True]
  by (simp add: no_statement_def)

section \<open>The registry\<close>

definition registry_ok :: "registry \<Rightarrow> bool" where
  "registry_ok r \<longleftrightarrow> 40 \<le> rg_next_offset r \<and> rg_next_offset r \<le> 100 \<and> distinct (map fst (rg_storages r)) \<and>
     distinct (map (snd \<circ> snd) (rg_storages r)) \<and> (\<forall>(key, name, offset) \<in> set (rg_storages r). 40 \<le> offset \<and> offset < rg_next_offset r)"

lemma registry_skip: "registry_ok r \<Longrightarrow> rg_next_offset r < 100 \<Longrightarrow> registry_ok (r\<lparr>rg_next_offset := rg_next_offset r + 1\<rparr>)"
  by (force simp: registry_ok_def)

lemma update_new: "map_of xs k = None \<Longrightarrow> AList.update k v xs = xs @ [(k, v)]"
  by (induction xs) (auto split: if_splits)

lemma registry_add:
  assumes "registry_ok r" and "rg_next_offset r < 100" and "map_of (rg_storages r) key = None"
  shows "registry_ok (r\<lparr>rg_next_offset := rg_next_offset r + 1,
    rg_storages := AList.update key (name, rg_next_offset r) (rg_storages r)\<rparr>)"
  using assms by (force simp: registry_ok_def update_new map_of_eq_None_iff)

lemma load_storage_ok:
  assumes "registry_ok r" and "map_of (rg_storages r) key = None" and "load_storage loads key name r = (res, r')"
  shows "registry_ok r' \<and> (case res of
      Inl e \<Rightarrow> rg_storages r' = rg_storages r
    | Inr (n, offset) \<Rightarrow> n = name \<and> 40 \<le> offset \<and> offset < 100 \<and> loads name offset = Loaded \<and>
        rg_storages r' = rg_storages r @ [(key, name, offset)] \<and> offset \<notin> (snd \<circ> snd) ` set (rg_storages r))"
  using assms
proof (induction loads key name r rule: load_storage.induct)
  case (1 loads key name r)
  show ?case
  proof (cases "rg_next_offset r < 100")
    case False
    then show ?thesis using 1 by (auto simp: load_storage.simps [of _ _ _ r])
  next
    case True
    have next_new: "rg_next_offset r \<notin> (snd \<circ> snd) ` set (rg_storages r)"
      using 1(2) by (force simp: registry_ok_def)
    show ?thesis
    proof (cases "loads name (rg_next_offset r)")
      case Loaded
      then show ?thesis
        using 1(2-4) True registry_add [OF 1(2) True 1(3), of name] next_new
        by (auto simp: load_storage.simps [of _ _ _ r] Let_def update_new registry_ok_def)
    next
      case Collides
      then show ?thesis
        using 1(1) [OF True refl refl Collides] 1(2-4) True registry_skip [OF 1(2) True]
        by (auto simp: load_storage.simps [of _ _ _ r] Let_def split: sum.splits)
    next
      case (Refused why)
      then show ?thesis
        using 1(2-4) True registry_skip [OF 1(2) True] by (auto simp: load_storage.simps [of _ _ _ r] Let_def)
    qed
  qed
qed

text \<open>
  C40: every attached name gets one storage, with an offset of its own. Looking one up never registers it;
  asking for a name's storage returns the one registered before, or registers one with an offset from 40
  to 99 that no other has and DuckDB accepted - or fails, with nothing registered; the search for a free
  offset always ends.
\<close>

theorem storages_get_own_offsets:
  assumes "registry_ok r" and "storage_for L loads name r = (res, r')"
  shows "registry_ok r' \<and>
    (find_storage L name r \<noteq> None \<longrightarrow> r' = r \<and> (\<exists>s. res = Inr s \<and> find_storage L name r = Some s)) \<and>
    (find_storage L name r = None \<longrightarrow>
      (case res of
         Inl e \<Rightarrow> rg_storages r' = rg_storages r
       | Inr (n, offset) \<Rightarrow> n = name \<and> 40 \<le> offset \<and> offset < 100 \<and> loads name offset = Loaded \<and>
           find_storage L name r' = Some (name, offset) \<and> offset \<notin> (snd \<circ> snd) ` set (rg_storages r)))"
  using assms load_storage_ok [OF assms(1), of "lb_lower L name" loads name res r']
  by (auto simp: storage_for_def find_storage_def map_add_def split: option.splits sum.splits)

theorem storages_get_own_offsets_witness:
  "storage_for sample_lib (\<lambda>_ offset. if offset = 40 then Collides else Loaded) ''corp'' new_registry =
     (Inr (''corp'', 41), \<lparr>rg_storages = [(''corp'', ''corp'', 41)], rg_next_offset = 42\<rparr>) \<and>
   registry_ok \<lparr>rg_storages = [(''corp'', ''corp'', 41)], rg_next_offset = 42\<rparr>"
proof -
  have "storage_for sample_lib (\<lambda>_ offset. if offset = 40 then Collides else Loaded) ''corp'' new_registry =
     (Inr (''corp'', 41), \<lparr>rg_storages = [(''corp'', ''corp'', 41)], rg_next_offset = 42\<rparr>)"
    by (simp add: storage_for_def find_storage_def new_registry_def load_storage.simps sample_lib_def ascii_lower_def)
  moreover have "registry_ok new_registry" by (simp add: registry_ok_def new_registry_def)
  ultimately show ?thesis using storages_get_own_offsets by blast
qed

end
