(* ===== verification/Tresor_Http.thy ===== *)
theory Tresor_Http
  imports Tresor_Lookup
begin

text \<open>
  Which HTTP client carries a request, and what that client is told (\<^verbatim>\<open>tresor_http.cpp\<close>). Two transports:
  the OIDC core's own client and DuckDB's, both behind DuckDB's sandbox. The record \<open>lext\<close> adds to the
  environment what this and the login call and the sources do not contain: DuckDB's settings, its sandbox,
  its HTTP client (the request, and how it fills a request's parameters from an opener), the OIDC core's
  built-in client, its two interactive flows, the secret manager, the process's environment.

  The modelled build is the native one (no \<^verbatim>\<open>__EMSCRIPTEN__\<close>).
\<close>

section \<open>The environment\<close>

text \<open>A request's parameters, as far as the sources set them.\<close>

record http_params =
  hp_timeout :: int
  hp_retries :: int
  hp_follow_location :: bool
  hp_logger :: bool
  hp_extra_headers :: "(string \<times> string) list"
  hp_settings :: "string \<Rightarrow> dvalue option"          \<comment> \<open>what the opener answered\<close>

record util_request =
  ur_method :: string
  ur_url :: string
  ur_headers :: "(string \<times> string) list"            \<comment> \<open>in the order they are inserted\<close>
  ur_params :: http_params
  ur_body :: string
  ur_content_type :: string

text \<open>What DuckDB's client does: it throws, answers a request error, or a response and a POST's own buffer.\<close>

datatype util_answer =
    Thrown string
  | Request_Error string
  | Response int string string

text \<open>A secret in DuckDB's manager: \<open>ms_key_value\<close> when it is a key-value secret. \<open>ms_id\<close> is the object.\<close>

record managed =
  ms_id :: nat
  ms_secret :: secret
  ms_key_value :: bool

record device_begun =
  db_error :: string
  db_verification_uri :: string
  db_verification_uri_complete :: string
  db_user_code :: string
  db_device_code :: string
  db_code_verifier :: string
  db_interval :: int
  db_expires_in :: int

record ('w, 's) lext = "('w, 's) sext" +
  x_text :: "dvalue \<Rightarrow> string"                          \<comment> \<open>Value::ToString\<close>
  x_upper :: "string \<Rightarrow> string"                        \<comment> \<open>StringUtil::Upper\<close>
  x_what :: "error \<Rightarrow> string"                          \<comment> \<open>std::exception::what\<close>
  x_as_bool :: "dvalue \<Rightarrow> error + bool"                 \<comment> \<open>DefaultCastAs(BOOLEAN)\<close>
  x_as_bigint :: "dvalue \<Rightarrow> error + int"                \<comment> \<open>DefaultCastAs(BIGINT)\<close>
  x_env :: "string \<Rightarrow> string option"                    \<comment> \<open>getenv\<close>
  x_setting :: "string \<Rightarrow> 's \<Rightarrow> dvalue option"          \<comment> \<open>TryGetCurrentSetting\<close>
  x_util_name :: "'s \<Rightarrow> string"                         \<comment> \<open>HTTPUtil::GetName\<close>
  x_autoload :: "string \<Rightarrow> 's \<Rightarrow> bool \<times> 's"            \<comment> \<open>TryAutoLoadExtension\<close>
  x_can_access :: "string \<Rightarrow> 's \<Rightarrow> bool"                \<comment> \<open>DBConfig::CanAccessFile\<close>
  x_core_send :: "http_request \<Rightarrow> 's \<Rightarrow> http_result \<times> 's" \<comment> \<open>the OIDC core's built-in client\<close>
  x_init_params :: "(string \<Rightarrow> dvalue option) \<Rightarrow> http_params"  \<comment> \<open>InitializeParameters, with the opener\<close>
  x_util_request :: "util_request \<Rightarrow> 's \<Rightarrow> util_answer \<times> 's"  \<comment> \<open>HTTPUtil::Request\<close>
  x_version :: string                                    \<comment> \<open>TresorVersion\<close>
  x_default_timeout :: int                               \<comment> \<open>HTTPParams::DEFAULT_TIMEOUT_SECONDS\<close>
  x_http_get :: "string \<Rightarrow> 's \<Rightarrow> http_result \<times> 's"    \<comment> \<open>oidc::HttpGet\<close>
  x_endpoints_ok :: "endpoints \<Rightarrow> bool"                 \<comment> \<open>Endpoints::Ok\<close>
  x_device_ok :: "device_begun \<Rightarrow> bool"                 \<comment> \<open>the device flow's Ok\<close>
  x_code_login :: "endpoints \<Rightarrow> string \<Rightarrow> string \<Rightarrow> (string \<Rightarrow> 's \<Rightarrow> 's) \<Rightarrow> int \<Rightarrow> ('s \<Rightarrow> bool) \<Rightarrow>
    (string \<times> string) list \<Rightarrow> 's \<Rightarrow> token_set \<times> 's"      \<comment> \<open>oidc::AuthorizationCodeLogin\<close>
  x_device_begin :: "endpoints \<Rightarrow> string \<Rightarrow> string \<Rightarrow> (string \<times> string) list \<Rightarrow> 's \<Rightarrow> device_begun \<times> 's"
                                                         \<comment> \<open>oidc::DeviceBegin\<close>
  x_device_poll :: "endpoints \<Rightarrow> string \<Rightarrow> string \<Rightarrow> string \<Rightarrow> int \<Rightarrow> int \<Rightarrow> ('s \<Rightarrow> bool) \<Rightarrow>
    's \<Rightarrow> token_set \<times> 's"                               \<comment> \<open>oidc::DevicePoll\<close>
  x_print :: "string \<Rightarrow> 's \<Rightarrow> 's"                        \<comment> \<open>Printer::Print on stderr\<close>
  x_spawn :: "string list \<Rightarrow> 's \<Rightarrow> bool \<times> 's"           \<comment> \<open>fork, exec\<close>
  x_secrets :: "'s \<Rightarrow> managed list"                     \<comment> \<open>SecretManager::AllSecrets\<close>
  x_secret_named :: "string \<Rightarrow> 's \<Rightarrow> managed option"    \<comment> \<open>SecretManager::GetSecretByName\<close>

section \<open>The setting\<close>

definition DEFAULT_CLIENT :: string where
  "DEFAULT_CLIENT = ''builtin''"

definition parse_client :: "('w, 's, 'x) lext_scheme \<Rightarrow> dvalue \<Rightarrow> error + string" where
  "parse_client X v =
     (let chosen = (if is_null v then DEFAULT_CLIENT else lb_lower X (x_text X v))
      in if chosen \<noteq> ''builtin'' \<and> chosen \<noteq> ''duckdb''
         then Inl (InvalidInput ''tresor_http_client is builtin or duckdb'' [x_text X v]) else Inr chosen)"

text \<open>The default: the environment's, when it names one.\<close>

definition default_client :: "('w, 's, 'x) lext_scheme \<Rightarrow> error + string" where
  "default_client X =
     (case x_env X ''TRESOR_HTTP_CLIENT'' of
        None \<Rightarrow> Inr DEFAULT_CLIENT
      | Some named \<Rightarrow> if named = [] then Inr DEFAULT_CLIENT else parse_client X (V_TEXT T_VARCHAR named))"

section \<open>The sandbox\<close>

definition SANDBOX_REFUSAL :: string where
  "SANDBOX_REFUSAL = ''file system operations are disabled by configuration''"

definition refusal_of :: "('w, 's, 'x) lext_scheme \<Rightarrow> string \<Rightarrow> 's \<Rightarrow> string" where
  "refusal_of X url s =
     (if x_can_access X url s then []
      else ''Cannot access '' @ [CHR 0x22] @ url @ [CHR 0x22] @ '' - '' @ SANDBOX_REFUSAL)"

definition is_sandbox_refusal :: "string \<Rightarrow> bool" where
  "is_sandbox_refusal message \<longleftrightarrow> contains_str SANDBOX_REFUSAL message"

section \<open>DuckDB's client\<close>

text \<open>\<open>TresorHttpOpener::TryGetCurrentSetting\<close>: an allow-list. \<open>db\<close> is the instance's own lookup.\<close>

definition UBIGINT :: "int \<Rightarrow> dvalue" where
  "UBIGINT n = V_TEXT (T_EXACT ''UBIGINT'') (show_int n)"

definition opener_setting :: "('w, 's, 'x) lext_scheme \<Rightarrow> (string \<Rightarrow> dvalue option) \<Rightarrow> int \<Rightarrow> string \<Rightarrow> dvalue option" where
  "opener_setting X db timeout key =
     (let name = lb_lower X key in
      if name = ''enable_server_cert_verification'' \<or> name = ''enable_curl_server_cert_verification''
      then Some (V_BOOL True)
      else if name = ''http_retries'' then Some (UBIGINT 0)
      else if name = ''http_timeout''
      then Some (UBIGINT (if timeout > 0 then timeout else x_default_timeout X))
      else if name = ''ca_cert_file'' then db key
      else None)"

definition util_params :: "('w, 's, 'x) lext_scheme \<Rightarrow> int \<Rightarrow> 's \<Rightarrow> http_params" where
  "util_params X timeout s =
     (x_init_params X (opener_setting X (\<lambda>key. x_setting X key s) timeout))\<lparr>
        hp_timeout := (if timeout > 0 then timeout else x_default_timeout X),
        hp_retries := 0, hp_follow_location := False, hp_logger := False, hp_extra_headers := []\<rparr>"

definition util_request_of :: "('w, 's, 'x) lext_scheme \<Rightarrow> http_request \<Rightarrow> 's \<Rightarrow> util_request" where
  "util_request_of X rq s = \<lparr>ur_method = rq_method rq, ur_url = rq_url rq,
     ur_headers = (''User-Agent'', ''tresor/'' @ x_version X @ '' (duckdb)'') # rq_headers rq @
       (if rq_content_type rq = [] then [] else [(''Content-Type'', rq_content_type rq)]),
     ur_params = util_params X (rq_timeout rq) s,
     ur_body = (if rq_method rq = ''POST'' \<or> rq_method rq = ''PUT'' then rq_body rq else []),
     ur_content_type = (if rq_method rq = ''PUT'' then rq_content_type rq else [])\<rparr>"

definition failed_result :: "string \<Rightarrow> http_result" where
  "failed_result why = \<lparr>hr_error = why, hr_status = 0, hr_body = []\<rparr>"

definition util_result :: "http_request \<Rightarrow> util_answer \<Rightarrow> http_result" where
  "util_result rq a = (case a of
       Thrown why \<Rightarrow> failed_result why
     | Request_Error why \<Rightarrow> failed_result why
     | Response status body buffer_out \<Rightarrow> \<lparr>hr_error = [], hr_status = status,
         hr_body = (if body = [] \<and> rq_method rq = ''POST'' then buffer_out else body)\<rparr>)"

definition send_duckdb :: "('w, 's, 'x) lext_scheme \<Rightarrow> http_request \<Rightarrow> 's \<Rightarrow> http_result \<times> 's" where
  "send_duckdb X rq s =
     (let refused = refusal_of X (rq_url rq) s in
      if refused \<noteq> [] then (failed_result refused, s)
      else if rq_method rq = ''PATCH'' then x_core_send X rq s
      else if rq_method rq \<in> {''GET'', ''POST'', ''PUT'', ''DELETE''}
      then (case x_util_request X (util_request_of X rq s) s of (a, t) \<Rightarrow> (util_result rq a, t))
      else (failed_result (''DuckDB's HTTP client has no '' @ rq_method rq), s))"

definition send_builtin :: "('w, 's, 'x) lext_scheme \<Rightarrow> http_request \<Rightarrow> 's \<Rightarrow> http_result \<times> 's" where
  "send_builtin X rq s =
     (let refused = refusal_of X (rq_url rq) s
      in if refused \<noteq> [] then (failed_result refused, s) else x_core_send X rq s)"

section \<open>Which of the two\<close>

datatype transport = Builtin | DuckDB

definition send_via :: "('w, 's, 'x) lext_scheme \<Rightarrow> transport \<Rightarrow> http_request \<Rightarrow> 's \<Rightarrow> http_result \<times> 's" where
  "send_via X t = (case t of Builtin \<Rightarrow> send_builtin X | DuckDB \<Rightarrow> send_duckdb X)"

definition has_client :: "('w, 's, 'x) lext_scheme \<Rightarrow> 's \<Rightarrow> bool" where
  "has_client X s \<longleftrightarrow> x_util_name X s \<noteq> ''none'' \<and> x_util_name X s \<noteq> ''Built-In''"

definition transport_for :: "('w, 's, 'x) lext_scheme \<Rightarrow> ('s, transport) m" where
  "transport_for X = bindE (gets (x_setting X ''tresor_http_client'')) (\<lambda>setting.
     case (case setting of None \<Rightarrow> Inr DEFAULT_CLIENT | Some v \<Rightarrow> parse_client X v) of
       Inl e \<Rightarrow> throw e
     | Inr client \<Rightarrow>
         if client = ''builtin'' then ret Builtin
         else bindE (gets (has_client X)) (\<lambda>there.
           if there then ret DuckDB
           else bindE (liftX (x_autoload X ''httpfs'')) (\<lambda>autoloaded.
             bindE (gets (has_client X)) (\<lambda>there.
               if autoloaded \<and> there then ret DuckDB
               else throw (InvalidInput ''tresor_http_client = 'duckdb' needs httpfs'' [])))))"

definition ca_bundle_for :: "('w, 's, 'x) lext_scheme \<Rightarrow> 's \<Rightarrow> string" where
  "ca_bundle_for X s = (case x_setting X ''ca_cert_file'' s of
       None \<Rightarrow> [] | Some v \<Rightarrow> if is_null v then [] else x_text X v)"

record http_client =
  hc_transport :: transport
  hc_ca_bundle :: string

definition http_client_for :: "('w, 's, 'x) lext_scheme \<Rightarrow> ('s, http_client) m" where
  "http_client_for X = bindE (transport_for X) (\<lambda>t. bindE (gets (ca_bundle_for X)) (\<lambda>ca.
     ret \<lparr>hc_transport = t, hc_ca_bundle = ca\<rparr>))"

section \<open>What leaves\<close>

text \<open>The instance's settings that reach DuckDB's client through the opener: the CA bundle's alone.\<close>

lemma opener_hides:
  assumes "lb_lower X key \<noteq> ''ca_cert_file''"
  shows "opener_setting X db timeout key = opener_setting X db' timeout key"
  using assms by (simp add: opener_setting_def Let_def)

lemma opener_verifies:
  "opener_setting X db timeout key = Some v \<Longrightarrow> lb_lower X key \<noteq> ''ca_cert_file'' \<Longrightarrow>
     v \<in> {V_BOOL True, UBIGINT 0, UBIGINT timeout, UBIGINT (x_default_timeout X)}"
  by (auto simp: opener_setting_def Let_def split: if_splits)

lemma send_refused:
  assumes "\<not> x_can_access X (rq_url rq) s"
  shows "send_via X t rq s = (failed_result (refusal_of X (rq_url rq) s), s)"
  using assms by (cases t) (simp_all add: send_via_def send_duckdb_def send_builtin_def refusal_of_def)

lemma contains_str_end: "contains_str p (s @ p)"
proof (induction s)
  case Nil
  show ?case by (cases p) (simp_all add: contains_str_def)
next
  case (Cons c s)
  then show ?case by (auto simp: contains_str_def)
qed

lemma refusal_recognised:
  "\<not> x_can_access X url s \<Longrightarrow> is_sandbox_refusal (refusal_of X url s)"
  using contains_str_end [of SANDBOX_REFUSAL "''Cannot access '' @ [CHR 0x22] @ url @ [CHR 0x22] @ '' - ''"]
  by (simp add: is_sandbox_refusal_def refusal_of_def)

text \<open>What DuckDB's client is asked, when it is.\<close>

lemma util_request_strict:
  "hp_follow_location (ur_params (util_request_of X rq s)) = False"
  "hp_retries (ur_params (util_request_of X rq s)) = 0"
  "hp_logger (ur_params (util_request_of X rq s)) = False"
  "hp_extra_headers (ur_params (util_request_of X rq s)) = []"
  "set (ur_headers (util_request_of X rq s)) \<subseteq>
     {(''User-Agent'', ''tresor/'' @ x_version X @ '' (duckdb)''), (''Content-Type'', rq_content_type rq)} \<union> set (rq_headers rq)"
  by (auto simp: util_request_of_def util_params_def)

end
