(* ===== verification/Tresor_Attach.thy ===== *)
theory Tresor_Attach
  imports Tresor_Http
begin

text \<open>
  What an ATTACH asks for and what the service's discovery answers (\<^verbatim>\<open>tresor_login.cpp\<close>, up to the login
  itself, and \<^verbatim>\<open>tresor_browser.cpp\<close>): the path and the options, the discovery document, the issuer, the
  check of every URL the discovery names, the secret a service logs in with, a person's flow, and the
  browser's command line. The options are a list: the order in which the hash table is iterated. A value's
  text and its casts are DuckDB's.
\<close>

section \<open>The browser\<close>

fun split_loop :: "string \<Rightarrow> string \<Rightarrow> string list" where
  "split_loop current [] = (if current = [] then [] else [current])"
| "split_loop current (c # cs) =
     (if c = CHR '' '' \<or> c = CHR 0x09
      then (if current = [] then split_loop [] cs else current # split_loop [] cs)
      else split_loop (current @ [c]) cs)"

definition split_command :: "string \<Rightarrow> string list" where
  "split_command command = split_loop [] command"

definition can_open_browser :: "('w, 's, 'x) lext_scheme \<Rightarrow> bool" where
  "can_open_browser X \<longleftrightarrow> x_env X ''BROWSER'' \<noteq> None \<or> x_env X ''DISPLAY'' \<noteq> None \<or>
     x_env X ''WAYLAND_DISPLAY'' \<noteq> None"

definition browser_argv :: "('w, 's, 'x) lext_scheme \<Rightarrow> string \<Rightarrow> string list option" where
  "browser_argv X url =
     (if \<not> starts_with ''https://'' url \<and> \<not> starts_with ''http://'' url then None
      else let argv = (case x_env X ''BROWSER'' of None \<Rightarrow> [] | Some b \<Rightarrow> if b = [] then [] else split_command b);
               argv = (if argv = [] then [''xdg-open''] else argv)
           in Some (argv @ [url]))"

definition open_browser :: "('w, 's, 'x) lext_scheme \<Rightarrow> string \<Rightarrow> 's \<Rightarrow> bool \<times> 's" where
  "open_browser X url s = (case browser_argv X url of None \<Rightarrow> (False, s) | Some argv \<Rightarrow> x_spawn X argv s)"

section \<open>Hosts\<close>

text \<open>\<open>before c s\<close>: \<^verbatim>\<open>s.substr(0, s.find(c))\<close>.\<close>

definition before :: "char \<Rightarrow> string \<Rightarrow> string" where
  "before c s = takeWhile (\<lambda>d. d \<noteq> c) s"

definition host_name :: "string \<Rightarrow> string" where
  "host_name host =
     (let authority = before (CHR ''/'') host in
      if authority \<noteq> [] \<and> hd authority = CHR ''[''
      then (if CHR '']'' \<in> set authority then tl (before (CHR '']'') authority) else authority)
      else before (CHR '':'') authority)"

definition url_host :: "string \<Rightarrow> string" where
  "url_host url = (case split_at_str ''://'' url of None \<Rightarrow> [] | Some (_, rest) \<Rightarrow> host_name (drop 3 rest))"

definition is_loopback_name :: "'z lib_scheme \<Rightarrow> string \<Rightarrow> bool" where
  "is_loopback_name L name \<longleftrightarrow> name = ''127.0.0.1'' \<or> name = ''::1'' \<or> lb_ci_equals L name ''localhost''"

definition is_loopback_host :: "'z lib_scheme \<Rightarrow> string \<Rightarrow> bool" where
  "is_loopback_host L host = is_loopback_name L (host_name host)"

section \<open>The request\<close>

datatype login_mode = M_AUTO | M_BROWSER | M_DEVICE

definition DEFAULT_GRANT_WAIT_SECONDS :: int where
  "DEFAULT_GRANT_WAIT_SECONDS = 10"

record attach_request =
  ar_host :: string
  ar_mode :: login_mode
  ar_mode_given :: bool
  ar_issuer :: string
  ar_secret_name :: string
  ar_insecure_http :: bool
  ar_timeout_seconds :: int
  ar_act_for_sessions :: bool
  ar_on_behalf_of :: bool
  ar_exchange_scope :: string
  ar_exchange_audience :: string
  ar_grant_wait_seconds :: int
  ar_remember :: bool
  ar_remember_given :: bool

definition new_request :: "string \<Rightarrow> attach_request" where
  "new_request host = \<lparr>ar_host = host, ar_mode = M_AUTO, ar_mode_given = False, ar_issuer = [],
     ar_secret_name = [], ar_insecure_http = False, ar_timeout_seconds = 300, ar_act_for_sessions = False,
     ar_on_behalf_of = False, ar_exchange_scope = [], ar_exchange_audience = [],
     ar_grant_wait_seconds = DEFAULT_GRANT_WAIT_SECONDS, ar_remember = True, ar_remember_given = False\<rparr>"

definition parse_exchange :: "'z lib_scheme \<Rightarrow> string \<Rightarrow> error + bool" where
  "parse_exchange L v =
     (let kind = lb_lower L v in
      if kind \<noteq> ''token_exchange'' \<and> kind \<noteq> ''on_behalf_of''
      then Inl (InvalidInput ''EXCHANGE is token_exchange or on_behalf_of'' [v])
      else Inr (kind = ''on_behalf_of''))"

definition parse_grant_wait :: "int \<Rightarrow> error + int" where
  "parse_grant_wait seconds =
     (if seconds < 0 \<or> seconds > 600 then Inl (InvalidInput ''SESSION_GRANT_WAIT is 0 to 600 seconds'' [])
      else Inr seconds)"

definition parse_login :: "'z lib_scheme \<Rightarrow> string \<Rightarrow> error + login_mode" where
  "parse_login L v =
     (let mode = lb_lower L v in
      if mode = ''auto'' then Inr M_AUTO
      else if mode = ''browser'' then Inr M_BROWSER
      else if mode = ''device'' then Inr M_DEVICE
      else Inl (InvalidInput ''LOGIN is auto, browser or device'' [v]))"

text \<open>\<open>rbind\<close>: the next step of a parse, unless it threw.\<close>

definition rbind :: "error + 'a \<Rightarrow> ('a \<Rightarrow> error + 'b) \<Rightarrow> error + 'b" where
  "rbind x f = (case x of Inl e \<Rightarrow> Inl e | Inr a \<Rightarrow> f a)"

definition rguard :: "bool \<Rightarrow> error \<Rightarrow> error + unit" where
  "rguard c e = (if c then Inr () else Inl e)"

text \<open>One option: the request so far, and whether an option of ACT_FOR_SESSIONS was given.\<close>

definition attach_option :: "('w, 's, 'x) lext_scheme \<Rightarrow> string \<times> dvalue \<Rightarrow> attach_request \<times> bool \<Rightarrow>
    error + attach_request \<times> bool" where
  "attach_option X option st =
     (case option of (name, v) \<Rightarrow> case st of (r, actor) \<Rightarrow>
      let key = lb_lower X name; text' = x_text X v in
      if key = ''login'' then rbind (parse_login X text') (\<lambda>mode. Inr (r\<lparr>ar_mode_given := True, ar_mode := mode\<rparr>, actor))
      else if key = ''issuer'' then Inr (r\<lparr>ar_issuer := text'\<rparr>, actor)
      else if key = ''secret'' then Inr (r\<lparr>ar_secret_name := text'\<rparr>, actor)
      else if key = ''insecure_http'' then rbind (x_as_bool X v) (\<lambda>b. Inr (r\<lparr>ar_insecure_http := b\<rparr>, actor))
      else if key = ''login_timeout'' then rbind (x_as_bigint X v) (\<lambda>n.
        rbind (rguard (n > 0) (InvalidInput ''LOGIN_TIMEOUT is a positive number of seconds'' []))
          (\<lambda>_. Inr (r\<lparr>ar_timeout_seconds := n\<rparr>, actor)))
      else if key = ''remember'' then rbind (x_as_bool X v) (\<lambda>b.
        Inr (r\<lparr>ar_remember_given := True, ar_remember := b\<rparr>, actor))
      else if key = ''act_for_sessions'' then rbind (x_as_bool X v) (\<lambda>b. Inr (r\<lparr>ar_act_for_sessions := b\<rparr>, actor))
      else if key = ''exchange'' then rbind (parse_exchange X text') (\<lambda>b. Inr (r\<lparr>ar_on_behalf_of := b\<rparr>, True))
      else if key = ''exchange_scope'' then Inr (r\<lparr>ar_exchange_scope := text'\<rparr>, True)
      else if key = ''exchange_audience'' then Inr (r\<lparr>ar_exchange_audience := text'\<rparr>, True)
      else if key = ''session_grant_wait'' then rbind (x_as_bigint X v) (\<lambda>n. rbind (parse_grant_wait n)
        (\<lambda>n. Inr (r\<lparr>ar_grant_wait_seconds := n\<rparr>, True)))
      else Inl (InvalidInput ''unknown ATTACH option'' [name]))"

fun attach_options :: "('w, 's, 'x) lext_scheme \<Rightarrow> (string \<times> dvalue) list \<Rightarrow> attach_request \<times> bool \<Rightarrow>
    error + attach_request \<times> bool" where
  "attach_options X [] st = Inr st"
| "attach_options X (o' # os) st = rbind (attach_option X o' st) (attach_options X os)"

definition host_char :: "char \<Rightarrow> bool" where
  "host_char c \<longleftrightarrow> \<not> (c = CHR ''@'' \<or> c = CHR ''?'' \<or> c = CHR ''#'' \<or> c = CHR 0x5C \<or> is_space c \<or> byte_of c < 32)"

definition attach_host :: "'z lib_scheme \<Rightarrow> string \<Rightarrow> error + string" where
  "attach_host L path =
     (let host = strip_slashes (if starts_with ''tresor:'' (lb_lower L path) then drop 7 path else path) in
      if host = [] then Inl (InvalidInput ''ATTACH needs the service'' [])
      else if contains_str ''://'' host then Inl (InvalidInput ''name the service without a scheme'' [])
      else if \<not> list_all host_char host then Inl (InvalidInput ''is not a service name'' [host])
      else Inr host)"

definition check_request :: "'z lib_scheme \<Rightarrow> attach_request \<times> bool \<Rightarrow> error + attach_request" where
  "check_request L st = (case st of (r, actor) \<Rightarrow>
     if \<not> ar_act_for_sessions r \<and> actor then Inl (InvalidInput ''configure ACT_FOR_SESSIONS - set it too'' [])
     else if ar_act_for_sessions r \<and> ar_mode_given r
     then Inl (InvalidInput ''ACT_FOR_SESSIONS is for a node's service login'' [])
     else if ar_on_behalf_of r \<and> ar_exchange_scope r = []
     then Inl (InvalidInput ''EXCHANGE 'on_behalf_of' needs EXCHANGE_SCOPE'' [])
     else if ar_mode_given r \<and> ar_secret_name r \<noteq> []
     then Inl (InvalidInput ''LOGIN is how a person logs in and SECRET how a service does - not both'' [])
     else if ar_insecure_http r \<and> \<not> is_loopback_host L (ar_host r)
     then Inl (InvalidInput ''INSECURE_HTTP is for a service on this machine only'' [ar_host r])
     else Inr r)"

definition parse_attach :: "('w, 's, 'x) lext_scheme \<Rightarrow> string \<Rightarrow> (string \<times> dvalue) list \<Rightarrow> error + attach_request" where
  "parse_attach X path options =
     rbind (attach_host X path) (\<lambda>host.
     rbind (attach_options X options (new_request host, False)) (check_request X))"

section \<open>Transport\<close>

definition check_transport :: "'z lib_scheme \<Rightarrow> attach_request \<Rightarrow> string \<Rightarrow> string \<Rightarrow> error + unit" where
  "check_transport L r what url =
     (if starts_with ''https://'' url then Inr ()
      else if starts_with ''http://'' url \<and> ar_insecure_http r \<and> is_loopback_name L (url_host url) then Inr ()
      else Inl (InvalidInput ''is not https - refused'' [what, ar_host r, url]))"

definition throw_or :: "error + 'a \<Rightarrow> ('s, 'a) m" where
  "throw_or x = (case x of Inl e \<Rightarrow> throw e | Inr a \<Rightarrow> ret a)"

lemma wp_throw_or [wp_simps]: "wp (throw_or x) Q E s = (case x of Inl e \<Rightarrow> E e s | Inr a \<Rightarrow> Q a s)"
  by (simp add: throw_or_def wp_simps split: sum.splits)

section \<open>Discovery\<close>

record issuer =
  is_issuer :: string
  is_client_id :: string
  is_audience :: string
  is_audience_parameter :: bool
  is_scopes :: "string list"
  is_human_flows :: "string list option"     \<comment> \<open>None: not listed\<close>
  is_service_flows :: "string list option"

definition offers :: "string list option \<Rightarrow> string \<Rightarrow> bool" where
  "offers flows flow \<longleftrightarrow> (case flows of None \<Rightarrow> True | Some listed \<Rightarrow> flow \<in> set listed)"

record discovered =
  dv_api :: string
  dv_capabilities :: "string \<rightharpoonup> bool"
  dv_issuers :: "issuer list"

definition listed_flows :: "json option \<Rightarrow> string list option" where
  "listed_flows j = (case j of Some (JArr js) \<Rightarrow> Some (str_items js) | _ \<Rightarrow> None)"

definition read_issuer :: "json \<Rightarrow> issuer" where
  "read_issuer item = \<lparr>is_issuer = strip_slashes (jstr (Some item) ''issuer''),
     is_client_id = jstr (Some item) ''client_id'', is_audience = jstr (Some item) ''audience'',
     is_audience_parameter = jtrue (jget item ''audience_parameter''),
     is_scopes = str_list (jget item ''scopes''),
     is_human_flows = listed_flows (jget item ''human_flows''),
     is_service_flows = listed_flows (jget item ''service_flows'')\<rparr>"

definition read_issuers :: "json option \<Rightarrow> issuer list" where
  "read_issuers j = (case j of Some (JArr items) \<Rightarrow> filter (\<lambda>i. is_issuer i \<noteq> []) (map read_issuer items) | _ \<Rightarrow> [])"

definition read_capabilities :: "json option \<Rightarrow> string \<rightharpoonup> bool" where
  "read_capabilities j = (case j of
       Some (JObj kvs) \<Rightarrow> foldl (\<lambda>m kv. m(cstr (fst kv) \<mapsto> jtrue (Some (snd kv)))) Map.empty kvs | _ \<Rightarrow> Map.empty)"

definition read_discovery :: "'z lib_scheme \<Rightarrow> attach_request \<Rightarrow> string \<Rightarrow> error + discovered" where
  "read_discovery L r body =
     (case lb_json L body of
        Some (JObj kvs) \<Rightarrow>
          let root = Some (JObj kvs); protocol = jstr root ''protocol''; api = strip_slashes (jstr root ''api'') in
          if protocol \<noteq> ''duckdb-secrets/1'' then Inl (InvalidInput ''speaks another protocol'' [ar_host r, protocol])
          else if api = [] then Inl (IOErr ''the discovery document names no api'' [ar_host r])
          else rbind (check_transport L r ''api'' api) (\<lambda>_.
            let issuers = read_issuers (jget_opt root ''issuers'') in
            if issuers = [] then Inl (IOErr ''the discovery document lists no issuers'' [ar_host r])
            else Inr \<lparr>dv_api = api, dv_capabilities = read_capabilities (jget_opt root ''capabilities''),
                      dv_issuers = issuers\<rparr>)
      | _ \<Rightarrow> Inl (IOErr ''the discovery document is not a JSON object'' [ar_host r]))"

definition discovery_url :: "attach_request \<Rightarrow> string" where
  "discovery_url r = (if ar_insecure_http r then ''http://'' else ''https://'') @ ar_host r @ ''/.well-known/duckdb-secrets''"

definition discover :: "('w, 's, 'x) lext_scheme \<Rightarrow> attach_request \<Rightarrow> ('s, discovered) m" where
  "discover X r =
     bindE (liftX (x_http_get X (discovery_url r))) (\<lambda>response.
       if hr_error response \<noteq> [] then throw (IOErr ''discovery failed'' [ar_host r, hr_error response])
       else if hr_status response \<noteq> 200
       then throw (IOErr ''discovery answered'' [ar_host r, show_int (hr_status response)])
       else throw_or (read_discovery X r (hr_body response)))"

definition choose_issuer :: "attach_request \<Rightarrow> issuer list \<Rightarrow> string \<Rightarrow> error + issuer" where
  "choose_issuer r issuers asked =
     (case (if asked \<noteq> [] then List.find (\<lambda>i. is_issuer i = strip_slashes asked) issuers
            else case issuers of [only] \<Rightarrow> Some only | _ \<Rightarrow> None) of
        Some i \<Rightarrow> Inr i
      | None \<Rightarrow>
          if asked \<noteq> [] then Inl (InvalidInput ''does not accept the issuer'' (ar_host r # asked # map is_issuer issuers))
          else Inl (InvalidInput ''accepts several identity providers'' (ar_host r # map is_issuer issuers)))"

section \<open>A service's secret\<close>

definition scope_covers :: "'z lib_scheme \<Rightarrow> string \<Rightarrow> string \<Rightarrow> bool" where
  "scope_covers L scope_p path_p =
     (let scope = lb_lower L (strip_slashes scope_p); path = lb_lower L path_p; n = length scope in
      if \<not> starts_with ''tresor:'' scope \<or> n \<le> 7 \<or> \<not> starts_with scope path then False
      else if length path = n \<or> path ! n = CHR ''/'' then True
      else if path ! n \<noteq> CHR '':'' then False
      else let authority = drop 7 scope in
           if CHR ''/'' \<in> set authority then False
           else CHR '':'' \<notin> set (if CHR '']'' \<in> set authority
                                 then rev (before (CHR '']'') (rev authority)) else authority))"

definition is_tresor :: "'z lib_scheme \<Rightarrow> managed \<Rightarrow> bool" where
  "is_tresor L e \<longleftrightarrow> lb_ci_equals L (sec_type (ms_secret e)) ''tresor''"

definition as_tresor_secret :: "'z lib_scheme \<Rightarrow> managed \<Rightarrow> string \<Rightarrow> error + secret" where
  "as_tresor_secret L e name =
     (if \<not> is_tresor L e \<or> \<not> ms_key_value e
      then Inl (InvalidInput ''is of another type, not tresor'' [name, sec_type (ms_secret e)])
      else Inr (ms_secret e))"

text \<open>The loop over every secret's scopes: the best so far, its length, whether another equals it.\<close>

record best_secret =
  bs_best :: "managed option"
  bs_length :: nat
  bs_tie :: bool

definition best_scope :: "'z lib_scheme \<Rightarrow> string \<Rightarrow> managed \<Rightarrow> string \<Rightarrow> best_secret \<Rightarrow> best_secret" where
  "best_scope L path e scope b =
     (if \<not> scope_covers L scope path then b
      else if length scope > bs_length b then \<lparr>bs_best = Some e, bs_length = length scope, bs_tie = False\<rparr>
      else if length scope = bs_length b \<and> map_option ms_id (bs_best b) \<noteq> Some (ms_id e) then b\<lparr>bs_tie := True\<rparr>
      else b)"

definition best_entry :: "'z lib_scheme \<Rightarrow> string \<Rightarrow> managed \<Rightarrow> best_secret \<Rightarrow> best_secret" where
  "best_entry L path e b = (if is_tresor L e then fold (best_scope L path e) (sec_scope (ms_secret e)) b else b)"

definition best_secret_for :: "'z lib_scheme \<Rightarrow> string \<Rightarrow> managed list \<Rightarrow> best_secret" where
  "best_secret_for L path es = fold (best_entry L path) es \<lparr>bs_best = None, bs_length = 0, bs_tie = False\<rparr>"

definition find_service_secret :: "('w, 's, 'x) lext_scheme \<Rightarrow> attach_request \<Rightarrow> 's \<Rightarrow> error + secret option" where
  "find_service_secret X r s =
     (if ar_secret_name r \<noteq> [] then
        (case x_secret_named X (ar_secret_name r) s of
           None \<Rightarrow> Inl (InvalidInput ''no secret named'' [ar_secret_name r])
         | Some e \<Rightarrow> rbind (as_tresor_secret X e (ar_secret_name r)) (\<lambda>k. Inr (Some k)))
      else let path = ''tresor:'' @ ar_host r; b = best_secret_for X path (x_secrets X s) in
        if bs_tie b then Inl (InvalidInput ''several tresor secrets cover equally'' [path])
        else case bs_best b of
               None \<Rightarrow> Inr None
             | Some e \<Rightarrow> rbind (as_tresor_secret X e (sec_name (ms_secret e))) (\<lambda>k. Inr (Some k)))"

definition secret_string :: "('w, 's, 'x) lext_scheme \<Rightarrow> secret \<Rightarrow> string \<Rightarrow> string" where
  "secret_string X k key = (case find_param X (sec_map k) key of
       None \<Rightarrow> [] | Some v \<Rightarrow> if is_null v then [] else x_text X v)"

section \<open>The flow and the issuer's endpoints\<close>

definition choose_person_flow :: "('w, 's, 'x) lext_scheme \<Rightarrow> attach_request \<Rightarrow> endpoints \<Rightarrow> issuer \<Rightarrow> error + login_flow" where
  "choose_person_flow X r ends i =
     (let browser = (ep_authorization ends \<noteq> [] \<and> offers (is_human_flows i) ''authorization_code'');
          device = (ep_device_authorization ends \<noteq> [] \<and> offers (is_human_flows i) ''device_code'') in
      case ar_mode r of
        M_BROWSER \<Rightarrow> if browser then Inr F_BROWSER else Inl (InvalidInput ''offers no browser login'' [ar_host r])
      | M_DEVICE \<Rightarrow> if device then Inr F_DEVICE else Inl (InvalidInput ''offers no device login'' [ar_host r])
      | M_AUTO \<Rightarrow>
          if browser \<and> (can_open_browser X \<or> \<not> device) then Inr F_BROWSER
          else if device then Inr F_DEVICE
          else Inl (InvalidInput ''offers neither a browser nor a device login'' [ar_host r]))"

definition named_endpoints :: "endpoints \<Rightarrow> string list" where
  "named_endpoints ends = filter (\<lambda>e. e \<noteq> [])
     [ep_token ends, ep_authorization ends, ep_device_authorization ends, ep_revocation ends]"

fun check_endpoints :: "'z lib_scheme \<Rightarrow> attach_request \<Rightarrow> string list \<Rightarrow> error + unit" where
  "check_endpoints L r [] = Inr ()"
| "check_endpoints L r (e # es) =
     rbind (check_transport L r ''identity provider endpoint'' e) (\<lambda>_. check_endpoints L r es)"

definition resolve_issuer :: "('w, 's, 'x) lext_scheme \<Rightarrow> attach_request \<Rightarrow> issuer \<Rightarrow> service_info \<Rightarrow> ('s, service_info) m" where
  "resolve_issuer X r i info =
     seqE (throw_or (check_transport X r ''issuer'' (is_issuer i)))
     (bindE (liftX (x_discover X (is_issuer i))) (\<lambda>ends.
       if \<not> x_endpoints_ok X ends then throw (IOErr ''the identity provider'' [is_issuer i, ar_host r, ep_error ends])
       else seqE (throw_or (check_endpoints X r (named_endpoints ends)))
         (ret (info\<lparr>si_issuer := is_issuer i, si_audience := is_audience i,
                    si_audience_parameter := is_audience_parameter i, si_endpoints := ends\<rparr>))))"

end
