(* ===== verification/Tresor_Login.thy ===== *)
theory Tresor_Login
  imports Tresor_Attach
begin

text \<open>
  The login of an ATTACH (\<^verbatim>\<open>Login\<close> of \<^verbatim>\<open>tresor_login.cpp\<close>), a page's hand-overs, and the login that
  \<^verbatim>\<open>tresor_login\<close> starts in the background. The new session's identity \<open>sid\<close> (its address) is an argument, as is
  the identity of a new pending login. A wait for a login in progress goes on in slices, as in \<open>grant_for\<close>.

  The background thread is a value: \<open>start_person_login\<close> returns what it started, and \<open>run_background\<close> is
  what that thread then does, interleaved with everything else. What a login prints goes to \<open>x_print\<close>.
\<close>

section \<open>A remembered login\<close>

definition info_key :: "service_info \<Rightarrow> login_key" where
  "info_key info = \<lparr>lk_issuer = strip_slashes (si_issuer info), lk_client_id = si_client_id info,
     lk_service = si_host info\<rparr>"

text \<open>Under the key's lock: the refreshed tokens and the stored token they began with; \<open>None\<close> when a login must run.\<close>

definition remembered_login :: "('w, 's, 'x) lext_scheme \<Rightarrow> attach_request \<Rightarrow> service_info \<Rightarrow> 'w instance_state \<Rightarrow>
    (error + (token_set \<times> string) option) \<times> 'w instance_state" where
  "remembered_login X r info i =
     (if \<not> usable X i then (Inr None, i)
      else let key = info_key info; mode = i_mode i in
        case load X key mode i of
          None \<Rightarrow> (Inr None, i)
        | Some (subject, refresh) \<Rightarrow>
            (case x_refresh_grant X (si_endpoints info) (si_client_id info) refresh (si_scope info) i of
               (renewed, i) \<Rightarrow>
                 if x_tokens_ok X renewed then
                   (if refresh_token renewed = []
                    then (Inr (Some (renewed\<lparr>refresh_token := refresh\<rparr>, refresh)), i)
                    else if refresh_token renewed \<noteq> refresh
                    then (Inr (Some (renewed, refresh_token renewed)), store X key subject (refresh_token renewed) mode i)
                    else (Inr (Some (renewed, refresh)), i))
                 else if ts_error_code renewed = ''invalid_grant'' then (Inr None, snd (remove X key mode refresh i))
                 else if ts_error_code renewed = []
                 then (Inl (IOErr ''the remembered login could not be renewed'' [ar_host r, ts_error renewed]), i)
                 else (Inr None, i)))"

definition on_inst :: "('w instance_state \<Rightarrow> (error + 'a) \<times> 'w instance_state) \<Rightarrow> (('w, 'y) sys_scheme, 'a) m" where
  "on_inst f = (\<lambda>s. case f (y_inst s) of (x, i) \<Rightarrow> (x, s\<lparr>y_inst := i\<rparr>))"

lemma wp_on_inst [wp_simps]: "wp (on_inst f) Q E s =
    (case f (y_inst s) of (Inl e, i) \<Rightarrow> E e (s\<lparr>y_inst := i\<rparr>) | (Inr a, i) \<Rightarrow> Q a (s\<lparr>y_inst := i\<rparr>))"
  by (simp add: wp_def on_inst_def split: prod.splits sum.splits)

section \<open>A person's login\<close>

definition person_login :: "('w, ('w, 'y) sys_scheme, 'x) lext_scheme \<Rightarrow> ('w, 'y) sys_scheme statement \<Rightarrow> attach_request \<Rightarrow>
    service_info \<Rightarrow> issuer \<Rightarrow> (('w, 'y) sys_scheme, login_flow \<times> token_set) m" where
  "person_login X S r info i =
     bindE (throw_or (choose_person_flow X r (si_endpoints info) i)) (\<lambda>flow.
     bindE (on_instance (x_now X)) (\<lambda>now.
       let deadline = now + ar_timeout_seconds r; extra = audience_extra info; ends = si_endpoints info;
           client = si_client_id info; scope = si_scope info in
     bindE (if flow = F_BROWSER
            then liftX (x_code_login X ends client scope
                   (\<lambda>url s. snd (open_browser X url (x_print X (''log in to '' @ ar_host r @ '' in your browser: '' @ url) s)))
                   deadline (sm_interrupted S) extra)
            else bindE (liftX (x_device_begin X ends client scope extra)) (\<lambda>begun.
              if \<not> x_device_ok X begun then throw (IOErr ''the device login could not start'' [ar_host r, db_error begun])
              else seqE (modifyS (x_print X (''to log in to '' @ ar_host r @ '', visit '' @ db_verification_uri begun @
                     '' and enter the code '' @ db_user_code begun @
                     (if db_verification_uri_complete begun = [] \<or>
                         db_verification_uri_complete begun = db_verification_uri begun then []
                      else '' or open '' @ db_verification_uri_complete begun))))
                (bindE (on_instance (x_now X)) (\<lambda>now.
                  liftX (x_device_poll X ends client (db_device_code begun) (db_code_verifier begun) (db_interval begun)
                    (min deadline (now + db_expires_in begun)) (sm_interrupted S))))))
       (\<lambda>tokens.
         if \<not> x_tokens_ok X tokens then
           (if ts_error_code tokens = ''cancelled'' then throw Interrupt
            else throw (InvalidInput ''the login failed'' [login_flow_name flow, ar_host r, ts_error tokens]))
         else ret (flow, tokens))))"

section \<open>A service's credential\<close>

text \<open>What the secret names: the flow, the proof, and how the discovery lists it.\<close>

definition credential_of :: "('w, 's, 'x) lext_scheme \<Rightarrow> attach_request \<Rightarrow> service_info \<Rightarrow> secret \<Rightarrow> string \<Rightarrow>
    error + login_flow \<times> service_credential \<times> string" where
  "credential_of X r info k secret_flow =
     (let get = secret_string X k; c = no_credential\<lparr>sc_client_id := get ''client_id''\<rparr> in
      if secret_flow = ''managed_identity'' then
        (let c = c\<lparr>sc_kind := MANAGED_IDENTITY, sc_audience := get ''audience''\<rparr> in
         if sc_audience c \<noteq> si_audience info
         then Inl (InvalidInput ''its token is not sent to another audience'' [ar_host r, si_audience info, sc_audience c])
         else Inr (F_MANAGED_IDENTITY, c, ''managed_identity''))
      else if secret_flow = ''federated'' then
        (let c = c\<lparr>sc_assertion_file := get ''assertion_file'', sc_assertion_audience := get ''assertion_audience''\<rparr>;
             source = lb_lower X (get ''assertion_source'');
             c = (if sc_assertion_file c \<noteq> [] then c\<lparr>sc_kind := ASSERTION_FILE\<rparr>
                  else if source = ''azure_managed_identity''
                  then c\<lparr>sc_kind := AZURE_MANAGED_IDENTITY_ASSERTION, sc_identity_client_id := get ''identity_client_id'',
                         sc_assertion_audience := (if sc_assertion_audience c = [] then TOKEN_EXCHANGE
                                                   else sc_assertion_audience c)\<rparr>
                  else c\<lparr>sc_kind := GITHUB_ACTIONS\<rparr>)
         in Inr (F_FEDERATED, c, ''federated''))
      else
        (let c = c\<lparr>sc_private_key_file := get ''private_key_file''\<rparr> in
         if sc_private_key_file c = []
         then Inr (F_CLIENT_CREDENTIALS, c\<lparr>sc_kind := SECRET, sc_client_secret := get ''client_secret''\<rparr>,
                   ''client_credentials'')
         else Inr (F_CLIENT_CREDENTIALS, c\<lparr>sc_kind := PRIVATE_KEY, sc_key_id := get ''key_id'',
                     sc_certificate_file := get ''certificate_file''\<rparr>, ''private_key_jwt'')))"

definition join_words :: "string list \<Rightarrow> string" where
  "join_words ws = (case ws of [] \<Rightarrow> [] | w # rest \<Rightarrow> w @ concat (map (\<lambda>v. '' '' @ v) rest))"

definition service_scope :: "('w, 's, 'x) lext_scheme \<Rightarrow> secret \<Rightarrow> issuer \<Rightarrow> string" where
  "service_scope X k i = (let named = secret_string X k ''oauth_scope'' in
     if named \<noteq> [] then named
     else join_words (filter (\<lambda>s. s \<noteq> ''openid'' \<and> s \<noteq> ''offline_access'') (is_scopes i)))"

text \<open>What a login ends with: the session's parts, whether it is remembered, what it started from.\<close>

record acquired =
  aq_info :: service_info
  aq_flow :: login_flow
  aq_tokens :: token_set
  aq_credential :: service_credential
  aq_remember :: bool
  aq_started_from :: string

definition service_login :: "('w, ('w, 'y) sys_scheme, 'x) lext_scheme \<Rightarrow> attach_request \<Rightarrow> secret \<Rightarrow> string \<Rightarrow>
    issuer \<Rightarrow> service_info \<Rightarrow> (('w, 'y) sys_scheme, acquired) m" where
  "service_login X r k secret_flow i info =
     bindE (throw_or (credential_of X r info k secret_flow)) (\<lambda>(flow, c, listed).
     seqE (bindE (gets (\<lambda>s. check_access (\<lambda>path. x_can_access X path s) c)) throw_or)
     (seqE (guardE (offers (is_service_flows i) listed) (InvalidInput ''does not accept such logins'' [ar_host r, listed]))
     (let info = info\<lparr>si_client_id := sc_client_id c, si_scope := service_scope X k i\<rparr> in
      bindE (on_instance (cred_mint X c (si_endpoints info) (si_scope info) (audience_extra info))) (\<lambda>tokens.
        if \<not> x_tokens_ok X tokens
        then throw (InvalidInput ''the login failed'' [login_flow_name flow, ar_host r, ts_error tokens])
        else ret \<lparr>aq_info = info, aq_flow = flow, aq_tokens = tokens, aq_credential = c, aq_remember = False,
                  aq_started_from = []\<rparr>))))"

section \<open>The page's token\<close>

definition find_page_token :: "('w, 's, 'x) ext_scheme \<Rightarrow> service_info \<Rightarrow> 'w instance_state \<Rightarrow>
    token_set option \<times> 'w instance_state" where
  "find_page_token X info i =
     (case page_find X (strip_slashes (si_issuer info)) (si_host info) i of
        None \<Rightarrow> (None, i)
      | Some held \<Rightarrow>
          let tokens = no_tokens\<lparr>access_token := pt_token held, expires_at := pt_expires_at held\<rparr> in
          if pt_expires_at held = 0 then (Some tokens, i)
          else case x_now X i of (now, i) \<Rightarrow> (if pt_expires_at held \<le> now then None else Some tokens, i))"

section \<open>A login in progress\<close>

fun wait_login_beyond :: "('w, 's, 'x) ext_scheme \<Rightarrow> nat \<Rightarrow> pending_state \<Rightarrow> int \<Rightarrow> (('w, 'y) sys_scheme \<Rightarrow> bool) \<Rightarrow>
    (('w, 'y) sys_scheme \<Rightarrow> ('w, 'y) sys_scheme) list \<Rightarrow>
    (('w, 'y) sys_scheme, pending_state \<times> (('w, 'y) sys_scheme \<Rightarrow> ('w, 'y) sys_scheme) list) m" where
  "wait_login_beyond X l old deadline interrupted slices =
     bindE (gets (\<lambda>s. pl_state (i_logins (y_inst s) l))) (\<lambda>state.
     bindE (on_instance (x_now X)) (\<lambda>now.
     bindE (gets interrupted) (\<lambda>stop.
       if state = old \<and> now < deadline \<and> \<not> stop then
         (case slices of
            [] \<Rightarrow> throw (InternalErr ''still waiting'' [])
          | other # later \<Rightarrow> seqE (modifyS other) (wait_login_beyond X l old deadline interrupted later))
       else ret (state, slices))))"

declare wait_login_beyond.simps [simp del]

text \<open>
  What the ATTACH finds of a login \<^verbatim>\<open>tresor_login\<close> started: the tokens kept for it (with the flow, and whether they
  may be remembered), or nothing. A finished login stays finished, so what \<open>login_taken\<close> sees under the lock is the
  state the wait returned.
\<close>

definition take_pending :: "('w, 's, 'x) ext_scheme \<Rightarrow> ('w, 'y) sys_scheme statement \<Rightarrow> attach_request \<Rightarrow> login_key \<Rightarrow>
    (('w, 'y) sys_scheme, (login_flow \<times> token_set \<times> bool) option) m" where
  "take_pending X S r key =
     bindE (gets (\<lambda>s. pending_find key (y_inst s))) (\<lambda>found. case found of
       None \<Rightarrow> ret None
     | Some l \<Rightarrow>
         bindE (on_instance (x_now X)) (\<lambda>now.
           let deadline = now + ar_timeout_seconds r in
         bindE (wait_login_beyond X l STARTING deadline (sm_interrupted S) (sm_slices S)) (\<lambda>(_, later).
         bindE (wait_login_beyond X l PENDING deadline (sm_interrupted S) later) (\<lambda>(state, _).
         bindE (gets (sm_interrupted S)) (\<lambda>stop.
         seqE (guardE (\<not> stop) Interrupt)
         (bindE (gets (\<lambda>s. i_logins (y_inst s) l)) (\<lambda>p.
         bindE (if state = DONE then on_instance (login_taken l) else ret None) (\<lambda>taken.
           let failed = (if taken = None \<and> state = FAILED \<and> \<not> pl_ended_by_logoff p then pl_error p else []) in
         seqE (guardE (state \<noteq> PENDING \<and> state \<noteq> STARTING)
                (InvalidInput ''the login that tresor_login started did not complete'' [ar_host r]))
         (seqE (on_instance (\<lambda>i. ((), pending_remove l i)))
         (seqE (guardE (failed = []) (InvalidInput ''the login that tresor_login started failed'' [ar_host r, failed]))
           (ret (map_option (\<lambda>tokens. (if pl_flow p = ''device'' then F_DEVICE else F_BROWSER, tokens, pl_remember p))
                  taken))))))))))))"

definition plain_whoami :: "service_info \<Rightarrow> string \<Rightarrow> http_request" where
  "plain_whoami info token = \<lparr>rq_method = ''GET'', rq_url = si_api info @ ''/v1/whoami'',
     rq_headers = [(''Authorization'', ''Bearer '' @ token), (''Accept'', ''application/json'')], rq_body = [],
     rq_content_type = [], rq_timeout = 30\<rparr>"

text \<open>The remembered login, when the service still takes it; else the person logs in.\<close>

definition remembered_or_person :: "('w, ('w, 'y) sys_scheme, 'x) lext_scheme \<Rightarrow> ('w, 'y) sys_scheme statement \<Rightarrow>
    attach_request \<Rightarrow> service_info \<Rightarrow> issuer \<Rightarrow> bool \<Rightarrow>
    (('w, 'y) sys_scheme, login_flow \<times> token_set \<times> string) m" where
  "remembered_or_person X S r info i remember =
     bindE (if remember then on_inst (remembered_login X r info) else ret None) (\<lambda>found.
       let fresh_login = bindE (person_login X S r info i) (\<lambda>(flow, tokens). ret (flow, tokens, [])) in
       case found of
         None \<Rightarrow> fresh_login
       | Some (tokens, started_from) \<Rightarrow>
           bindE (liftX (x_http X (plain_whoami info (access_token tokens)))) (\<lambda>probe.
             if hr_error probe \<noteq> [] then throw (IOErr ''did not answer'' [ar_host r, hr_error probe])
             else if hr_status probe = 401 then fresh_login
             else ret (F_REMEMBERED, tokens, started_from)))"

definition person_attach :: "('w, ('w, 'y) sys_scheme, 'x) lext_scheme \<Rightarrow> ('w, 'y) sys_scheme statement \<Rightarrow> attach_request \<Rightarrow>
    issuer \<Rightarrow> service_info \<Rightarrow> bool \<Rightarrow> (('w, 'y) sys_scheme, acquired) m" where
  "person_attach X S r i info remember =
     (let info = info\<lparr>si_client_id := is_client_id i, si_scope := join_words (is_scopes i)\<rparr>;
          key = \<lparr>lk_issuer = strip_slashes (si_issuer info), lk_client_id = si_client_id info, lk_service = ar_host r\<rparr>;
          done_with = (\<lambda>flow tokens remember started. ret \<lparr>aq_info = info, aq_flow = flow, aq_tokens = tokens,
            aq_credential = no_credential, aq_remember = remember, aq_started_from = started\<rparr>) in
      seqE (guardE (is_client_id i \<noteq> []) (IOErr ''names no client_id for people to log in with'' [ar_host r]))
      (bindE (take_pending X S r key) (\<lambda>taken. case taken of
         Some (flow, tokens, may_remember) \<Rightarrow> done_with flow tokens (remember \<and> may_remember) []
       | None \<Rightarrow> bindE (remembered_or_person X S r info i remember) (\<lambda>(flow, tokens, started).
           done_with flow tokens remember started))))"

section \<open>Login\<close>

text \<open>The part with an identity provider.\<close>

definition issuer_login :: "('w, ('w, 'y) sys_scheme, 'x) lext_scheme \<Rightarrow> ('w, 'y) sys_scheme statement \<Rightarrow> attach_request \<Rightarrow>
    discovered \<Rightarrow> secret option \<Rightarrow> string \<Rightarrow> service_info \<Rightarrow> (('w, 'y) sys_scheme, acquired) m" where
  "issuer_login X S r d secret secret_flow info =
     (let bound = (case secret of None \<Rightarrow> [] | Some k \<Rightarrow> secret_string X k ''issuer'') in
      seqE (guardE (secret = None \<or> ar_issuer r = [] \<or> strip_slashes (ar_issuer r) = strip_slashes bound)
             (InvalidInput ''is not the issuer the secret is bound to'' [ar_issuer r, bound]))
      (bindE (throw_or (choose_issuer r (dv_issuers d) (if secret = None then ar_issuer r else bound))) (\<lambda>i.
       bindE (resolve_issuer X r i info) (\<lambda>info. case secret of
         Some k \<Rightarrow> service_login X r k secret_flow i info
       | None \<Rightarrow>
           bindE (if ar_mode_given r then ret None else on_instance (find_page_token X info)) (\<lambda>page. case page of
             Some tokens \<Rightarrow> ret \<lparr>aq_info = info, aq_flow = F_PAGE, aq_tokens = tokens, aq_credential = no_credential,
                              aq_remember = False, aq_started_from = []\<rparr>
           | None \<Rightarrow> person_attach X S r i info (ar_remember r))))))"

definition acquire :: "('w, ('w, 'y) sys_scheme, 'x) lext_scheme \<Rightarrow> ('w, 'y) sys_scheme statement \<Rightarrow> attach_request \<Rightarrow>
    discovered \<Rightarrow> secret option \<Rightarrow> (('w, 'y) sys_scheme, acquired) m" where
  "acquire X S r d secret =
     (let info = \<lparr>si_host = ar_host r, si_discovery = discovery_url r, si_api = dv_api d, si_issuer = [],
            si_client_id = [], si_scope = [], si_audience = [], si_audience_parameter = False,
            si_insecure_http = ar_insecure_http r, si_capabilities = dv_capabilities d, si_endpoints = no_endpoints\<rparr>;
          secret_flow = (case secret of None \<Rightarrow> [] | Some k \<Rightarrow> lb_lower X (secret_string X k ''flow'')) in
      seqE (guardE (ar_act_for_sessions r \<longrightarrow> secret_flow = ''client_credentials'' \<or> secret_flow = ''federated'')
             (InvalidInput ''ACT_FOR_SESSIONS needs a service login'' [secret_flow]))
      (seqE (guardE (\<not> (secret \<noteq> None \<and> ar_remember_given r \<and> ar_remember r))
             (InvalidInput ''REMEMBER is for a person's login'' []))
      (case secret of
         Some k \<Rightarrow>
           if secret_flow = ''token'' then ret \<lparr>aq_info = info, aq_flow = F_TOKEN,
               aq_tokens = no_tokens\<lparr>access_token := secret_string X k ''token''\<rparr>, aq_credential = no_credential,
               aq_remember = False, aq_started_from = []\<rparr>
           else issuer_login X S r d secret secret_flow info
       | None \<Rightarrow> issuer_login X S r d secret secret_flow info)))"

definition no_hooks :: "'s hooks" where
  "no_hooks = \<lparr>on_resumed = None, on_logged_off = None, wait_pending = None\<rparr>"

definition whoami_call :: call_args where
  "whoami_call = \<lparr>c_method = ''GET'', c_path = ''/v1/whoami'', c_body = [], c_headers = [], c_timeout = 30\<rparr>"

text \<open>The session, proven by a whoami.\<close>

definition open_session :: "('w, ('w, 'y) sys_scheme, 'x) lext_scheme \<Rightarrow> nat \<Rightarrow> acquired \<Rightarrow> (('w, 'y) sys_scheme, unit) m" where
  "open_session X sid a =
     bindE (on_instance (x_now X)) (\<lambda>now.
       let se = (new_session (aq_info a) (aq_flow a) (aq_tokens a) (aq_credential a) now)\<lparr>s_client := True\<rparr>
       in set_ses sid (\<lambda>_. if aq_flow a = F_PAGE then use_page_tokens X se else se))"

definition prove_login :: "('w, ('w, 'y) sys_scheme, 'x) lext_scheme \<Rightarrow> nat \<Rightarrow> attach_request \<Rightarrow> acquired \<Rightarrow>
    (('w, 'y) sys_scheme, unit) m" where
  "prove_login X sid r a =
     bindE (call X no_hooks sid whoami_call (\<lambda>_. False)) (\<lambda>whoami.
       if sr_status whoami \<noteq> 200 then
         seqE (set_ses sid close_session)
           (throw (InvalidInput ''refused the login'' [ar_host r, describe_problem X (sr_status whoami) (sr_body whoami)]))
       else
         let subject = whoami_subject X (sr_body whoami) in
         seqE (set_ses sid (\<lambda>se. if subject = [] then se else se\<lparr>s_subject := subject\<rparr>))
         (if aq_remember a
          then locked sid (\<lambda>(se, i). if usable X i then (Inr (), remember_login X (aq_started_from a) (se, i))
                                     else (Inr (), se, i))
          else ret ()))"

definition login :: "('w, ('w, 'y) sys_scheme, 'x) lext_scheme \<Rightarrow> ('w, 'y) sys_scheme statement \<Rightarrow> nat \<Rightarrow> attach_request \<Rightarrow>
    (('w, 'y) sys_scheme, unit) m" where
  "login X S sid r =
     seqE (http_client_for X)
     (bindE (discover X r) (\<lambda>d.
      bindE (bindE (gets (\<lambda>s. if ar_mode_given r then Inr None else find_service_secret X r s)) throw_or) (\<lambda>secret.
      bindE (acquire X S r d secret) (\<lambda>a.
      seqE (open_session X sid a) (prove_login X sid r a)))))"

section \<open>Hand-overs of a page\<close>

definition hand_over_login :: "('w, ('w, 'y) sys_scheme, 'x) lext_scheme \<Rightarrow> attach_request \<Rightarrow> string \<Rightarrow>
    (('w, 'y) sys_scheme, login_key) m" where
  "hand_over_login X r refresh =
     (let memory_only = (\<lambda>why. bindE (gets (\<lambda>s. i_mode (y_inst s))) (\<lambda>mode. guardE (mode = MEMORY) (InvalidInput why []))) in
     seqE (memory_only ''tresor_web_login keeps a login in this instance's memory only'')
     (seqE (guardE (refresh \<noteq> []) (InvalidInput ''tresor_web_login: no refresh token'' []))
     (seqE (http_client_for X)
     (bindE (discover X r) (\<lambda>d.
      bindE (throw_or (choose_issuer r (dv_issuers d) (ar_issuer r))) (\<lambda>i.
      seqE (throw_or (check_transport X r ''issuer'' (is_issuer i)))
      (seqE (guardE (is_client_id i \<noteq> []) (IOErr ''names no client_id for people to log in with'' [ar_host r]))
      (let key = \<lparr>lk_issuer = strip_slashes (is_issuer i), lk_client_id = is_client_id i, lk_service = ar_host r\<rparr> in
       seqE (on_instance (\<lambda>i. ((), store X key HANDED_OVER_SUBJECT refresh MEMORY i)))
       (seqE (memory_only ''tresor_keychain changed meanwhile - nothing was kept'') (ret key))))))))))"

record page_hand_over =
  ph_issuer :: string
  ph_service :: string
  ph_expires_at :: int

text \<open>A JWT that says it is from another issuer, for another audience, or over, is refused before it is kept.\<close>

definition check_page_token :: "attach_request \<Rightarrow> issuer \<Rightarrow> jwt_claims \<Rightarrow> int \<Rightarrow> error + unit" where
  "check_page_token r i claims now =
     (if \<not> jc_is_jwt claims then Inr ()
      else if jc_issuer claims \<noteq> [] \<and> strip_slashes (jc_issuer claims) \<noteq> strip_slashes (is_issuer i)
      then Inl (InvalidInput ''the token is from another identity provider'' [ar_host r, is_issuer i])
      else if is_audience i \<noteq> [] \<and> is_audience i \<notin> set (jc_audiences claims)
      then Inl (InvalidInput ''the token is not for this audience'' [ar_host r, is_audience i])
      else if jc_expires_at claims \<noteq> 0 \<and> jc_expires_at claims \<le> now
      then Inl (InvalidInput ''the token has expired'' [])
      else Inr ())"

definition hand_over_page_token :: "('w, ('w, 'y) sys_scheme, 'x) lext_scheme \<Rightarrow> attach_request \<Rightarrow> string \<Rightarrow>
    (('w, 'y) sys_scheme, page_hand_over) m" where
  "hand_over_page_token X r token =
     seqE (guardE (token \<noteq> []) (InvalidInput ''tresor_web_token: no access token'' []))
     (seqE (http_client_for X)
     (bindE (discover X r) (\<lambda>d.
      bindE (throw_or (choose_issuer r (dv_issuers d) (ar_issuer r))) (\<lambda>i.
      seqE (throw_or (check_transport X r ''issuer'' (is_issuer i)))
      (bindE (on_instance (x_now X)) (\<lambda>now.
        let claims = read_jwt_claims X token in
        seqE (throw_or (check_page_token r i claims now))
        (let out = \<lparr>ph_issuer = strip_slashes (is_issuer i), ph_service = ar_host r, ph_expires_at = jc_expires_at claims\<rparr> in
         seqE (on_instance (\<lambda>i. ((), page_set X (ph_issuer out) (ph_service out)
                 \<lparr>pt_token = token, pt_expires_at = jc_expires_at claims\<rparr> i)))
           (ret out))))))))"

section \<open>A login in the background\<close>

record login_status =
  ls_key :: login_key
  ls_flow :: string
  ls_status :: string
  ls_url :: string
  ls_user_code :: string
  ls_expires_at :: int

definition new_status :: "login_key \<Rightarrow> login_status" where
  "new_status key = \<lparr>ls_key = key, ls_flow = [], ls_status = [], ls_url = [], ls_user_code = [], ls_expires_at = 0\<rparr>"

definition report :: "login_key \<Rightarrow> pending_login \<Rightarrow> login_status" where
  "report key p = \<lparr>ls_key = key, ls_flow = pl_flow p,
     ls_status = (case pl_state p of STARTING \<Rightarrow> ''pending'' | PENDING \<Rightarrow> ''pending'' | DONE \<Rightarrow> ''done''
                  | FAILED \<Rightarrow> ''failed: '' @ pl_error p),
     ls_url = pl_url p, ls_user_code = pl_user_code p, ls_expires_at = pl_expires_at p\<rparr>"

definition kept_for_attach :: "pending_login \<Rightarrow> bool" where
  "kept_for_attach p \<longleftrightarrow> pl_keep_tokens p \<and> pl_state p = DONE \<and> \<not> pl_consumed p"

text \<open>A login for the key already: a failure is told once, kept tokens wait.\<close>

definition status_of :: "('w, 's, 'x) ext_scheme \<Rightarrow> ('w, 'y) sys_scheme statement \<Rightarrow> login_key \<Rightarrow> nat \<Rightarrow>
    (('w, 'y) sys_scheme, login_status) m" where
  "status_of X S key l =
     bindE (on_instance (x_now X)) (\<lambda>now.
     bindE (wait_login_beyond X l STARTING (now + 30) (sm_interrupted S) (sm_slices S)) (\<lambda>_.
     bindE (gets (\<lambda>s. i_logins (y_inst s) l)) (\<lambda>p.
       let out = report key p in
       seqE (if ls_status out \<noteq> ''pending'' \<and> \<not> kept_for_attach p then on_instance (\<lambda>i. ((), pending_remove l i)) else ret ())
         (ret out))))"

text \<open>What the background thread runs.\<close>

datatype background =
    No_Thread
  | Device_Flow endpoints string string string int int
  | Browser_Flow endpoints string string string "(string \<times> string) list" int

definition on_login :: "nat \<Rightarrow> (pending_login \<Rightarrow> pending_login) \<Rightarrow> (('w, 'y) sys_scheme, unit) m" where
  "on_login l f = on_instance (\<lambda>i. ((), update_login l f i))"

text \<open>The device's half runs in the call itself: its code is what the person needs.\<close>

definition begin_device :: "('w, ('w, 'y) sys_scheme, 'x) lext_scheme \<Rightarrow> nat \<Rightarrow> string \<Rightarrow> service_info \<Rightarrow>
    (string \<times> string) list \<Rightarrow> int \<Rightarrow> (('w, 'y) sys_scheme, background) m" where
  "begin_device X l host info extra deadline =
     bindE (liftX (x_device_begin X (si_endpoints info) (si_client_id info) (si_scope info) extra)) (\<lambda>begun.
       if \<not> x_device_ok X begun then throw (IOErr ''the device login could not start'' [host, db_error begun])
       else bindE (on_instance (x_now X)) (\<lambda>now.
         seqE (on_login l (login_shown (if db_verification_uri_complete begun = [] then db_verification_uri begun
                                        else db_verification_uri_complete begun)
                 (db_user_code begun) (min deadline (now + db_expires_in begun))))
         (seqE (modifyS (x_print X (''to log in to '' @ host @ '', visit '' @ db_verification_uri begun @
                  '' and enter the code '' @ db_user_code begun)))
         (bindE (on_instance (x_now X)) (\<lambda>now.
            ret (Device_Flow (si_endpoints info) (si_client_id info) (db_device_code begun) (db_code_verifier begun)
              (db_interval begun) (min deadline (now + db_expires_in begun))))))))"

text \<open>The thread: the flow, then its outcome under the login's lock (\<open>login_ended\<close>).\<close>

definition run_background :: "('w, ('w, 'y) sys_scheme, 'x) lext_scheme \<Rightarrow> nat \<Rightarrow> keychain_mode \<Rightarrow> bool \<Rightarrow>
    background \<Rightarrow> (('w, 'y) sys_scheme, unit) m" where
  "run_background X l mode alive b =
     (let cancelled = (\<lambda>s. pl_cancelled (i_logins (y_inst s) l));
          ended = (\<lambda>tokens. on_instance (\<lambda>i. ((), login_ended X l mode alive tokens i))) in
      case b of
        No_Thread \<Rightarrow> ret ()
      | Device_Flow ends client code verifier interval until \<Rightarrow>
          bindE (liftX (x_device_poll X ends client code verifier interval until cancelled)) ended
      | Browser_Flow ends client scope host extra deadline \<Rightarrow>
          bindE (liftX (x_code_login X ends client scope
            (\<lambda>url s. let t = s\<lparr>y_inst := update_login l (\<lambda>p. login_shown url (pl_user_code p) deadline p) (y_inst s)\<rparr>
               in snd (open_browser X url (x_print X (''log in to '' @ host @ '' in your browser: '' @ url) t)))
            deadline cancelled extra)) ended)"

definition login_extra :: "service_info \<Rightarrow> string \<Rightarrow> login_flow \<Rightarrow> (string \<times> string) list" where
  "login_extra info prompt flow = audience_extra info @
     (if prompt \<noteq> [] \<and> flow = F_BROWSER then [(''prompt'', prompt)] else [])"

text \<open>A fresh login, registered before anything starts. \<open>l\<close> is its identity.\<close>

definition start_fresh :: "('w, ('w, 'y) sys_scheme, 'x) lext_scheme \<Rightarrow> ('w, 'y) sys_scheme statement \<Rightarrow> nat \<Rightarrow> attach_request \<Rightarrow>
    string \<Rightarrow> bool \<Rightarrow> bool \<Rightarrow> service_info \<Rightarrow> issuer \<Rightarrow> login_key \<Rightarrow> (('w, 'y) sys_scheme, login_status \<times> background) m" where
  "start_fresh X S l r prompt remember storable info i key =
     bindE (throw_or (choose_person_flow X r (si_endpoints info) i)) (\<lambda>flow.
     seqE (on_login l (\<lambda>_. (new_login key (ar_host r))\<lparr>pl_flow := login_flow_name flow, pl_keep_tokens := \<not> storable,
             pl_remember := remember\<rparr>))
     (bindE (on_instance (pending_find_or_add l)) (\<lambda>existing. case existing of
        Some there \<Rightarrow> bindE (status_of X S key there) (\<lambda>out. ret (out, No_Thread))
      | None \<Rightarrow>
          bindE (on_instance (x_now X)) (\<lambda>now.
            let deadline = now + ar_timeout_seconds r; extra = login_extra info prompt flow in
          bindE (catchE
              (if flow = F_DEVICE then begin_device X l (ar_host r) info extra deadline
               else ret (Browser_Flow (si_endpoints info) (si_client_id info) (si_scope info) (ar_host r) extra deadline))
              (\<lambda>e. seqE (on_login l (\<lambda>p. p\<lparr>pl_state := FAILED, pl_error := x_what X e\<rparr>))
                     (seqE (on_instance (\<lambda>i. ((), pending_remove l i))) (throw e)))) (\<lambda>b.
          bindE (gets (\<lambda>s. pl_cancelled (i_logins (y_inst s) l) \<or> pl_state (i_logins (y_inst s) l) = FAILED)) (\<lambda>stopped.
          bindE (on_instance (x_now X)) (\<lambda>now.
          bindE (wait_login_beyond X l STARTING (now + 30) (sm_interrupted S) (sm_slices S)) (\<lambda>_.
          bindE (gets (\<lambda>s. i_logins (y_inst s) l)) (\<lambda>p.
            ret (report key p, if stopped then No_Thread else b))))))))))"

definition start_person_login :: "('w, ('w, 'y) sys_scheme, 'x) lext_scheme \<Rightarrow> ('w, 'y) sys_scheme statement \<Rightarrow> nat \<Rightarrow>
    attach_request \<Rightarrow> string \<Rightarrow> bool \<Rightarrow> (('w, 'y) sys_scheme, login_status \<times> background) m" where
  "start_person_login X S l r prompt remember =
     seqE (http_client_for X)
     (bindE (discover X r) (\<lambda>d.
      bindE (throw_or (choose_issuer r (dv_issuers d) (ar_issuer r))) (\<lambda>i.
      bindE (resolve_issuer X r i \<lparr>si_host = ar_host r, si_discovery = discovery_url r, si_api = [], si_issuer = [],
            si_client_id = [], si_scope = [], si_audience = [], si_audience_parameter = False,
            si_insecure_http = ar_insecure_http r, si_capabilities = Map.empty, si_endpoints = no_endpoints\<rparr>) (\<lambda>info.
      seqE (guardE (is_client_id i \<noteq> []) (IOErr ''names no client_id for people to log in with'' [ar_host r]))
      (let info = info\<lparr>si_client_id := is_client_id i, si_scope := join_words (is_scopes i)\<rparr>;
           key = \<lparr>lk_issuer = strip_slashes (si_issuer info), lk_client_id = si_client_id info, lk_service = ar_host r\<rparr> in
       bindE (gets (\<lambda>s. (i_mode (y_inst s), remember \<and> usable X (y_inst s)))) (\<lambda>(mode, storable).
       bindE (gets (\<lambda>s. pending_find key (y_inst s))) (\<lambda>existing. case existing of
         Some l' \<Rightarrow> bindE (status_of X S key l') (\<lambda>out. ret (out, No_Thread))
       | None \<Rightarrow>
           bindE (gets (\<lambda>s. storable \<and> load X key mode (y_inst s) \<noteq> None)) (\<lambda>remembered.
             if remembered then ret ((new_status key)\<lparr>ls_status := ''done''\<rparr>, No_Thread)
             else start_fresh X S l r prompt remember storable info i key))))))))"

end
