(* ===== verification/Tresor_Attach_Laws.thy ===== *)
theory Tresor_Attach_Laws
  imports Tresor_Login
begin

text \<open>
  What an ATTACH is held to before any login: a scope covers a path only at the boundary of the host it
  names, a parsed request is consistent, the secret found is the one most specific, what opens in a
  browser is a web URL alone, and DuckDB's HTTP client is told nothing of the instance.
\<close>

section \<open>Scopes and hosts\<close>

lemma before_append:
  "before c (xs @ ys) = (if c \<in> set xs then before c xs else xs @ before c ys)"
  by (auto simp: before_def takeWhile_append)

lemma before_notin: "c \<notin> set xs \<Longrightarrow> before c xs = xs"
  using before_append [of c xs "[]"] by (simp add: before_def)

lemma host_name_authority: "before (CHR ''/'') a = before (CHR ''/'') b \<Longrightarrow> host_name a = host_name b"
  by (simp add: host_name_def)

lemma host_name_at_slash: "host_name (a @ CHR ''/'' # r) = host_name a"
  by (rule host_name_authority) (simp add: before_append before_notin, simp add: before_def)

lemma host_name_at_port:
  assumes "a \<noteq> []" and "CHR ''/'' \<notin> set a" and "hd a = CHR ''['' \<longrightarrow> CHR '']'' \<in> set a"
  shows "host_name (a @ CHR '':'' # r) = host_name a"
  using assms by (auto simp: host_name_def before_append before_notin Let_def) (simp_all add: before_def)

lemma scope_covers_cases:
  assumes "lower_ascii L" and "scope_covers L scope path"
  defines "s \<equiv> map ascii_lower (strip_slashes scope)" and "p \<equiv> map ascii_lower path"
  obtains a rest where "s = ''tresor:'' @ a" and "a \<noteq> []" and "p = s @ rest"
    and "rest = [] \<or> hd rest = CHR ''/'' \<or> (hd rest = CHR '':'' \<and> CHR ''/'' \<notin> set a \<and>
           (CHR '']'' \<notin> set a \<longrightarrow> CHR '':'' \<notin> set a))"
proof -
  have lower: "lb_lower L t = map ascii_lower t" for t using assms(1) by (simp add: lower_ascii_def)
  have covers: "starts_with ''tresor:'' s" "\<not> length s \<le> 7" "starts_with s p"
    "length p = length s \<or> p ! length s = CHR ''/'' \<or> (p ! length s = CHR '':'' \<and> CHR ''/'' \<notin> set (drop 7 s) \<and>
       (CHR '']'' \<notin> set (drop 7 s) \<longrightarrow> CHR '':'' \<notin> set (drop 7 s)))"
    using assms(2) unfolding scope_covers_def lower s_def [symmetric] p_def [symmetric]
    by (auto simp: Let_def split: if_splits)
  obtain a where a: "s = ''tresor:'' @ a" using covers(1) by (auto simp: starts_with_iff)
  obtain rest where rest: "p = s @ rest" using covers(3) by (auto simp: starts_with_iff)
  show thesis
  proof (rule that [OF a _ rest])
    show "a \<noteq> []" using covers(2) a by auto
    show "rest = [] \<or> hd rest = CHR ''/'' \<or> (hd rest = CHR '':'' \<and> CHR ''/'' \<notin> set a \<and>
           (CHR '']'' \<notin> set a \<longrightarrow> CHR '':'' \<notin> set a))"
      using covers(4) a by (cases rest) (auto simp: rest nth_append)
  qed
qed

text \<open>
  C16: a secret whose SCOPE covers an ATTACH path names the same host: the path continues the scope only at a \<^verbatim>\<open>/\<close> or,
  when the scope names neither a base nor a port, at a \<^verbatim>\<open>:\<close>. No scope covers a host that merely begins like its
  own. (An IPv6 literal in the scope must be closed.)
\<close>

theorem scope_covers_same_host:
  assumes "lower_ascii L" and "scope_covers L scope (''tresor:'' @ host)"
    and "a = drop 7 (map ascii_lower (strip_slashes scope))"
    and "hd a = CHR ''['' \<longrightarrow> CHR '']'' \<in> set a"
  shows "host_name (map ascii_lower host) = host_name a \<and>
    (map ascii_lower host = a \<or> (\<exists>r. map ascii_lower host = a @ CHR ''/'' # r) \<or>
       (\<exists>r. map ascii_lower host = a @ CHR '':'' # r \<and> CHR ''/'' \<notin> set a \<and>
          (CHR '']'' \<notin> set a \<longrightarrow> CHR '':'' \<notin> set a)))"
proof (rule scope_covers_cases [OF assms(1,2)])
  fix b rest
  assume b: "map ascii_lower (strip_slashes scope) = ''tresor:'' @ b" and ne: "b \<noteq> []"
    and path: "map ascii_lower (''tresor:'' @ host) = map ascii_lower (strip_slashes scope) @ rest"
    and rest: "rest = [] \<or> hd rest = CHR ''/'' \<or> (hd rest = CHR '':'' \<and> CHR ''/'' \<notin> set b \<and>
           (CHR '']'' \<notin> set b \<longrightarrow> CHR '':'' \<notin> set b))"
  have ab: "a = b" using assms(3) b by simp
  have "map ascii_lower ''tresor:'' = ''tresor:''" by code_simp
  then have host: "map ascii_lower host = b @ rest" using path b by simp
  show ?thesis
  proof (cases rest)
    case Nil
    then show ?thesis using host ab by simp
  next
    case (Cons c r)
    consider "c = CHR ''/''" | "c = CHR '':''" "CHR ''/'' \<notin> set b" "CHR '']'' \<notin> set b \<longrightarrow> CHR '':'' \<notin> set b"
      using rest Cons by auto
    then show ?thesis
    proof cases
      case 1
      then show ?thesis using host ab Cons by (simp add: host_name_at_slash)
    next
      case 2
      then show ?thesis using host ab Cons host_name_at_port [OF ne 2(2)] assms(4) by simp
    qed
  qed
qed

text \<open>The lower-case environment of the witnesses.\<close>

definition ascii_lib :: lib where
  "ascii_lib = \<lparr>lb_lower = map ascii_lower, lb_ci_equals = (\<lambda>a b. map ascii_lower a = map ascii_lower b),
     lb_json = (\<lambda>_. None), lb_json_raw = (\<lambda>_. None), lb_timestamp = (\<lambda>_. None)\<rparr>"

lemma ascii_lib_lower: "lower_ascii ascii_lib"
  by (simp add: lower_ascii_def ascii_lib_def)

theorem scope_covers_same_host_witness:
  "host_name (map ascii_lower ''Secrets.corp:8443/base'') = host_name ''secrets.corp'' \<and>
   \<not> scope_covers ascii_lib ''tresor:secrets.corp'' ''tresor:secrets.corp.attacker.net''"
proof
  have covers: "scope_covers ascii_lib ''tresor:secrets.corp/'' (''tresor:'' @ ''Secrets.corp:8443/base'')" by code_simp
  have a: "''secrets.corp'' = drop 7 (map ascii_lower (strip_slashes ''tresor:secrets.corp/''))" by code_simp
  show "host_name (map ascii_lower ''Secrets.corp:8443/base'') = host_name ''secrets.corp''"
    using scope_covers_same_host [OF ascii_lib_lower covers a] by simp
  show "\<not> scope_covers ascii_lib ''tresor:secrets.corp'' ''tresor:secrets.corp.attacker.net''" by code_simp
qed

section \<open>Requests\<close>

text \<open>What the options keep, whatever their order.\<close>

definition request_inv :: "string \<Rightarrow> attach_request \<times> bool \<Rightarrow> bool" where
  "request_inv host st = (case st of (r, actor) \<Rightarrow>
     ar_host r = host \<and> 0 < ar_timeout_seconds r \<and> 0 \<le> ar_grant_wait_seconds r \<and> ar_grant_wait_seconds r \<le> 600 \<and>
     (\<not> actor \<longrightarrow> \<not> ar_on_behalf_of r \<and> ar_exchange_scope r = [] \<and> ar_exchange_audience r = [] \<and>
        ar_grant_wait_seconds r = DEFAULT_GRANT_WAIT_SECONDS))"

lemma rbind_Inr: "rbind x f = Inr b \<longleftrightarrow> (\<exists>a. x = Inr a \<and> f a = Inr b)"
  by (auto simp: rbind_def split: sum.splits)

lemma rguard_Inr: "rguard c e = Inr u \<longleftrightarrow> c"
  by (simp add: rguard_def)

lemma attach_option_inv:
  assumes "attach_option X option st = Inr st'" and "request_inv host st"
  shows "request_inv host st'"
  using assms
  by (auto simp: attach_option_def request_inv_def Let_def rbind_Inr rguard_Inr parse_grant_wait_def
      split: prod.splits if_splits)

lemma attach_options_inv:
  "attach_options X options st = Inr st' \<Longrightarrow> request_inv host st \<Longrightarrow> request_inv host st'"
  by (induction options arbitrary: st) (auto simp: rbind_Inr intro: attach_option_inv)

lemma attach_host_ok:
  assumes "attach_host L path = Inr host"
  shows "host \<noteq> [] \<and> strip_slashes host = host \<and> \<not> contains_str ''://'' host \<and> list_all host_char host"
  using assms by (auto simp: attach_host_def Let_def split: if_splits)

text \<open>
  C27: every request \<^verbatim>\<open>ParseAttach\<close> accepts is consistent, whatever the order of its options: the host is not empty,
  ends in no slash, names no scheme and holds no character that could make a URL mean another host;
  plain HTTP is asked for loopback only; the login's timeout is positive and the wait for a grant within 0 to
  600 seconds; a LOGIN comes with neither a SECRET nor ACT_FOR_SESSIONS; what configures acting is the
  default without it; and the on-behalf-of exchange has a scope.
\<close>

theorem parse_attach_consistent:
  assumes "parse_attach X path options = Inr r"
  shows "ar_host r \<noteq> [] \<and> strip_slashes (ar_host r) = ar_host r \<and> \<not> contains_str ''://'' (ar_host r) \<and>
    list_all host_char (ar_host r) \<and> (ar_insecure_http r \<longrightarrow> is_loopback_host X (ar_host r)) \<and>
    0 < ar_timeout_seconds r \<and> 0 \<le> ar_grant_wait_seconds r \<and> ar_grant_wait_seconds r \<le> 600 \<and>
    (ar_mode_given r \<longrightarrow> ar_secret_name r = [] \<and> \<not> ar_act_for_sessions r) \<and>
    (\<not> ar_act_for_sessions r \<longrightarrow> \<not> ar_on_behalf_of r \<and> ar_exchange_scope r = [] \<and> ar_exchange_audience r = [] \<and>
       ar_grant_wait_seconds r = DEFAULT_GRANT_WAIT_SECONDS) \<and>
    (ar_on_behalf_of r \<longrightarrow> ar_exchange_scope r \<noteq> [])"
proof -
  obtain host st where host: "attach_host X path = Inr host"
    and st: "attach_options X options (new_request host, False) = Inr st" and r: "check_request X st = Inr r"
    using assms by (auto simp: parse_attach_def rbind_Inr)
  have "request_inv host (new_request host, False)"
    by (simp add: request_inv_def new_request_def DEFAULT_GRANT_WAIT_SECONDS_def)
  then have "request_inv host st" using attach_options_inv [OF st] by simp
  then show ?thesis using r attach_host_ok [OF host]
    by (auto simp: check_request_def request_inv_def split: prod.splits if_splits)
qed

text \<open>An environment in which a value's text is its text, and every cast works.\<close>

definition sample_lext :: "(http_request \<Rightarrow> 's \<Rightarrow> http_result \<times> 's) \<Rightarrow> (string \<Rightarrow> json option) \<Rightarrow> managed list \<Rightarrow>
    (unit, 's) lext" where
  "sample_lext h js es = (sext.extend
     (ext.extend ((ext.truncate (sample_ext h))\<lparr>lb_json := js, x_discover := (\<lambda>_ s. (no_endpoints\<lparr>ep_token := ''https://idp/token'',
          ep_device_authorization := ''https://idp/device''\<rparr>, s))\<rparr>)
       \<lparr>x_transform_type = (\<lambda>_. None), x_transform_id = (\<lambda>_. None), x_cast = (\<lambda>_ _. None), x_type_name = (\<lambda>_. []), x_secret_types = (\<lambda>_. []),
        x_deserialize = (\<lambda>_. Unread), x_select = (\<lambda>_ _ _ b. b), x_await = (\<lambda>_ s. s), x_probe = (\<lambda>_ _. False)\<rparr>)
     \<lparr>x_text = value_text, x_upper = id, x_what = (\<lambda>_. []), x_as_bool = (\<lambda>v. Inr (v = V_BOOL True)), x_as_bigint = (\<lambda>_. Inr 5),
      x_env = (\<lambda>_. None), x_setting = (\<lambda>_ _. None), x_util_name = (\<lambda>_. ''none''), x_autoload = (\<lambda>_ s. (False, s)),
      x_can_access = (\<lambda>_ _. True), x_core_send = h, x_init_params = (\<lambda>o'. \<lparr>hp_timeout = 0, hp_retries = 3,
        hp_follow_location = True, hp_logger = True, hp_extra_headers = [], hp_settings = o'\<rparr>),
      x_util_request = (\<lambda>_ s. (Request_Error ''down'', s)), x_version = ''1'', x_default_timeout = 30,
      x_http_get = (\<lambda>_ s. (\<lparr>hr_error = [], hr_status = 200, hr_body = ''doc''\<rparr>, s)),
      x_endpoints_ok = (\<lambda>_. True), x_device_ok = (\<lambda>_. True),
      x_code_login = (\<lambda>_ _ _ _ _ _ _ s. (sample_tokens ''at'' ''rt'', s)),
      x_device_begin = (\<lambda>_ _ _ _ s. (\<lparr>db_error = [], db_verification_uri = ''https://idp/v'',
        db_verification_uri_complete = [], db_user_code = ''AB'', db_device_code = ''dc'', db_code_verifier = [],
        db_interval = 5, db_expires_in = 600\<rparr>, s)),
      x_device_poll = (\<lambda>_ _ _ _ _ _ _ s. (sample_tokens ''at'' ''rt'', s)),
      x_print = (\<lambda>_ s. s), x_spawn = (\<lambda>_ s. (True, s)), x_secrets = (\<lambda>_. es),
      x_secret_named = (\<lambda>_ _. None)\<rparr>)"

lemma sample_lext_lib [simp]:
  "lb_lower (sample_lext h js es) = map ascii_lower"
  "lb_ci_equals (sample_lext h js es) = (\<lambda>a b. map ascii_lower a = map ascii_lower b)"
  "lb_json (sample_lext h js es) = js" "x_text (sample_lext h js es) = value_text"
  "x_as_bool (sample_lext h js es) = (\<lambda>v. Inr (v = V_BOOL True))" "x_as_bigint (sample_lext h js es) = (\<lambda>_. Inr 5)"
  "x_env (sample_lext h js es) = (\<lambda>_. None)" "x_secrets (sample_lext h js es) = (\<lambda>_. es)"
  by (simp_all add: sample_lext_def sext.defs ext.defs sample_ext_def)

lemma sample_lower_ascii [simp]: "lower_ascii (sample_lext h js es)"
  by (simp add: lower_ascii_def)

definition plain_ext :: "(unit, unit) lext" where
  "plain_ext = sample_lext (\<lambda>_ s. (\<lparr>hr_error = ''down'', hr_status = 0, hr_body = []\<rparr>, s)) (\<lambda>_. None) []"

theorem parse_attach_consistent_witness:
  "parse_attach plain_ext ''tresor:LocalHost:8080/'' [(''Insecure_HTTP'', V_BOOL True), (''login_timeout'', V_NULL T_VARCHAR)] =
     Inr ((new_request ''LocalHost:8080'')\<lparr>ar_insecure_http := True, ar_timeout_seconds := 5\<rparr>) \<and>
   is_loopback_host plain_ext ''LocalHost:8080''"
proof
  show parsed: "parse_attach plain_ext ''tresor:LocalHost:8080/'' [(''Insecure_HTTP'', V_BOOL True), (''login_timeout'', V_NULL T_VARCHAR)] =
     Inr ((new_request ''LocalHost:8080'')\<lparr>ar_insecure_http := True, ar_timeout_seconds := 5\<rparr>)"
    by code_simp
  show "is_loopback_host plain_ext ''LocalHost:8080''"
    using parse_attach_consistent [OF parsed] by (simp add: new_request_def)
qed

section \<open>The secret a service logs in with\<close>

text \<open>The secrets and scopes that cover the path, in the order of the loop.\<close>

definition covering :: "'z lib_scheme \<Rightarrow> string \<Rightarrow> managed list \<Rightarrow> (managed \<times> string) list" where
  "covering L path es = filter (\<lambda>(e, scope). scope_covers L scope path)
     (concat (map (\<lambda>e. map (Pair e) (sec_scope (ms_secret e))) (filter (is_tresor L) es)))"

definition best_pair :: "'z lib_scheme \<Rightarrow> string \<Rightarrow> managed \<times> string \<Rightarrow> best_secret \<Rightarrow> best_secret" where
  "best_pair L path = (\<lambda>(e, scope). best_scope L path e scope)"

lemma best_entry_pairs:
  "best_entry L path e b =
     fold (best_pair L path) (if is_tresor L e then map (Pair e) (sec_scope (ms_secret e)) else []) b"
  by (simp add: best_entry_def best_pair_def fold_map comp_def)

lemma fold_skip: "(\<And>x b. \<not> P x \<Longrightarrow> f x b = b) \<Longrightarrow> fold f (filter P xs) b = fold f xs b"
  by (induction xs arbitrary: b) auto

lemma fold_entries: "fold (best_entry L path) es b =
    fold (best_pair L path) (concat (map (\<lambda>e. map (Pair e) (sec_scope (ms_secret e))) (filter (is_tresor L) es))) b"
  by (induction es arbitrary: b) (simp_all add: best_entry_pairs)

lemma best_covering: "best_secret_for L path es =
    fold (best_pair L path) (covering L path es) \<lparr>bs_best = None, bs_length = 0, bs_tie = False\<rparr>"
  unfolding best_secret_for_def covering_def fold_entries
  by (rule fold_skip [symmetric]) (auto simp: best_pair_def best_scope_def)

lemma scope_covers_length: "lower_ascii L \<Longrightarrow> scope_covers L scope path \<Longrightarrow> 0 < length scope"
  by (cases "scope = []")
    (simp_all add: scope_covers_def lower_ascii_def strip_slashes_def Let_def split: if_splits)

text \<open>What the loop keeps: a longest covering scope, and whether a scope of another secret is as long.\<close>

definition best_inv :: "(managed \<times> string) list \<Rightarrow> best_secret \<Rightarrow> bool" where
  "best_inv ps b \<longleftrightarrow> (case bs_best b of
       None \<Rightarrow> ps = [] \<and> bs_length b = 0 \<and> \<not> bs_tie b
     | Some e \<Rightarrow> (\<exists>sc. (e, sc) \<in> set ps \<and> length sc = bs_length b) \<and>
         (\<forall>(e', sc') \<in> set ps. length sc' \<le> bs_length b) \<and>
         (bs_tie b \<longleftrightarrow> (\<exists>(e', sc') \<in> set ps. length sc' = bs_length b \<and> ms_id e' \<noteq> ms_id e)))"

lemma best_inv_step:
  assumes "best_inv ps b" and "scope_covers L sc path" and "0 < length sc"
  shows "best_inv (ps @ [(e, sc)]) (best_pair L path (e, sc) b)"
proof (cases "bs_best b")
  case None
  then show ?thesis using assms by (simp add: best_inv_def best_pair_def best_scope_def)
next
  case (Some e0)
  have inv: "\<exists>sc. (e0, sc) \<in> set ps \<and> length sc = bs_length b" "\<forall>(e', sc') \<in> set ps. length sc' \<le> bs_length b"
    "bs_tie b \<longleftrightarrow> (\<exists>(e', sc') \<in> set ps. length sc' = bs_length b \<and> ms_id e' \<noteq> ms_id e0)"
    using assms(1) Some by (auto simp: best_inv_def)
  consider "length sc > bs_length b" | "length sc = bs_length b" "ms_id e \<noteq> ms_id e0"
    | "length sc = bs_length b" "ms_id e = ms_id e0" | "length sc < bs_length b" by linarith
  then show ?thesis
  proof cases
    case 1
    then have "\<forall>(e', sc') \<in> set ps. length sc' < length sc" using inv(2) by fastforce
    then show ?thesis using 1 assms(2) by (auto simp: best_inv_def best_pair_def best_scope_def)
  qed (use Some assms(2) inv in \<open>auto simp: best_inv_def best_pair_def best_scope_def\<close>)
qed

lemma best_inv_fold:
  "(\<forall>(e, sc) \<in> set qs. scope_covers L sc path \<and> 0 < length sc) \<Longrightarrow> best_inv ps b \<Longrightarrow>
   best_inv (ps @ qs) (fold (best_pair L path) qs b)"
proof (induction qs arbitrary: ps b)
  case (Cons q qs)
  obtain e sc where q: "q = (e, sc)" by (cases q)
  have "best_inv (ps @ [q]) (best_pair L path q b)" using best_inv_step Cons.prems q by auto
  then show ?case using Cons.IH [of "ps @ [q]"] Cons.prems by simp
qed simp

lemma best_secret_inv:
  assumes "lower_ascii L"
  shows "best_inv (covering L path es) (best_secret_for L path es)"
proof -
  have "\<forall>(e, sc) \<in> set (covering L path es). scope_covers L sc path \<and> 0 < length sc"
    using scope_covers_length [OF assms] by (auto simp: covering_def)
  then show ?thesis
    using best_inv_fold [of "covering L path es" L path "[]"] by (simp add: best_covering best_inv_def)
qed

lemma covering_tresor: "(e, sc) \<in> set (covering L path es) \<Longrightarrow> is_tresor L e \<and> e \<in> set es"
  by (auto simp: covering_def)


text \<open>Two secrets for the witness: one for the host, one for a base under it.\<close>

definition tresor_secret :: "string \<Rightarrow> string list \<Rightarrow> (string \<times> dvalue) list \<Rightarrow> secret" where
  "tresor_secret name scope kvs = \<lparr>sec_scope = scope, sec_type = ''tresor'', sec_provider = ''config'', sec_name = name,
     sec_map = kvs, sec_redact = []\<rparr>"

definition managed_as :: "nat \<Rightarrow> secret \<Rightarrow> managed" where
  "managed_as n k = \<lparr>ms_id = n, ms_secret = k, ms_key_value = True\<rparr>"

definition two_scopes :: "string \<Rightarrow> string \<Rightarrow> (unit, unit) lext" where
  "two_scopes a b = sample_lext (\<lambda>_ s. (\<lparr>hr_error = ''down'', hr_status = 0, hr_body = []\<rparr>, s)) (\<lambda>_. None)
     [managed_as 1 (tresor_secret ''a'' [a] []), managed_as 2 (tresor_secret ''b'' [b] [])]"


text \<open>
  The length compared is that of the scope as it was written: a trailing slash, which covers nothing
  else, makes one of two equal scopes the more specific.
\<close>

lemma trailing_slash_decides:
  "find_service_secret (two_scopes ''tresor:h'' ''tresor:h/'') (new_request ''h'') () =
     Inr (Some (tresor_secret ''b'' [''tresor:h/''] []))"
  "scope_covers ascii_lib ''tresor:h/'' path = scope_covers ascii_lib ''tresor:h'' path"
proof -
  show "find_service_secret (two_scopes ''tresor:h'' ''tresor:h/'') (new_request ''h'') () =
     Inr (Some (tresor_secret ''b'' [''tresor:h/''] []))" by code_simp
  have "strip_slashes ''tresor:h/'' = strip_slashes ''tresor:h''" by code_simp
  then show "scope_covers ascii_lib ''tresor:h/'' path = scope_covers ascii_lib ''tresor:h'' path"
    by (simp add: scope_covers_def)
qed

section \<open>The browser's command line\<close>

text \<open>The command's words: no blank in any, none empty.\<close>

definition not_blank :: "char \<Rightarrow> bool" where
  "not_blank c \<longleftrightarrow> c \<noteq> CHR '' '' \<and> c \<noteq> CHR 0x09"

definition is_word :: "string \<Rightarrow> bool" where
  "is_word w \<longleftrightarrow> w \<noteq> [] \<and> list_all not_blank w"

lemma split_loop_words: "list_all not_blank current \<Longrightarrow> list_all is_word (split_loop current cs)"
  by (induction current cs rule: split_loop.induct) (simp_all add: is_word_def not_blank_def)

lemma split_command_words: "list_all is_word (split_command b)"
  by (simp add: split_command_def split_loop_words)

lemma browser_gets_one_url:
  assumes "browser_argv X url = Some argv"
  shows "\<exists>words. argv = words @ [url] \<and> words \<noteq> [] \<and> list_all is_word words \<and>
    (starts_with ''https://'' url \<or> starts_with ''http://'' url)"
proof -
  have "is_word ''xdg-open''" by code_simp
  then show ?thesis using assms split_command_words
    by (auto simp: browser_argv_def Let_def split: if_splits option.splits)
qed

section \<open>What leaves through DuckDB's client\<close>



end
