(* ===== verification/Tresor_Login_Laws.thy ===== *)
theory Tresor_Login_Laws
  imports Tresor_Attach_Laws
begin

text \<open>
  What a login guarantees: every URL it goes to is https (or loopback, when asked for), a service's
  credential goes only to the identity provider its secret names, a login is over only once the service's
  whoami answered 200, and a page's token is kept only for the issuer and the audience it is for.

  \<open>yields f P\<close> says that whatever \<open>f\<close> returns, from any state, satisfies \<open>P\<close>; its rules follow the
  structure of the operations.
\<close>

section \<open>What an operation returns\<close>

definition yields :: "('s, 'a) m \<Rightarrow> ('a \<Rightarrow> bool) \<Rightarrow> bool" where
  "yields f P \<longleftrightarrow> (\<forall>s. wp f (\<lambda>a _. P a) (\<lambda>_ _. True) s)"

named_theorems yields_intro

lemma yieldsD: "yields f P \<Longrightarrow> f s = (Inr a, t) \<Longrightarrow> P a"
  unfolding yields_def wp_def by (drule spec [of _ s]) simp

lemma yields_ret [yields_intro]: "P a \<Longrightarrow> yields (ret a) P"
  by (simp add: yields_def wp_simps)

lemma yields_throw [yields_intro]: "yields (throw e) P"
  by (simp add: yields_def wp_simps)

lemma yields_any: "yields f (\<lambda>_. True)"
  by (simp add: yields_def wp_simps)

lemma yields_const: "P \<Longrightarrow> yields f (\<lambda>_. P)"
  by (simp add: yields_any)

lemma yields_bind:
  assumes "yields f P" and "\<And>a. P a \<Longrightarrow> yields (g a) Q"
  shows "yields (bindE f g) Q"
proof -
  have "wp f (\<lambda>a _. P a) (\<lambda>_ _. True) s" for s using assms(1) by (simp add: yields_def)
  then have "wp f (\<lambda>a. wp (g a) (\<lambda>a _. Q a) (\<lambda>_ _. True)) (\<lambda>_ _. True) s" for s
    by (rule wp_mono) (use assms(2) in \<open>auto simp: yields_def\<close>)
  then show ?thesis by (simp add: yields_def wp_simps)
qed

lemma yields_weaken: "yields f P \<Longrightarrow> (\<And>a. P a \<Longrightarrow> Q a) \<Longrightarrow> yields f Q"
  unfolding yields_def by (blast intro: wp_mono)

lemma yields_bind_any [yields_intro]: "(\<And>a. yields (g a) Q) \<Longrightarrow> yields (bindE f g) Q"
  by (rule yields_bind [OF yields_any])

lemma yields_seq [yields_intro]: "yields g Q \<Longrightarrow> yields (seqE f g) Q"
  unfolding seqE_def by (rule yields_bind_any)

lemma yields_guard: "(c \<Longrightarrow> yields g Q) \<Longrightarrow> yields (seqE (guardE c e) g) Q"
  by (simp add: yields_def wp_simps)

lemma yields_throw_or: "(\<And>a. x = Inr a \<Longrightarrow> yields (g a) Q) \<Longrightarrow> yields (bindE (throw_or x) g) Q"
  by (simp add: yields_def wp_simps split: sum.splits)

lemma yields_check: "(\<And>a. x = Inr a \<Longrightarrow> yields g Q) \<Longrightarrow> yields (seqE (throw_or x) g) Q"
  by (simp add: yields_def wp_simps split: sum.splits)

lemma yields_if [yields_intro]:
  "(c \<Longrightarrow> yields f P) \<Longrightarrow> (\<not> c \<Longrightarrow> yields g P) \<Longrightarrow> yields (if c then f else g) P"
  by simp

lemma yields_option [yields_intro]:
  "(x = None \<Longrightarrow> yields f P) \<Longrightarrow> (\<And>y. x = Some y \<Longrightarrow> yields (g y) P) \<Longrightarrow>
   yields (case x of None \<Rightarrow> f | Some y \<Rightarrow> g y) P"
  by (simp split: option.splits)

lemma yields_prod [yields_intro]:
  "(\<And>a b. x = (a, b) \<Longrightarrow> yields (f a b) P) \<Longrightarrow> yields (case x of (a, b) \<Rightarrow> f a b) P"
  by (simp split: prod.splits)

section \<open>Where a login goes\<close>

definition secure_url :: "'z lib_scheme \<Rightarrow> bool \<Rightarrow> string \<Rightarrow> bool" where
  "secure_url L insecure url \<longleftrightarrow> starts_with ''https://'' url \<or>
     (insecure \<and> starts_with ''http://'' url \<and> is_loopback_name L (url_host url))"

lemma check_transport_Inr: "check_transport L r what url = Inr u \<longleftrightarrow> secure_url L (ar_insecure_http r) url"
  by (auto simp: check_transport_def secure_url_def)

lemma check_endpoints_Inr:
  "check_endpoints L r es = Inr u \<longleftrightarrow> (\<forall>e \<in> set es. secure_url L (ar_insecure_http r) e)"
  by (induction es) (auto simp: rbind_Inr check_transport_Inr)

lemma discover_api: "yields (discover X r) (\<lambda>d. secure_url X (ar_insecure_http r) (dv_api d))"
proof -
  have "read_discovery X r body = Inr d \<Longrightarrow> secure_url X (ar_insecure_http r) (dv_api d)" for body d
    by (auto simp: read_discovery_def rbind_Inr check_transport_Inr Let_def split: option.splits json.splits if_splits)
  then show ?thesis
    by (auto simp: discover_def yields_def wp_simps split: sum.splits)
qed

definition resolved :: "'z lib_scheme \<Rightarrow> attach_request \<Rightarrow> issuer \<Rightarrow> service_info \<Rightarrow> service_info \<Rightarrow> bool" where
  "resolved L r i info info' \<longleftrightarrow> secure_url L (ar_insecure_http r) (is_issuer i) \<and>
     (\<forall>e \<in> set (named_endpoints (si_endpoints info')). secure_url L (ar_insecure_http r) e) \<and>
     si_issuer info' = is_issuer i \<and> si_audience info' = is_audience i \<and> si_api info' = si_api info \<and>
     si_host info' = si_host info"

lemma resolve_issuer_yields: "yields (resolve_issuer X r i info) (resolved X r i info)"
  unfolding resolve_issuer_def
  by (intro yields_check yields_intro) (auto simp: resolved_def check_transport_Inr check_endpoints_Inr)

text \<open>What each branch ends with: the resolved issuer's side of the session, with a client and a scope.\<close>

definition with_client :: "service_info \<Rightarrow> service_info \<Rightarrow> bool" where
  "with_client info info' \<longleftrightarrow> (\<exists>client scope. info' = info\<lparr>si_client_id := client, si_scope := scope\<rparr>)"

lemma with_client_refl: "with_client info info"
  unfolding with_client_def by (intro exI [of _ "si_client_id info"] exI [of _ "si_scope info"]) simp

definition from_secret :: "('w, 's, 'x) lext_scheme \<Rightarrow> attach_request \<Rightarrow> secret \<Rightarrow> string \<Rightarrow> issuer \<Rightarrow> service_info \<Rightarrow>
    acquired \<Rightarrow> bool" where
  "from_secret X r k flow i info a \<longleftrightarrow> with_client info (aq_info a) \<and> \<not> aq_remember a \<and>
     (\<exists>listed. credential_of X r info k flow = Inr (aq_flow a, aq_credential a, listed) \<and> offers (is_service_flows i) listed)"

lemma service_login_yields: "yields (service_login X r k flow i info) (from_secret X r k flow i info)"
  unfolding service_login_def Let_def
  by (intro yields_throw_or yields_prod yields_seq yields_guard yields_bind_any yields_if yields_throw yields_ret)
    (auto simp: from_secret_def with_client_def)

definition from_person :: "service_info \<Rightarrow> acquired \<Rightarrow> bool" where
  "from_person info a \<longleftrightarrow> with_client info (aq_info a) \<and> aq_credential a = no_credential"

lemma person_attach_yields: "yields (person_attach X S r i info remember) (from_person info)"
  unfolding person_attach_def Let_def
  by (intro yields_intro) (auto simp: from_person_def with_client_def)

lemma from_pageI: "from_person info \<lparr>aq_info = info, aq_flow = f, aq_tokens = t, aq_credential = no_credential,
    aq_remember = b, aq_started_from = x\<rparr>"
  by (simp add: from_person_def with_client_refl)

definition issuer_side :: "('w, 's, 'x) lext_scheme \<Rightarrow> attach_request \<Rightarrow> discovered \<Rightarrow> secret option \<Rightarrow> string \<Rightarrow>
    service_info \<Rightarrow> acquired \<Rightarrow> bool" where
  "issuer_side X r d secret flow info a \<longleftrightarrow> (\<exists>i info'.
     choose_issuer r (dv_issuers d) (case secret of None \<Rightarrow> ar_issuer r | Some k \<Rightarrow> secret_string X k ''issuer'') = Inr i \<and>
     resolved X r i info info' \<and>
     (case secret of None \<Rightarrow> from_person info' a | Some k \<Rightarrow> from_secret X r k flow i info' a))"

lemma issuer_login_yields: "yields (issuer_login X S r d secret flow info) (issuer_side X r d secret flow info)"
proof -
  have branch: "yields (case secret of
         Some k \<Rightarrow> service_login X r k flow i info'
       | None \<Rightarrow>
           bindE (if ar_mode_given r then ret None else on_instance (find_page_token X info')) (\<lambda>page. case page of
             Some tokens \<Rightarrow> ret \<lparr>aq_info = info', aq_flow = F_PAGE, aq_tokens = tokens, aq_credential = no_credential,
                              aq_remember = False, aq_started_from = []\<rparr>
           | None \<Rightarrow> person_attach X S r i info' (ar_remember r)))
      (\<lambda>a. case secret of None \<Rightarrow> from_person info' a | Some k \<Rightarrow> from_secret X r k flow i info' a)"
    (is "yields ?branch ?Q") for i info'
    by (cases secret)
      (auto intro!: yields_bind_any yields_option yields_ret person_attach_yields service_login_yields from_pageI)
  show ?thesis
    unfolding issuer_login_def Let_def
    by (intro yields_seq yields_throw_or yields_bind [OF resolve_issuer_yields] yields_weaken [OF branch])
      (auto simp: issuer_side_def split: option.splits if_splits)
qed

lemma acquire_yields:
  "yields (acquire X S r d secret) (\<lambda>a.
     let flow = (case secret of None \<Rightarrow> [] | Some k \<Rightarrow> lb_lower X (secret_string X k ''flow'')) in
     (ar_act_for_sessions r \<longrightarrow> flow = ''client_credentials'' \<or> flow = ''federated'') \<and>
     (if flow = ''token'' then aq_flow a = F_TOKEN \<and> si_api (aq_info a) = dv_api d
      else \<exists>info. si_api info = dv_api d \<and> issuer_side X r d secret flow info a))"
  (is "yields _ ?P")
  unfolding acquire_def Let_def
  by (intro yields_guard yields_option yields_if yields_ret yields_weaken [OF issuer_login_yields])
    (auto simp: Let_def intro!: exI)

lemma choose_issuer_Inr:
  assumes "choose_issuer r issuers asked = Inr i"
  shows "i \<in> set issuers \<and> (asked \<noteq> [] \<longrightarrow> is_issuer i = strip_slashes asked)"
  using assms
  by (auto simp: choose_issuer_def find_Some_iff split: option.splits if_splits list.splits)

lemma with_client_fields:
  assumes "with_client info info'"
  shows "si_api info' = si_api info \<and> si_issuer info' = si_issuer info \<and> si_audience info' = si_audience info \<and>
    si_endpoints info' = si_endpoints info"
  using assms by (auto simp: with_client_def)

lemma issuer_side_with_client:
  "issuer_side X r d secret flow info a \<Longrightarrow>
   \<exists>i info'. i \<in> set (dv_issuers d) \<and> resolved X r i info info' \<and> with_client info' (aq_info a)"
  unfolding issuer_side_def using choose_issuer_Inr
  by (auto simp: from_person_def from_secret_def split: option.splits) blast+


lemma credential_of_Inr:
  assumes "credential_of X r info k flow = Inr (f, c, listed)"
  shows "sc_client_id c = secret_string X k ''client_id'' \<and>
    sc_client_secret c \<in> {[], secret_string X k ''client_secret''} \<and>
    (sc_kind c = MANAGED_IDENTITY \<longrightarrow> sc_audience c = si_audience info) \<and>
    (flow = ''client_credentials'' \<or> flow = ''federated'' \<longrightarrow> f = F_CLIENT_CREDENTIALS \<or> f = F_FEDERATED)"
  using assms by (auto simp: credential_of_def Let_def no_credential_def split: if_splits)


text \<open>A service with one identity provider, and a client-credentials secret for it.\<close>

definition sample_discovery :: "string \<Rightarrow> json option" where
  "sample_discovery body = (if body = ''doc'' then Some (JObj [(''protocol'', JStr ''duckdb-secrets/1''), (''api'', JStr ''https://h/''),
     (''issuers'', JArr [JObj [(''issuer'', JStr ''https://idp/''), (''client_id'', JStr ''duckdb''), (''audience'', JStr ''aud'')]])])
   else if body = ''me'' then Some (JObj [(''subject'', JStr ''ann'')]) else None)"

definition client_secret_of :: "string \<Rightarrow> secret" where
  "client_secret_of issuer = tresor_secret ''a'' [''tresor:h''] [(''flow'', V_TEXT T_VARCHAR ''client_credentials''),
     (''client_id'', V_TEXT T_VARCHAR ''node''), (''client_secret'', V_TEXT T_VARCHAR ''s3cr3t''),
     (''issuer'', V_TEXT T_VARCHAR issuer)]"

definition service_ext :: "(unit, unit sys) lext" where
  "service_ext = sample_lext (\<lambda>_ s. (\<lparr>hr_error = [], hr_status = 200, hr_body = ''me''\<rparr>, s)) sample_discovery
     [managed_as 1 (client_secret_of ''https://idp'')]"

definition login_sys :: "unit sys" where
  "login_sys = \<lparr>y_ses = (\<lambda>_. new_session \<lparr>si_host = [], si_discovery = [], si_api = [], si_issuer = [], si_client_id = [],
     si_scope = [], si_audience = [], si_audience_parameter = False, si_insecure_http = False,
     si_capabilities = Map.empty, si_endpoints = no_endpoints\<rparr> F_TOKEN no_tokens no_credential 0),
     y_inst = sample_instance\<rparr>"

definition quiet_statement :: "'s statement" where
  "quiet_statement = \<lparr>sm_acl = None, sm_interrupted = (\<lambda>_. False), sm_slices = []\<rparr>"

definition sample_found :: discovered where
  "sample_found = \<lparr>dv_api = ''https://h'', dv_capabilities = Map.empty, dv_issuers = [\<lparr>is_issuer = ''https://idp'',
     is_client_id = ''duckdb'', is_audience = ''aud'', is_audience_parameter = False, is_scopes = [],
     is_human_flows = None, is_service_flows = None\<rparr>]\<rparr>"

lemma strip_samples [simp]: "strip_slashes ''https://h/'' = ''https://h''" "strip_slashes ''https://idp/'' = ''https://idp''"
  "strip_slashes ''https://idp'' = ''https://idp''"
  by code_simp+

lemma cstr_samples [simp]: "cstr ''https://h/'' = ''https://h/''" "cstr ''https://idp/'' = ''https://idp/''"
  "cstr ''duckdb-secrets/1'' = ''duckdb-secrets/1''" "cstr ''duckdb'' = ''duckdb''" "cstr ''aud'' = ''aud''"
  by code_simp+

lemma service_ext_fields [simp]:
  "x_http_get service_ext = (\<lambda>_ s. (\<lparr>hr_error = [], hr_status = 200, hr_body = ''doc''\<rparr>, s))"
  "lb_json service_ext = sample_discovery" "lb_lower service_ext = map ascii_lower" "x_text service_ext = value_text"
  "lb_ci_equals service_ext = (\<lambda>a b. map ascii_lower a = map ascii_lower b)"
  by (simp_all add: service_ext_def) (simp_all add: sample_lext_def sext.defs ext.defs)

lemma sample_discovered: "discover service_ext (new_request ''h'') s = (Inr sample_found, s)"
  by (simp add: discover_def read_discovery_def monad_defs throw_or_def sample_discovery_def jstr_def jget_opt_def
      Let_def rbind_def check_transport_def starts_with_def read_issuers_def read_issuer_def read_capabilities_def
      listed_flows_def jtrue_def str_list_def sample_found_def)

lemma sample_secret [simp]:
  "secret_string service_ext (client_secret_of iss) ''flow'' = ''client_credentials''"
  "secret_string service_ext (client_secret_of iss) ''issuer'' = iss"
  "secret_string service_ext (client_secret_of iss) ''client_id'' = ''node''"
  "secret_string service_ext (client_secret_of iss) ''client_secret'' = ''s3cr3t''"
  "secret_string service_ext (client_secret_of iss) ''private_key_file'' = []"
  "secret_string service_ext (client_secret_of iss) ''oauth_scope'' = []"
  "map ascii_lower ''client_credentials'' = ''client_credentials''"
  by (simp_all add: secret_string_def client_secret_of_def tresor_secret_def find_param_def) code_simp+

lemma service_ext_more [simp]:
  "x_discover service_ext = (\<lambda>_ s. (no_endpoints\<lparr>ep_token := ''https://idp/token'',
     ep_device_authorization := ''https://idp/device''\<rparr>, s))"
  "x_endpoints_ok service_ext = (\<lambda>_. True)" "x_can_access service_ext = (\<lambda>_ _. True)"
  "x_tokens_ok service_ext = (\<lambda>t. ts_error t = [])"
  "x_client_credentials service_ext = (\<lambda>_ _ _ _ i. (sample_tokens ''cc'' [], i))"
  by (simp_all add: service_ext_def sample_lext_def sext.defs ext.defs sample_ext_def)

lemma sample_acquired:
  assumes "strip_slashes iss = ''https://idp''"
  shows "acquire service_ext quiet_statement (new_request ''h'') sample_found (Some (client_secret_of iss)) login_sys =
     (Inr \<lparr>aq_info = \<lparr>si_host = ''h'', si_discovery = ''https://h/.well-known/duckdb-secrets'', si_api = ''https://h'',
          si_issuer = ''https://idp'', si_client_id = ''node'', si_scope = [], si_audience = ''aud'',
          si_audience_parameter = False, si_insecure_http = False, si_capabilities = Map.empty,
          si_endpoints = no_endpoints\<lparr>ep_token := ''https://idp/token'', ep_device_authorization := ''https://idp/device''\<rparr>\<rparr>,
        aq_flow = F_CLIENT_CREDENTIALS, aq_tokens = sample_tokens ''cc'' [],
        aq_credential = no_credential\<lparr>sc_client_id := ''node'', sc_client_secret := ''s3cr3t''\<rparr>, aq_remember = False,
        aq_started_from = []\<rparr>, login_sys)"
proof -
  have "iss \<noteq> []" using assms by (auto simp: strip_slashes_def)
  then show ?thesis using assms
    by (simp add: acquire_def issuer_login_def resolve_issuer_def service_login_def monad_defs throw_or_def on_instance_def
        Let_def choose_issuer_def sample_found_def new_request_def credential_of_def check_transport_def starts_with_def
        named_endpoints_def no_endpoints_def rbind_def offers_def check_access_def cred_mint_def cred_auth_def
        no_credential_def service_scope_def join_words_def sample_tokens_def discovery_url_def login_sys_def)
qed



section \<open>Proven by the service\<close>

lemma yields_liftX: "yields (liftX x) (\<lambda>a. \<exists>v. a = fst (x v))"
  by (auto simp: yields_def wp_simps)

lemma yields_get_ses: "yields (get_ses sid f) (\<lambda>a. \<exists>se. a = f se)"
  by (auto simp: yields_def wp_simps)

definition answered_by :: "('w, 's, 'z) ext_scheme \<Rightarrow> call_args \<Rightarrow> http_result \<Rightarrow> bool" where
  "answered_by X c res \<longleftrightarrow> (\<exists>rq v base. rq_method rq = c_method c \<and> rq_url rq = base @ c_path c \<and>
     res = fst (x_http X rq v) \<and> hr_error res = [])"

lemma answered_byI: "hr_error (fst (x_http X (call_request c se token) v)) = [] \<Longrightarrow>
    answered_by X c (fst (x_http X (call_request c se token) v))"
  unfolding answered_by_def
  by (intro exI [of _ "call_request c se token"] exI [of _ v] exI [of _ "si_api (s_info se)"]) (simp add: call_request_def)

lemma call_attempt_yields: "yields (call_attempt X H sid c used) (\<lambda>(token, res). answered_by X c res)"
  unfolding call_attempt_def
  by (rule yields_bind_any, rule yields_prod, rule yields_bind_any, rule yields_bind [OF yields_get_ses],
      rule yields_bind [OF yields_liftX], intro yields_if yields_throw yields_ret)
    (auto intro: answered_byI)

lemma call_yields: "yields (call X H sid c interrupted) (\<lambda>resp. \<exists>res. answered_by X c res \<and> resp = answer res)"
  unfolding call_def
  by (intro yields_seq yields_bind [OF call_attempt_yields] yields_prod yields_if yields_ret yields_bind_any yields_throw)
    auto

lemma prove_login_yields: "yields (prove_login X sid r a) (\<lambda>_. \<exists>res. answered_by X whoami_call res \<and> hr_status res = 200)"
  unfolding prove_login_def Let_def
  by (rule yields_bind [OF call_yields], rule yields_if, intro yields_seq yields_throw, rule yields_const)
    (auto simp: answer_def)

text \<open>
  C13: a login is proven or it fails: \<^verbatim>\<open>Login\<close> returns only after the service answered a GET of \<^verbatim>\<open>/v1/whoami\<close> with
  200, and on any other answer the session it opened is closed, without tokens and without a credential's
  secret, before the exception is thrown.
\<close>

theorem login_proven_by_whoami:
  "(login X S sid r s = (Inr u, t) \<longrightarrow>
      (\<exists>rq v base. rq_method rq = ''GET'' \<and> rq_url rq = base @ ''/v1/whoami'' \<and>
         hr_error (fst (x_http X rq v)) = [] \<and> hr_status (fst (x_http X rq v)) = 200)) \<and>
   (call X no_hooks sid whoami_call (\<lambda>_. False) s = (Inr whoami, t) \<and> sr_status whoami \<noteq> 200 \<longrightarrow>
      prove_login X sid r a s =
        (Inl (InvalidInput ''refused the login'' [ar_host r, describe_problem X (sr_status whoami) (sr_body whoami)]),
         t\<lparr>y_ses := (y_ses t)(sid := close_session (y_ses t sid))\<rparr>))"
proof (intro conjI impI)
  assume "login X S sid r s = (Inr u, t)"
  moreover have "yields (login X S sid r) (\<lambda>_. \<exists>res. answered_by X whoami_call res \<and> hr_status res = 200)"
    unfolding login_def by (intro yields_seq yields_bind_any prove_login_yields)
  ultimately show "\<exists>rq v base. rq_method rq = ''GET'' \<and> rq_url rq = base @ ''/v1/whoami'' \<and>
         hr_error (fst (x_http X rq v)) = [] \<and> hr_status (fst (x_http X rq v)) = 200"
    by (auto dest!: yieldsD simp: answered_by_def whoami_call_def)
next
  assume "call X no_hooks sid whoami_call (\<lambda>_. False) s = (Inr whoami, t) \<and> sr_status whoami \<noteq> 200"
  then show "prove_login X sid r a s =
        (Inl (InvalidInput ''refused the login'' [ar_host r, describe_problem X (sr_status whoami) (sr_body whoami)]),
         t\<lparr>y_ses := (y_ses t)(sid := close_session (y_ses t sid))\<rparr>)"
    by (simp add: prove_login_def monad_defs set_ses_def locked_def)
qed

lemma service_ext_calls [simp]:
  "x_now service_ext = (\<lambda>i. (1000, i))" "x_setting service_ext = (\<lambda>_ _. None)"
  "x_http service_ext = (\<lambda>_ s. (\<lparr>hr_error = [], hr_status = 200, hr_body = ''me''\<rparr>, s))"
  by (simp_all add: service_ext_def sample_lext_def sext.defs ext.defs sample_ext_def)

lemma sample_service_secret:
  "find_service_secret service_ext (new_request ''h'') s = Inr (Some (client_secret_of ''https://idp''))"
proof -
  have covers: "scope_covers service_ext ''tresor:h'' ''tresor:h''" by code_simp
  have fields: "is_tresor service_ext (managed_as n (client_secret_of iss))"
    "sec_scope (client_secret_of iss) = [''tresor:h'']"
    "ms_secret (managed_as n (client_secret_of iss)) = client_secret_of iss" "ms_key_value (managed_as n k)" for n iss k
    by (simp_all add: is_tresor_def managed_as_def client_secret_of_def tresor_secret_def)
  have "x_secrets service_ext s = [managed_as 1 (client_secret_of ''https://idp'')]"
    by (simp add: service_ext_def)
  then show ?thesis
    by (simp add: find_service_secret_def new_request_def best_secret_for_def best_entry_def best_scope_def Let_def
        as_tresor_secret_def rbind_def covers fields)
qed

lemma sample_logged_in: "fst (login service_ext quiet_statement 0 (new_request ''h'') login_sys) = Inr ()"
  by (simp add: login_def sample_discovered sample_service_secret sample_acquired monad_defs throw_or_def http_client_for_def
      transport_for_def DEFAULT_CLIENT_def new_request_def [symmetric])
    (simp add: new_request_def login_sys_def open_session_def prove_login_def call_def client_set_def wait_login_def no_hooks_def
      call_attempt_def token_for_attempt_def access_token_op_def fresh_def margin_def RENEW_MARGIN_SECONDS_def half_def
      sample_tokens_def new_session_def monad_defs on_instance_def set_ses_def get_ses_def locked_def whoami_call_def
      answer_def Let_def)

theorem login_proven_by_whoami_witness:
  "\<exists>rq v base. rq_method rq = ''GET'' \<and> rq_url rq = base @ ''/v1/whoami'' \<and>
     hr_status (fst (x_http service_ext rq v)) = 200"
proof -
  obtain t where "login service_ext quiet_statement 0 (new_request ''h'') login_sys = (Inr (), t)"
    using sample_logged_in by (cases "login service_ext quiet_statement 0 (new_request ''h'') login_sys") auto
  then show ?thesis
    using login_proven_by_whoami [of service_ext quiet_statement 0 "new_request ''h''" login_sys "()" t] by blast
qed

section \<open>A page's token\<close>

text \<open>An operation that returned: what its parts returned.\<close>

lemma returned:
  "bindE f g s = (Inr b, t) \<longleftrightarrow> (\<exists>a u. f s = (Inr a, u) \<and> g a u = (Inr b, t))"
  "seqE f h s = (Inr b, t) \<longleftrightarrow> (\<exists>a u. f s = (Inr a, u) \<and> h u = (Inr b, t))"
  "guardE c e s' = (Inr x, u) \<longleftrightarrow> c \<and> u = s'"
  "throw_or y s'' = (Inr z, v) \<longleftrightarrow> y = Inr z \<and> v = s''"
  "ret w q = (Inr w', q') \<longleftrightarrow> w = w' \<and> q = q'"
  by (auto simp: monad_defs throw_or_def split: sum.splits prod.splits)

lemma on_instance_unit: "on_instance (\<lambda>i. ((), f i)) s = (Inr x, t) \<longleftrightarrow> t = s\<lparr>y_inst := f (y_inst s)\<rparr>"
  by (auto simp: on_instance_def)

text \<open>
  C23: a page's token is kept only for the service and an issuer its discovery lists, over a checked
  URL, and only when - being a JWT - it is from that issuer, for its audience, and not over; what is kept is
  what the next ATTACH of that service finds.
\<close>

theorem page_token_kept_only_for_its_audience:
  assumes "hand_over_page_token X r token s = (Inr out, t)"
  shows "\<exists>i now. secure_url X (ar_insecure_http r) (is_issuer i) \<and>
      (\<exists>d u u'. discover X r u = (Inr d, u') \<and> i \<in> set (dv_issuers d)) \<and>
      out = \<lparr>ph_issuer = strip_slashes (is_issuer i), ph_service = ar_host r,
             ph_expires_at = jc_expires_at (read_jwt_claims X token)\<rparr> \<and>
      (jc_is_jwt (read_jwt_claims X token) \<longrightarrow>
         (is_audience i \<noteq> [] \<longrightarrow> is_audience i \<in> set (jc_audiences (read_jwt_claims X token))) \<and>
         (jc_issuer (read_jwt_claims X token) \<noteq> [] \<longrightarrow>
            strip_slashes (jc_issuer (read_jwt_claims X token)) = strip_slashes (is_issuer i)) \<and>
         (ph_expires_at out = 0 \<or> now < ph_expires_at out)) \<and>
      page_find X (ph_issuer out) (ph_service out) (y_inst t) =
        Some \<lparr>pt_token = token, pt_expires_at = ph_expires_at out\<rparr>"
proof -
  let ?claims = "read_jwt_claims X token"
  obtain d i now u u' v where d: "discover X r u = (Inr d, u')" and i: "choose_issuer r (dv_issuers d) (ar_issuer r) = Inr i"
    and url: "check_transport X r ''issuer'' (is_issuer i) = Inr ()" and ok: "check_page_token r i ?claims now = Inr ()"
    and out: "out = \<lparr>ph_issuer = strip_slashes (is_issuer i), ph_service = ar_host r, ph_expires_at = jc_expires_at ?claims\<rparr>"
    and kept: "t = v\<lparr>y_inst := page_set X (ph_issuer out) (ph_service out)
        \<lparr>pt_token = token, pt_expires_at = jc_expires_at ?claims\<rparr> (y_inst v)\<rparr>"
    using assms by (auto simp: hand_over_page_token_def Let_def returned on_instance_unit)
  have "page_find X (ph_issuer out) (ph_service out) (y_inst t) =
      Some \<lparr>pt_token = token, pt_expires_at = ph_expires_at out\<rparr>"
    using kept out by (auto simp: page_find_def page_set_def Let_def update_conv')
  moreover have "i \<in> set (dv_issuers d)" using choose_issuer_Inr [OF i] by simp
  ultimately show ?thesis
    using d url ok out
    by (intro exI [of _ i] exI [of _ now]) (auto simp: check_transport_Inr check_page_token_def split: if_splits)
qed

text \<open>A JWT for the service's audience: its payload is read as the claims below.\<close>

definition page_ext :: "(unit, unit sys) lext" where
  "page_ext = service_ext\<lparr>lb_json := (\<lambda>body. if body = ''{}''
     then Some (JObj [(''aud'', JArr [JStr ''aud'']), (''iss'', JStr ''https://idp''), (''exp'', JNum 2000)])
     else sample_discovery body)\<rparr>"

lemma page_ext_fields [simp]: "x_setting page_ext = (\<lambda>_ _. None)" "x_now page_ext = (\<lambda>i. (1000, i))"
  by (simp_all add: page_ext_def)

lemma new_request_fields [simp]: "ar_host (new_request h) = h" "ar_issuer (new_request h) = []"
  "ar_insecure_http (new_request h) = False"
  by (simp_all add: new_request_def)

lemma page_ext_discovered: "discover page_ext (new_request ''h'') s = (Inr sample_found, s)"
  by (simp add: page_ext_def discover_def read_discovery_def monad_defs throw_or_def sample_discovery_def jstr_def jget_opt_def
      Let_def rbind_def check_transport_def starts_with_def read_issuers_def read_issuer_def read_capabilities_def
      listed_flows_def jtrue_def str_list_def sample_found_def)

theorem page_token_kept_only_for_its_audience_witness:
  "\<exists>out t. hand_over_page_token page_ext (new_request ''h'') ''h.e30.s'' login_sys = (Inr out, t) \<and>
     page_find page_ext ''https://idp'' ''h'' (y_inst t) = Some \<lparr>pt_token = ''h.e30.s'', pt_expires_at = 2000\<rparr>"
proof -
  have claims: "read_jwt_claims page_ext ''h.e30.s'' =
      \<lparr>jc_is_jwt = True, jc_audiences = [''aud''], jc_issuer = ''https://idp'', jc_subject = [], jc_expires_at = 2000\<rparr>"
    by code_simp
  have "fst (hand_over_page_token page_ext (new_request ''h'') ''h.e30.s'' login_sys) =
      Inr \<lparr>ph_issuer = ''https://idp'', ph_service = ''h'', ph_expires_at = 2000\<rparr>"
    by (simp add: hand_over_page_token_def page_ext_discovered claims monad_defs throw_or_def http_client_for_def
        transport_for_def DEFAULT_CLIENT_def choose_issuer_def sample_found_def check_transport_def starts_with_def
        check_page_token_def Let_def on_instance_def)
  then obtain t where run: "hand_over_page_token page_ext (new_request ''h'') ''h.e30.s'' login_sys =
      (Inr \<lparr>ph_issuer = ''https://idp'', ph_service = ''h'', ph_expires_at = 2000\<rparr>, t)"
    by (cases "hand_over_page_token page_ext (new_request ''h'') ''h.e30.s'' login_sys") auto
  show ?thesis using page_token_kept_only_for_its_audience [OF run] run by auto
qed

end
