(* ===== verification/Tresor_Secret.thy ===== *)
theory Tresor_Secret
  imports Tresor_Login_Laws
begin

text \<open>
  The \<^verbatim>\<open>tresor\<close> secret type (\<^verbatim>\<open>tresor_secret.cpp\<close>): what CREATE SECRET checks before a service's login is kept,
  and the provider through which httpfs re-creates a dynamic secret. The options are a list in the hash
  table's order; they are found without case.
\<close>

section \<open>The rules of the flows\<close>

record flow_rule =
  fr_required :: "string list"
  fr_one_of :: "string list list"
  fr_optional :: "string list"

definition rule_of :: "string \<Rightarrow> error + flow_rule" where
  "rule_of flow =
     (if flow = ''client_credentials'' then Inr \<lparr>fr_required = [''client_id'', ''issuer''],
        fr_one_of = [[''client_secret'', ''private_key_file'']],
        fr_optional = [''oauth_scope'', ''key_id'', ''certificate_file'']\<rparr>
      else if flow = ''federated'' then Inr \<lparr>fr_required = [''client_id'', ''issuer''],
        fr_one_of = [[''assertion_file'', ''assertion_source'']],
        fr_optional = [''oauth_scope'', ''assertion_audience'', ''identity_client_id'']\<rparr>
      else if flow = ''managed_identity'' then Inr \<lparr>fr_required = [''issuer'', ''audience''], fr_one_of = [],
        fr_optional = [''client_id'']\<rparr>
      else if flow = ''token'' then Inr \<lparr>fr_required = [''token''], fr_one_of = [], fr_optional = []\<rparr>
      else Inl (InvalidInput ''FLOW is client_credentials, federated, managed_identity or token'' [flow]))"

record secret_input =
  in_type :: string
  in_provider :: string
  in_name :: string
  in_storage_type :: string
  in_scope :: "string list"
  in_options :: "(string \<times> dvalue) list"

definition given :: "('w, 's, 'x) lext_scheme \<Rightarrow> (string \<times> dvalue) list \<Rightarrow> string \<Rightarrow> bool" where
  "given X options name \<longleftrightarrow> (case find_param X options name of
       None \<Rightarrow> False | Some v \<Rightarrow> \<not> is_null v \<and> x_text X v \<noteq> [])"

definition option_text :: "('w, 's, 'x) lext_scheme \<Rightarrow> (string \<times> dvalue) list \<Rightarrow> string \<Rightarrow> string" where
  "option_text X options name =
     (if given X options name then (case find_param X options name of None \<Rightarrow> [] | Some v \<Rightarrow> x_text X v) else [])"

definition known_option :: "flow_rule \<Rightarrow> string \<Rightarrow> bool" where
  "known_option rule key \<longleftrightarrow> key = ''flow'' \<or> key \<in> set (fr_required rule) \<or> key \<in> set (fr_optional rule) \<or>
     (\<exists>group \<in> set (fr_one_of rule). key \<in> set group)"

definition first_bad :: "('a \<Rightarrow> bool) \<Rightarrow> 'a list \<Rightarrow> ('a \<Rightarrow> error) \<Rightarrow> error + unit" where
  "first_bad ok xs why = (case List.find (\<lambda>x. \<not> ok x) xs of None \<Rightarrow> Inr () | Some x \<Rightarrow> Inl (why x))"

text \<open>Required, exactly one of each group, and nothing of another flow.\<close>

definition check_rule :: "('w, 's, 'x) lext_scheme \<Rightarrow> string \<Rightarrow> flow_rule \<Rightarrow> (string \<times> dvalue) list \<Rightarrow> error + unit" where
  "check_rule X flow rule options =
     rbind (first_bad (given X options) (fr_required rule) (\<lambda>name. InvalidInput ''needs'' [flow, x_upper X name])) (\<lambda>_.
     rbind (first_bad (\<lambda>group. length (filter (given X options) group) = 1) (fr_one_of rule)
       (\<lambda>group. InvalidInput ''needs exactly one of'' (flow # map (x_upper X) group))) (\<lambda>_.
     first_bad (\<lambda>(key, _). known_option rule (lb_lower X key)) options
       (\<lambda>(key, _). InvalidInput ''does not take'' [flow, x_upper X key])))"

text \<open>A key's companions, a federation's.\<close>

definition check_companions :: "('w, 's, 'x) lext_scheme \<Rightarrow> (string \<times> dvalue) list \<Rightarrow> error + unit" where
  "check_companions X options =
     (let has = given X options; source = lb_lower X (option_text X options ''assertion_source'') in
      if (has ''key_id'' \<or> has ''certificate_file'') \<and> \<not> has ''private_key_file''
      then Inl (InvalidInput ''KEY_ID and CERTIFICATE_FILE go with PRIVATE_KEY_FILE'' [])
      else if has ''identity_client_id'' \<and> source \<noteq> ''azure_managed_identity''
      then Inl (InvalidInput ''IDENTITY_CLIENT_ID goes with ASSERTION_SOURCE azure_managed_identity'' [])
      else if has ''assertion_source'' then
        (if source \<noteq> ''github_actions'' \<and> source \<noteq> ''azure_managed_identity''
         then Inl (InvalidInput ''ASSERTION_SOURCE is github_actions or azure_managed_identity''
                [option_text X options ''assertion_source''])
         else if source = ''github_actions'' \<and> \<not> has ''assertion_audience''
         then Inl (InvalidInput ''github_actions needs ASSERTION_AUDIENCE'' [])
         else Inr ())
      else if has ''assertion_audience'' then Inl (InvalidInput ''ASSERTION_AUDIENCE goes with ASSERTION_SOURCE'' [])
      else Inr ())"

definition scope_shaped :: "'z lib_scheme \<Rightarrow> string \<Rightarrow> bool" where
  "scope_shaped L entry \<longleftrightarrow> starts_with ''tresor:'' (lb_lower L entry) \<and> length entry > 7"

definition create_tresor_secret :: "('w, 's, 'x) lext_scheme \<Rightarrow> secret_input \<Rightarrow> error + secret" where
  "create_tresor_secret X input =
     (let options = in_options input in
      case find_param X options ''flow'' of
        None \<Rightarrow> Inl (InvalidInput ''FLOW is required'' [])
      | Some v \<Rightarrow>
          let flow = lb_lower X (x_text X v) in
          rbind (rule_of flow) (\<lambda>rule.
          rbind (check_rule X flow rule options) (\<lambda>_.
          rbind (check_companions X options) (\<lambda>_.
            if in_scope input = [] then Inl (InvalidInput ''SCOPE is required'' [])
            else rbind (first_bad (scope_shaped X) (in_scope input) (\<lambda>entry. InvalidInput ''SCOPE is not a service'' [entry])) (\<lambda>_.
              Inr \<lparr>sec_scope = in_scope input, sec_type = in_type input, sec_provider = in_provider input,
                   sec_name = in_name input,
                   sec_map = map (\<lambda>(key, w). let key = lb_lower X key in
                     (key, V_TEXT T_VARCHAR (if key = ''flow'' then flow else x_text X w))) options,
                   sec_redact = [''client_secret'', ''token'']\<rparr>)))))"

section \<open>The provider of dynamic secrets\<close>

definition provider_option :: "('w, 's, 'x) lext_scheme \<Rightarrow> (string \<times> dvalue) list \<Rightarrow> string \<Rightarrow> error + string" where
  "provider_option X options name = (case find_param X options name of
       None \<Rightarrow> Inl (InvalidInput ''is required'' [x_upper X name])
     | Some v \<Rightarrow> if is_null v then Inl (InvalidInput ''is required'' [x_upper X name]) else Inr (x_text X v))"

text \<open>
  \<open>here\<close>: the service's own storage (\<^verbatim>\<open>FindStorage\<close>): the model's state holds one, and the answer says whether it is
  the one named.
\<close>

definition create_tresor_provided :: "('w, ('w, 'y) sto_sys_scheme, 'x) lext_scheme \<Rightarrow> (('w, 'y) sto_sys_scheme, 'h) hooks_scheme \<Rightarrow>
    ('w, 'y) sto_sys_scheme statement \<Rightarrow> (string \<Rightarrow> bool) \<Rightarrow> secret_input \<Rightarrow> (('w, 'y) sto_sys_scheme, secret) m" where
  "create_tresor_provided X H S here input =
     bindE (throw_or (provider_option X (in_options input) ''tresor_service'')) (\<lambda>service.
     bindE (throw_or (provider_option X (in_options input) ''tresor_secret'')) (\<lambda>name.
     seqE (guardE (lb_ci_equals X (in_name input) name) (InvalidInput ''TRESOR_SECRET names another'' [in_name input, name]))
     (seqE (guardE (lb_ci_equals X (in_storage_type input) service) (InvalidInput ''is created only IN its service'' [service, service]))
     (seqE (guardE (here service) (InvalidInput ''is not an attached tresor service'' [service]))
     (bindE (refresh_material X H S name) (\<lambda>fresh.
     seqE (guardE (lb_ci_equals X (sec_type fresh) (in_type input))
            (InvalidInput ''is of another type'' [name, service, sec_type fresh, in_type input]))
       (ret fresh)))))))"

section \<open>What is created\<close>

lemma first_bad_Inr: "first_bad ok xs why = Inr u \<longleftrightarrow> list_all ok xs"
  by (auto simp: first_bad_def list_all_iff find_None_iff split: option.splits)
    (metis find_None_iff option.distinct(1))

lemma ascii_lower_idem [simp]: "ascii_lower (ascii_lower c) = ascii_lower c"
  by (auto simp: ascii_lower_def)

lemma map_lower_idem [simp]: "map ascii_lower (map ascii_lower s) = map ascii_lower s"
  by simp

lemma find_param_created:
  assumes "lower_ascii X"
  shows "find_param X (map (\<lambda>(key, w). let key = lb_lower X key in (key, f key w)) options) name =
    map_option (f (map ascii_lower name)) (find_param X options name)"
proof (induction options)
  case (Cons kv options)
  show ?case using Cons assms
    by (cases kv) (auto simp: find_param_def lower_ascii_def Let_def comp_def)
qed (simp add: find_param_def)

text \<open>A VARCHAR's text is the text: the documented meaning of \<^verbatim>\<open>Value::ToString\<close>.\<close>

definition varchar_text :: "('w, 's, 'x) lext_scheme \<Rightarrow> bool" where
  "varchar_text X \<longleftrightarrow> (\<forall>s. x_text X (V_TEXT T_VARCHAR s) = s)"

lemma created_fields:
  assumes "create_tresor_secret X input = Inr k"
  obtains v rule where "find_param X (in_options input) ''flow'' = Some v"
    and "rule_of (lb_lower X (x_text X v)) = Inr rule"
    and "check_rule X (lb_lower X (x_text X v)) rule (in_options input) = Inr ()"
    and "in_scope input \<noteq> []" and "list_all (scope_shaped X) (in_scope input)"
    and "k = \<lparr>sec_scope = in_scope input, sec_type = in_type input, sec_provider = in_provider input,
       sec_name = in_name input,
       sec_map = map (\<lambda>(key, w). let key = lb_lower X key in
         (key, V_TEXT T_VARCHAR (if key = ''flow'' then lb_lower X (x_text X v) else x_text X w))) (in_options input),
       sec_redact = [''client_secret'', ''token'']\<rparr>"
  using assms
  by (auto simp: create_tresor_secret_def Let_def rbind_Inr first_bad_Inr split: option.splits if_splits)

lemma created_string:
  assumes "lower_ascii X" and "varchar_text X"
    and "sec_map k = map (\<lambda>(key, w). let key = lb_lower X key in
         (key, V_TEXT T_VARCHAR (if key = ''flow'' then flow else x_text X w))) options"
    and "map ascii_lower name = name"
  shows "secret_string X k name = (case find_param X options name of None \<Rightarrow> []
     | Some w \<Rightarrow> if name = ''flow'' then flow else x_text X w)"
  using find_param_created [OF assms(1), of "\<lambda>key w. V_TEXT T_VARCHAR (if key = ''flow'' then flow else x_text X w)"
      options name] assms(2,4)
  by (simp add: secret_string_def assms(3) varchar_text_def split: option.splits)

lemma lower_names:
  "map ascii_lower ''flow'' = ''flow''" "map ascii_lower ''issuer'' = ''issuer''"
  "map ascii_lower ''client_secret'' = ''client_secret''" "map ascii_lower ''private_key_file'' = ''private_key_file''"
  by code_simp+

lemma given_string:
  assumes "lower_ascii X" and "varchar_text X"
    and "sec_map k = map (\<lambda>(key, w). let key = lb_lower X key in
         (key, V_TEXT T_VARCHAR (if key = ''flow'' then flow else x_text X w))) options"
    and "map ascii_lower name = name" and "name \<noteq> ''flow''"
    and "\<forall>(key, w) \<in> set options. \<not> is_null w"
  shows "secret_string X k name \<noteq> [] \<longleftrightarrow> given X options name"
proof -
  have "\<not> is_null w" if "find_param X options name = Some w" for w
  proof -
    have "\<exists>kv \<in> set options. snd kv = w" using that
      by (auto simp: find_param_def split: list.splits dest!: filter_eq_ConsD)
    then show ?thesis using assms(6) by auto
  qed
  then show ?thesis using assms(5) by (auto simp: created_string [OF assms(1-4)] given_def split: option.splits)
qed

text \<open>
  C25: a \<^verbatim>\<open>tresor\<close> secret that CREATE SECRET accepts can only log in the way its flow says: the flow is one of the
  four, a credential of any flow but a held token is bound to an identity provider, every parameter is one the
  flow takes, every scope names a service, the client secret and the token are redacted; and - no option given as
  NULL - a client-credentials secret holds a client secret or a key's path, never both and never neither.
\<close>

theorem created_secret_is_bound:
  assumes "lower_ascii X" and "varchar_text X" and "create_tresor_secret X input = Inr k"
  shows "secret_string X k ''flow'' \<in> {''client_credentials'', ''federated'', ''managed_identity'', ''token''} \<and>
    (secret_string X k ''flow'' \<noteq> ''token'' \<longrightarrow> secret_string X k ''issuer'' \<noteq> []) \<and>
    (\<forall>rule. rule_of (secret_string X k ''flow'') = Inr rule \<longrightarrow> (\<forall>(key, w) \<in> set (sec_map k). known_option rule key)) \<and>
    sec_scope k \<noteq> [] \<and> list_all (scope_shaped X) (sec_scope k) \<and> {''client_secret'', ''token''} \<subseteq> set (sec_redact k) \<and>
    (secret_string X k ''flow'' = ''client_credentials'' \<and> (\<forall>(key, w) \<in> set (in_options input). \<not> is_null w) \<longrightarrow>
       (secret_string X k ''client_secret'' \<noteq> []) \<noteq> (secret_string X k ''private_key_file'' \<noteq> []))"
proof (rule created_fields [OF assms(3)])
  fix v rule
  assume v: "find_param X (in_options input) ''flow'' = Some v"
    and rule: "rule_of (lb_lower X (x_text X v)) = Inr rule"
    and checked: "check_rule X (lb_lower X (x_text X v)) rule (in_options input) = Inr ()"
    and scope: "in_scope input \<noteq> []" "list_all (scope_shaped X) (in_scope input)"
    and k: "k = \<lparr>sec_scope = in_scope input, sec_type = in_type input, sec_provider = in_provider input,
       sec_name = in_name input,
       sec_map = map (\<lambda>(key, w). let key = lb_lower X key in
         (key, V_TEXT T_VARCHAR (if key = ''flow'' then lb_lower X (x_text X v) else x_text X w))) (in_options input),
       sec_redact = [''client_secret'', ''token'']\<rparr>"
  let ?flow = "lb_lower X (x_text X v)" and ?options = "in_options input"
  have map: "sec_map k = map (\<lambda>(key, w). let key = lb_lower X key in
         (key, V_TEXT T_VARCHAR (if key = ''flow'' then ?flow else x_text X w))) ?options" by (simp add: k)
  note string = created_string [OF assms(1,2) map]
  have flow: "secret_string X k ''flow'' = ?flow" using v string [OF lower_names(1)] by simp
  have four: "?flow \<in> {''client_credentials'', ''federated'', ''managed_identity'', ''token''}"
    using rule by (simp add: rule_of_def split: if_splits)
  have all: "list_all (given X ?options) (fr_required rule)"
    "list_all (\<lambda>group. length (filter (given X ?options) group) = 1) (fr_one_of rule)"
    "list_all (\<lambda>(key, _). known_option rule (lb_lower X key)) ?options"
    using checked by (simp_all add: check_rule_def rbind_Inr first_bad_Inr)
  have issuer: "?flow \<noteq> ''token'' \<longrightarrow> secret_string X k ''issuer'' \<noteq> []"
    using rule all(1) string [OF lower_names(2)] by (auto simp: rule_of_def given_def split: if_splits option.splits)
  have keys: "\<forall>(key, w) \<in> set (sec_map k). known_option rule key"
    using all(3) by (auto simp: k list_all_iff Let_def)
  have one: "(secret_string X k ''client_secret'' \<noteq> []) \<noteq> (secret_string X k ''private_key_file'' \<noteq> [])"
    if "?flow = ''client_credentials''" and "\<forall>(key, w) \<in> set ?options. \<not> is_null w"
  proof -
    have "given X ?options ''client_secret'' \<noteq> given X ?options ''private_key_file''"
      using rule all(2) that(1) by (auto simp: rule_of_def split: if_splits)
    then show ?thesis
      using given_string [OF assms(1,2) map lower_names(3) _ that(2)] given_string [OF assms(1,2) map lower_names(4) _ that(2)]
      by simp
  qed
  show ?thesis using flow four issuer keys rule scope one by (simp add: k)
qed

text \<open>A client-credentials secret, for the witness.\<close>

definition sample_input :: "(string \<times> dvalue) list \<Rightarrow> secret_input" where
  "sample_input extra = \<lparr>in_type = ''tresor'', in_provider = ''config'', in_name = ''node'', in_storage_type = [],
     in_scope = [''tresor:h''], in_options = [(''flow'', V_TEXT T_VARCHAR ''client_credentials''),
       (''client_id'', V_TEXT T_VARCHAR ''node''), (''issuer'', V_TEXT T_VARCHAR ''https://idp''),
       (''client_secret'', V_TEXT T_VARCHAR ''s'')] @ extra\<rparr>"

definition created :: "(string \<times> dvalue) list \<Rightarrow> secret option" where
  "created extra = (case create_tresor_secret plain_ext (sample_input extra) of Inl _ \<Rightarrow> None | Inr k \<Rightarrow> Some k)"

lemmas create_defs = created_def create_tresor_secret_def sample_input_def find_param_def Let_def rule_of_def
  check_rule_def check_companions_def given_def option_text_def first_bad_def known_option_def scope_shaped_def
  starts_with_def rbind_def ascii_lower_def secret_string_def

lemma plain_ext_lib [simp]: "lb_lower plain_ext = map ascii_lower" "x_text plain_ext = value_text"
  "lb_ci_equals plain_ext = (\<lambda>a b. map ascii_lower a = map ascii_lower b)"
  by (simp_all add: plain_ext_def)

theorem created_secret_is_bound_witness:
  "\<exists>k. create_tresor_secret plain_ext (sample_input []) = Inr k \<and> secret_string plain_ext k ''issuer'' \<noteq> []"
proof -
  have "map_option (\<lambda>k. secret_string plain_ext k ''flow'') (created []) = Some ''client_credentials''"
    by (simp add: create_defs)
  then obtain k where k: "create_tresor_secret plain_ext (sample_input []) = Inr k"
    and flow: "secret_string plain_ext k ''flow'' = ''client_credentials''"
    by (auto simp: created_def split: sum.splits)
  have "lower_ascii plain_ext" "varchar_text plain_ext" by (simp_all add: plain_ext_def varchar_text_def)
  then show ?thesis using created_secret_is_bound [OF _ _ k] k flow by auto
qed

text \<open>
  An option given as NULL counts as not given, but is kept as the text \<^verbatim>\<open>NULL\<close>: the secret below is
  accepted for its client secret, and logs in with a key's file named \<^verbatim>\<open>NULL\<close>.
\<close>

lemma null_option_is_kept_as_text:
  "map_option (\<lambda>k. secret_string plain_ext k ''private_key_file'') (created [(''private_key_file'', V_NULL T_VARCHAR)]) =
     Some ''NULL''"
  by (simp add: create_defs)

end
