(* ===== verification/Tresor_Catalog.thy ===== *)
theory Tresor_Catalog
  imports Tresor_Login_Laws
begin

text \<open>
  An attached catalog: ATTACH (\<^verbatim>\<open>tresor_extension.cpp\<close>), the catalog's life (\<^verbatim>\<open>tresor_catalog.cpp\<close>) and
  \<^verbatim>\<open>act_for_sessions\<close> (\<^verbatim>\<open>tresor_act.cpp\<close>). \<open>y_sto\<close> is the catalog's storage, \<open>y_registry\<close> the names given out;
  the catalog's own fields, behind its \<open>actor_lock\<close>, are \<open>y_cat\<close>. The shutdown is cut where the sources hold
  no lock, so that \<^verbatim>\<open>act_for_sessions\<close> may run between its parts; the workers' last jobs are slices, as every wait.

  The record \<open>cext\<close> adds what DuckDB and duckdb-acl answer: the databases of the instance, whether acl
  publishes its sessions, a detach. Registering the catalog's functions with DuckDB is not modelled.
\<close>

record catalog =
  kt_name :: string
  kt_session :: nat
  kt_initial :: "descriptor list"
  kt_acting :: "actor_options option"
  kt_actor :: "nat option"
  kt_shut :: bool

record 'w cat_sys = "'w sto_sys" +
  y_cat :: catalog
  y_registry :: registry

record ('w, 's) cext = "('w, 's) lext" +
  x_acl_hooks :: "'s \<Rightarrow> string + bool"                   \<comment> \<open>AclSessionHooks::Reach, then Publisher\<close>
  x_taken :: "string \<Rightarrow> 's \<Rightarrow> bool"                      \<comment> \<open>DatabaseManager::GetDatabase finds one\<close>
  x_catalogs :: "'s \<Rightarrow> (string \<times> nat) list"              \<comment> \<open>the attached tresor catalogs: name and session\<close>
  x_detach :: "string \<Rightarrow> 's \<Rightarrow> bool \<times> 's"               \<comment> \<open>DetachDatabase: whether it did not throw\<close>
  x_unredacted :: "'s \<Rightarrow> bool"                          \<comment> \<open>allow_unredacted_secrets\<close>

section \<open>What the session is given\<close>

definition node_of :: "nat \<Rightarrow> caller" where
  "node_of sid = no_caller\<lparr>cl_session := Some sid\<rparr>"

definition resumed_audit :: "string \<Rightarrow> string \<Rightarrow> string \<Rightarrow> string \<Rightarrow> ('w, 'y) act_sys_scheme \<Rightarrow> ('w, 'y) act_sys_scheme" where
  "resumed_audit name host previous now s =
     (let d = audited_detail (if previous = now then ''resumed'' else ''resumed_other'')
                (on_event (\<lambda>e. e\<lparr>ev_service := name, ev_host := host, ev_user := now\<rparr>) (audited_new (y_audit s) ''login''))
      in s\<lparr>y_audit := snd (audit_ok (d, y_audit s))\<rparr>)"

definition await_pending :: "('w, 's, 'x) ext_scheme \<Rightarrow> (('w, 'y) sys_scheme \<Rightarrow> bool) \<Rightarrow>
    (('w, 'y) sys_scheme \<Rightarrow> ('w, 'y) sys_scheme) list \<Rightarrow> login_key \<Rightarrow> (('w, 'y) sys_scheme, unit) m" where
  "await_pending X stop slices key =
     bindE (gets (\<lambda>s. pending_find key (y_inst s))) (\<lambda>found. case found of
       None \<Rightarrow> ret ()
     | Some l \<Rightarrow>
         bindE (on_instance (x_now X)) (\<lambda>now. let deadline = now + ar_timeout_seconds (new_request []) in
         bindE (wait_login_beyond X l STARTING deadline stop slices) (\<lambda>(_, later).
         bindE (wait_login_beyond X l PENDING deadline stop later) (\<lambda>_. ret ()))))"

definition catalog_hooks :: "('w, 's, 'x) ext_scheme \<Rightarrow> (('w, 'y) sto_sys_scheme \<Rightarrow> bool) \<Rightarrow>
    (('w, 'y) sto_sys_scheme \<Rightarrow> ('w, 'y) sto_sys_scheme) list \<Rightarrow> nat \<Rightarrow> string \<Rightarrow> string \<Rightarrow> ('w, 'y) sto_sys_scheme hooks" where
  "catalog_hooks X interrupted slices sid name host =
     \<lparr>on_resumed = Some (\<lambda>previous now s. resumed_audit name host previous now (s\<lparr>y_sto := reset_caches sid (y_sto s)\<rparr>)),
      on_logged_off = Some (\<lambda>s. s\<lparr>y_sto := reset_caches sid (y_sto s)\<rparr>),
      wait_pending = Some (\<lambda>key s. snd (await_pending X (\<lambda>s. s_closing (y_ses s sid) \<or> interrupted s) slices key s))\<rparr>"

text \<open>The second callback: what \<open>x_probe\<close> of the storage stands for.\<close>

definition login_in_progress :: "login_key \<Rightarrow> ('w, 'y) sys_scheme \<Rightarrow> bool" where
  "login_in_progress key s = (case pending_find key (y_inst s) of
       None \<Rightarrow> False | Some l \<Rightarrow> pl_state (i_logins (y_inst s) l) \<noteq> FAILED)"

section \<open>Acting for sessions\<close>

definition on_cat :: "(catalog \<Rightarrow> catalog) \<Rightarrow> (('w, 'y) cat_sys_scheme, unit) m" where
  "on_cat f = modifyS (\<lambda>s. s\<lparr>y_cat := f (y_cat s)\<rparr>)"

definition check_hooks :: "('w, 's, 'x) cext_scheme \<Rightarrow> ('s, unit) m" where
  "check_hooks X = bindE (gets (x_acl_hooks X)) (\<lambda>h. case h of
       Inl why \<Rightarrow> throw (InvalidInput ''acting for sessions cannot observe duckdb-acl's sessions'' [why])
     | Inr published \<Rightarrow> guardE published (InvalidInput ''acting for sessions needs duckdb-acl'' []))"

text \<open>\<^verbatim>\<open>TresorActor::Start\<close>; the workers and the observer run from here on.\<close>

definition start_actor :: "('w, 's, 'x) cext_scheme \<Rightarrow> ('s, unit) m" where
  "start_actor X = bindE (gets (x_acl_hooks X)) (\<lambda>h. case h of
       Inl why \<Rightarrow> throw (InvalidInput ''acting for sessions cannot observe duckdb-acl's sessions'' [why])
     | Inr _ \<Rightarrow> ret ())"

definition same_acting :: "actor_options \<Rightarrow> actor_options \<Rightarrow> bool" where
  "same_acting a b \<longleftrightarrow> ao_on_behalf_of a = ao_on_behalf_of b \<and> ao_scope a = ao_scope b \<and>
     ao_audience a = ao_audience b \<and> ao_grant_wait_seconds a = ao_grant_wait_seconds b"

definition detached_error :: "actor_options \<Rightarrow> error" where
  "detached_error options = InvalidInput ''is detached'' [ao_service options]"

definition other_options_error :: "actor_options \<Rightarrow> error" where
  "other_options_error options = InvalidInput ''already acts for duckdb-acl sessions, with other options'' [ao_service options]"

text \<open>\<open>aid\<close>: the identity of the actor that is made.\<close>

definition act_for_sessions :: "('w, ('w, 'y) cat_sys_scheme, 'x) cext_scheme \<Rightarrow> nat \<Rightarrow> actor_options \<Rightarrow>
    (('w, 'y) cat_sys_scheme, bool) m" where
  "act_for_sessions X aid options =
     bindE (gets y_cat) (\<lambda>k.
       if kt_shut k then throw (detached_error options)
       else case kt_actor k of
         Some acting \<Rightarrow> bindE (get_actor acting ac_options) (\<lambda>held.
           if same_acting held options then ret False else throw (other_options_error options))
       | None \<Rightarrow>
           seqE (check_hooks X)
           (seqE (with_actor aid (\<lambda>_. ((), (new_actor (kt_session k) options)\<lparr>ac_gone := True\<rparr>)))
           (seqE (start_actor X)
           (seqE (on_sto (set_actor (kt_session k) (Some aid)))
           (seqE (on_cat (\<lambda>k. k\<lparr>kt_actor := Some aid\<rparr>)) (ret True))))))"

record act_data =
  ad_on_behalf_of :: bool
  ad_scope :: string
  ad_audience :: string
  ad_grant_wait_seconds :: int

definition no_act_data :: act_data where
  "no_act_data = \<lparr>ad_on_behalf_of = False, ad_scope = [], ad_audience = [],
     ad_grant_wait_seconds = DEFAULT_GRANT_WAIT_SECONDS\<rparr>"

definition act_option :: "('w, 's, 'x) lext_scheme \<Rightarrow> string \<times> dvalue \<Rightarrow> act_data \<Rightarrow> error + act_data" where
  "act_option X = (\<lambda>(named, v) d. let name = lb_lower X named in
     if is_null v then Inl (InvalidInput ''act_for_sessions: must not be NULL'' [name])
     else if name = ''exchange'' then rbind (parse_exchange X (x_text X v)) (\<lambda>b. Inr (d\<lparr>ad_on_behalf_of := b\<rparr>))
     else if name = ''exchange_scope'' then Inr (d\<lparr>ad_scope := x_text X v\<rparr>)
     else if name = ''exchange_audience'' then Inr (d\<lparr>ad_audience := x_text X v\<rparr>)
     else if name = ''session_grant_wait''
     then rbind (x_as_bigint X v) (\<lambda>n. rbind (parse_grant_wait n) (\<lambda>n. Inr (d\<lparr>ad_grant_wait_seconds := n\<rparr>)))
     else Inr d)"

fun act_bind :: "('w, 's, 'x) lext_scheme \<Rightarrow> (string \<times> dvalue) list \<Rightarrow> act_data \<Rightarrow> error + act_data" where
  "act_bind X [] d = Inr d"
| "act_bind X (p # ps) d = rbind (act_option X p d) (act_bind X ps)"

text \<open>Whether a statement is the node's own: acl's contract is reached, and it names no session.\<close>

definition own_statement :: "'s statement \<Rightarrow> bool" where
  "own_statement S \<longleftrightarrow> sm_acl S = Some (Inr None)"

definition attempt_of :: "'s statement \<Rightarrow> audit_event \<Rightarrow> audit_event" where
  "attempt_of S e = (case sm_acl S of
       Some (Inr (Some v)) \<Rightarrow> e\<lparr>ev_acl_session := (if av_session_id v = [] then ''?'' else av_session_id v),
         ev_user := (if av_issuer v = [] then av_subject v else ''subject:'' @ av_issuer v @ ''|'' @ av_subject v),
         ev_correlation_id := av_correlation_id v\<rparr>
     | _ \<Rightarrow> e\<lparr>ev_acl_session := ''?''\<rparr>)"

definition act_event :: "string \<Rightarrow> nat \<Rightarrow> (('w, 'y) act_sys_scheme, audited) m" where
  "act_event service sid = gets (\<lambda>s. audited_detail ''act_for_sessions''
     (audited_for (y_ses s) (node_of sid) service (audited_new (y_audit s) ''login'')))"

definition act_scan :: "('w, ('w, 'y) cat_sys_scheme, 'x) cext_scheme \<Rightarrow> ('w, 'y) cat_sys_scheme statement \<Rightarrow> nat \<Rightarrow>
    act_data \<Rightarrow> (('w, 'y) cat_sys_scheme, actor_options \<times> bool) m" where
  "act_scan X S aid d =
     bindE (gets y_cat) (\<lambda>k.
     bindE (act_event (kt_name k) (kt_session k)) (\<lambda>a.
       if \<not> own_statement S then
         told_throw (audit_denied ''other'' ''under a duckdb-acl session'') (on_event (attempt_of S) a)
           (Permission ''act_for_sessions: not under a duckdb-acl session'' [])
       else bindE (catchE
           (bindE (acting_options X (kt_session k) (ad_on_behalf_of d) (ad_scope d) (ad_audience d)
                     (ad_grant_wait_seconds d) (kt_name k)) (\<lambda>options.
            bindE (act_for_sessions X aid options) (\<lambda>changed. ret (options, changed))))
           (\<lambda>e. told_throw (audit_failed e) a e)) (\<lambda>(options, changed).
         seqE (on_audit (if changed then audit_ok else audit_none) a) (ret (options, changed)))))"

section \<open>The catalog's life\<close>

definition new_catalog :: "string \<Rightarrow> nat \<Rightarrow> descriptor list \<Rightarrow> actor_options option \<Rightarrow> catalog" where
  "new_catalog name sid initial acting = \<lparr>kt_name = name, kt_session = sid, kt_initial = initial, kt_acting = acting,
     kt_actor = None, kt_shut = False\<rparr>"

text \<open>The secrets join the lookup with the catalog that serves them.\<close>

definition initialize :: "('w, ('w, 'y) cat_sys_scheme, 'x) cext_scheme \<Rightarrow> nat \<Rightarrow> (('w, 'y) cat_sys_scheme, unit) m" where
  "initialize X aid =
     bindE (gets y_cat) (\<lambda>k.
     bindE (get_now X) (\<lambda>now.
     seqE (on_sto (activate (kt_session k) (kt_initial k) None now))
     (seqE (on_cat (\<lambda>k. k\<lparr>kt_initial := []\<rparr>))
     (case kt_acting k of None \<Rightarrow> ret () | Some options \<Rightarrow> seqE (act_for_sessions X aid options) (ret ())))))"

definition shutdown_leave :: "nat \<Rightarrow> (('w, 'y) sto_sys_scheme, unit) m" where
  "shutdown_leave sid = seqE (set_ses sid (\<lambda>se. se\<lparr>s_closing := True\<rparr>)) (on_sto (deactivate sid))"

definition shutdown_mark :: "(('w, 'y) cat_sys_scheme, nat option \<times> bool) m" where
  "shutdown_mark = (\<lambda>s. (Inr (kt_actor (y_cat s), \<not> kt_shut (y_cat s)), s\<lparr>y_cat := (y_cat s)\<lparr>kt_shut := True\<rparr>\<rparr>))"

definition shutdown_stop :: "('w, 's, 'x) ext_scheme \<Rightarrow> nat option \<Rightarrow> (('w, 'y) act_sys_scheme, unit) m" where
  "shutdown_stop X stopping = (case stopping of
       None \<Rightarrow> ret ()
     | Some aid \<Rightarrow> bindE (on_instance (x_steady X)) (\<lambda>steady. with_actor aid (\<lambda>a. ((), stop_actor steady a))))"

text \<open>The workers run until no job is left, and are joined.\<close>

fun join_workers :: "('w, ('w, 'y) act_sys_scheme, 'x) ext_scheme \<Rightarrow> (('w, 'y) act_sys_scheme, 'h) hooks_scheme \<Rightarrow> nat \<Rightarrow>
    (('w, 'y) act_sys_scheme \<Rightarrow> ('w, 'y) act_sys_scheme) list \<Rightarrow> (('w, 'y) act_sys_scheme, unit) m" where
  "join_workers X H aid slices =
     bindE (get_actor aid ac_jobs) (\<lambda>jobs.
       if jobs = [] then ret ()
       else case slices of
         [] \<Rightarrow> throw (InternalErr ''still waiting'' [])
       | other # later \<Rightarrow> seqE (modifyS other) (seqE (work X H aid) (join_workers X H aid later)))"

declare join_workers.simps [simp del]

definition shutdown_close :: "nat \<Rightarrow> bool \<Rightarrow> (('w, 'y) sto_sys_scheme, unit) m" where
  "shutdown_close sid first =
     seqE (set_ses sid close_session)
     (if first then bindE (start_audit ''logout'' (node_of sid)) (\<lambda>a. on_audit audit_ok a) else ret ())"

definition shutdown :: "('w, ('w, 'y) cat_sys_scheme, 'x) ext_scheme \<Rightarrow> (('w, 'y) cat_sys_scheme, 'h) hooks_scheme \<Rightarrow>
    (('w, 'y) cat_sys_scheme \<Rightarrow> ('w, 'y) cat_sys_scheme) list \<Rightarrow> (('w, 'y) cat_sys_scheme, unit) m" where
  "shutdown X H slices =
     bindE (gets (\<lambda>s. kt_session (y_cat s))) (\<lambda>sid.
     seqE (shutdown_leave sid)
     (bindE shutdown_mark (\<lambda>(stopping, first).
      seqE (shutdown_stop X stopping)
      (seqE (case stopping of None \<Rightarrow> ret () | Some aid \<Rightarrow> join_workers X H aid slices)
        (shutdown_close sid first)))))"

section \<open>ATTACH\<close>

definition register_storage :: "'z lib_scheme \<Rightarrow> (string \<Rightarrow> int \<Rightarrow> loaded) \<Rightarrow> string \<Rightarrow> (('w, 'y) cat_sys_scheme, unit) m" where
  "register_storage L loads name = (\<lambda>s. case storage_for L loads name (y_registry s) of
       (Inl e, r) \<Rightarrow> (Inl e, s\<lparr>y_registry := r\<rparr>) | (Inr _, r) \<Rightarrow> (Inr (), s\<lparr>y_registry := r\<rparr>))"

definition attach_acting :: "('w, ('w, 'y) sys_scheme, 'x) lext_scheme \<Rightarrow> nat \<Rightarrow> string \<Rightarrow> attach_request \<Rightarrow>
    (('w, 'y) sys_scheme, actor_options option) m" where
  "attach_acting X sid name r =
     (if ar_act_for_sessions r then
        catchE (bindE (acting_options X sid (ar_on_behalf_of r) (ar_exchange_scope r) (ar_exchange_audience r)
                         (ar_grant_wait_seconds r) name) (\<lambda>options. ret (Some options)))
          (\<lambda>e. seqE (set_ses sid close_session) (throw e))
      else ret None)"

definition attach_login :: "('w, ('w, 'y) sto_sys_scheme, 'x) lext_scheme \<Rightarrow> ('w, 'y) sto_sys_scheme statement \<Rightarrow> nat \<Rightarrow>
    string \<Rightarrow> attach_request \<Rightarrow> (('w, 'y) sto_sys_scheme, actor_options option \<times> descriptor list) m" where
  "attach_login X S sid name r =
     seqE (login X S sid r)
     (bindE (attach_acting X sid name r) (\<lambda>acting.
      bindE (fetch_descriptors X no_hooks (\<lambda>_. False) (node_of sid)) (\<lambda>initial. ret (acting, initial))))"

definition tresor_attach :: "('w, ('w, 'y) cat_sys_scheme, 'x) cext_scheme \<Rightarrow> ('w, 'y) cat_sys_scheme statement \<Rightarrow>
    (string \<Rightarrow> int \<Rightarrow> loaded) \<Rightarrow> nat \<Rightarrow> string \<Rightarrow> string \<Rightarrow> (string \<times> dvalue) list \<Rightarrow> (('w, 'y) cat_sys_scheme, unit) m" where
  "tresor_attach X S loads sid name path options =
     bindE (throw_or (parse_attach X path options)) (\<lambda>r.
     bindE (gets (x_taken X name)) (\<lambda>taken.
     seqE (guardE (\<not> taken) (BinderErr ''already exists'' [name]))
     (seqE (register_storage X loads name)
     (seqE (if ar_act_for_sessions r then check_hooks X else ret ())
     (bindE (gets (\<lambda>s. on_event (\<lambda>e. e\<lparr>ev_service := name, ev_host := ar_host r\<rparr>) (audited_new (y_audit s) ''login'')))
        (\<lambda>a.
      bindE (catchE (attach_login X S sid name r) (\<lambda>e. told_throw (audit_failed e) a e)) (\<lambda>(acting, initial).
      bindE (gets (\<lambda>s. let a = audited_for (y_ses s) (node_of sid) name a
                       in if s_flow (y_ses s sid) = F_REMEMBERED then audited_detail ''remembered'' a else a)) (\<lambda>a.
      seqE (on_audit audit_ok a)
      (seqE (set_ses sid (\<lambda>se. se\<lparr>s_catalog_name := name\<rparr>))
        (on_cat (\<lambda>_. new_catalog name sid initial acting)))))))))))"

text \<open>
  The ATTACH as DuckDB completes it: the catalog is initialized; when that throws, the catalog goes, and its
  destructor shuts it down.
\<close>

definition complete_attach :: "('w, ('w, 'y) cat_sys_scheme, 'x) cext_scheme \<Rightarrow> (('w, 'y) cat_sys_scheme, 'h) hooks_scheme \<Rightarrow>
    (('w, 'y) cat_sys_scheme \<Rightarrow> ('w, 'y) cat_sys_scheme) list \<Rightarrow> nat \<Rightarrow> (('w, 'y) cat_sys_scheme, unit) m" where
  "complete_attach X H slices aid = catchE (initialize X aid) (\<lambda>e. seqE (shutdown X H slices) (throw e))"

definition attach_database :: "('w, ('w, 'y) cat_sys_scheme, 'x) cext_scheme \<Rightarrow> (('w, 'y) cat_sys_scheme, 'h) hooks_scheme \<Rightarrow>
    ('w, 'y) cat_sys_scheme statement \<Rightarrow> (string \<Rightarrow> int \<Rightarrow> loaded) \<Rightarrow> nat \<Rightarrow> nat \<Rightarrow> string \<Rightarrow> string \<Rightarrow>
    (string \<times> dvalue) list \<Rightarrow> (('w, 'y) cat_sys_scheme, unit) m" where
  "attach_database X H S loads sid aid name path options =
     seqE (tresor_attach X S loads sid name path options) (complete_attach X H (sm_slices S) aid)"

end
