(* ===== verification/Tresor_Catalog_Laws.thy ===== *)
theory Tresor_Catalog_Laws
  imports Tresor_Catalog Tresor_Lookup_Laws
begin

text \<open>
  What the life of a catalog guarantees: an ATTACH completes or leaves nothing behind, and a DETACH is final
  however \<^verbatim>\<open>act_for_sessions\<close> and other threads interleave with it. The interleavings are the runs of \<open>catalog_step\<close>.
\<close>

section \<open>The parts on the state\<close>

lemma wp_on_cat [wp_simps]: "wp (on_cat f) Q E s = Q () (s\<lparr>y_cat := f (y_cat s)\<rparr>)"
  by (simp add: on_cat_def wp_simps)

lemma wp_shutdown_mark [wp_simps]:
  "wp shutdown_mark Q E s = Q (kt_actor (y_cat s), \<not> kt_shut (y_cat s)) (s\<lparr>y_cat := (y_cat s)\<lparr>kt_shut := True\<rparr>\<rparr>)"
  by (simp add: shutdown_mark_def wp_def)

lemma wp_with_actor [wp_simps]: "wp (with_actor aid f) Q E s =
    Q (fst (f (y_actor s aid))) (s\<lparr>y_actor := (y_actor s)(aid := snd (f (y_actor s aid)))\<rparr>)"
  by (simp add: with_actor_def wp_def split: prod.splits)

lemma deactivate_session: "st_session (deactivate sid st) \<noteq> Some sid"
  by (simp add: deactivate_def)

lemma stop_actor_stopping: "ac_stopping (stop_actor steady a)"
  by (simp add: stop_actor_def)

lemma act_shut: "kt_shut (y_cat s) \<Longrightarrow> act_for_sessions X aid options s = (Inl (detached_error options), s)"
  by (simp add: act_for_sessions_def monad_defs)

lemma act_again:
  "\<not> kt_shut (y_cat s) \<Longrightarrow> kt_actor (y_cat s) = Some acting \<Longrightarrow> act_for_sessions X aid options s =
     (if same_acting (ac_options (y_actor s acting)) options then Inr False else Inl (other_options_error options), s)"
  by (simp add: act_for_sessions_def get_actor_def monad_defs)

text \<open>The first time: a new actor of the session, told to the storage only while that serves the session.\<close>

lemma act_first:
  assumes "\<not> kt_shut (y_cat s)" and "kt_actor (y_cat s) = None"
  shows "wp (act_for_sessions X aid options)
    (\<lambda>changed t. changed \<and> x_acl_hooks X s = Inr True \<and>
       t = s\<lparr>y_actor := (y_actor s)(aid := (new_actor (kt_session (y_cat s)) options)\<lparr>ac_gone := True\<rparr>),
             y_sto := set_actor (kt_session (y_cat s)) (Some aid) (y_sto s), y_cat := (y_cat s)\<lparr>kt_actor := Some aid\<rparr>\<rparr>)
    (\<lambda>e t. y_cat t = y_cat s \<and> y_sto t = y_sto s \<and> y_ses t = y_ses s \<and> y_inst t = y_inst s \<and> y_audit t = y_audit s) s"
  using assms by (auto simp: act_for_sessions_def check_hooks_def start_actor_def wp_simps split: sum.splits)

lemma set_actor_session [simp]: "st_session (set_actor which aid st) = st_session st"
  by (simp add: set_actor_def)

section \<open>An ATTACH completes or leaves nothing\<close>

lemma shutdown_no_actor:
  assumes "kt_actor (y_cat s) = None" and "kt_session (y_cat s) = sid"
  shows "wp (shutdown X H slices) (\<lambda>_ t. st_session (y_sto t) \<noteq> Some sid \<and> s_closed (y_ses t sid) \<and>
      s_tokens (y_ses t sid) = no_tokens \<and> kt_shut (y_cat t)) (\<lambda>_ _. False) s"
  using assms by (simp add: shutdown_def shutdown_leave_def shutdown_stop_def shutdown_close_def wp_simps
      deactivate_session close_session_def start_audit_def)

lemma activate_session: "st_session (activate sid initial aid now st) = Some sid"
  by (simp add: activate_def add_view_def)

lemma activate_actor: "st_actor (activate sid initial aid now st) = aid"
  by (simp add: activate_def add_view_def)

lemma activate_lists: "\<exists>v. st_node (activate sid initial aid now st) = Some v \<and>
    v_descriptors (view_at v (activate sid initial aid now st)) = initial \<and> v_listed (view_at v (activate sid initial aid now st))"
  by (simp add: activate_def add_view_def view_at_def)

lemma set_actor_views: "st_node (set_actor which aid st) = st_node st \<and> view_at v (set_actor which aid st) = view_at v st"
  by (simp add: set_actor_def view_at_def)

text \<open>What a completed ATTACH has set up.\<close>

definition serving :: "nat \<Rightarrow> nat \<Rightarrow> catalog \<Rightarrow> ('w, 'y) sto_sys_scheme \<Rightarrow> bool" where
  "serving sid aid k t \<longleftrightarrow> st_session (y_sto t) = Some sid \<and>
     (\<exists>v. st_node (y_sto t) = Some v \<and> v_descriptors (view_at v (y_sto t)) = kt_initial k \<and> v_listed (view_at v (y_sto t))) \<and>
     (case kt_acting k of
        None \<Rightarrow> st_actor (y_sto t) = None
      | Some options \<Rightarrow> st_actor (y_sto t) = Some aid \<and> ac_options (y_actor t aid) = options \<and>
          ac_session (y_actor t aid) = sid \<and> \<not> ac_stopping (y_actor t aid))"

definition left_nothing :: "nat \<Rightarrow> ('w, 'y) cat_sys_scheme \<Rightarrow> bool" where
  "left_nothing sid t \<longleftrightarrow> st_session (y_sto t) \<noteq> Some sid \<and> s_closed (y_ses t sid) \<and>
     s_tokens (y_ses t sid) = no_tokens \<and> kt_shut (y_cat t)"

lemma initialize_serves:
  assumes "kt_actor (y_cat s) = None" and "\<not> kt_shut (y_cat s)"
  shows "wp (initialize X aid) (\<lambda>_ t. serving (kt_session (y_cat s)) aid (y_cat s) t)
    (\<lambda>e t. kt_acting (y_cat s) \<noteq> None \<and> kt_actor (y_cat t) = None \<and> kt_session (y_cat t) = kt_session (y_cat s)) s"
proof (cases "kt_acting (y_cat s)")
  case None
  then show ?thesis
    by (simp add: initialize_def wp_simps serving_def activate_session activate_actor activate_lists)
next
  case (Some options)
  have act: "wp (act_for_sessions X aid options) (\<lambda>_ t. serving (kt_session (y_cat s)) aid (y_cat s) t)
      (\<lambda>e t. kt_actor (y_cat t) = None \<and> kt_session (y_cat t) = kt_session (y_cat s)) u"
    if u: "u = s\<lparr>y_inst := i, y_sto := activate (kt_session (y_cat s)) (kt_initial (y_cat s)) None now (y_sto s),
             y_cat := (y_cat s)\<lparr>kt_initial := []\<rparr>\<rparr>" for u i now
  proof (rule wp_mono [OF act_first])
    show "\<not> kt_shut (y_cat u)" and "kt_actor (y_cat u) = None" using u assms by simp_all
  next
    fix changed :: bool and t
    assume "changed \<and> x_acl_hooks X u = Inr True \<and>
       t = u\<lparr>y_actor := (y_actor u)(aid := (new_actor (kt_session (y_cat u)) options)\<lparr>ac_gone := True\<rparr>),
             y_sto := set_actor (kt_session (y_cat u)) (Some aid) (y_sto u), y_cat := (y_cat u)\<lparr>kt_actor := Some aid\<rparr>\<rparr>"
    then show "serving (kt_session (y_cat s)) aid (y_cat s) t" using u Some
      by (simp add: serving_def activate_session activate_lists set_actor_views new_actor_def)
        (simp add: set_actor_def activate_session)
  next
    fix e t
    assume "y_cat t = y_cat u \<and> y_sto t = y_sto u \<and> y_ses t = y_ses u \<and> y_inst t = y_inst u \<and> y_audit t = y_audit u"
    then show "kt_actor (y_cat t) = None \<and> kt_session (y_cat t) = kt_session (y_cat s)" using u assms by simp
  qed
  show ?thesis
    by (simp add: initialize_def wp_simps Some) (rule wp_mono [OF act [OF refl]]; simp add: wp_ret)
qed

text \<open>
  C17: an ATTACH completes or leaves nothing behind. Once the login is proven and the list fetched, a catalog
  that initializes serves its session: the storage takes part in lookups with exactly the list the ATTACH
  fetched, and acts for sessions exactly when the ATTACH asked for it, with the options checked at the login.
  One that does not - duckdb-acl does not publish its sessions - is shut down: the session is closed, holds no
  token, and the storage does not serve it.
\<close>

theorem attach_completes_or_leaves_nothing:
  fixes s :: "('w, 'y) cat_sys_scheme"
  assumes "kt_actor (y_cat s) = None" and "\<not> kt_shut (y_cat s)"
  shows "case complete_attach X H slices aid s of
      (Inr _, t) \<Rightarrow> serving (kt_session (y_cat s)) aid (y_cat s) t
    | (Inl _, t) \<Rightarrow> kt_acting (y_cat s) \<noteq> None \<and> left_nothing (kt_session (y_cat s)) t"
proof -
  have shut: "wp (shutdown X H slices) (\<lambda>_ t. left_nothing (kt_session (y_cat s)) t) (\<lambda>_ _. False) t"
    if "kt_actor (y_cat t) = None \<and> kt_session (y_cat t) = kt_session (y_cat s)" for t :: "('w, 'y) cat_sys_scheme"
    unfolding left_nothing_def using shutdown_no_actor [of t "kt_session (y_cat s)"] that by blast
  have "wp (complete_attach X H slices aid) (\<lambda>_. serving (kt_session (y_cat s)) aid (y_cat s))
      (\<lambda>_ t. kt_acting (y_cat s) \<noteq> None \<and> left_nothing (kt_session (y_cat s)) t) s"
    unfolding complete_attach_def wp_catchE wp_seqE
  proof (rule wp_mono [OF initialize_serves [OF assms]])
    fix e and t :: "('w, 'y) cat_sys_scheme"
    assume a: "kt_acting (y_cat s) \<noteq> None \<and> kt_actor (y_cat t) = None \<and> kt_session (y_cat t) = kt_session (y_cat s)"
    show "wp (shutdown X H slices) (\<lambda>_. wp (throw e) (\<lambda>_. serving (kt_session (y_cat s)) aid (y_cat s))
        (\<lambda>_ t. kt_acting (y_cat s) \<noteq> None \<and> left_nothing (kt_session (y_cat s)) t))
        (\<lambda>_ t. kt_acting (y_cat s) \<noteq> None \<and> left_nothing (kt_session (y_cat s)) t) t"
      by (rule wp_mono [OF shut]) (use a in \<open>simp_all add: wp_throw\<close>)
  qed
  then show ?thesis by (auto simp: wp_def split: prod.splits sum.splits)
qed

section \<open>A DETACH is final\<close>

text \<open>Where the shutdown of a catalog stands.\<close>

datatype phase = Serving | Leaving | Marked "nat option" bool | Stopped bool | Gone

text \<open>
  What every other thread respects: a catalog's fields are its own, only \<^verbatim>\<open>Initialize\<close> makes a storage serve a
  session, a stopping actor stays stopping, a closed session stays closed and gets no token.
\<close>

definition others_keep :: "nat \<Rightarrow> ('w, 'y) cat_sys_scheme \<Rightarrow> ('w, 'y) cat_sys_scheme \<Rightarrow> bool" where
  "others_keep sid s t \<longleftrightarrow> y_cat t = y_cat s \<and> (st_session (y_sto t) = Some sid \<longrightarrow> st_session (y_sto s) = Some sid) \<and>
     (\<forall>a. ac_stopping (y_actor s a) \<longrightarrow> ac_stopping (y_actor t a)) \<and>
     (s_closed (y_ses s sid) \<and> s_tokens (y_ses s sid) = no_tokens \<longrightarrow>
        s_closed (y_ses t sid) \<and> s_tokens (y_ses t sid) = no_tokens)"

inductive catalog_step :: "('w, ('w, 'y) cat_sys_scheme, 'x) cext_scheme \<Rightarrow> nat \<Rightarrow>
    phase \<times> ('w, 'y) cat_sys_scheme \<Rightarrow> phase \<times> ('w, 'y) cat_sys_scheme \<Rightarrow> bool" for X sid where
  step_act: "act_for_sessions X aid options s = (r, t) \<Longrightarrow> catalog_step X sid (p, s) (p, t)"
| step_leave: "shutdown_leave sid s = (r, t) \<Longrightarrow> catalog_step X sid (Serving, s) (Leaving, t)"
| step_mark: "shutdown_mark s = (Inr (stopping, first), t) \<Longrightarrow> catalog_step X sid (Leaving, s) (Marked stopping first, t)"
| step_stop: "shutdown_stop X stopping s = (r, t) \<Longrightarrow> catalog_step X sid (Marked stopping first, s) (Stopped first, t)"
| step_close: "shutdown_close sid first s = (r, t) \<Longrightarrow> catalog_step X sid (Stopped first, s) (Gone, t)"
| step_other: "others_keep sid s t \<Longrightarrow> catalog_step X sid (p, s) (p, t)"

inductive_simps catalog_step_iff: "catalog_step X sid (p, s) (q, t)"

definition ended :: "('w, 'y) cat_sys_scheme \<Rightarrow> bool" where
  "ended s \<longleftrightarrow> kt_shut (y_cat s) \<and> (\<forall>a. kt_actor (y_cat s) = Some a \<longrightarrow> ac_stopping (y_actor s a))"

definition phase_inv :: "nat \<Rightarrow> phase \<times> ('w, 'y) cat_sys_scheme \<Rightarrow> bool" where
  "phase_inv sid = (\<lambda>(p, s). kt_session (y_cat s) = sid \<and> (p \<noteq> Serving \<longrightarrow> st_session (y_sto s) \<noteq> Some sid) \<and>
     (case p of Serving \<Rightarrow> \<not> kt_shut (y_cat s) | Leaving \<Rightarrow> \<not> kt_shut (y_cat s)
      | Marked stopping first \<Rightarrow> kt_shut (y_cat s) \<and> stopping = kt_actor (y_cat s)
      | Stopped first \<Rightarrow> ended s
      | Gone \<Rightarrow> ended s \<and> s_closed (y_ses s sid) \<and> s_tokens (y_ses s sid) = no_tokens))"

lemma act_keeps_phase:
  assumes inv: "phase_inv sid (p, s)" and act: "act_for_sessions X aid options s = (r, t)"
  shows "phase_inv sid (p, t)"
proof (cases "kt_shut (y_cat s) \<or> kt_actor (y_cat s) \<noteq> None")
  case True
  then have "t = s" using act act_shut [of s X aid options] act_again [of s _ X aid options] by (auto split: if_splits)
  then show ?thesis using inv by simp
next
  case False
  then have "p = Serving \<or> p = Leaving" using inv by (auto simp: phase_inv_def ended_def split: phase.splits)
  then show ?thesis using inv False act act_first [of s X aid options]
    by (cases r) (auto simp: phase_inv_def wp_def)
qed

lemma others_keep_phase: "phase_inv sid (p, s) \<Longrightarrow> others_keep sid s t \<Longrightarrow> phase_inv sid (p, t)"
  by (cases p) (auto simp: phase_inv_def others_keep_def ended_def)

lemma shutdown_keeps_phase:
  assumes "phase_inv sid (p, s)"
  shows "p = Serving \<Longrightarrow> shutdown_leave sid s = (r, t) \<Longrightarrow> phase_inv sid (Leaving, t)"
    and "p = Leaving \<Longrightarrow> shutdown_mark s = (Inr (stopping, first), t) \<Longrightarrow> phase_inv sid (Marked stopping first, t)"
    and "p = Marked stopping first \<Longrightarrow> shutdown_stop X stopping s = (r', t) \<Longrightarrow> phase_inv sid (Stopped first, t)"
    and "p = Stopped first \<Longrightarrow> shutdown_close sid first s = (r, t) \<Longrightarrow> phase_inv sid (Gone, t)"
  using assms by (auto simp: phase_inv_def shutdown_leave_def shutdown_mark_def shutdown_stop_def shutdown_close_def
      ended_def set_ses_def locked_def on_sto_def start_audit_def on_audit_def with_actor_def on_instance_def deactivate_session
      stop_actor_stopping close_session_def monad_defs split: option.splits if_splits prod.splits)

interpretation catalog_life: invariant_system
  "\<lambda>(p, s). p = Serving \<and> kt_session (y_cat s) = sid \<and> \<not> kt_shut (y_cat s)" "catalog_step X sid" "phase_inv sid"
  for X :: "('w, ('w, 'y) cat_sys_scheme, 'x) cext_scheme" and sid
proof unfold_locales
  fix a :: "phase \<times> ('w, 'y) cat_sys_scheme"
  assume "case a of (p, s) \<Rightarrow> p = Serving \<and> kt_session (y_cat s) = sid \<and> \<not> kt_shut (y_cat s)"
  then show "phase_inv sid a" by (auto simp: phase_inv_def)
next
  fix a b :: "phase \<times> ('w, 'y) cat_sys_scheme"
  assume "phase_inv sid a" and "catalog_step X sid a b"
  then show "phase_inv sid b"
    by (cases a; cases b)
      (auto simp: catalog_step_iff elim: act_keeps_phase others_keep_phase shutdown_keeps_phase)
qed

text \<open>
  C9: a DETACH is final. However calls of \<^verbatim>\<open>act_for_sessions\<close> and everything other threads do interleave with
  the shutdown of a catalog, once it is done the storage does not serve the session, the session is closed and
  no token can be had of it, the actor - also one started beside the DETACH - is stopping, and
  \<^verbatim>\<open>act_for_sessions\<close> is refused and changes nothing; and all of this stays so.
\<close>

theorem detach_is_final:
  assumes "(catalog_step X sid)\<^sup>*\<^sup>* (Serving, s) (Gone, t)" and "kt_session (y_cat s) = sid" and "\<not> kt_shut (y_cat s)"
    and "(catalog_step X sid)\<^sup>*\<^sup>* (Gone, t) (Gone, u)"
  shows "st_session (y_sto u) \<noteq> Some sid \<and> s_tokens (y_ses u sid) = no_tokens \<and>
    (\<forall>a. kt_actor (y_cat u) = Some a \<longrightarrow> ac_stopping (y_actor u a)) \<and>
    act_for_sessions X aid options u = (Inl (detached_error options), u) \<and>
    fst (access_token_op Y force (y_ses u sid, y_inst u)) =
      Inl (InvalidInput ''the session is closed'' [si_host (s_info (y_ses u sid))])"
proof -
  have "phase_inv sid (Gone, u)"
    by (rule catalog_life.reach_inv [OF _ rtranclp_trans [OF assms(1,4)]]) (use assms(2,3) in simp)
  then have u: "st_session (y_sto u) \<noteq> Some sid" "ended u" "s_closed (y_ses u sid)" "s_tokens (y_ses u sid) = no_tokens"
    by (auto simp: phase_inv_def)
  then show ?thesis using act_shut [of u X aid options] by (simp add: ended_def access_token_op_def Let_def)
qed

section \<open>A sample catalog\<close>

definition sample_cext :: "bool \<Rightarrow> (unit, unit cat_sys) cext" where
  "sample_cext published = lext.extend (sample_lext (\<lambda>_ s. (\<lparr>hr_error = [], hr_status = 200, hr_body = ''me''\<rparr>, s)) (\<lambda>_. None) [])
     \<lparr>x_acl_hooks = (\<lambda>_. Inr published), x_taken = (\<lambda>_ _. False), x_catalogs = (\<lambda>_. []),
      x_detach = (\<lambda>_ s. (True, s)), x_unredacted = (\<lambda>_. True)\<rparr>"

lemma sample_cext_hooks [simp]: "x_acl_hooks (sample_cext published) = (\<lambda>_. Inr published)"
  by (simp add: sample_cext_def lext.defs)

definition sample_acting :: actor_options where
  "sample_acting = \<lparr>ao_on_behalf_of = False, ao_scope = [], ao_audience = ''aud'', ao_grant_wait_seconds = 10,
     ao_service = ''corp''\<rparr>"

definition sample_cat :: "unit cat_sys" where
  "sample_cat = \<lparr>y_ses = y_ses login_sys, y_inst = y_inst login_sys,
     y_audit = sample_audit, y_actor = (\<lambda>_. new_actor 0 sample_acting),
     y_sto = activate 0 [] None 1000 \<lparr>st_name = ''corp'', st_offset = 40, st_refusals = [], st_session = None,
       st_actor = None, st_node = None, st_acl_views = [], st_views = (\<lambda>_. new_view), st_next = 0, st_generation = 0,
       st_epoch = 0\<rparr>,
     y_cat = new_catalog ''corp'' 0 [] (Some sample_acting), y_registry = new_registry\<rparr>"

lemma sample_cat_fields: "kt_actor (y_cat sample_cat) = None" "\<not> kt_shut (y_cat sample_cat)" "kt_session (y_cat sample_cat) = 0"
    "kt_acting (y_cat sample_cat) = Some sample_acting"
  by (simp_all add: sample_cat_def new_catalog_def)

lemma sample_unpublished: "\<exists>e t. complete_attach (sample_cext False) no_hooks [] 7 sample_cat = (Inl e, t)"
  by (simp add: complete_attach_def initialize_def act_for_sessions_def check_hooks_def get_now_def on_instance_def on_sto_def
      on_cat_def monad_defs sample_cat_fields split: prod.splits sum.splits)

theorem attach_completes_or_leaves_nothing_witness:
  "left_nothing 0 (snd (complete_attach (sample_cext False) no_hooks [] 7 sample_cat))"
  using attach_completes_or_leaves_nothing [where s = sample_cat and X = "sample_cext False" and H = no_hooks
    and slices = "[]" and aid = 7] sample_unpublished
  by (auto simp: sample_cat_fields)

text \<open>An \<^verbatim>\<open>act_for_sessions\<close> between the parts of a DETACH.\<close>

definition left_cat :: "unit cat_sys" where
  "left_cat = snd (shutdown_leave 0 sample_cat)"

definition acted_cat :: "unit cat_sys" where
  "acted_cat = snd (act_for_sessions (sample_cext True) 7 sample_acting left_cat)"

definition marked_cat :: "unit cat_sys" where
  "marked_cat = snd (shutdown_mark acted_cat)"

definition stopped_cat :: "unit cat_sys" where
  "stopped_cat = snd (shutdown_stop (sample_cext True) (Some 7) marked_cat)"

definition gone_cat :: "unit cat_sys" where
  "gone_cat = snd (shutdown_close 0 True stopped_cat)"

lemma left_cat_fields: "kt_actor (y_cat left_cat) = None" "\<not> kt_shut (y_cat left_cat)" "kt_session (y_cat left_cat) = 0"
  by (simp_all add: left_cat_def shutdown_leave_def set_ses_def locked_def on_sto_def monad_defs sample_cat_fields)

lemma acted_cat_fields: "kt_actor (y_cat acted_cat) = Some 7" "\<not> kt_shut (y_cat acted_cat)"
  using left_cat_fields by (simp_all add: acted_cat_def act_for_sessions_def check_hooks_def start_actor_def with_actor_def
      on_cat_def on_sto_def monad_defs)

lemma gone_run: "(catalog_step (sample_cext True) 0)\<^sup>*\<^sup>* (Serving, sample_cat) (Gone, gone_cat)"
proof -
  let ?step = "catalog_step (sample_cext True) 0"
  have "?step (Serving, sample_cat) (Leaving, left_cat)"
    unfolding left_cat_def by (rule step_leave, rule surjective_pairing)
  moreover have "?step (Leaving, left_cat) (Leaving, acted_cat)"
    unfolding acted_cat_def by (rule step_act, rule surjective_pairing)
  moreover have "?step (Leaving, acted_cat) (Marked (Some 7) True, marked_cat)"
    by (rule step_mark) (simp add: marked_cat_def shutdown_mark_def acted_cat_fields)
  moreover have "?step (Marked (Some 7) True, marked_cat) (Stopped True, stopped_cat)"
    unfolding stopped_cat_def by (rule step_stop, rule surjective_pairing)
  moreover have "?step (Stopped True, stopped_cat) (Gone, gone_cat)"
    unfolding gone_cat_def by (rule step_close, rule surjective_pairing)
  ultimately show ?thesis by (meson rtranclp.rtrancl_refl rtranclp.rtrancl_into_rtrancl)
qed

theorem detach_is_final_witness:
  "st_session (y_sto gone_cat) \<noteq> Some 0 \<and> s_tokens (y_ses gone_cat 0) = no_tokens \<and>
   act_for_sessions (sample_cext True) 8 sample_acting gone_cat = (Inl (detached_error sample_acting), gone_cat)"
  using detach_is_final [OF gone_run _ _ rtranclp.rtrancl_refl, where aid = 8 and options = sample_acting and Y = quiet_ext
      and force = False]
  by (simp add: sample_cat_fields)

end
