(* ===== verification/Tresor_Logoff.thy ===== *)
theory Tresor_Logoff
  imports Tresor_Catalog_Laws
begin

text \<open>
  \<^verbatim>\<open>tresor_logoff\<close> (\<^verbatim>\<open>tresor_logoff.cpp\<close>): the logins a statement names, each ended in every catalog that runs on
  it, removed from the store and revoked at the identity provider, then the pages' logins, then the detaching.
  \<open>H\<close> gives each session the callbacks of its catalog.
\<close>

section \<open>Binding\<close>

record logoff_data =
  lo_catalog :: string
  lo_key :: login_key
  lo_detach :: bool

definition no_key :: login_key where
  "no_key = \<lparr>lk_issuer = [], lk_client_id = [], lk_service = []\<rparr>"

definition logoff_option :: "('w, 's, 'x) lext_scheme \<Rightarrow> string \<times> dvalue \<Rightarrow> logoff_data \<Rightarrow> error + logoff_data" where
  "logoff_option X = (\<lambda>(given, v) d. let name = lb_lower X given; key = lo_key d in
     if is_null v then Inl (InvalidInput ''tresor_logoff: must not be NULL'' [name])
     else if name = ''detach'' then rbind (x_as_bool X v) (\<lambda>b. Inr (d\<lparr>lo_detach := b\<rparr>))
     else if name = ''issuer'' then Inr (d\<lparr>lo_key := key\<lparr>lk_issuer := strip_slashes (x_text X v)\<rparr>\<rparr>)
     else if name = ''client_id'' then Inr (d\<lparr>lo_key := key\<lparr>lk_client_id := x_text X v\<rparr>\<rparr>)
     else if name = ''service'' then
       let service = x_text X v; service = (if take 7 (lb_lower X service) = ''tresor:'' then drop 7 service else service)
       in Inr (d\<lparr>lo_key := key\<lparr>lk_service := strip_slashes service\<rparr>\<rparr>)
     else Inr d)"

fun logoff_options :: "('w, 's, 'x) lext_scheme \<Rightarrow> (string \<times> dvalue) list \<Rightarrow> logoff_data \<Rightarrow> error + logoff_data" where
  "logoff_options X [] d = Inr d"
| "logoff_options X (p # ps) d = rbind (logoff_option X p d) (logoff_options X ps)"

definition logoff_bind :: "('w, 's, 'x) lext_scheme \<Rightarrow> dvalue list \<Rightarrow> (string \<times> dvalue) list \<Rightarrow> error + logoff_data" where
  "logoff_bind X inputs options =
     rbind (case inputs of [] \<Rightarrow> Inr [] | v # _ \<Rightarrow> if is_null v then Inl (InvalidInput ''tresor_logoff: the catalog must not be NULL'' [])
                                                  else Inr (x_text X v)) (\<lambda>catalog.
     rbind (logoff_options X options \<lparr>lo_catalog = catalog, lo_key = no_key, lo_detach = True\<rparr>) (\<lambda>d.
       let key = lo_key d; given = filter (\<lambda>t. t \<noteq> []) [lk_issuer key, lk_client_id key, lk_service key] in
       if length given \<noteq> 0 \<and> length given \<noteq> 3
       then Inl (InvalidInput ''tresor_logoff: a login is named by its service, issuer and client_id - all three'' [])
       else if lo_catalog d \<noteq> [] \<and> length given \<noteq> 0
       then Inl (InvalidInput ''tresor_logoff: name a catalog, or a service, issuer and client_id - not both'' [])
       else Inr d))"

section \<open>One login forgotten\<close>

definition reachable :: "'z lib_scheme \<Rightarrow> string \<Rightarrow> bool" where
  "reachable L issuer \<longleftrightarrow> take 8 issuer = ''https://'' \<or> (take 7 issuer = ''http://'' \<and> is_loopback_host L (drop 7 issuer))"

definition is_person :: "login_flow \<Rightarrow> bool" where
  "is_person flow \<longleftrightarrow> flow = F_BROWSER \<or> flow = F_DEVICE \<or> flow = F_REMEMBERED"

definition keep_token :: "string \<Rightarrow> string list \<Rightarrow> string list" where
  "keep_token token tokens = (if token = [] \<or> token \<in> set tokens then tokens else tokens @ [token])"

record logoff_row =
  lr_key :: login_key
  lr_removed :: bool
  lr_revoked :: bool
  lr_catalogs :: "string list"
  lr_detached :: int

definition new_row :: "login_key \<Rightarrow> logoff_row" where
  "new_row key = \<lparr>lr_key = key, lr_removed = False, lr_revoked = False, lr_catalogs = [], lr_detached = 0\<rparr>"

record ending =
  eg_row :: logoff_row
  eg_tokens :: "string list"
  eg_ended :: "nat list"
  eg_endpoints :: endpoints
  eg_service :: string
  eg_login :: string

definition new_ending :: "login_key \<Rightarrow> ending" where
  "new_ending key = \<lparr>eg_row = new_row key, eg_tokens = [], eg_ended = [], eg_endpoints = no_endpoints, eg_service = [],
     eg_login = []\<rparr>"

definition add_catalog :: "string \<Rightarrow> ending \<Rightarrow> ending" where
  "add_catalog name g = g\<lparr>eg_row := (eg_row g)\<lparr>lr_catalogs := lr_catalogs (eg_row g) @ [name]\<rparr>\<rparr>"

definition end_session :: "(nat \<Rightarrow> ('w, 'y) sys_scheme hooks) \<Rightarrow> login_key \<Rightarrow> string \<times> nat \<Rightarrow> ending \<Rightarrow>
    (('w, 'y) sys_scheme, ending) m" where
  "end_session H key = (\<lambda>(name, sid) g.
     bindE (get_ses sid id) (\<lambda>se.
       if \<not> remembers key se then
         ret (if is_person (s_flow se) \<and> s_logged_off_seen se \<and> session_key se = key then add_catalog name g else g)
       else
         let g = (if eg_service g = [] then g\<lparr>eg_endpoints := si_endpoints (s_info se), eg_service := name,
                    eg_login := session_login_name se\<rparr> else g) in
         bindE (log_off (H sid) sid) (\<lambda>held.
           ret (add_catalog name (g\<lparr>eg_ended := eg_ended g @ [sid], eg_tokens := keep_token held (eg_tokens g),
             eg_row := (eg_row g)\<lparr>lr_removed := True\<rparr>\<rparr>)))))"

fun end_sessions :: "(nat \<Rightarrow> ('w, 'y) sys_scheme hooks) \<Rightarrow> login_key \<Rightarrow> (string \<times> nat) list \<Rightarrow> ending \<Rightarrow>
    (('w, 'y) sys_scheme, ending) m" where
  "end_sessions H key [] g = ret g"
| "end_sessions H key (c # cs) g = bindE (end_session H key c g) (end_sessions H key cs)"

text \<open>Under the key's lock.\<close>

definition remove_entry :: "('w, 's, 'x) ext_scheme \<Rightarrow> login_key \<Rightarrow> ending \<Rightarrow> 'w instance_state \<Rightarrow> ending \<times> 'w instance_state" where
  "remove_entry X key g i =
     (let mode = i_mode i;
          tokens = (case load X key mode i of None \<Rightarrow> eg_tokens g | Some (_, stored) \<Rightarrow> keep_token stored (eg_tokens g))
      in case remove X key mode [] i of (removed, i) \<Rightarrow>
           (g\<lparr>eg_tokens := tokens, eg_row := (eg_row g)\<lparr>lr_removed := removed \<or> lr_removed (eg_row g)\<rparr>\<rparr>, i))"

fun resume_each :: "nat list \<Rightarrow> (('w, 'y) sys_scheme, unit) m" where
  "resume_each [] = ret ()"
| "resume_each (sid # sids) = seqE (set_ses sid allow_resume) (resume_each sids)"

definition forget_local :: "('w, 's, 'x) ext_scheme \<Rightarrow> (nat \<Rightarrow> ('w, 'y) sys_scheme hooks) \<Rightarrow> login_key \<Rightarrow>
    (string \<times> nat) list \<Rightarrow> (('w, 'y) sys_scheme, ending) m" where
  "forget_local X H key attached =
     bindE (end_sessions H key attached (new_ending key)) (\<lambda>g.
     bindE (on_instance (remove_entry X key g)) (\<lambda>g.
     seqE (resume_each (eg_ended g)) (ret g)))"

definition revocation_at :: "('w, 's, 'x) ext_scheme \<Rightarrow> login_key \<Rightarrow> ending \<Rightarrow> ('s, endpoints) m" where
  "revocation_at X key g =
     (if eg_tokens g \<noteq> [] \<and> ep_revocation (eg_endpoints g) = [] \<and> reachable X (lk_issuer key) then
        bindE (liftX (x_discover X (lk_issuer key))) (\<lambda>found.
          ret (if reachable X (ep_revocation found) then found else found\<lparr>ep_revocation := []\<rparr>))
      else ret (eg_endpoints g))"

fun revoke_each :: "('w, 's, 'x) ext_scheme \<Rightarrow> endpoints \<Rightarrow> string \<Rightarrow> string list \<Rightarrow> ('s, bool) m" where
  "revoke_each X ends client [] = ret False"
| "revoke_each X ends client (t # ts) =
     bindE (if ep_revocation ends = [] then ret False else liftX (x_revoke X ends client t)) (\<lambda>ok.
     bindE (revoke_each X ends client ts) (\<lambda>later. ret (ok \<or> later)))"

definition logout_audit :: "string \<Rightarrow> string \<Rightarrow> string \<Rightarrow> string \<Rightarrow> (('w, 'y) act_sys_scheme, unit) m" where
  "logout_audit service host who detail = modifyS (\<lambda>s.
     let d = audited_detail detail (on_event (\<lambda>e. e\<lparr>ev_service := service, ev_host := host, ev_login := who\<rparr>)
               (audited_new (y_audit s) ''logout''))
     in s\<lparr>y_audit := snd (audit_ok (d, y_audit s))\<rparr>)"

definition forget :: "('w, ('w, 'y) act_sys_scheme, 'x) ext_scheme \<Rightarrow> (nat \<Rightarrow> ('w, 'y) act_sys_scheme hooks) \<Rightarrow> login_key \<Rightarrow>
    (string \<times> nat) list \<Rightarrow> (('w, 'y) act_sys_scheme, logoff_row) m" where
  "forget X H key attached =
     bindE (forget_local X H key attached) (\<lambda>g.
     bindE (revocation_at X key g) (\<lambda>ends.
     bindE (revoke_each X ends (lk_client_id key) (eg_tokens g)) (\<lambda>revoked.
       let row = (eg_row g)\<lparr>lr_revoked := revoked\<rparr> in
     seqE (if lr_removed row
           then logout_audit (eg_service g) (lk_service key) (eg_login g) (if revoked then ''logoff_revoked'' else ''logoff'')
           else ret ())
       (ret row))))"

section \<open>The logins a statement names\<close>

definition add_key :: "login_key \<Rightarrow> login_key list \<Rightarrow> login_key list" where
  "add_key key keys = (if key \<in> set keys then keys else keys @ [key])"

record named_logins =
  nl_keys :: "login_key list"
  nl_pages :: "(string \<times> string) list"     \<comment> \<open>service, issuer\<close>
  nl_found :: bool

definition name_login :: "'z lib_scheme \<Rightarrow> string \<Rightarrow> (nat \<Rightarrow> session) \<Rightarrow> string \<times> nat \<Rightarrow> named_logins \<Rightarrow> error + named_logins" where
  "name_login L catalog ses = (\<lambda>(name, sid) n.
     if catalog \<noteq> [] \<and> \<not> lb_ci_equals L name catalog then Inr n
     else let n = n\<lparr>nl_found := True\<rparr>; se = ses sid; key = session_key se in
       if s_flow se = F_PAGE then
         Inr (if catalog \<noteq> [] then n\<lparr>nl_pages := nl_pages n @ [(lb_lower L (si_host (s_info se)), lk_issuer key)]\<rparr> else n)
       else if \<not> is_person (s_flow se) then
         if catalog \<noteq> [] then Inl (InvalidInput ''tresor_logoff: a service's login - nothing of it is remembered'' [catalog]) else Inr n
       else if catalog = [] \<and> \<not> remembers key se then Inr n
       else Inr (n\<lparr>nl_keys := add_key key (nl_keys n)\<rparr>))"

fun name_logins :: "'z lib_scheme \<Rightarrow> string \<Rightarrow> (nat \<Rightarrow> session) \<Rightarrow> (string \<times> nat) list \<Rightarrow> named_logins \<Rightarrow> error + named_logins" where
  "name_logins L catalog ses [] n = Inr n"
| "name_logins L catalog ses (c # cs) n = rbind (name_login L catalog ses c n) (name_logins L catalog ses cs)"

definition logoff_names :: "'z lib_scheme \<Rightarrow> logoff_data \<Rightarrow> (nat \<Rightarrow> session) \<Rightarrow> (string \<times> nat) list \<Rightarrow> error + named_logins" where
  "logoff_names L d ses attached =
     (let none = \<lparr>nl_keys = [], nl_pages = [], nl_found = False\<rparr> in
      if lk_service (lo_key d) \<noteq> [] then Inr (none\<lparr>nl_keys := [lo_key d]\<rparr>)
      else rbind (name_logins L (lo_catalog d) ses attached none) (\<lambda>n.
        if lo_catalog d \<noteq> [] \<and> \<not> nl_found n
        then Inl (InvalidInput ''tresor_logoff: no attached tresor catalog named'' [lo_catalog d]) else Inr n))"

fun forget_each :: "('w, ('w, 'y) act_sys_scheme, 'x) ext_scheme \<Rightarrow> (nat \<Rightarrow> ('w, 'y) act_sys_scheme hooks) \<Rightarrow>
    (string \<times> nat) list \<Rightarrow> login_key list \<Rightarrow> (('w, 'y) act_sys_scheme, logoff_row list) m" where
  "forget_each X H attached [] = ret []"
| "forget_each X H attached (key # keys) =
     seqE (on_instance (\<lambda>i. ((), pending_cancel key ''logged off'' i)))
     (bindE (forget X H key attached) (\<lambda>row.
      bindE (forget_each X H attached keys) (\<lambda>rows. ret (row # rows))))"

section \<open>The pages' logins\<close>

text \<open>\<^verbatim>\<open>std::map\<close> keeps its keys sorted; strings compare by their bytes.\<close>

fun text_less :: "string \<Rightarrow> string \<Rightarrow> bool" where
  "text_less s [] \<longleftrightarrow> False"
| "text_less [] (d # ds) \<longleftrightarrow> True"
| "text_less (c # cs) (d # ds) \<longleftrightarrow> (of_char c :: nat) < of_char d \<or> (c = d \<and> text_less cs ds)"

definition login_less :: "string \<times> string \<Rightarrow> string \<times> string \<Rightarrow> bool" where
  "login_less a b \<longleftrightarrow> text_less (fst a) (fst b) \<or> (fst a = fst b \<and> text_less (snd a) (snd b))"

fun set_login :: "string \<times> string \<Rightarrow> bool \<Rightarrow> ((string \<times> string) \<times> bool) list \<Rightarrow> ((string \<times> string) \<times> bool) list" where
  "set_login k v [] = [(k, v)]"
| "set_login k v ((l, w) # ls) =
     (if k = l then (k, v) # ls else if login_less k l then (k, v) # (l, w) # ls else (l, w) # set_login k v ls)"

definition had_token :: "string \<times> string \<Rightarrow> ((string \<times> string) \<times> bool) list \<Rightarrow> bool" where
  "had_token k ls \<longleftrightarrow> map_of ls k = Some True"

fun forget_named :: "'z lib_scheme \<Rightarrow> (string \<times> string) list \<Rightarrow> ((string \<times> string) \<times> bool) list \<Rightarrow> 'w instance_state \<Rightarrow>
    ((string \<times> string) \<times> bool) list \<times> 'w instance_state" where
  "forget_named L [] ls i = (ls, i)"
| "forget_named L (n # ns) ls i =
     (case page_forget L (fst n) (snd n) i of (forgotten, i) \<Rightarrow>
        forget_named L ns (set_login n (had_token n ls \<or> forgotten \<noteq> []) ls) i)"

definition forget_pages :: "'z lib_scheme \<Rightarrow> logoff_data \<Rightarrow> (string \<times> string) list \<Rightarrow> 'w instance_state \<Rightarrow>
    ((string \<times> string) \<times> bool) list \<times> 'w instance_state" where
  "forget_pages L d ns i =
     (if lo_catalog d = [] then
        case page_forget L [] [] i of (forgotten, i) \<Rightarrow> forget_named L ns (fold (\<lambda>k. set_login k True) forgotten []) i
      else forget_named L ns [] i)"

definition on_page :: "'z lib_scheme \<Rightarrow> login_key \<Rightarrow> session \<Rightarrow> bool" where
  "on_page L key se \<longleftrightarrow> s_flow se = F_PAGE \<and> lb_lower L (si_host (s_info se)) = lk_service key \<and>
     lk_issuer (session_key se) = lk_issuer key"

fun end_pages :: "'z lib_scheme \<Rightarrow> (nat \<Rightarrow> ('w, 'y) sys_scheme hooks) \<Rightarrow> login_key \<Rightarrow> (string \<times> nat) list \<Rightarrow>
    (('w, 'y) sys_scheme, string list) m" where
  "end_pages L H key [] = ret []"
| "end_pages L H key ((name, sid) # cs) =
     bindE (get_ses sid (on_page L key)) (\<lambda>on.
       if on then seqE (log_off (H sid) sid) (bindE (end_pages L H key cs) (\<lambda>names. ret (name # names)))
       else end_pages L H key cs)"

fun page_rows :: "'z lib_scheme \<Rightarrow> (nat \<Rightarrow> ('w, 'y) act_sys_scheme hooks) \<Rightarrow> (string \<times> nat) list \<Rightarrow>
    ((string \<times> string) \<times> bool) list \<Rightarrow> (('w, 'y) act_sys_scheme, logoff_row list) m" where
  "page_rows L H attached [] = ret []"
| "page_rows L H attached ((page, removed) # ls) =
     (let key = \<lparr>lk_issuer = snd page, lk_client_id = [], lk_service = fst page\<rparr> in
      bindE (end_pages L H key attached) (\<lambda>names.
      seqE (if removed then logout_audit [] (lk_service key) ''page'' ''logoff'' else ret ())
      (bindE (page_rows L H attached ls) (\<lambda>rows.
        ret ((new_row key)\<lparr>lr_removed := removed, lr_catalogs := names\<rparr> # rows)))))"

section \<open>The statement\<close>

fun detach_each :: "('w, 's, 'x) cext_scheme \<Rightarrow> string list \<Rightarrow> ('s, int) m" where
  "detach_each X [] = ret 0"
| "detach_each X (name # names) =
     bindE (liftX (x_detach X name)) (\<lambda>done. bindE (detach_each X names) (\<lambda>n. ret (if done then n + 1 else n)))"

fun detach_rows :: "('w, 's, 'x) cext_scheme \<Rightarrow> logoff_row list \<Rightarrow> ('s, logoff_row list) m" where
  "detach_rows X [] = ret []"
| "detach_rows X (r # rs) = bindE (detach_each X (lr_catalogs r)) (\<lambda>n.
     bindE (detach_rows X rs) (\<lambda>rows. ret (r\<lparr>lr_detached := n\<rparr> # rows)))"

text \<open>A transport that cannot be had costs the revocation - what the identity provider's core then answers - only.\<close>

definition logoff_scan :: "('w, ('w, 'y) act_sys_scheme, 'x) cext_scheme \<Rightarrow> (nat \<Rightarrow> ('w, 'y) act_sys_scheme hooks) \<Rightarrow>
    ('w, 'y) act_sys_scheme statement \<Rightarrow> logoff_data \<Rightarrow> (('w, 'y) act_sys_scheme, logoff_row list) m" where
  "logoff_scan X H S d =
     seqE (guardE (own_statement S) (Permission ''tresor_logoff: not under a duckdb-acl session'' []))
     (seqE (catchE (seqE (transport_for X) (ret ())) (\<lambda>_. ret ()))
     (bindE (gets (x_catalogs X)) (\<lambda>attached.
      bindE (bindE (gets (\<lambda>s. logoff_names X d (y_ses s) attached)) throw_or) (\<lambda>n.
      bindE (forget_each X H attached (nl_keys n)) (\<lambda>rows.
      bindE (if lk_service (lo_key d) = []
             then bindE (on_instance (forget_pages X d (nl_pages n))) (page_rows X H attached)
             else ret []) (\<lambda>pages.
        if lo_detach d then detach_rows X (rows @ pages) else ret (rows @ pages)))))))"

end
