(* ===== verification/Tresor_Logoff_Laws.thy ===== *)
theory Tresor_Logoff_Laws
  imports Tresor_Logoff
begin

text \<open>
  What a logoff guarantees: every catalog that runs on the login is logged off before the login leaves the store,
  nothing of it can be taken up again, everything it held is offered for revocation, once, and only where it may go.
\<close>

section \<open>Ending the sessions\<close>

text \<open>What the catalogs' callbacks respect: \<open>catalog_hooks\<close> empties a storage.\<close>

definition quiet_hooks :: "(nat \<Rightarrow> ('w, 'y) sys_scheme hooks) \<Rightarrow> bool" where
  "quiet_hooks H \<longleftrightarrow> (\<forall>sid told s. on_logged_off (H sid) = Some told \<longrightarrow>
     y_ses (told s) = y_ses s \<and> y_inst (told s) = y_inst s)"

lemma catalog_hooks_quiet: "quiet_hooks (\<lambda>sid. catalog_hooks X interrupted slices sid (name sid) (host sid))"
  by (auto simp: quiet_hooks_def catalog_hooks_def)

lemma wp_log_off:
  assumes "quiet_hooks H"
  shows "wp (log_off (H sid) sid) (\<lambda>held t. held = refresh_token (s_tokens (y_ses s sid)) \<and>
      y_ses t = (y_ses s)(sid := log_off_session (y_ses s sid)) \<and> y_inst t = y_inst s) (\<lambda>_ _. False) s"
  using assms by (auto simp: log_off_def wp_simps quiet_hooks_def split: option.splits)

definition on_key :: "login_key \<Rightarrow> (string \<times> nat) list \<Rightarrow> (nat \<Rightarrow> session) \<Rightarrow> nat set" where
  "on_key key attached ses = {sid \<in> snd ` set attached. remembers key (ses sid)}"

definition logged_off_in :: "nat set \<Rightarrow> (nat \<Rightarrow> session) \<Rightarrow> nat \<Rightarrow> session" where
  "logged_off_in A ses = (\<lambda>sid. if sid \<in> A then log_off_session (ses sid) else ses sid)"

lemma not_remembers_logged_off: "\<not> remembers key (log_off_session se)"
  by (simp add: remembers_def log_off_session_def)

lemma logged_off_tokens: "s_tokens (log_off_session se) = no_tokens"
  by (simp add: log_off_session_def)

lemma set_keep_token: "set (keep_token t ts) = set ts \<union> (if t = [] then {} else {t})"
  by (auto simp: keep_token_def)

lemma distinct_keep_token: "distinct ts \<Longrightarrow> distinct (keep_token t ts)"
  by (simp add: keep_token_def)

text \<open>The refresh tokens the sessions of the key hold.\<close>

definition held_by :: "nat set \<Rightarrow> (nat \<Rightarrow> session) \<Rightarrow> string set" where
  "held_by A ses = {t. t \<noteq> [] \<and> (\<exists>sid \<in> A. t = refresh_token (s_tokens (ses sid)))}"

definition ended_as :: "login_key \<Rightarrow> (string \<times> nat) list \<Rightarrow> (nat \<Rightarrow> session) \<Rightarrow> ending \<Rightarrow> ending \<Rightarrow> bool" where
  "ended_as key cs ses g h \<longleftrightarrow> set (eg_ended h) = set (eg_ended g) \<union> on_key key cs ses \<and>
     set (eg_tokens h) = set (eg_tokens g) \<union> held_by (on_key key cs ses) ses \<and>
     (distinct (eg_tokens g) \<longrightarrow> distinct (eg_tokens h))"

lemma wp_end_session:
  assumes "quiet_hooks H"
  shows "wp (end_session H key c g) (\<lambda>h t. y_ses t = logged_off_in (on_key key [c] (y_ses s)) (y_ses s) \<and>
      y_inst t = y_inst s \<and> ended_as key [c] (y_ses s) g h) (\<lambda>_ _. False) s"
proof (cases "remembers key (y_ses s (snd c))")
  case False
  then have "on_key key [c] (y_ses s) = {}" by (auto simp: on_key_def)
  then show ?thesis using False
    by (cases c) (simp add: end_session_def wp_simps logged_off_in_def ended_as_def held_by_def add_catalog_def)
next
  case True
  then have on: "on_key key [c] (y_ses s) = {snd c}" by (auto simp: on_key_def)
  show ?thesis using True on
    by (cases c) (auto simp: end_session_def wp_simps Let_def logged_off_in_def ended_as_def held_by_def add_catalog_def
        set_keep_token distinct_keep_token fun_eq_iff intro!: wp_mono [OF wp_log_off [OF assms]])
qed

lemma on_key_Cons: "on_key key (c # cs) ses = on_key key [c] ses \<union> on_key key cs ses"
  by (auto simp: on_key_def)

text \<open>A session that was just logged off is not met again.\<close>

lemma on_key_after: "on_key key cs (logged_off_in A ses) = on_key key cs ses - A"
  by (auto simp: on_key_def logged_off_in_def not_remembers_logged_off)

lemma logged_off_twice: "logged_off_in (B - A) (logged_off_in A ses) = logged_off_in (A \<union> B) ses"
  by (auto simp: logged_off_in_def fun_eq_iff)

lemma held_by_after: "held_by A ses \<union> held_by (B - A) (logged_off_in A ses) = held_by (A \<union> B) ses"
  by (auto simp: held_by_def logged_off_in_def)

lemma wp_end_sessions:
  fixes s :: "('w, 'y) sys_scheme"
  assumes "quiet_hooks H"
  shows "wp (end_sessions H key cs g) (\<lambda>h t. y_ses t = logged_off_in (on_key key cs (y_ses s)) (y_ses s) \<and>
      y_inst t = y_inst s \<and> ended_as key cs (y_ses s) g h) (\<lambda>_ _. False) s"
proof (induction cs arbitrary: g s)
  case Nil
  then show ?case by (simp add: wp_simps on_key_def logged_off_in_def ended_as_def held_by_def)
next
  case (Cons c cs)
  let ?A = "on_key key [c] (y_ses s)" and ?B = "on_key key cs (y_ses s)"
  show ?case unfolding end_sessions.simps wp_bindE
  proof (rule wp_mono [OF wp_end_session [OF assms]], safe)
    fix h and t :: "('w, 'y) sys_scheme"
    assume 1: "y_ses t = logged_off_in ?A (y_ses s)" "y_inst t = y_inst s" and h: "ended_as key [c] (y_ses s) g h"
    show "wp (end_sessions H key cs h) (\<lambda>k u. y_ses u = logged_off_in (on_key key (c # cs) (y_ses s)) (y_ses s) \<and>
        y_inst u = y_inst s \<and> ended_as key (c # cs) (y_ses s) g k) (\<lambda>_ _. False) t"
    proof (rule wp_mono [OF Cons.IH], safe)
      fix k and u :: "('w, 'y) sys_scheme"
      assume "y_ses u = logged_off_in (on_key key cs (y_ses t)) (y_ses t)" "y_inst u = y_inst t"
      then show "y_ses u = logged_off_in (on_key key (c # cs) (y_ses s)) (y_ses s)" and "y_inst u = y_inst s"
        using 1 by (simp_all add: on_key_after logged_off_twice on_key_Cons [of key c cs])
      assume "ended_as key cs (y_ses t) h k"
      then show "ended_as key (c # cs) (y_ses s) g k"
        using h 1 held_by_after [of ?A "y_ses s" ?B]
        by (auto simp: ended_as_def on_key_after on_key_Cons [of key c cs])
    qed
  qed
qed

section \<open>The login is gone\<close>

text \<open>What the operating system's store documents of a removal: the entry is gone.\<close>

definition keychain_removes :: "('w, 's, 'x) ext_scheme \<Rightarrow> bool" where
  "keychain_removes X \<longleftrightarrow> (\<forall>a w. x_kc_load X a (snd (x_kc_remove X a w)) = None)"

lemma removed_is_gone:
  assumes "i_mode i = AUTO \<longrightarrow> keychain_removes X"
  shows "load X key (i_mode i) (snd (remove X key (i_mode i) [] i)) = None \<and> i_mode (snd (remove X key (i_mode i) [] i)) = i_mode i"
  using assms by (auto simp: load_def remove_def remove_matches_def keychain_removes_def split: keychain_mode.splits option.splits prod.splits
      dest!: spec [where x = "account key"] spec [where x = "i_world i"])

lemma allow_resume_again [simp]: "allow_resume (allow_resume se) = allow_resume se"
  by (simp add: allow_resume_def)

lemma wp_resume_each:
  fixes s :: "('w, 'y) sys_scheme"
  shows "wp (resume_each sids) (\<lambda>_ t. y_ses t = (\<lambda>sid. if sid \<in> set sids then allow_resume (y_ses s sid) else y_ses s sid) \<and>
      y_inst t = y_inst s) (\<lambda>_ _. False) s"
proof (induction sids arbitrary: s)
  case (Cons sid sids)
  show ?case unfolding resume_each.simps wp_seqE wp_set_ses
    by (rule wp_mono [OF Cons.IH]) (auto simp: fun_eq_iff)
qed (simp add: wp_simps)

text \<open>A session logged off and allowed to resume, with nothing stored under its key.\<close>

lemma resumable_refused:
  assumes "\<not> s_closed se" and "s_flow se \<noteq> F_PAGE" and "load X (session_key se) (i_mode i) i = None"
  shows "access_token_op X force (allow_resume (log_off_session se), i) =
    (Inl (logged_off_error se), allow_resume (log_off_session se), i)"
  using assms by (auto simp: access_token_op_def log_off_session_def take_up_login_def allow_resume_def
      logged_off_error_def session_key_def Let_def)

lemma allow_resume_fields [simp]: "s_tokens (allow_resume se) = s_tokens se" "remembers key (allow_resume se) = remembers key se"
  by (simp_all add: allow_resume_def remembers_def session_key_def)

text \<open>What a logoff leaves of the sessions that ran on the login, and what it holds for revocation.\<close>

definition logged_off_all :: "('w, 's, 'x) ext_scheme \<Rightarrow> login_key \<Rightarrow> (string \<times> nat) list \<Rightarrow> ('w, 'y) sys_scheme \<Rightarrow>
    ('w, 'y) sys_scheme \<Rightarrow> bool" where
  "logged_off_all X key attached s t \<longleftrightarrow> load X key (i_mode (y_inst t)) (y_inst t) = None \<and>
     (\<forall>sid. if sid \<in> on_key key attached (y_ses s)
       then s_tokens (y_ses t sid) = no_tokens \<and> \<not> remembers key (y_ses t sid) \<and>
         (\<not> s_closed (y_ses s sid) \<and> s_flow (y_ses s sid) \<noteq> F_PAGE \<longrightarrow>
            (\<forall>force. fst (access_token_op X force (y_ses t sid, y_inst t)) = Inl (logged_off_error (y_ses s sid))))
       else y_ses t sid = y_ses s sid)"

definition tokens_of_login :: "('w, 's, 'x) ext_scheme \<Rightarrow> login_key \<Rightarrow> (string \<times> nat) list \<Rightarrow> ('w, 'y) sys_scheme \<Rightarrow> string set" where
  "tokens_of_login X key attached s = held_by (on_key key attached (y_ses s)) (y_ses s) \<union>
     (case load X key (i_mode (y_inst s)) (y_inst s) of None \<Rightarrow> {} | Some (_, stored) \<Rightarrow> {stored} - {[]})"

lemma remove_entry_effect:
  "snd (remove_entry X key g i) = snd (remove X key (i_mode i) [] i)"
  "eg_ended (fst (remove_entry X key g i)) = eg_ended g"
  "set (eg_tokens (fst (remove_entry X key g i))) = set (eg_tokens g) \<union>
     (case load X key (i_mode i) i of None \<Rightarrow> {} | Some (_, stored) \<Rightarrow> {stored} - {[]})"
  "distinct (eg_tokens g) \<Longrightarrow> distinct (eg_tokens (fst (remove_entry X key g i)))"
  by (auto simp: remove_entry_def Let_def set_keep_token distinct_keep_token split: prod.splits option.splits)

lemma wp_forget_local:
  fixes s :: "('w, 'y) sys_scheme"
  assumes H: "quiet_hooks H" and "i_mode (y_inst s) = AUTO \<longrightarrow> keychain_removes X"
  shows "wp (forget_local X H key attached) (\<lambda>g t. logged_off_all X key attached s t \<and>
      distinct (eg_tokens g) \<and> set (eg_tokens g) = tokens_of_login X key attached s) (\<lambda>_ _. False) s"
proof -
  let ?A = "on_key key attached (y_ses s)" and ?i = "y_inst s"
  note gone = removed_is_gone [OF assms(2), of key]
  have last: "wp (resume_each (eg_ended h)) (\<lambda>_ u. logged_off_all X key attached s u) (\<lambda>_ _. False) t"
    if t: "y_ses t = logged_off_in ?A (y_ses s)" "y_inst t = snd (remove X key (i_mode ?i) [] ?i)" "set (eg_ended h) = ?A"
    for h :: ending and t :: "('w, 'y) sys_scheme"
  proof (rule wp_mono [OF wp_resume_each], safe)
    fix u :: "('w, 'y) sys_scheme"
    assume u: "y_ses u = (\<lambda>sid. if sid \<in> set (eg_ended h) then allow_resume (y_ses t sid) else y_ses t sid)" "y_inst u = y_inst t"
    have "session_key (y_ses s sid) = key" if "sid \<in> ?A" for sid
      using that by (auto simp: on_key_def remembers_def)
    then show "logged_off_all X key attached s u"
      using u t gone by (auto simp: logged_off_all_def logged_off_in_def not_remembers_logged_off resumable_refused
          logged_off_tokens)
  qed
  show ?thesis unfolding forget_local_def wp_bindE
  proof (rule wp_mono [OF wp_end_sessions [OF H]], safe)
    fix g and t :: "('w, 'y) sys_scheme"
    assume t: "y_ses t = logged_off_in ?A (y_ses s)" "y_inst t = y_inst s" and "ended_as key attached (y_ses s) (new_ending key) g"
    then have g: "set (eg_ended g) = ?A" "set (eg_tokens g) = held_by ?A (y_ses s)" "distinct (eg_tokens g)"
      by (auto simp: ended_as_def new_ending_def)
    have h: "set (eg_tokens (fst (remove_entry X key g ?i))) = tokens_of_login X key attached s"
        "distinct (eg_tokens (fst (remove_entry X key g ?i)))"
      using g by (auto simp: remove_entry_effect tokens_of_login_def)
    show "wp (on_instance (remove_entry X key g)) (\<lambda>g. wp (seqE (resume_each (eg_ended g)) (ret g))
        (\<lambda>g t. logged_off_all X key attached s t \<and> distinct (eg_tokens g) \<and> set (eg_tokens g) = tokens_of_login X key attached s)
        (\<lambda>_ _. False)) (\<lambda>_ _. False) t"
      using t g(1) by (simp add: wp_simps) (rule wp_mono [OF last]; simp add: wp_ret h remove_entry_effect(1,2))
  qed
qed


definition logoff_sys :: "unit sys" where
  "logoff_sys = \<lparr>y_ses = (\<lambda>sid. sample_session\<lparr>s_remember := True\<rparr>), y_inst = sample_instance\<rparr>"

definition logoff_key :: login_key where
  "logoff_key = session_key sample_session"

lemma logoff_on: "0 \<in> on_key logoff_key [(''corp'', 0)] (y_ses logoff_sys)"
  by (simp add: on_key_def logoff_sys_def logoff_key_def remembers_def session_key_def)


section \<open>Where the tokens go\<close>

text \<open>
  The revocation endpoint is the one of the session's own login - checked then - or one that the issuer's discovery
  names and that is https or loopback; else nothing is sent.
\<close>

lemma revocation_is_reachable:
  "wp (revocation_at X key g) (\<lambda>ends _. ends = eg_endpoints g \<or> ep_revocation ends = [] \<or>
     reachable X (lk_issuer key) \<and> reachable X (ep_revocation ends)) (\<lambda>_ _. False) s"
  by (simp add: revocation_at_def wp_simps)

lemma no_endpoint_no_revocation: "ep_revocation ends = [] \<Longrightarrow> revoke_each X ends client tokens s = (Inr False, s)"
  by (induction tokens) (simp_all add: monad_defs)

section \<open>A store that keeps the entry\<close>

text \<open>
  The hypothesis on the store is needed: when the operating system's store refuses the removal, the logoff still
  answers that the login was removed, and the catalog takes the very login up again.
\<close>

definition stuck_ext :: "(unit, unit sys) ext" where
  "stuck_ext = (answering 200 [])\<lparr>x_kc_available := (\<lambda>_. True), x_kc_load := (\<lambda>_ _. Some (encode_login ''me'' ''rt'')),
     x_kc_remove := (\<lambda>_ w. (False, w))\<rparr>"

definition stuck_sys :: "unit sys" where
  "stuck_sys = logoff_sys\<lparr>y_inst := sample_instance\<lparr>i_mode := AUTO\<rparr>\<rparr>"

lemma refused_removal_resumes:
  "case forget_local stuck_ext (\<lambda>_. no_hooks) logoff_key [(''corp'', 0)] stuck_sys of
     (Inl _, _) \<Rightarrow> False
   | (Inr g, t) \<Rightarrow> lr_removed (eg_row g) \<and> fst (access_token_op stuck_ext False (y_ses t 0, y_inst t)) = Inr ''at-rt''"
proof -
  have entry: "load stuck_ext key AUTO (sample_instance\<lparr>i_mode := AUTO\<rparr>) = Some (''me'', ''rt'')" for key
    by (simp add: load_def stuck_ext_def sample_instance_def decode_encode_login one_line_def)
  have kept: "remove stuck_ext key AUTO [] (sample_instance\<lparr>i_mode := AUTO\<rparr>) = (False, sample_instance\<lparr>i_mode := AUTO\<rparr>)" for key
    by (simp add: remove_def stuck_ext_def remove_matches_def sample_instance_def)
  have fields: "x_refresh_grant stuck_ext = (\<lambda>_ _ r _ i. (sample_tokens (''at-'' @ r) (r @ ''+''), i))"
      "x_tokens_ok stuck_ext = (\<lambda>t. ts_error t = [])" "x_now stuck_ext = (\<lambda>i. (1000, i))"
    by (simp_all add: stuck_ext_def answering_def sample_ext_def)
  have again: "fst (access_token_op stuck_ext False (allow_resume (log_off_session (sample_session\<lparr>s_remember := True\<rparr>)),
      sample_instance\<lparr>i_mode := AUTO\<rparr>)) = Inr ''at-rt''"
    by (simp add: access_token_op_def allow_resume_def log_off_session_def sample_session_def new_session_def take_up_login_def
        entry fresh_def no_tokens_def renew_and_keep_def renew_def renew_person_def adopt_def refresh_grant_def retry_dead_def
        keep_rotated_def fields sample_tokens_def with_refresh_def Let_def)
  show ?thesis
    by (simp add: forget_local_def end_session_def end_sessions.simps get_ses_def set_ses_def locked_def log_off_def no_hooks_def
        stuck_sys_def logoff_sys_def logoff_key_def remembers_def session_key_def monad_defs Let_def new_ending_def new_row_def
        add_catalog_def on_instance_def remove_entry_def kept entry again)
qed

end
