(* ===== verification/Tresor_Manage.thy ===== *)
theory Tresor_Manage
  imports Tresor_Login_Laws
begin

unbundle bit_operations_syntax

text \<open>
  The management functions of a catalog (\<^verbatim>\<open>tresor_manage.cpp\<close>): a comment set, the grants of a secret or a
  variable listed, given and taken away. The requests of a change go through \<open>ask\<close>, and an answer that is no
  success through \<open>refuse\<close>: \<open>manage_scan\<close> passes the caller's own request and the audited refusal. In the
  sources a refusal is audited by its answer and again as an exception, and the second outcome of an audit is
  not told; here each exit tells its one.
\<close>

section \<open>What is asked\<close>

datatype action = ANNOTATE | GRANTS | GRANT | REVOKE

record manage_data =
  mg_action :: action
  mg_variable :: bool
  mg_name :: string
  mg_argument :: string
  mg_verbs :: "string list"

record grant =
  gr_id :: string
  gr_principal :: string
  gr_verbs :: "string list"

definition require_variables :: "service_info \<Rightarrow> string \<Rightarrow> error + unit" where
  "require_variables info catalog =
     rguard (si_capabilities info ''variables'' = Some True) (InvalidInput ''service does not hold variables'' [catalog])"

definition required_text :: "('w, 's, 'x) lext_scheme \<Rightarrow> dvalue \<Rightarrow> string \<Rightarrow> error + string" where
  "required_text X v what = (if is_null v then Inl (InvalidInput ''must not be NULL'' [what]) else Inr (x_text X v))"

definition grantable :: "string \<Rightarrow> bool" where
  "grantable who \<longleftrightarrow> (starts_with ''role:'' who \<and> length who > 5) \<or> (starts_with ''group:'' who \<and> length who > 6)"

fun verbs_of :: "('w, 's, 'x) lext_scheme \<Rightarrow> dvalue list \<Rightarrow> error + string list" where
  "verbs_of X [] = Inr []"
| "verbs_of X (v # vs) = (if is_null v then Inl (InvalidInput ''a verb must not be NULL'' [])
     else rbind (verbs_of X vs) (\<lambda>rest. Inr (x_text X v # rest)))"

text \<open>\<open>ListValue::GetChildren\<close>.\<close>

fun list_children :: "dvalue \<Rightarrow> dvalue list" where
  "list_children (V_LIST t vs) = vs"
| "list_children _ = []"

definition bind_verbs :: "('w, 's, 'x) lext_scheme \<Rightarrow> bool \<Rightarrow> dvalue \<Rightarrow> error + string list" where
  "bind_verbs X is_variable v =
     (let instead = (if is_variable then ''revoke_variable'' else ''revoke_secret'') in
      if is_null v then Inl (InvalidInput ''the verbs must not be NULL'' [instead])
      else rbind (verbs_of X (list_children v)) (\<lambda>verbs.
        rbind (rguard (verbs = [''use'']) (InvalidInput ''a grant gives use, and only use'' [instead])) (\<lambda>_. Inr verbs)))"

text \<open>The arguments are those of the function's signature: the name, then the comment or the principal, then the verbs.\<close>

definition manage_bind :: "('w, 's, 'x) lext_scheme \<Rightarrow> action \<Rightarrow> bool \<Rightarrow> service_info \<Rightarrow> string \<Rightarrow> dvalue list \<Rightarrow>
    error + manage_data" where
  "manage_bind X act is_variable info catalog inputs =
     rbind (if is_variable then require_variables info catalog else Inr ()) (\<lambda>_.
     rbind (required_text X (inputs ! 0) (if is_variable then ''the variable's name'' else ''the secret's name'')) (\<lambda>name.
       let m = \<lparr>mg_action = act, mg_variable = is_variable,
                mg_name = (if is_variable then name else canonical_name X name), mg_argument = [], mg_verbs = []\<rparr> in
       case act of
         ANNOTATE \<Rightarrow> rbind (required_text X (inputs ! 1) ''the comment'') (\<lambda>a. Inr (m\<lparr>mg_argument := a\<rparr>))
       | GRANTS \<Rightarrow> Inr m
       | REVOKE \<Rightarrow> rbind (required_text X (inputs ! 1) ''the principal'') (\<lambda>a. Inr (m\<lparr>mg_argument := a\<rparr>))
       | GRANT \<Rightarrow> rbind (required_text X (inputs ! 1) ''the principal'') (\<lambda>a.
           rbind (rguard (grantable a) (InvalidInput ''a grant names a role: or a group: principal'' [a])) (\<lambda>_.
           rbind (bind_verbs X is_variable (inputs ! 2)) (\<lambda>verbs. Inr (m\<lparr>mg_argument := a, mg_verbs := verbs\<rparr>))))))"

section \<open>A grant's identity\<close>

text \<open>FNV-1a, 64 bits.\<close>

definition FNV_OFFSET :: "64 word" where
  "FNV_OFFSET = 14695981039346656037"

definition FNV_PRIME :: "64 word" where
  "FNV_PRIME = 1099511628211"

definition fnv_step :: "64 word \<Rightarrow> char \<Rightarrow> 64 word" where
  "fnv_step hash c = (hash XOR of_nat (byte_of c)) * FNV_PRIME"

definition fnv :: "string \<Rightarrow> 64 word" where
  "fnv s = foldl fnv_step FNV_OFFSET s"

definition hex16 :: "64 word \<Rightarrow> string" where
  "hex16 w = map (\<lambda>i. hex_lower (unat (drop_bit (4 * i) w AND 15))) (rev [0..<16])"

definition grant_id :: "string \<Rightarrow> string" where
  "grant_id who = ''g-'' @ hex16 (fnv who)"

section \<open>The requests\<close>

type_synonym 's caller_request = "string \<Rightarrow> string \<Rightarrow> string \<Rightarrow> ('s, service_response) m"

definition refused_error :: "'z lib_scheme \<Rightarrow> string \<Rightarrow> manage_data \<Rightarrow> service_response \<Rightarrow> string \<Rightarrow> error" where
  "refused_error L host m response doing =
     (let what = (if mg_variable m then ''variable'' else ''secret'');
          problem = describe_problem L (sr_status response) (sr_body response) in
      if sr_status response = 404 then InvalidInput ''no such'' [what, mg_name m, host]
      else if sr_status response = 403 then Permission ''you may not'' [doing, what, mg_name m, host, problem]
      else InvalidInput ''failed'' [doing, what, mg_name m, host, problem])"

definition manage_path :: "manage_data \<Rightarrow> string" where
  "manage_path m = (if mg_variable m then ''/v1/variables/'' else ''/v1/secrets/'') @ encode_segment (mg_name m)"

definition grant_of_json :: "json \<Rightarrow> grant" where
  "grant_of_json item = \<lparr>gr_id = jstr (Some item) ''id'', gr_principal = jstr (Some item) ''principal'',
     gr_verbs = str_list (jget item ''verbs'')\<rparr>"

definition grants_of :: "'z lib_scheme \<Rightarrow> string \<Rightarrow> grant list" where
  "grants_of L body = (case lb_json L body of Some (JArr items) \<Rightarrow> map grant_of_json items | _ \<Rightarrow> [])"

definition read_grants :: "'z lib_scheme \<Rightarrow> 's caller_request \<Rightarrow> (service_response \<Rightarrow> string \<Rightarrow> ('s, grant list) m) \<Rightarrow>
    manage_data \<Rightarrow> ('s, grant list) m" where
  "read_grants L ask refuse m =
     bindE (ask ''GET'' (manage_path m @ ''/grants'') []) (\<lambda>response.
       if sr_status response \<noteq> 200 then refuse response ''list the grants of'' else ret (grants_of L (sr_body response)))"

definition grant_path :: "manage_data \<Rightarrow> string \<Rightarrow> string" where
  "grant_path m id' = manage_path m @ ''/grants/'' @ encode_segment id'"

definition gone :: "int \<Rightarrow> bool" where
  "gone status \<longleftrightarrow> status = 204 \<or> status = 200 \<or> status = 404"

fun delete_each :: "'s caller_request \<Rightarrow> (service_response \<Rightarrow> string \<Rightarrow> ('s, unit) m) \<Rightarrow> manage_data \<Rightarrow> string \<Rightarrow>
    string list \<Rightarrow> ('s, unit) m" where
  "delete_each ask refuse m doing [] = ret ()"
| "delete_each ask refuse m doing (i # is) =
     bindE (ask ''DELETE'' (grant_path m i) []) (\<lambda>response.
       if \<not> gone (sr_status response) then refuse response doing else delete_each ask refuse m doing is)"

fun joined_verbs :: "string list \<Rightarrow> string" where
  "joined_verbs [] = []"
| "joined_verbs [v] = json_text v"
| "joined_verbs (v # vs) = json_text v @ '','' @ joined_verbs vs"

definition grant_body :: "manage_data \<Rightarrow> string" where
  "grant_body m = ''{'' @ json_text ''principal'' @ '':'' @ json_text (mg_argument m) @ '','' @
     json_text ''verbs'' @ '':['' @ joined_verbs (mg_verbs m) @ '']}''"

text \<open>
  One grant per principal: an existing one is replaced under its id, any other of the principal's removed,
  a new one gets the id every client computes.
\<close>

definition change_grant :: "'z lib_scheme \<Rightarrow> 's caller_request \<Rightarrow> (service_response \<Rightarrow> string \<Rightarrow> ('s, grant list) m) \<Rightarrow>
    manage_data \<Rightarrow> ('s, grant list) m" where
  "change_grant L ask refuse m =
     bindE (read_grants L ask refuse m) (\<lambda>existing.
       let held = filter (\<lambda>g. gr_principal g = mg_argument m) existing;
           id' = (case held of [] \<Rightarrow> grant_id (mg_argument m) | g # _ \<Rightarrow> gr_id g) in
     bindE (ask ''PUT'' (grant_path m id') (grant_body m)) (\<lambda>response.
       if sr_status response \<noteq> 200 \<and> sr_status response \<noteq> 201 then refuse response ''grant on''
       else seqE (delete_each ask (\<lambda>r w. bindE (refuse r w) (\<lambda>_. ret ())) m ''replace a grant on''
                    (filter (\<lambda>i. i \<noteq> id') (map gr_id held)))
         (ret [\<lparr>gr_id = id', gr_principal = mg_argument m, gr_verbs = mg_verbs m\<rparr>])))"

definition change_revoke :: "'z lib_scheme \<Rightarrow> 's caller_request \<Rightarrow> (service_response \<Rightarrow> string \<Rightarrow> ('s, grant list) m) \<Rightarrow>
    manage_data \<Rightarrow> ('s, grant list) m" where
  "change_revoke L ask refuse m =
     bindE (read_grants L ask refuse m) (\<lambda>existing.
       let held = filter (\<lambda>g. gr_principal g = mg_argument m) existing in
       seqE (delete_each ask (\<lambda>r w. bindE (refuse r w) (\<lambda>_. ret ())) m ''revoke on'' (map gr_id held)) (ret held))"

section \<open>The functions\<close>

text \<open>A row: the columns' texts; the version of an annotation may be missing.\<close>

datatype manage_rows =
    Annotated string string "string option"
  | Grant_Rows "grant list"

definition forget_managed :: "manage_data \<Rightarrow> (('w, 'y) sto_sys_scheme, unit) m" where
  "forget_managed m = on_sto (if mg_variable m then invalidate_variable (mg_name m) else invalidate (mg_name m))"

definition change :: "('w, 's, 'x) ext_scheme \<Rightarrow> ('w, 'y) sto_sys_scheme caller_request \<Rightarrow>
    (service_response \<Rightarrow> string \<Rightarrow> (('w, 'y) sto_sys_scheme, grant list) m) \<Rightarrow> (error \<Rightarrow> (('w, 'y) sto_sys_scheme, manage_rows) m) \<Rightarrow>
    manage_data \<Rightarrow> (('w, 'y) sto_sys_scheme, manage_rows) m" where
  "change X ask refuse failed m = (case mg_action m of
       ANNOTATE \<Rightarrow>
         bindE (ask ''PATCH'' (manage_path m) (''{'' @ json_text ''comment'' @ '':'' @ json_text (mg_argument m) @ ''}'')) (\<lambda>response.
           if sr_status response \<noteq> 200 then bindE (refuse response ''annotate'') (\<lambda>g. ret (Grant_Rows g))
           else seqE (forget_managed m) (ret (Annotated (mg_name m) (mg_argument m)
             (case jget_opt (lb_json X (sr_body response)) ''version'' of Some (JStr v) \<Rightarrow> Some (cstr v) | _ \<Rightarrow> None))))
     | GRANTS \<Rightarrow> ret (Grant_Rows [])
     | GRANT \<Rightarrow> bindE (change_grant X ask refuse m) (\<lambda>rows. seqE (forget_managed m) (ret (Grant_Rows rows)))
     | REVOKE \<Rightarrow> bindE (change_revoke X ask refuse m) (\<lambda>rows.
         seqE (forget_managed m)
           (if rows = [] then failed (InvalidInput ''holds no grant on'' [mg_argument m,
              if mg_variable m then ''variable'' else ''secret'', mg_name m])
            else ret (Grant_Rows rows))))"

definition action_kind :: "action \<Rightarrow> string" where
  "action_kind act = (case act of ANNOTATE \<Rightarrow> ''annotate'' | GRANT \<Rightarrow> ''grant'' | _ \<Rightarrow> ''revoke'')"

definition manage_audit :: "manage_data \<Rightarrow> caller \<Rightarrow> (('w, 'y) sto_sys_scheme, audited) m" where
  "manage_audit m c = bindE (start_audit (action_kind (mg_action m)) c) (\<lambda>a.
     let a = audited_secret (mg_name m) (if mg_variable m then ''variable'' else []) False a
     in ret (if mg_action m = ANNOTATE then a else audited_target (mg_argument m) a))"

definition manage_scan :: "('w, ('w, 'y) sto_sys_scheme, 'x) sext_scheme \<Rightarrow> (('w, 'y) sto_sys_scheme, 'h) hooks_scheme \<Rightarrow>
    ('w, 'y) sto_sys_scheme statement \<Rightarrow> string \<Rightarrow> manage_data \<Rightarrow> (('w, 'y) sto_sys_scheme, manage_rows) m" where
  "manage_scan X H S host m =
     bindE (caller_of X S) (\<lambda>c.
     bindE (if mg_variable m then ret (mg_name m) else service_name X H (interrupted_of S) c (mg_name m)) (\<lambda>name.
       let m = m\<lparr>mg_name := name\<rparr>;
           ask = (\<lambda>method path body. storage_call X H (interrupted_of S) c method path body []) in
       if mg_action m = GRANTS then
         bindE (read_grants X ask (\<lambda>r w. throw (refused_error X host m r w)) m) (\<lambda>rows. ret (Grant_Rows rows))
       else bindE (manage_audit m c) (\<lambda>a.
         bindE (change X (\<lambda>method path body. catchE (ask method path body) (\<lambda>e. told_throw (audit_failed e) a e))
                  (\<lambda>r w. told_throw (audit_answer X r) a (refused_error X host m r w))
                  (\<lambda>e. told_throw (audit_failed e) a e) m)
           (\<lambda>rows. seqE (on_audit audit_ok a) (ret rows)))))"

section \<open>What a change leaves\<close>

lemma hex_lower_unreserved: "n < 16 \<Longrightarrow> unreserved (hex_lower n)"
  by (auto simp: hex_lower_def unreserved_def is_alnum_def of_char_of)

text \<open>Every client computes the same id, of the same length and needing no encoding.\<close>

lemma grant_id_shape: "length (grant_id who) = 18 \<and> encode_segment (grant_id who) = grant_id who"
proof -
  have nibble: "unat (w AND 15 :: 64 word) < 16" for w
  proof -
    have "w AND 15 \<le> 15" by (simp add: word_and_le1)
    then show ?thesis by (simp add: word_le_nat_alt)
  qed
  have "\<forall>c \<in> set (hex16 w). unreserved c" for w
    by (auto simp: hex16_def intro: hex_lower_unreserved nibble)
  then have "\<forall>c \<in> set (grant_id who). encode_char c = [c]"
    by (auto simp: grant_id_def encode_char_def) (simp_all add: unreserved_def is_alnum_def)
  then have "map encode_char (grant_id who) = map (\<lambda>c. [c]) (grant_id who)" by simp
  then have "encode_segment (grant_id who) = concat (map (\<lambda>c. [c]) (grant_id who))"
    by (simp only: encode_segment_def)
  then have "encode_segment (grant_id who) = grant_id who" by (simp del: map_append)
  moreover have "length (grant_id who) = 18" by (simp add: grant_id_def hex16_def)
  ultimately show ?thesis by simp
qed

text \<open>
  A service that keeps the grants of one secret or variable as the protocol says: \<open>held\<close> is what it holds.
  Listing changes nothing and answers them, a PUT replaces what is under its id, a DELETE removes it.
\<close>

definition grants_service :: "'z lib_scheme \<Rightarrow> manage_data \<Rightarrow> 's caller_request \<Rightarrow> ('s \<Rightarrow> grant set) \<Rightarrow> bool" where
  "grants_service L m ask held \<longleftrightarrow>
     (\<forall>s r t. ask ''GET'' (manage_path m @ ''/grants'') [] s = (Inr r, t) \<and> sr_status r = 200 \<longrightarrow>
        held t = held s \<and> set (grants_of L (sr_body r)) = held s) \<and>
     (\<forall>s i r t. ask ''PUT'' (grant_path m i) (grant_body m) s = (Inr r, t) \<and> (sr_status r = 200 \<or> sr_status r = 201) \<longrightarrow>
        held t = insert \<lparr>gr_id = i, gr_principal = mg_argument m, gr_verbs = mg_verbs m\<rparr> {g \<in> held s. gr_id g \<noteq> i}) \<and>
     (\<forall>s i r t. ask ''DELETE'' (grant_path m i) [] s = (Inr r, t) \<and> gone (sr_status r) \<longrightarrow>
        held t = {g \<in> held s. gr_id g \<noteq> i})"

lemma never_yields: "yields f (\<lambda>_. False) \<Longrightarrow> f s \<noteq> (Inr a, t)"
  using yieldsD by fastforce

lemma delete_each_held:
  assumes "grants_service L m ask held" and "\<And>r w. yields (refuse r w) (\<lambda>_. False)"
  shows "delete_each ask refuse m doing ids s = (Inr u, t) \<Longrightarrow> held t = {g \<in> held s. gr_id g \<notin> set ids}"
proof (induction ids arbitrary: s)
  case (Cons i js)
  then obtain r v where r: "ask ''DELETE'' (grant_path m i) [] s = (Inr r, v)" "gone (sr_status r)"
    and rest: "delete_each ask refuse m doing js v = (Inr u, t)"
    using never_yields [OF assms(2)] by (auto simp: returned split: if_splits)
  have "held v = {g \<in> held s. gr_id g \<noteq> i}" using assms(1) r by (simp add: grants_service_def)
  then show ?case using Cons.IH [OF rest] by auto
qed (simp add: ret_def)

lemma read_grants_held:
  assumes "grants_service L m ask held" and "\<And>r w. yields (refuse r w) (\<lambda>_. False)"
    and "read_grants L ask refuse m s = (Inr gs, t)"
  shows "held t = held s \<and> set gs = held s"
  using assms(1,3) never_yields [OF assms(2)]
  by (auto simp: read_grants_def grants_service_def returned split: if_splits)

lemma yields_never_bind: "yields f (\<lambda>_. False) \<Longrightarrow> yields (bindE f g) (\<lambda>_. False)"
  by (erule yields_bind) simp

text \<open>
  C24: over a service that keeps grants as the protocol says, with unique ids: granting to a principal that
  succeeds leaves it exactly one grant, of exactly the verbs asked, whatever it held before, and leaves
  everyone else's as they were; revoking leaves it none, and everyone else's as they were.
\<close>

theorem grants_are_exact:
  assumes "grants_service L m ask held" and "\<And>r w. yields (refuse r w) (\<lambda>_. False)"
    and "\<forall>g \<in> held s. \<forall>g' \<in> held s. gr_id g = gr_id g' \<longrightarrow> g = g'"
    and "\<forall>g \<in> held s. gr_id g = grant_id (mg_argument m) \<longrightarrow> gr_principal g = mg_argument m"
  shows "(change_grant L ask refuse m s = (Inr rows, t) \<longrightarrow>
      (\<exists>i. {g \<in> held t. gr_principal g = mg_argument m} =
             {\<lparr>gr_id = i, gr_principal = mg_argument m, gr_verbs = mg_verbs m\<rparr>} \<and>
           rows = [\<lparr>gr_id = i, gr_principal = mg_argument m, gr_verbs = mg_verbs m\<rparr>]) \<and>
      {g \<in> held t. gr_principal g \<noteq> mg_argument m} = {g \<in> held s. gr_principal g \<noteq> mg_argument m}) \<and>
    (change_revoke L ask refuse m s = (Inr rows, t) \<longrightarrow>
      held t = {g \<in> held s. gr_principal g \<noteq> mg_argument m} \<and>
      set rows = {g \<in> held s. gr_principal g = mg_argument m})"
proof (intro conjI impI)
  let ?who = "mg_argument m"
  assume run: "change_grant L ask refuse m s = (Inr rows, t)"
  obtain gs u where gs: "read_grants L ask refuse m s = (Inr gs, u)"
    using run by (auto simp: change_grant_def Let_def returned)
  note held_u = read_grants_held [OF assms(1,2) gs]
  define own where "own = filter (\<lambda>g. gr_principal g = ?who) gs"
  define i where "i = (case own of [] \<Rightarrow> grant_id ?who | g # _ \<Rightarrow> gr_id g)"
  obtain r v where put: "ask ''PUT'' (grant_path m i) (grant_body m) u = (Inr r, v)" "sr_status r = 200 \<or> sr_status r = 201"
    and del: "delete_each ask (\<lambda>r w. bindE (refuse r w) (\<lambda>_. ret ())) m ''replace a grant on''
      (filter (\<lambda>j. j \<noteq> i) (map gr_id own)) v = (Inr (), t)"
    and rows: "rows = [\<lparr>gr_id = i, gr_principal = ?who, gr_verbs = mg_verbs m\<rparr>]"
    using run gs never_yields [OF assms(2)]
    by (auto simp: change_grant_def Let_def returned own_def [symmetric] i_def [symmetric] split: if_splits)
  let ?new = "\<lparr>gr_id = i, gr_principal = ?who, gr_verbs = mg_verbs m\<rparr>"
  have held_v: "held v = insert ?new {g \<in> held s. gr_id g \<noteq> i}"
    using assms(1) put held_u by (simp add: grants_service_def)
  have held_t: "held t = {g \<in> held v. gr_id g \<notin> {j \<in> gr_id ` set own. j \<noteq> i}}"
    using delete_each_held [OF assms(1) yields_never_bind [OF assms(2)] del] by auto
  have own: "set own = {g \<in> held s. gr_principal g = ?who}" using held_u by (auto simp: own_def)
  have theirs: "gr_principal g = ?who" if "g \<in> held s" "gr_id g = i" for g
  proof (cases own)
    case Nil
    then show ?thesis using that assms(4) by (simp add: i_def)
  next
    case (Cons g' rest)
    then have "g' \<in> held s" "gr_principal g' = ?who" using own by auto
    then show ?thesis using that assms(3) Cons by (auto simp: i_def)
  qed
  show "\<exists>i. {g \<in> held t. gr_principal g = ?who} = {\<lparr>gr_id = i, gr_principal = ?who, gr_verbs = mg_verbs m\<rparr>} \<and>
      rows = [\<lparr>gr_id = i, gr_principal = ?who, gr_verbs = mg_verbs m\<rparr>]"
    using held_v held_t own rows by (intro exI [of _ i]) auto
  show "{g \<in> held t. gr_principal g \<noteq> ?who} = {g \<in> held s. gr_principal g \<noteq> ?who}"
    using held_v held_t own theirs assms(3) by auto
next
  let ?who = "mg_argument m"
  assume run: "change_revoke L ask refuse m s = (Inr rows, t)"
  obtain gs u where gs: "read_grants L ask refuse m s = (Inr gs, u)"
    and del: "delete_each ask (\<lambda>r w. bindE (refuse r w) (\<lambda>_. ret ())) m ''revoke on''
      (map gr_id (filter (\<lambda>g. gr_principal g = ?who) gs)) u = (Inr (), t)"
    and rows: "rows = filter (\<lambda>g. gr_principal g = ?who) gs"
    using run by (auto simp: change_revoke_def Let_def returned)
  note held_u = read_grants_held [OF assms(1,2) gs]
  show "set rows = {g \<in> held s. gr_principal g = ?who}" using rows held_u by auto
  show "held t = {g \<in> held s. gr_principal g \<noteq> ?who}"
    using delete_each_held [OF assms(1) yields_never_bind [OF assms(2)] del] held_u assms(3) by auto
qed

text \<open>A service for the witness, holding two grants of the principal and one of another.\<close>

definition sample_change :: manage_data where
  "sample_change = \<lparr>mg_action = GRANT, mg_variable = False, mg_name = ''s'', mg_argument = ''role:a'', mg_verbs = [''use'']\<rparr>"

definition sample_held :: "grant set" where
  "sample_held = {\<lparr>gr_id = ''1'', gr_principal = ''role:a'', gr_verbs = []\<rparr>, \<lparr>gr_id = ''2'', gr_principal = ''role:b'', gr_verbs = []\<rparr>,
     \<lparr>gr_id = ''3'', gr_principal = ''role:a'', gr_verbs = []\<rparr>}"

definition id_in :: "manage_data \<Rightarrow> string \<Rightarrow> string" where
  "id_in m path = the (decode_segment (drop (length (manage_path m) + 8) path))"

lemma id_in_path [simp]: "id_in m (grant_path m i) = i"
  by (simp add: id_in_def grant_path_def decode_encode_segment)

definition sample_ask :: "grant set caller_request" where
  "sample_ask method path body held =
     (if method = ''GET'' then (Inr \<lparr>sr_status = (if held = sample_held then 200 else 500), sr_body = ''gs''\<rparr>, held)
      else if method = ''PUT'' then (Inr \<lparr>sr_status = 200, sr_body = []\<rparr>,
        insert \<lparr>gr_id = id_in sample_change path, gr_principal = ''role:a'', gr_verbs = [''use'']\<rparr>
          {g \<in> held. gr_id g \<noteq> id_in sample_change path})
      else (Inr \<lparr>sr_status = 204, sr_body = []\<rparr>, {g \<in> held. gr_id g \<noteq> id_in sample_change path}))"

definition grant_lib :: lib where
  "grant_lib = ascii_lib\<lparr>lb_json := (\<lambda>_. Some (JArr [
     JObj [(''id'', JStr ''1''), (''principal'', JStr ''role:a'')], JObj [(''id'', JStr ''2''), (''principal'', JStr ''role:b'')],
     JObj [(''id'', JStr ''3''), (''principal'', JStr ''role:a'')]]))\<rparr>"

lemma sample_grants: "grants_of grant_lib body = [\<lparr>gr_id = ''1'', gr_principal = ''role:a'', gr_verbs = []\<rparr>,
    \<lparr>gr_id = ''2'', gr_principal = ''role:b'', gr_verbs = []\<rparr>, \<lparr>gr_id = ''3'', gr_principal = ''role:a'', gr_verbs = []\<rparr>]"
  by (simp add: grants_of_def grant_lib_def grant_of_json_def jstr_def jget_opt_def str_list_def cstr_def)

lemma sample_is_service: "grants_service grant_lib sample_change sample_ask id"
  by (auto simp: grants_service_def sample_ask_def sample_grants sample_held_def sample_change_def [symmetric] split: if_splits)
    (simp_all add: sample_change_def)

theorem grants_are_exact_witness:
  "\<exists>t i. snd (change_grant grant_lib sample_ask (\<lambda>r w. throw Interrupt) sample_change sample_held) = t \<and>
     {g \<in> t. gr_principal g = ''role:a''} = {\<lparr>gr_id = i, gr_principal = ''role:a'', gr_verbs = [''use'']\<rparr>}"
proof -
  have who: "mg_argument sample_change = ''role:a''" "mg_verbs sample_change = [''use'']" by (simp_all add: sample_change_def)
  have "fst (change_grant grant_lib sample_ask (\<lambda>r w. throw Interrupt) sample_change sample_held) =
      Inr [\<lparr>gr_id = ''1'', gr_principal = ''role:a'', gr_verbs = [''use'']\<rparr>]"
    by (simp add: change_grant_def read_grants_def monad_defs sample_ask_def sample_grants who Let_def gone_def)
  then obtain t where run: "change_grant grant_lib sample_ask (\<lambda>r w. throw Interrupt) sample_change sample_held =
      (Inr [\<lparr>gr_id = ''1'', gr_principal = ''role:a'', gr_verbs = [''use'']\<rparr>], t)"
    by (cases "change_grant grant_lib sample_ask (\<lambda>r w. throw Interrupt) sample_change sample_held") auto
  have ids: "\<forall>g \<in> id sample_held. \<forall>g' \<in> id sample_held. gr_id g = gr_id g' \<longrightarrow> g = g'" by (simp add: sample_held_def)
  have "length (grant_id ''role:a'') = 18" using grant_id_shape by simp
  then have fresh: "\<forall>g \<in> id sample_held. gr_id g = grant_id (mg_argument sample_change) \<longrightarrow> gr_principal g = mg_argument sample_change"
    by (auto simp: sample_held_def who dest: arg_cong [of _ _ length])
  show ?thesis
    using grants_are_exact [OF sample_is_service yields_throw ids fresh, where rows = "[\<lparr>gr_id = ''1'', gr_principal = ''role:a'', gr_verbs = [''use'']\<rparr>]" and t = t]
      run by (auto simp: who)
qed

end
