(* ===== verification/Tresor_Variables.thy ===== *)
theory Tresor_Variables
  imports Tresor_Manage
begin

text \<open>
  A service's variables (\<^verbatim>\<open>tresor_variables.cpp\<close>): the scalar \<^verbatim>\<open>variable(name[, fallback])\<close> over a chunk of rows, the
  listing, and the two writes. A chunk is the list of its rows, each a name and, with a second column, a fallback.
\<close>

section \<open>Reading\<close>

text \<open>The loop over the rows; \<open>known\<close> is what was asked for this chunk, \<open>ask\<close> the storage's \<^verbatim>\<open>VariableOf\<close>.\<close>

fun read_rows :: "(dvalue \<Rightarrow> string) \<Rightarrow> (string \<Rightarrow> ('s, string option) m) \<Rightarrow> string \<Rightarrow> (string \<times> string option) list \<Rightarrow>
    (dvalue \<times> dvalue option) list \<Rightarrow> ('s, dvalue list) m" where
  "read_rows txt ask host known [] = ret []"
| "read_rows txt ask host known ((raw, fallback) # rows) =
     (if is_null raw then bindE (read_rows txt ask host known rows) (\<lambda>rest. ret (V_NULL T_VARCHAR # rest))
      else let name = txt raw in
        bindE (case map_of known name of Some found \<Rightarrow> ret found | None \<Rightarrow> ask name) (\<lambda>found.
          let known = (if map_of known name = None then (name, found) # known else known) in
          case (case found of Some v \<Rightarrow> Some (V_TEXT T_VARCHAR v) | None \<Rightarrow> fallback) of
            None \<Rightarrow> throw (InvalidInput ''no variable'' [name, host])
          | Some v \<Rightarrow> bindE (read_rows txt ask host known rows) (\<lambda>rest. ret (v # rest))))"

definition read_variable :: "('w, ('w, 'y) sto_sys_scheme, 'x) lext_scheme \<Rightarrow> (('w, 'y) sto_sys_scheme, 'h) hooks_scheme \<Rightarrow>
    ('w, 'y) sto_sys_scheme statement \<Rightarrow> service_info \<Rightarrow> bool \<Rightarrow> (dvalue \<times> dvalue option) list \<Rightarrow>
    (('w, 'y) sto_sys_scheme, dvalue list) m" where
  "read_variable X H S info all_constant rows =
     bindE (get_sto st_name) (\<lambda>catalog.
     seqE (throw_or (require_variables info catalog))
     (bindE (caller_of X S) (\<lambda>c.
       read_rows (x_text X) (variable_of X H (interrupted_of S) c) (si_host info) []
         (if all_constant then take 1 rows else rows))))"

section \<open>Listing\<close>

record variable_row =
  vr_name :: "string option"
  vr_comment :: "string option"
  vr_sensitive :: bool
  vr_version :: "string option"
  vr_permissions :: "string list"

definition string_or_null :: "json \<Rightarrow> string \<Rightarrow> string option" where
  "string_or_null j key = (case jget j key of Some (JStr s) \<Rightarrow> Some (cstr s) | _ \<Rightarrow> None)"

definition variable_row_of :: "json \<Rightarrow> variable_row" where
  "variable_row_of item = \<lparr>vr_name = string_or_null item ''name'', vr_comment = string_or_null item ''comment'',
     vr_sensitive = jtrue (jget item ''sensitive''), vr_version = string_or_null item ''version'',
     vr_permissions = str_list (jget item ''permissions'')\<rparr>"

definition STANDARD_VECTOR_SIZE :: nat where
  "STANDARD_VECTOR_SIZE = 2048"

definition usable_caller_or_throw :: "caller \<Rightarrow> (('w, 'y) sto_sys_scheme, unit) m" where
  "usable_caller_or_throw c = bindE (get_sto st_name) (\<lambda>name.
     guardE (cl_refused c = []) (Permission ''refused'' [name, cl_refused c]))"

definition variables_scan :: "('w, ('w, 'y) sto_sys_scheme, 'x) ext_scheme \<Rightarrow> (('w, 'y) sto_sys_scheme, 'h) hooks_scheme \<Rightarrow>
    ('w, 'y) sto_sys_scheme statement \<Rightarrow> string \<Rightarrow> (('w, 'y) sto_sys_scheme, variable_row list) m" where
  "variables_scan X H S host =
     bindE (caller_of X S) (\<lambda>c.
     seqE (usable_caller_or_throw c)
     (bindE (storage_call X H (interrupted_of S) c ''GET'' ''/v1/variables'' [] []) (\<lambda>response.
       if sr_status response \<noteq> 200
       then throw (IOErr ''the variables'' [host, describe_problem X (sr_status response) (sr_body response)])
       else case lb_json X (sr_body response) of
         Some (JArr items) \<Rightarrow> ret (map variable_row_of (take STANDARD_VECTOR_SIZE items))
       | _ \<Rightarrow> throw (IOErr ''did not answer with a list of variables'' [host]))))"

section \<open>Writing\<close>

datatype variable_write = W_SET | W_DROP

record write_data =
  wr_write :: variable_write
  wr_name :: string
  wr_value :: string
  wr_comment :: "string option"
  wr_conditional :: bool

definition new_variable_name :: "string \<Rightarrow> error + string" where
  "new_variable_name name = (case protocol_name name of
       Inl why \<Rightarrow> Inl (InvalidInput ''a variable's name'' [why]) | Inr _ \<Rightarrow> Inr name)"

fun write_options :: "('w, 's, 'x) lext_scheme \<Rightarrow> (string \<times> dvalue) list \<Rightarrow> write_data \<Rightarrow> error + write_data" where
  "write_options X [] w = Inr w"
| "write_options X ((name, v) # os) w =
     (let opt = lb_lower X name in
      if is_null v then Inl (InvalidInput ''must not be NULL'' [opt])
      else if opt = ''comment'' then write_options X os (w\<lparr>wr_comment := Some (x_text X v)\<rparr>)
      else if opt = ''if_not_exists'' \<or> opt = ''if_exists''
      then rbind (x_as_bool X v) (\<lambda>b. write_options X os (w\<lparr>wr_conditional := b\<rparr>))
      else write_options X os w)"

definition write_bind :: "('w, 's, 'x) lext_scheme \<Rightarrow> variable_write \<Rightarrow> service_info \<Rightarrow> string \<Rightarrow> dvalue list \<Rightarrow>
    (string \<times> dvalue) list \<Rightarrow> error + write_data" where
  "write_bind X write info catalog inputs named =
     rbind (require_variables info catalog) (\<lambda>_.
     rbind (required_text X (inputs ! 0) ''the variable's name'') (\<lambda>name.
     rbind (if write = W_SET then new_variable_name name else Inr name) (\<lambda>name.
     rbind (if write = W_SET then required_text X (inputs ! 1) ''the value'' else Inr []) (\<lambda>v.
       write_options X named \<lparr>wr_write = write, wr_name = name, wr_value = v, wr_comment = None, wr_conditional = False\<rparr>))))"

definition write_body :: "write_data \<Rightarrow> string" where
  "write_body w = ''{'' @ json_text ''value'' @ '':'' @ json_text (wr_value w) @
     (case wr_comment w of None \<Rightarrow> [] | Some c \<Rightarrow> '','' @ json_text ''comment'' @ '':'' @ json_text c) @ ''}''"

text \<open>The row: the name, and a SET's version or a DROP's flag.\<close>

datatype write_row = Set_Row string "string option" | Drop_Row string bool

definition write_error :: "'z lib_scheme \<Rightarrow> string \<Rightarrow> string \<Rightarrow> string \<Rightarrow> service_response \<Rightarrow> error" where
  "write_error L doing host name response =
     (let problem = describe_problem L (sr_status response) (sr_body response) in
      if sr_status response = 403 then Permission ''you may not'' [doing, name, host, problem]
      else InvalidInput ''failed'' [doing, name, host, problem])"

definition set_result :: "'z lib_scheme \<Rightarrow> string \<Rightarrow> write_data \<Rightarrow> audited \<Rightarrow> service_response \<Rightarrow>
    (('w, 'y) sto_sys_scheme, write_row) m" where
  "set_result L host w a response =
     (if sr_status response = 412 \<and> wr_conditional w then seqE (on_audit audit_none a) (ret (Set_Row (wr_name w) None))
      else if sr_status response \<noteq> 200 \<and> sr_status response \<noteq> 201
      then told_throw (audit_answer L response) a (write_error L ''set'' host (wr_name w) response)
      else seqE (on_audit audit_ok a) (ret (Set_Row (wr_name w)
        (case jget_opt (lb_json L (sr_body response)) ''version'' of Some (JStr v) \<Rightarrow> Some (cstr v) | _ \<Rightarrow> None))))"

definition drop_variable_result :: "'z lib_scheme \<Rightarrow> string \<Rightarrow> write_data \<Rightarrow> audited \<Rightarrow> service_response \<Rightarrow>
    (('w, 'y) sto_sys_scheme, write_row) m" where
  "drop_variable_result L host w a response =
     (if sr_status response = 404 \<and> wr_conditional w then seqE (on_audit audit_none a) (ret (Drop_Row (wr_name w) False))
      else if sr_status response \<noteq> 204 \<and> sr_status response \<noteq> 200
      then told_throw (audit_answer L response) a
        (if sr_status response = 404 then InvalidInput ''no variable'' [wr_name w, host]
         else write_error L ''drop'' host (wr_name w) response)
      else seqE (on_audit audit_ok a) (ret (Drop_Row (wr_name w) True)))"

definition write_scan :: "('w, ('w, 'y) sto_sys_scheme, 'x) ext_scheme \<Rightarrow> (('w, 'y) sto_sys_scheme, 'h) hooks_scheme \<Rightarrow>
    ('w, 'y) sto_sys_scheme statement \<Rightarrow> string \<Rightarrow> write_data \<Rightarrow> (('w, 'y) sto_sys_scheme, write_row) m" where
  "write_scan X H S host w =
     bindE (caller_of X S) (\<lambda>c.
     seqE (usable_caller_or_throw c)
     (bindE (start_audit (if wr_write w = W_SET then ''write'' else ''drop'') c) (\<lambda>a.
       let a = audited_secret (wr_name w) ''variable'' False a; path = ''/v1/variables/'' @ encode_segment (wr_name w) in
     bindE (catchE
         (if wr_write w = W_SET
          then storage_call X H (interrupted_of S) c ''PUT'' path (write_body w) (if wr_conditional w then [(''If-None-Match'', ''*'')] else [])
          else storage_call X H (interrupted_of S) c ''DELETE'' path [] [])
         (\<lambda>e. told_throw (audit_failed e) a e)) (\<lambda>response.
     seqE (on_sto (invalidate_variable (wr_name w)))
       (if wr_write w = W_SET then set_result X host w a response else drop_variable_result X host w a response)))))"

section \<open>Each name is asked once\<close>

text \<open>The names of a chunk, in the order they are first met.\<close>

fun first_met :: "string list \<Rightarrow> string list \<Rightarrow> string list" where
  "first_met seen [] = []"
| "first_met seen (n # ns) = (if n \<in> set seen then first_met seen ns else n # first_met (n # seen) ns)"

lemma first_met_distinct: "distinct (first_met seen ns) \<and> set (first_met seen ns) = set ns - set seen"
  by (induction seen ns rule: first_met.induct) auto

definition asked_names :: "(dvalue \<Rightarrow> string) \<Rightarrow> (dvalue \<times> dvalue option) list \<Rightarrow> string list" where
  "asked_names txt rows = map (txt \<circ> fst) (filter (\<lambda>r. \<not> is_null (fst r)) rows)"

definition row_value :: "(dvalue \<Rightarrow> string) \<Rightarrow> (string \<Rightarrow> string option) \<Rightarrow> dvalue \<times> dvalue option \<Rightarrow> dvalue option" where
  "row_value txt f r = (if is_null (fst r) then Some (V_NULL T_VARCHAR)
     else case f (txt (fst r)) of Some v \<Rightarrow> Some (V_TEXT T_VARCHAR v) | None \<Rightarrow> snd r)"

definition logged :: "(string \<Rightarrow> string option) \<Rightarrow> string \<Rightarrow> (string list, string option) m" where
  "logged f n = (\<lambda>asked. (Inr (f n), asked @ [n]))"

lemma read_rows_ref:
  assumes "list_all (\<lambda>r. row_value txt f r \<noteq> None) rows" and "\<forall>n \<in> fst ` set known. map_of known n = Some (f n)"
  shows "read_rows txt (logged f) host known rows asked =
    (Inr (map (the \<circ> row_value txt f) rows), asked @ first_met (map fst known) (asked_names txt rows))"
  using assms
proof (induction rows arbitrary: known asked)
  case (Cons r rows)
  obtain raw fallback where r: "r = (raw, fallback)" by (cases r)
  show ?case
  proof (cases "is_null raw")
    case True
    then show ?thesis using Cons r by (simp add: asked_names_def row_value_def monad_defs)
  next
    case False
    let ?n = "txt raw"
    obtain v where v: "row_value txt f r = Some v" using Cons.prems(1) by auto
    have val: "(case f ?n of Some w \<Rightarrow> Some (V_TEXT T_VARCHAR w) | None \<Rightarrow> fallback) = Some v"
      using v False by (simp add: row_value_def r split: option.splits)
    show ?thesis
    proof (cases "map_of known ?n")
      case None
      then have new: "?n \<notin> fst ` set known" by (simp add: map_of_eq_None_iff)
      have "\<forall>n \<in> fst ` set ((?n, f ?n) # known). map_of ((?n, f ?n) # known) n = Some (f n)"
        using Cons.prems(2) by auto
      then show ?thesis using Cons.IH [of "(?n, f ?n) # known" "asked @ [?n]"] Cons.prems(1) None new False val v
        by (simp add: r asked_names_def monad_defs logged_def Let_def)
    next
      case (Some w)
      then have there: "?n \<in> fst ` set known" by (metis map_of_eq_None_iff option.distinct(1))
      then have "w = f ?n" using Cons.prems(2) Some by auto
      then show ?thesis using Cons Some False val v there by (simp add: r asked_names_def monad_defs Let_def)
    qed
  qed
qed (simp add: ret_def asked_names_def)

text \<open>
  Over a chunk, \<^verbatim>\<open>variable()\<close> answers each row as if it were asked alone - the variable's value, the row's
  own fallback where there is none, NULL for a NULL name - and asks for each name once, in the order of the rows.
\<close>

theorem variable_asks_each_name_once:
  assumes "list_all (\<lambda>r. row_value txt f r \<noteq> None) rows"
  shows "\<exists>asked. read_rows txt (logged f) host [] rows [] = (Inr (map (the \<circ> row_value txt f) rows), asked) \<and>
    distinct asked \<and> set asked = set (asked_names txt rows)"
  using read_rows_ref [OF assms, of "[]" host "[]"] first_met_distinct [of "[]" "asked_names txt rows"] by simp

theorem variable_asks_each_name_once_witness:
  "fst (read_rows value_text (logged (\<lambda>n. if n = ''a'' then Some ''1'' else None)) ''h'' []
     [(V_TEXT T_VARCHAR ''a'', None), (V_TEXT T_VARCHAR ''b'', Some (V_TEXT T_VARCHAR ''x'')), (V_TEXT T_VARCHAR ''a'', None)] []) =
   Inr [V_TEXT T_VARCHAR ''1'', V_TEXT T_VARCHAR ''x'', V_TEXT T_VARCHAR ''1'']"
proof -
  let ?f = "\<lambda>n. if n = ''a'' then Some ''1'' else None"
  let ?rows = "[(V_TEXT T_VARCHAR ''a'', None), (V_TEXT T_VARCHAR ''b'', Some (V_TEXT T_VARCHAR ''x'')), (V_TEXT T_VARCHAR ''a'', None)]"
  have "list_all (\<lambda>r. row_value value_text ?f r \<noteq> None) ?rows" by (simp add: row_value_def)
  from variable_asks_each_name_once [OF this, of "''h''"] show ?thesis by (auto simp: row_value_def)
qed

text \<open>A write that reached the service leaves no cached value of the variable in any view, whatever it answered.\<close>

lemma write_forgets_variable:
  "v_variables (st_views (invalidate_variable name st) v) name = None \<or> \<not> in_use st v"
  by (auto simp: invalidate_variable_def in_every_view_def)

end
