(* ===== verification/Tresor_Tables.thy ===== *)
theory Tresor_Tables
  imports Tresor_Logoff Tresor_Variables
begin

text \<open>
  The statements that are left: \<^verbatim>\<open>whoami()\<close> (\<^verbatim>\<open>tresor_whoami.cpp\<close>), \<^verbatim>\<open>secrets()\<close> and \<^verbatim>\<open>tresor_secret_param\<close>
  (\<^verbatim>\<open>tresor_secrets.cpp\<close>), \<^verbatim>\<open>tresor_login\<close> (\<^verbatim>\<open>tresor_login_function.cpp\<close>), \<^verbatim>\<open>tresor_web_login\<close> and \<^verbatim>\<open>tresor_web_token\<close> - each as
  its bind, where that checks anything, and its scan. A scan runs once per statement.
\<close>

section \<open>whoami\<close>

record whoami_row =
  wh_service :: string
  wh_issuer :: "string option"
  wh_subject :: "string option"
  wh_roles :: "string list"
  wh_actor :: "string option"
  wh_expires_at :: "int option"
  wh_can_create :: "string list"
  wh_login :: string
  wh_name :: "string option"

text \<open>\<open>true\<close>: everything, \<open>false\<close>: nothing, a list: those name patterns.\<close>

definition can_create :: "json \<Rightarrow> string list" where
  "can_create root = (case jget root ''permissions'' of
       Some (JObj kvs) \<Rightarrow> (case jget (JObj kvs) ''create'' of
           Some create \<Rightarrow> if jtrue (Some create) then [''*''] else str_list (Some create)
         | None \<Rightarrow> [])
     | _ \<Rightarrow> [])"

definition whoami_row_of :: "'z lib_scheme \<Rightarrow> session \<Rightarrow> json \<Rightarrow> whoami_row" where
  "whoami_row_of L se root = \<lparr>wh_service = si_api (s_info se), wh_issuer = string_or_null root ''issuer'',
     wh_subject = string_or_null root ''subject'', wh_roles = str_list (jget root ''roles''),
     wh_actor = string_or_null root ''actor'',
     wh_expires_at = (case jget root ''expires_at'' of Some (JStr t) \<Rightarrow> lb_timestamp L t | _ \<Rightarrow> None),
     wh_can_create = can_create root, wh_login = session_login_name se, wh_name = string_or_null root ''name''\<rparr>"

definition whoami_scan :: "('w, ('w, 'y) sto_sys_scheme, 'x) ext_scheme \<Rightarrow> (('w, 'y) sto_sys_scheme, 'h) hooks_scheme \<Rightarrow>
    ('w, 'y) sto_sys_scheme statement \<Rightarrow> nat \<Rightarrow> (('w, 'y) sto_sys_scheme, whoami_row) m" where
  "whoami_scan X H S sid =
     bindE (caller_of X S) (\<lambda>c.
     bindE (storage_call X H (interrupted_of S) c ''GET'' ''/v1/whoami'' [] []) (\<lambda>response.
     bindE (get_ses sid id) (\<lambda>se. let host = si_host (s_info se) in
       if sr_status response \<noteq> 200 then
         throw (InvalidInput ''whoami'' [host, describe_problem X (sr_status response) (sr_body response)])
       else case lb_json X (sr_body response) of
         Some (JObj kvs) \<Rightarrow> ret (whoami_row_of X se (JObj kvs))
       | _ \<Rightarrow> throw (IOErr ''whoami answered no JSON object'' [host]))))"

section \<open>secrets\<close>

record secret_row =
  sw_name :: string
  sw_type :: string
  sw_provider :: string
  sw_scope :: "string list"
  sw_comment :: "string option"
  sw_owner :: string
  sw_permissions :: "string list"
  sw_dynamic :: bool
  sw_updated_at :: "int option"
  sw_version :: string

definition timestamp_or_null :: "'z lib_scheme \<Rightarrow> string \<Rightarrow> int option" where
  "timestamp_or_null L t = (if t = [] then None else lb_timestamp L t)"

definition secret_row_of :: "'z lib_scheme \<Rightarrow> descriptor \<Rightarrow> secret_row" where
  "secret_row_of L d = \<lparr>sw_name = d_name d, sw_type = d_type d, sw_provider = d_provider d, sw_scope = d_scope d,
     sw_comment = (if d_comment d = [] then None else Some (d_comment d)), sw_owner = d_owner d,
     sw_permissions = d_permissions d, sw_dynamic = d_dynamic d, sw_updated_at = timestamp_or_null L (d_updated_at d),
     sw_version = d_version d\<rparr>"

text \<open>Always the service's current list, as the caller sees it; it is emitted a vector at a time.\<close>

definition secrets_scan :: "('w, ('w, 'y) sto_sys_scheme, 'x) ext_scheme \<Rightarrow> (('w, 'y) sto_sys_scheme, 'h) hooks_scheme \<Rightarrow>
    ('w, 'y) sto_sys_scheme statement \<Rightarrow> (('w, 'y) sto_sys_scheme, secret_row list) m" where
  "secrets_scan X H S =
     bindE (caller_of X S) (\<lambda>c.
     bindE (refresh_list X H (interrupted_of S) c) (\<lambda>list. ret (map (secret_row_of X) list)))"

function chunks :: "'a list \<Rightarrow> 'a list list" where
  "chunks rows = (if rows = [] then [] else take STANDARD_VECTOR_SIZE rows # chunks (drop STANDARD_VECTOR_SIZE rows))"
  by pat_completeness auto
termination by (relation "measure length") (auto simp: STANDARD_VECTOR_SIZE_def)

declare chunks.simps [simp del]

lemma chunks_emit_all: "concat (chunks rows) = rows \<and> list_all (\<lambda>c. c \<noteq> [] \<and> length c \<le> STANDARD_VECTOR_SIZE) (chunks rows)"
proof (induction rows rule: chunks.induct)
  case (1 rows)
  moreover have "0 < STANDARD_VECTOR_SIZE" by (simp add: STANDARD_VECTOR_SIZE_def)
  ultimately show ?case by (cases "rows = []") (simp_all add: chunks.simps [of rows] chunks.simps [of "[]"])
qed

section \<open>One parameter of a secret\<close>

definition shown_param :: "('w, 's, 'x) sext_scheme \<Rightarrow> (dvalue \<Rightarrow> string) \<Rightarrow> secret \<Rightarrow> string \<Rightarrow> dvalue" where
  "shown_param X txt k key = (case List.find (\<lambda>kv. lb_ci_equals X (fst kv) (lb_lower X key)) (sec_map k) of
       None \<Rightarrow> V_NULL T_VARCHAR
     | Some (name, v) \<Rightarrow> V_TEXT T_VARCHAR (x_type_name X (type_of_value v) @ '' '' @
         (if \<exists>r \<in> set (sec_redact k). lb_ci_equals X r name then ''<redacted>'' else txt v)))"

definition secret_param_row :: "('w, 's, 'x) lext_scheme \<Rightarrow> dvalue \<times> dvalue \<Rightarrow> ('s, dvalue) m" where
  "secret_param_row X = (\<lambda>(name, key).
     if is_null name \<or> is_null key then ret (V_NULL T_VARCHAR)
     else bindE (gets (x_secret_named X (x_text X name))) (\<lambda>found. case found of
       None \<Rightarrow> throw (InvalidInput ''tresor_secret_param: no secret named'' [x_text X name])
     | Some e \<Rightarrow> ret (if ms_key_value e then shown_param X (x_text X) (ms_secret e) (x_text X key) else V_NULL T_VARCHAR)))"

fun secret_param_rows :: "('w, 's, 'x) lext_scheme \<Rightarrow> (dvalue \<times> dvalue) list \<Rightarrow> ('s, dvalue list) m" where
  "secret_param_rows X [] = ret []"
| "secret_param_rows X (r # rs) = bindE (secret_param_row X r) (\<lambda>v. bindE (secret_param_rows X rs) (\<lambda>vs. ret (v # vs)))"

definition secret_param :: "('w, 's, 'x) cext_scheme \<Rightarrow> (dvalue \<times> dvalue) list \<Rightarrow> ('s, dvalue list) m" where
  "secret_param X rows =
     bindE (gets (x_unredacted X)) (\<lambda>allowed.
     seqE (guardE allowed (InvalidInput ''tresor_secret_param: showing secret parameters is disabled'' []))
       (secret_param_rows X rows))"

section \<open>tresor_login\<close>

record login_data =
  ld_target :: string
  ld_options :: "(string \<times> dvalue) list"
  ld_prompt :: string
  ld_remember :: bool

definition PROMPTS :: "string list" where
  "PROMPTS = [''login'', ''select_account'', ''consent'', ''none'']"

definition login_option :: "('w, 's, 'x) lext_scheme \<Rightarrow> string \<times> dvalue \<Rightarrow> login_data \<Rightarrow> error + login_data" where
  "login_option X = (\<lambda>(given, v) d. let name = lb_lower X given in
     if is_null v then Inl (InvalidInput ''tresor_login: must not be NULL'' [name])
     else if name = ''prompt'' then
       let prompt = lb_lower X (x_text X v) in
       if prompt \<in> set PROMPTS then Inr (d\<lparr>ld_prompt := prompt\<rparr>)
       else Inl (InvalidInput ''tresor_login: prompt is login, select_account, consent or none'' [x_text X v])
     else if name = ''remember'' then rbind (x_as_bool X v) (\<lambda>b. Inr (d\<lparr>ld_remember := b\<rparr>))
     else Inr (d\<lparr>ld_options := AList.update name v (ld_options d)\<rparr>))"

fun login_options :: "('w, 's, 'x) lext_scheme \<Rightarrow> (string \<times> dvalue) list \<Rightarrow> login_data \<Rightarrow> error + login_data" where
  "login_options X [] d = Inr d"
| "login_options X (p # ps) d = rbind (login_option X p d) (login_options X ps)"

definition login_bind :: "('w, 's, 'x) lext_scheme \<Rightarrow> dvalue list \<Rightarrow> (string \<times> dvalue) list \<Rightarrow> error + login_data" where
  "login_bind X inputs options = (case inputs of
       v # _ \<Rightarrow> if is_null v then Inl (InvalidInput ''tresor_login: name a service or an attached tresor catalog'' [])
         else login_options X options \<lparr>ld_target = x_text X v, ld_options = [], ld_prompt = [], ld_remember = True\<rparr>
     | [] \<Rightarrow> Inl (InvalidInput ''tresor_login: name a service or an attached tresor catalog'' []))"

definition add_option :: "string \<Rightarrow> dvalue \<Rightarrow> (string \<times> dvalue) list \<Rightarrow> (string \<times> dvalue) list" where
  "add_option name v options = (if map_of options name = None then AList.update name v options else options)"

text \<open>The path and the options ATTACH would be given: of a service, or of an attached catalog's.\<close>

definition login_target :: "('w, 's, 'x) cext_scheme \<Rightarrow> (nat \<Rightarrow> session) \<Rightarrow> (string \<times> nat) list \<Rightarrow> login_data \<Rightarrow>
    error + string \<times> (string \<times> dvalue) list" where
  "login_target X ses attached d =
     (let target = ld_target d in
      if take 7 (lb_lower X target) = ''tresor:'' then Inr (target, ld_options d)
      else case List.find (\<lambda>c. lb_ci_equals X (fst c) target) attached of
        None \<Rightarrow> Inl (InvalidInput ''tresor_login: neither a service nor an attached tresor catalog'' [target])
      | Some (name, sid) \<Rightarrow>
          let info = s_info (ses sid) in
          if \<not> is_person (s_flow (ses sid)) then Inl (InvalidInput ''tresor_login: a service's login'' [target])
          else Inr (''tresor:'' @ si_host info, add_option ''insecure_http'' (V_BOOL (si_insecure_http info))
                 (add_option ''issuer'' (V_TEXT T_VARCHAR (si_issuer info)) (ld_options d))))"

definition request_for :: "('w, 's, 'x) cext_scheme \<Rightarrow> (nat \<Rightarrow> session) \<Rightarrow> (string \<times> nat) list \<Rightarrow> login_data \<Rightarrow> error + attach_request" where
  "request_for X ses attached d =
     rbind (login_target X ses attached d) (\<lambda>(target, options).
     rbind (case List.find (\<lambda>p. fst p \<notin> {''login'', ''issuer'', ''insecure_http''}) options of
              None \<Rightarrow> Inr () | Some (name, _) \<Rightarrow> Inl (InvalidInput ''tresor_login: unknown option'' [name])) (\<lambda>_.
       parse_attach X target options))"

text \<open>What the row shows: an empty text is NULL, so is an expiry that is not known.\<close>

record login_row =
  lw_key :: login_key
  lw_flow :: "string option"
  lw_status :: string
  lw_url :: "string option"
  lw_user_code :: "string option"
  lw_expires_at :: "int option"

definition text_or_null :: "string \<Rightarrow> string option" where
  "text_or_null t = (if t = [] then None else Some t)"

definition login_row_of :: "login_status \<Rightarrow> login_row" where
  "login_row_of st = \<lparr>lw_key = ls_key st, lw_flow = text_or_null (ls_flow st), lw_status = ls_status st,
     lw_url = text_or_null (ls_url st), lw_user_code = text_or_null (ls_user_code st),
     lw_expires_at = (if ls_expires_at st > 0 then Some (ls_expires_at st) else None)\<rparr>"

definition login_scan :: "('w, ('w, 'y) sys_scheme, 'x) cext_scheme \<Rightarrow> ('w, 'y) sys_scheme statement \<Rightarrow> nat \<Rightarrow> login_data \<Rightarrow>
    (('w, 'y) sys_scheme, login_row \<times> background) m" where
  "login_scan X S l d =
     seqE (guardE (own_statement S) (Permission ''tresor_login: not under a duckdb-acl session'' []))
     (bindE (bindE (gets (\<lambda>s. request_for X (y_ses s) (x_catalogs X s) d)) throw_or) (\<lambda>r.
      bindE (start_person_login X S l r (ld_prompt d) (ld_remember d)) (\<lambda>(status, background).
        ret (login_row_of status, background))))"

section \<open>The hand-overs of a page\<close>

record web_data =
  wd_request :: attach_request
  wd_token :: string

fun web_options :: "'z lib_scheme \<Rightarrow> string \<Rightarrow> (string \<times> dvalue) list \<Rightarrow> (string \<times> dvalue) list \<Rightarrow>
    error + (string \<times> dvalue) list" where
  "web_options L who [] options = Inr options"
| "web_options L who ((given, v) # ps) options = (let name = lb_lower L given in
     if is_null v then Inl (InvalidInput ''must not be NULL'' [who, name])
     else web_options L who ps (AList.update name v options))"

text \<open>The binds of \<^verbatim>\<open>tresor_web_login\<close> and \<^verbatim>\<open>tresor_web_token\<close>: the service and the token, two arguments.\<close>

definition web_bind :: "('w, 's, 'x) lext_scheme \<Rightarrow> string \<Rightarrow> dvalue \<Rightarrow> dvalue \<Rightarrow> (string \<times> dvalue) list \<Rightarrow> error + web_data" where
  "web_bind X who service token options =
     (if is_null service \<or> is_null token then Inl (InvalidInput ''the service and the token must not be NULL'' [who])
      else rbind (web_options X who options []) (\<lambda>options.
        rbind (parse_attach X (x_text X service) options) (\<lambda>r. Inr \<lparr>wd_request = r, wd_token = x_text X token\<rparr>)))"

definition web_audit :: "web_data \<Rightarrow> (('w, 'y) act_sys_scheme, audited) m" where
  "web_audit d = gets (\<lambda>s. on_event (\<lambda>e. e\<lparr>ev_host := ar_host (wd_request d)\<rparr>) (audited_new (y_audit s) ''login''))"

definition web_scan :: "string \<Rightarrow> (('w, 'y) act_sys_scheme, 'a) m \<Rightarrow> ('w, 'y) act_sys_scheme statement \<Rightarrow> web_data \<Rightarrow>
    (('w, 'y) act_sys_scheme, 'a) m" where
  "web_scan who hand_over S d =
     seqE (guardE (own_statement S) (Permission ''not under a duckdb-acl session'' [who]))
     (bindE (web_audit d) (\<lambda>a.
      bindE (catchE hand_over (\<lambda>e. told_throw (audit_failed e) a e)) (\<lambda>out.
      seqE (on_audit audit_ok (audited_detail who a)) (ret out))))"

definition web_login_scan :: "('w, ('w, 'y) act_sys_scheme, 'x) lext_scheme \<Rightarrow> ('w, 'y) act_sys_scheme statement \<Rightarrow> web_data \<Rightarrow>
    (('w, 'y) act_sys_scheme, login_key) m" where
  "web_login_scan X S d = web_scan ''web_login'' (hand_over_login X (wd_request d) (wd_token d)) S d"

definition web_token_scan :: "('w, ('w, 'y) act_sys_scheme, 'x) lext_scheme \<Rightarrow> ('w, 'y) act_sys_scheme statement \<Rightarrow> web_data \<Rightarrow>
    (('w, 'y) act_sys_scheme, string \<times> string \<times> int option) m" where
  "web_token_scan X S d = bindE (web_scan ''web_token'' (hand_over_page_token X (wd_request d) (wd_token d)) S d) (\<lambda>handed.
     ret (ph_service handed, ph_issuer handed, if ph_expires_at handed = 0 then None else Some (ph_expires_at handed)))"

section \<open>What the statements guarantee\<close>

lemma find_related:
  "list_all2 R xs ys \<Longrightarrow> (\<And>x y. R x y \<Longrightarrow> fst x = fst y) \<Longrightarrow>
     (case List.find (\<lambda>kv. p (fst kv)) xs of
        None \<Rightarrow> List.find (\<lambda>kv. p (fst kv)) ys = None
      | Some x \<Rightarrow> \<exists>y. List.find (\<lambda>kv. p (fst kv)) ys = Some y \<and> R x y)"
  by (induction rule: list_all2_induct) (auto split: option.splits)

text \<open>What is shown of a redacted parameter is its type: two secrets that differ in such values look the same.\<close>

lemma shown_param_redacts:
  assumes "list_all2 (\<lambda>(n, v) (n', v'). n = n' \<and> type_of_value v = type_of_value v' \<and>
      (v = v' \<or> (\<exists>r \<in> set (sec_redact k). lb_ci_equals X r n))) (sec_map k) (sec_map k')"
    and "sec_redact k' = sec_redact k"
  shows "shown_param X txt k key = shown_param X txt k' key"
  using find_related [OF assms(1), of "\<lambda>n. lb_ci_equals X n (lb_lower X key)"] assms(2)
  by (auto simp: shown_param_def split: option.splits)

lemma foreign_scan: "\<not> own_statement S \<Longrightarrow> web_scan who hand_over S d s = (Inl (Permission ''not under a duckdb-acl session'' [who]), s)"
  by (simp add: web_scan_def monad_defs)

text \<open>
  C12: a statement run for a duckdb-acl session - or one whose session acl cannot tell - never touches the node's
  logins: \<^verbatim>\<open>tresor_logoff\<close>, \<^verbatim>\<open>tresor_login\<close>, \<^verbatim>\<open>tresor_web_login\<close> and \<^verbatim>\<open>tresor_web_token\<close> are refused and change nothing at all;
  \<^verbatim>\<open>act_for_sessions\<close> is refused and changes only the audit, which says whose attempt it was.
\<close>

theorem foreign_statements_refused:
  fixes X :: "('w, ('w, 'y) cat_sys_scheme, 'x) cext_scheme"
  assumes "\<not> own_statement S"
  shows "logoff_scan X H S lo s = (Inl (Permission ''tresor_logoff: not under a duckdb-acl session'' []), s) \<and>
    login_scan X S l ld s = (Inl (Permission ''tresor_login: not under a duckdb-acl session'' []), s) \<and>
    web_login_scan X S wd s = (Inl (Permission ''not under a duckdb-acl session'' [''web_login'']), s) \<and>
    web_token_scan X S wd s = (Inl (Permission ''not under a duckdb-acl session'' [''web_token'']), s) \<and>
    (\<exists>a. act_scan X S aid ad s = (Inl (Permission ''act_for_sessions: not under a duckdb-acl session'' []), s\<lparr>y_audit := a\<rparr>) \<and>
       (au_level (y_audit s) = L_ALL \<longrightarrow> (\<exists>e. au_log a = au_log (y_audit s) @ [e] \<and> ev_outcome e = ''denied'' \<and>
          ev_acl_session e = ev_acl_session (attempt_of S no_event))))"
proof -
  let ?d = "on_event (attempt_of S) (audited_detail ''act_for_sessions'' (audited_for (y_ses s) (node_of (kt_session (y_cat s)))
              (kt_name (y_cat s)) (audited_new (y_audit s) ''login'')))"
  let ?a = "snd (audit_denied ''other'' ''under a duckdb-acl session'' (?d, y_audit s))"
  have act: "act_scan X S aid ad s = (Inl (Permission ''act_for_sessions: not under a duckdb-acl session'' []), s\<lparr>y_audit := ?a\<rparr>)"
    using assms by (simp add: act_scan_def act_event_def told_throw_def on_audit_def monad_defs)
  have "\<exists>e. au_log ?a = au_log (y_audit s) @ [e] \<and> ev_outcome e = ''denied'' \<and>
      ev_acl_session e = ev_acl_session (attempt_of S no_event)" if "au_level (y_audit s) = L_ALL"
    using that by (auto simp: audit_denied_def finish_def audited_new_def wanted_def on_event_def audited_detail_def audited_for_def
        emit_def count_event_def Let_def attempt_of_def split: option.splits sum.splits)
  then show ?thesis using assms act
    by (auto simp: logoff_scan_def login_scan_def web_login_scan_def web_token_scan_def foreign_scan monad_defs)
qed

definition foreign_statement :: "'s statement" where
  "foreign_statement = \<lparr>sm_acl = Some (Inr (Some \<lparr>av_session_id = ''a1'', av_issuer = ''https://idp'', av_subject = ''eve'',
     av_correlation_id = [], av_traceparent = []\<rparr>)), sm_interrupted = (\<lambda>_. False), sm_slices = []\<rparr>"

definition logoff_everything :: logoff_data where
  "logoff_everything = \<lparr>lo_catalog = [], lo_key = no_key, lo_detach = True\<rparr>"

theorem foreign_statements_refused_witness:
  "logoff_scan (sample_cext True) (\<lambda>_. no_hooks) foreign_statement logoff_everything sample_cat =
     (Inl (Permission ''tresor_logoff: not under a duckdb-acl session'' []), sample_cat)"
  using foreign_statements_refused [where X = "sample_cext True" and H = "\<lambda>_. no_hooks" and S = foreign_statement
    and lo = logoff_everything and s = sample_cat]
  by (simp add: own_statement_def foreign_statement_def)

end
