(* ===== verification/Tresor_Load.thy ===== *)
theory Tresor_Load
  imports Tresor_Lookup_Laws Tresor_Secret Tresor_Logoff_Laws Tresor_Tables
begin

text \<open>
  What DuckDB is told about tresor: the columns each table function binds (\<^verbatim>\<open>*Bind\<close>) beside the cells its scan
  appends, the log type of the audit (\<^verbatim>\<open>TresorLogType\<close>), the functions an attached catalog gets with their
  arguments, and LOAD itself (\<^verbatim>\<open>LoadInternal\<close>), which takes over the settings given before it and the
  environment's. The last section is the end of an instance and the duckdb-acl observer's two callbacks.
\<close>

section \<open>Cells\<close>

type_synonym columns = "(string \<times> ltype) list"

definition T_BIGINT :: ltype where
  "T_BIGINT = T_EXACT ''BIGINT''"

definition T_TIMESTAMP_TZ :: ltype where
  "T_TIMESTAMP_TZ = T_OTHER ''TIMESTAMP WITH TIME ZONE''"

abbreviation T_TEXTS :: ltype where
  "T_TEXTS \<equiv> T_LIST T_VARCHAR"

abbreviation cell_text :: "string \<Rightarrow> dvalue" where
  "cell_text \<equiv> V_TEXT T_VARCHAR"

text \<open>A number and a point in time by the decimal text of their number.\<close>

definition cell_int :: "int \<Rightarrow> dvalue" where
  "cell_int n = V_TEXT T_BIGINT (show_int n)"

definition cell_time :: "int option \<Rightarrow> dvalue" where
  "cell_time t = (case t of None \<Rightarrow> V_NULL T_TIMESTAMP_TZ | Some n \<Rightarrow> V_TEXT T_TIMESTAMP_TZ (show_int n))"

definition cell_or_null :: "string option \<Rightarrow> dvalue" where
  "cell_or_null t = (case t of None \<Rightarrow> V_NULL T_VARCHAR | Some s \<Rightarrow> cell_text s)"

definition cell_texts :: "string list \<Rightarrow> dvalue" where
  "cell_texts ts = V_LIST T_VARCHAR (map cell_text ts)"

text \<open>What \<^verbatim>\<open>Append\<close> takes as it is: a NULL, or a value of the column's type whose items have the list's.\<close>

fun fits :: "ltype \<Rightarrow> dvalue \<Rightarrow> bool" where
  "fits t (V_NULL u) = True"
| "fits t (V_LIST u vs) = (t = T_LIST u \<and> list_all (\<lambda>v. type_of_value v = u) vs)"
| "fits t v = (t = type_of_value v)"

definition row_fits :: "columns \<Rightarrow> dvalue list \<Rightarrow> bool" where
  "row_fits columns cells = list_all2 (\<lambda>(_, t) v. fits t v) columns cells"

lemma fits_cells [simp]:
  "fits T_VARCHAR (cell_or_null t)" "fits T_TIMESTAMP_TZ (cell_time n)" "fits T_BIGINT (cell_int i)" "fits T_TEXTS (cell_texts ts)"
  by (auto simp: cell_or_null_def cell_time_def cell_int_def cell_texts_def list_all_iff split: option.splits)

section \<open>The columns and the rows of each function\<close>

definition whoami_columns :: columns where
  "whoami_columns = [(''service'', T_VARCHAR), (''issuer'', T_VARCHAR), (''subject'', T_VARCHAR), (''roles'', T_TEXTS),
     (''actor'', T_VARCHAR), (''expires_at'', T_TIMESTAMP_TZ), (''can_create'', T_TEXTS), (''login'', T_VARCHAR),
     (''name'', T_VARCHAR)]"

definition whoami_cells :: "whoami_row \<Rightarrow> dvalue list" where
  "whoami_cells r = [cell_text (wh_service r), cell_or_null (wh_issuer r), cell_or_null (wh_subject r), cell_texts (wh_roles r),
     cell_or_null (wh_actor r), cell_time (wh_expires_at r), cell_texts (wh_can_create r), cell_text (wh_login r),
     cell_or_null (wh_name r)]"

definition secrets_columns :: columns where
  "secrets_columns = [(''name'', T_VARCHAR), (''type'', T_VARCHAR), (''provider'', T_VARCHAR), (''scope'', T_TEXTS),
     (''comment'', T_VARCHAR), (''owner'', T_VARCHAR), (''permissions'', T_TEXTS), (''dynamic'', T_BOOLEAN),
     (''updated_at'', T_TIMESTAMP_TZ), (''version'', T_VARCHAR)]"

definition secrets_cells :: "secret_row \<Rightarrow> dvalue list" where
  "secrets_cells r = [cell_text (sw_name r), cell_text (sw_type r), cell_text (sw_provider r), cell_texts (sw_scope r),
     cell_or_null (sw_comment r), cell_text (sw_owner r), cell_texts (sw_permissions r), V_BOOL (sw_dynamic r),
     cell_time (sw_updated_at r), cell_text (sw_version r)]"

definition variables_columns :: columns where
  "variables_columns = [(''name'', T_VARCHAR), (''comment'', T_VARCHAR), (''sensitive'', T_BOOLEAN), (''version'', T_VARCHAR),
     (''permissions'', T_TEXTS)]"

definition variables_cells :: "variable_row \<Rightarrow> dvalue list" where
  "variables_cells r = [cell_or_null (vr_name r), cell_or_null (vr_comment r), V_BOOL (vr_sensitive r),
     cell_or_null (vr_version r), cell_texts (vr_permissions r)]"

definition write_columns :: "variable_write \<Rightarrow> columns" where
  "write_columns w = [(''name'', T_VARCHAR),
     (if w = W_SET then ''version'' else ''dropped'', if w = W_SET then T_VARCHAR else T_BOOLEAN)]"

fun write_cells :: "write_row \<Rightarrow> dvalue list" where
  "write_cells (Set_Row name version) = [cell_text name, cell_or_null version]"
| "write_cells (Drop_Row name dropped) = [cell_text name, V_BOOL dropped]"

definition manage_columns :: "action \<Rightarrow> columns" where
  "manage_columns act = (if act = ANNOTATE then [(''name'', T_VARCHAR), (''comment'', T_VARCHAR), (''version'', T_VARCHAR)]
     else [(''id'', T_VARCHAR), (''principal'', T_VARCHAR), (''verbs'', T_TEXTS)])"

definition emit_grant :: "grant \<Rightarrow> dvalue list" where
  "emit_grant g = [cell_text (gr_id g), cell_text (gr_principal g), cell_texts (gr_verbs g)]"

fun manage_cells :: "manage_rows \<Rightarrow> dvalue list list" where
  "manage_cells (Annotated name comment version) = [[cell_text name, cell_text comment, cell_or_null version]]"
| "manage_cells (Grant_Rows rows) = map emit_grant rows"

definition act_columns :: columns where
  "act_columns = [(''service'', T_VARCHAR), (''exchange'', T_VARCHAR), (''audience'', T_VARCHAR), (''scope'', T_VARCHAR),
     (''changed'', T_BOOLEAN)]"

definition act_cells :: "string \<Rightarrow> actor_options \<times> bool \<Rightarrow> dvalue list" where
  "act_cells service = (\<lambda>(options, changed). [cell_text service,
     cell_text (if ao_on_behalf_of options then ''on_behalf_of'' else ''token_exchange''),
     cell_or_null (text_or_null (ao_audience options)), cell_or_null (text_or_null (ao_scope options)), V_BOOL changed])"

definition login_columns :: columns where
  "login_columns = map (\<lambda>c. (c, T_VARCHAR)) [''service'', ''issuer'', ''client_id'', ''flow'', ''status'', ''url'', ''user_code''] @
     [(''expires_at'', T_TIMESTAMP_TZ)]"

text \<open>Here a missing text is \<^verbatim>\<open>Value()\<close>, a NULL with no type of its own.\<close>

definition untyped_or :: "string option \<Rightarrow> dvalue" where
  "untyped_or t = (case t of None \<Rightarrow> V_NULL (T_OTHER ''NULL'') | Some s \<Rightarrow> cell_text s)"

definition login_cells :: "login_row \<Rightarrow> dvalue list" where
  "login_cells r = [cell_text (lk_service (lw_key r)), cell_text (lk_issuer (lw_key r)), cell_text (lk_client_id (lw_key r)),
     untyped_or (lw_flow r), cell_text (lw_status r), untyped_or (lw_url r), untyped_or (lw_user_code r), cell_time (lw_expires_at r)]"

definition logoff_columns :: columns where
  "logoff_columns = [(''service'', T_VARCHAR), (''issuer'', T_VARCHAR), (''client_id'', T_VARCHAR), (''removed'', T_BOOLEAN),
     (''revoked'', T_BOOLEAN), (''detached'', T_BIGINT)]"

definition logoff_cells :: "logoff_row \<Rightarrow> dvalue list" where
  "logoff_cells r = [cell_text (lk_service (lr_key r)), cell_text (lk_issuer (lr_key r)), cell_text (lk_client_id (lr_key r)),
     V_BOOL (lr_removed r), V_BOOL (lr_revoked r), cell_int (lr_detached r)]"

definition web_login_columns :: columns where
  "web_login_columns = [(''service'', T_VARCHAR), (''issuer'', T_VARCHAR), (''client_id'', T_VARCHAR)]"

definition web_login_cells :: "login_key \<Rightarrow> dvalue list" where
  "web_login_cells k = [cell_text (lk_service k), cell_text (lk_issuer k), cell_text (lk_client_id k)]"

definition web_token_columns :: columns where
  "web_token_columns = [(''service'', T_VARCHAR), (''issuer'', T_VARCHAR), (''expires_at'', T_TIMESTAMP_TZ)]"

definition web_token_cells :: "string \<times> string \<times> int option \<Rightarrow> dvalue list" where
  "web_token_cells = (\<lambda>(service, iss, expires). [cell_text service, cell_text iss, cell_time expires])"

section \<open>The audit's log\<close>

definition log_columns :: columns where
  "log_columns = map (\<lambda>c. (c, T_VARCHAR)) [''kind'', ''outcome'', ''reason_code'', ''reason'', ''service'', ''host'', ''login'',
       ''principal'', ''user'', ''acl_session'', ''correlation_id'', ''traceparent'', ''secret'', ''secret_type''] @
     [(''cached'', T_BOOLEAN), (''dynamic'', T_BOOLEAN), (''target'', T_VARCHAR), (''duration_us'', T_BIGINT), (''detail'', T_VARCHAR),
      (''seq'', T_BIGINT)]"

text \<open>\<open>us\<close> is the event's duration, negative for none; the cells in the order of their names.\<close>

definition log_message :: "audit_event \<Rightarrow> int \<Rightarrow> (string \<times> dvalue) list" where
  "log_message e us = (let txt = (\<lambda>t. cell_or_null (text_or_null t)) in
     [(''kind'', txt (ev_kind e)), (''outcome'', txt (ev_outcome e)), (''reason_code'', txt (ev_reason_code e)),
      (''reason'', txt (ev_reason e)), (''service'', txt (ev_service e)), (''host'', txt (ev_host e)),
      (''login'', txt (ev_login e)), (''principal'', txt (ev_principal e)), (''user'', txt (ev_user e)),
      (''acl_session'', txt (ev_acl_session e)), (''correlation_id'', txt (ev_correlation_id e)),
      (''traceparent'', txt (ev_traceparent e)), (''secret'', txt (ev_secret e)), (''secret_type'', txt (ev_secret_type e)),
      (''cached'', V_BOOL (ev_cached e)), (''dynamic'', V_BOOL (ev_dynamic e)), (''target'', txt (ev_target e)),
      (''duration_us'', if us < 0 then V_NULL T_BIGINT else cell_int us), (''detail'', txt (ev_detail e)),
      (''seq'', cell_int (ev_seq e))])"

lemma show_int_inj: "show_int a = show_int b \<longleftrightarrow> a = b"
proof -
  have "CHR ''-'' # u \<noteq> dec n" for u n
    using dec_digits [of "CHR ''-''" n] by (auto simp: is_digit_def dest: sym)
  then show ?thesis by (auto simp: show_int_def dec_inj split: if_splits) (metis+)
qed

lemma cell_of_text_inj: "cell_or_null (text_or_null s) = cell_or_null (text_or_null t) \<longleftrightarrow> s = t"
  by (auto simp: cell_or_null_def text_or_null_def split: if_splits)

text \<open>A log entry is a row of the log type, and nothing of the event is lost in it.\<close>

lemma log_message_is_typed:
  "map fst (log_message e us) = map fst log_columns \<and> row_fits log_columns (map snd (log_message e us))"
  by (simp add: log_message_def log_columns_def row_fits_def Let_def)

lemma log_message_lossless:
  "log_message e us = log_message e' us' \<Longrightarrow> e = e' \<and> (us = us' \<or> us < 0 \<and> us' < 0)"
  by (cases e, cases e')
     (auto simp: log_message_def Let_def cell_of_text_inj cell_int_def show_int_inj split: if_splits)

section \<open>Every row is a row of its function's columns\<close>

lemmas column_defs = whoami_columns_def secrets_columns_def variables_columns_def act_columns_def login_columns_def
  logoff_columns_def web_login_columns_def web_token_columns_def

lemmas cell_defs = whoami_cells_def secrets_cells_def variables_cells_def act_cells_def login_cells_def logoff_cells_def
  web_login_cells_def web_token_cells_def

lemma fits_untyped [simp]: "fits T_VARCHAR (untyped_or t)"
  by (simp add: untyped_or_def split: option.splits)

lemma wp_then: "(\<And>a t. wp (g a) Q (\<lambda>_ _. True) t) \<Longrightarrow> wp (bindE f g) Q (\<lambda>_ _. True) s"
  by (simp add: wp_bindE wp_drop)

lemma wp_after: "(\<And>t. wp g Q (\<lambda>_ _. True) t) \<Longrightarrow> wp (seqE f g) Q (\<lambda>_ _. True) s"
  by (simp add: wp_seqE wp_drop)

text \<open>A SET answers a version, a DROP a flag: what the bind announced.\<close>

lemma write_scan_fits: "wp (write_scan X H S host w) (\<lambda>row _. row_fits (write_columns (wr_write w)) (write_cells row)) (\<lambda>_ _. True) s"
proof -
  have set: "wp (set_result X host w a response) (\<lambda>row _. row_fits (write_columns W_SET) (write_cells row)) (\<lambda>_ _. True) t" for a response t
    by (simp add: set_result_def wp_simps write_columns_def row_fits_def)
  have drop: "wp (drop_variable_result X host w a response) (\<lambda>row _. row_fits (write_columns W_DROP) (write_cells row)) (\<lambda>_ _. True) t" for a response t
    by (simp add: drop_variable_result_def wp_simps write_columns_def row_fits_def)
  show ?thesis
    unfolding write_scan_def Let_def
    by (intro wp_then wp_after, cases "wr_write w") (simp_all add: set drop)
qed

text \<open>An annotation answers the comment's row, the others the grants'.\<close>

lemma manage_scan_fits:
  "wp (manage_scan X H S host m) (\<lambda>rows _. list_all (row_fits (manage_columns (mg_action m))) (manage_cells rows)) (\<lambda>_ _. True) s"
proof -
  let ?Q = "\<lambda>rows _. list_all (row_fits (manage_columns (mg_action m))) (manage_cells rows)"
  have grants: "list_all (row_fits (manage_columns (mg_action m))) (map emit_grant rows)" if "mg_action m \<noteq> ANNOTATE" for rows
    using that by (auto simp: manage_columns_def emit_grant_def row_fits_def list_all_iff)
  have change: "wp (change X ask (\<lambda>r v. told_throw (audit_answer X r) a (refused_error X host m' r v))
      (\<lambda>e. told_throw (audit_failed e) a e) m') ?Q (\<lambda>_ _. True) t" if "mg_action m' = mg_action m" for ask a m' t
  proof (cases "mg_action m")
    case ANNOTATE
    with that show ?thesis
      by (auto simp: change_def wp_simps manage_columns_def row_fits_def intro!: wp_drop)
  qed (use that grants in \<open>auto simp: change_def wp_simps intro!: wp_drop\<close>)
  have told: "wp (bindE (change X ask (\<lambda>r v. told_throw (audit_answer X r) a (refused_error X host m' r v))
      (\<lambda>e. told_throw (audit_failed e) a e) m') (\<lambda>rows. seqE (on_audit audit_ok a) (ret rows))) ?Q (\<lambda>_ _. True) t"
    if "mg_action m' = mg_action m" for ask a m' t
    by (simp add: wp_simps wp_mono [OF change [OF that]])
  have read: "wp (bindE f (\<lambda>rows. ret (Grant_Rows rows))) (\<lambda>rows _. list_all (row_fits (manage_columns GRANTS)) (manage_cells rows))
      (\<lambda>_ _. True) t" for f t
    by (intro wp_then) (auto simp: wp_ret manage_columns_def emit_grant_def row_fits_def list_all_iff)
  show ?thesis
    unfolding manage_scan_def Let_def
    by (intro wp_then, cases "mg_action m = GRANTS") (simp_all add: read told wp_then)
qed

lemma columns_distinct:
  "list_all (\<lambda>c. distinct (map fst c)) [whoami_columns, secrets_columns, variables_columns, act_columns, login_columns,
     logoff_columns, web_login_columns, web_token_columns, write_columns w, manage_columns act]"
  by (simp add: column_defs write_columns_def manage_columns_def)


section \<open>The functions and their arguments\<close>

text \<open>\<^verbatim>\<open>ManagementFunctions\<close>: the name, the arguments, and what the bind is instantiated with.\<close>

definition management_functions :: "(string \<times> ltype list \<times> action \<times> bool) list" where
  "management_functions = [
     (''annotate_secret'', [T_VARCHAR, T_VARCHAR], ANNOTATE, False), (''grants'', [T_VARCHAR], GRANTS, False),
     (''grant_secret'', [T_VARCHAR, T_VARCHAR, T_TEXTS], GRANT, False), (''revoke_secret'', [T_VARCHAR, T_VARCHAR], REVOKE, False),
     (''annotate_variable'', [T_VARCHAR, T_VARCHAR], ANNOTATE, True), (''variable_grants'', [T_VARCHAR], GRANTS, True),
     (''grant_variable'', [T_VARCHAR, T_VARCHAR, T_TEXTS], GRANT, True), (''revoke_variable'', [T_VARCHAR, T_VARCHAR], REVOKE, True)]"

text \<open>\<^verbatim>\<open>WriteFunction\<close>: the name, the arguments, the options, the write.\<close>

definition write_functions :: "(string \<times> ltype list \<times> columns \<times> variable_write) list" where
  "write_functions = [
     (''set_variable'', [T_VARCHAR, T_VARCHAR], [(''comment'', T_VARCHAR), (''if_not_exists'', T_BOOLEAN)], W_SET),
     (''drop_variable'', [T_VARCHAR], [(''if_exists'', T_BOOLEAN)], W_DROP)]"

text \<open>\<^verbatim>\<open>Initialize\<close>: the functions of an attached catalog, in the order they are created.\<close>

definition catalog_functions :: "string list" where
  "catalog_functions = [''whoami'', ''secrets''] @ map fst management_functions @ [''variables''] @ map fst write_functions @
     [''variable'', ''act_for_sessions'']"

definition LOGIN_OPTIONS :: columns where
  "LOGIN_OPTIONS = [(''login'', T_VARCHAR), (''issuer'', T_VARCHAR), (''insecure_http'', T_BOOLEAN), (''remember'', T_BOOLEAN),
     (''prompt'', T_VARCHAR)]"

definition SECRET_PARAMETERS :: "string list" where
  "SECRET_PARAMETERS = [''flow'', ''client_id'', ''client_secret'', ''token'', ''oauth_scope'', ''issuer'', ''private_key_file'',
     ''key_id'', ''certificate_file'', ''assertion_file'', ''assertion_source'', ''assertion_audience'', ''identity_client_id'',
     ''audience'']"

text \<open>No name is created twice; a bind reads no argument its function does not have.\<close>

lemma catalog_functions_distinct: "distinct catalog_functions"
  by (simp add: catalog_functions_def management_functions_def write_functions_def)

lemma management_reads_its_arguments:
  "(name, args, act, var) \<in> set management_functions \<Longrightarrow> length inputs = length args \<Longrightarrow>
     manage_bind X act var info cat (inputs @ rest) = manage_bind X act var info cat inputs"
  by (auto simp: management_functions_def manage_bind_def nth_append Let_def)

lemma write_reads_its_arguments:
  "(name, args, options, w) \<in> set write_functions \<Longrightarrow> length inputs = length args \<Longrightarrow>
     write_bind X w info cat (inputs @ rest) opts = write_bind X w info cat inputs opts"
  by (auto simp: write_functions_def write_bind_def nth_append)

text \<open>The parameters registered for a tresor secret are exactly those some flow takes.\<close>

lemma secret_parameters_exact:
  "set SECRET_PARAMETERS = {key. \<exists>flow rule. rule_of flow = Inr rule \<and> known_option rule key}" (is "?R = ?K")
proof
  show "?K \<subseteq> ?R"
    by (auto simp: SECRET_PARAMETERS_def rule_of_def known_option_def split: if_splits)
  have "list_all (\<lambda>key. list_ex (\<lambda>flow. case rule_of flow of Inl e \<Rightarrow> False | Inr rule \<Rightarrow> known_option rule key)
      [''client_credentials'', ''federated'', ''managed_identity'', ''token'']) SECRET_PARAMETERS"
    by (simp add: SECRET_PARAMETERS_def rule_of_def known_option_def)
  moreover have "key \<in> ?K" if ex: "list_ex (\<lambda>flow. case rule_of flow of Inl e \<Rightarrow> False | Inr rule \<Rightarrow> known_option rule key) flows" for key flows
  proof -
    obtain flow where flow: "case rule_of flow of Inl e \<Rightarrow> False | Inr rule \<Rightarrow> known_option rule key"
      using ex unfolding list_ex_iff by blast
    then show ?thesis by (cases "rule_of flow") auto
  qed
  ultimately show "?R \<subseteq> ?K"
    unfolding list_all_iff by blast
qed

text \<open>With the options of its signature, \<^verbatim>\<open>tresor_login\<close> hands ATTACH's rules only options of ATTACH.\<close>

lemma login_options_are_attachs:
  "login_options X gs d = Inr d' \<Longrightarrow> list_all (\<lambda>(n, _). lb_lower X n \<in> fst ` set LOGIN_OPTIONS) gs \<Longrightarrow>
     fst ` set (ld_options d) \<subseteq> {''login'', ''issuer'', ''insecure_http''} \<Longrightarrow>
     fst ` set (ld_options d') \<subseteq> {''login'', ''issuer'', ''insecure_http''}"
proof (induction X gs d rule: login_options.induct)
  case (2 X p ps d)
  obtain d1 where d1: "login_option X p d = Inr d1" "login_options X ps d1 = Inr d'"
    using "2.prems"(1) by (cases "login_option X p d") (auto simp: rbind_def)
  obtain n v where p: "p = (n, v)" by (cases p)
  have "ld_options d1 = ld_options d \<or>
      lb_lower X n \<notin> {''remember'', ''prompt''} \<and> ld_options d1 = AList.update (lb_lower X n) v (ld_options d)"
    using d1(1) by (auto simp: p login_option_def rbind_def Let_def split: if_splits sum.splits)
  moreover have "lb_lower X n \<in> {''login'', ''issuer'', ''insecure_http'', ''remember'', ''prompt''}"
    using "2.prems"(2) by (simp add: p LOGIN_OPTIONS_def)
  ultimately have "fst ` set (ld_options d1) \<subseteq> {''login'', ''issuer'', ''insecure_http''}"
    using "2.prems"(3) by (elim disjE conjE; simp add: AList.dom_update; blast)
  then show ?case using "2.IH" d1 "2.prems"(2) by auto
qed simp

section \<open>LOAD\<close>

text \<open>
  \<^verbatim>\<open>AddExtensionOption\<close>: an option's value is the one given before LOAD (\<open>preset\<close>), or else its default. A NULL is left.
\<close>

definition option_value :: "string \<Rightarrow> dvalue option \<Rightarrow> dvalue" where
  "option_value dflt preset = (case preset of None \<Rightarrow> V_TEXT T_VARCHAR dflt | Some v \<Rightarrow> v)"

definition register_audit :: "('w, 's, 'x) lext_scheme \<Rightarrow> (string \<Rightarrow> dvalue option) \<Rightarrow> (('w, 'y) act_sys_scheme, unit) m" where
  "register_audit X preset = (let v = option_value ''off'' (preset ''tresor_audit_level'') in
     if is_null v then ret ()
     else bindE (throw_or (parse_level X (x_text X v))) (\<lambda>level. modifyS (\<lambda>s. s\<lparr>y_audit := (y_audit s)\<lparr>au_level := level\<rparr>\<rparr>)))"

text \<open>The environment's mode is set at once, and is the setting's default.\<close>

definition keychain_default :: "('w, 's, 'x) lext_scheme \<Rightarrow> (('w, 'y) act_sys_scheme, string) m" where
  "keychain_default X = (case x_env X ''TRESOR_KEYCHAIN'' of
       None \<Rightarrow> ret ''auto''
     | Some from_env \<Rightarrow> if from_env = [] then ret ''auto''
         else case try_parse_mode X from_env of
           None \<Rightarrow> throw (InvalidInput ''TRESOR_KEYCHAIN is auto, off or memory'' [from_env])
         | Some mode \<Rightarrow> seqE (on_instance (\<lambda>i. ((), set_mode mode i))) (ret (lb_lower X from_env)))"

definition register_logins :: "('w, 's, 'x) lext_scheme \<Rightarrow> (string \<Rightarrow> dvalue option) \<Rightarrow> (('w, 'y) act_sys_scheme, unit) m" where
  "register_logins X preset = bindE (keychain_default X) (\<lambda>dflt.
     let v = option_value dflt (preset ''tresor_keychain'') in
     if is_null v then ret ()
     else bindE (throw_or (parse_mode X (x_text X v))) (\<lambda>mode. on_instance (\<lambda>i. ((), set_mode mode i))))"

text \<open>The client's setting is read at each request (\<open>transport_for\<close>): LOAD only checks its default, the result here.\<close>

definition load_internal :: "('w, 's, 'x) lext_scheme \<Rightarrow> (string \<Rightarrow> dvalue option) \<Rightarrow> (('w, 'y) act_sys_scheme, string) m" where
  "load_internal X preset = seqE (register_audit X preset) (seqE (register_logins X preset) (throw_or (default_client X)))"

text \<open>What counts, the first that is there: given before LOAD, the environment, the built-in default.\<close>

definition given_text :: "('w, 's, 'x) lext_scheme \<Rightarrow> (string \<Rightarrow> dvalue option) \<Rightarrow> string \<Rightarrow> string option" where
  "given_text X preset name = (case preset name of None \<Rightarrow> None | Some v \<Rightarrow> if is_null v then None else Some (x_text X v))"

definition env_text :: "('w, 's, 'x) lext_scheme \<Rightarrow> string \<Rightarrow> string option" where
  "env_text X name = (case x_env X name of None \<Rightarrow> None | Some t \<Rightarrow> text_or_null t)"

fun first_there :: "string option list \<Rightarrow> string \<Rightarrow> string" where
  "first_there [] dflt = dflt"
| "first_there (None # ts) dflt = first_there ts dflt"
| "first_there (Some t # ts) dflt = t"

lemma wp_on_instance_ret: "wp (on_instance (\<lambda>i. ((), f i))) Q E s = Q () (s\<lparr>y_inst := f (y_inst s)\<rparr>)"
  by (simp add: wp_def on_instance_def)

lemma register_audit_wp:
  assumes "\<And>t. x_text X (V_TEXT T_VARCHAR t) = t" and "lower_ascii X" and "au_level (y_audit s) = L_OFF"
  shows "wp (register_audit X preset)
    (\<lambda>_ t. t = s\<lparr>y_audit := (y_audit s)\<lparr>au_level := au_level (y_audit t)\<rparr>\<rparr> \<and>
       parse_level X (first_there [given_text X preset ''tresor_audit_level''] ''off'') = Inr (au_level (y_audit t)))
    (\<lambda>e t. t = s \<and> parse_level X (first_there [given_text X preset ''tresor_audit_level''] ''off'') = Inl e) s"
proof -
  have off: "parse_level X ''off'' = Inr L_OFF"
    using assms(2) by (simp add: parse_level_def lower_ascii_def ascii_lower_def)
  have same: "s = s\<lparr>y_audit := (y_audit s)\<lparr>au_level := L_OFF\<rparr>\<rparr>" using assms(3) by simp
  show ?thesis
    using off same assms
    by (auto simp: register_audit_def option_value_def given_text_def wp_simps Let_def split: option.splits sum.splits)
qed

lemma parse_mode_lower: "lower_ascii X \<Longrightarrow> try_parse_mode X (lb_lower X t) = try_parse_mode X t"
  by (simp add: try_parse_mode_def lower_ascii_def ascii_lower_idem comp_def)

lemma register_logins_wp:
  assumes "\<And>t. x_text X (V_TEXT T_VARCHAR t) = t" and "lower_ascii X" and "i_mode (y_inst s) = AUTO"
  shows "wp (register_logins X preset)
    (\<lambda>_ t. (\<exists>i. t = s\<lparr>y_inst := i\<rparr>) \<and> (\<forall>v. env_text X ''TRESOR_KEYCHAIN'' = Some v \<longrightarrow> try_parse_mode X v \<noteq> None) \<and>
       parse_mode X (first_there [given_text X preset ''tresor_keychain'', env_text X ''TRESOR_KEYCHAIN''] ''auto'') = Inr (i_mode (y_inst t)))
    (\<lambda>e _. (\<exists>v. env_text X ''TRESOR_KEYCHAIN'' = Some v \<and> try_parse_mode X v = None) \<or>
       parse_mode X (first_there [given_text X preset ''tresor_keychain'', env_text X ''TRESOR_KEYCHAIN''] ''auto'') = Inl e) s"
proof -
  have auto: "parse_mode X ''auto'' = Inr AUTO"
    using assms(2) by (simp add: parse_mode_def try_parse_mode_def lower_ascii_def ascii_lower_def)
  have same: "\<exists>i. s = s\<lparr>y_inst := i\<rparr>" by (rule exI [of _ "y_inst s"]) simp
  show ?thesis
    using auto same assms parse_mode_lower [OF assms(2)]
    by (auto simp: register_logins_def keychain_default_def option_value_def given_text_def env_text_def text_or_null_def
        wp_simps wp_on_instance_ret parse_mode_def set_mode_def Let_def split: option.splits sum.splits if_splits)
qed

lemma default_client_chosen:
  assumes "\<And>t. x_text X (V_TEXT T_VARCHAR t) = t" and "lower_ascii X"
  shows "let named = first_there [env_text X ''TRESOR_HTTP_CLIENT''] ''builtin''; client = lb_lower X named in
    if client \<in> {''builtin'', ''duckdb''} then default_client X = Inr client
    else \<exists>e. default_client X = Inl e"
proof -
  have "lb_lower X ''builtin'' = ''builtin''" using assms(2) by (simp add: lower_ascii_def ascii_lower_def)
  then show ?thesis
    using assms(1) by (auto simp: default_client_def env_text_def text_or_null_def parse_client_def DEFAULT_CLIENT_def Let_def
        split: option.splits)
qed

text \<open>The words LOAD goes by, and whether it can read them all.\<close>

definition level_word :: "('w, 's, 'x) lext_scheme \<Rightarrow> (string \<Rightarrow> dvalue option) \<Rightarrow> string" where
  "level_word X preset = first_there [given_text X preset ''tresor_audit_level''] ''off''"

definition mode_word :: "('w, 's, 'x) lext_scheme \<Rightarrow> (string \<Rightarrow> dvalue option) \<Rightarrow> string" where
  "mode_word X preset = first_there [given_text X preset ''tresor_keychain'', env_text X ''TRESOR_KEYCHAIN''] ''auto''"

definition client_word :: "('w, 's, 'x) lext_scheme \<Rightarrow> string" where
  "client_word X = lb_lower X (first_there [env_text X ''TRESOR_HTTP_CLIENT''] ''builtin'')"

definition readable :: "('w, 's, 'x) lext_scheme \<Rightarrow> (string \<Rightarrow> dvalue option) \<Rightarrow> bool" where
  "readable X preset \<longleftrightarrow> \<not> isl (parse_level X (level_word X preset)) \<and> try_parse_mode X (mode_word X preset) \<noteq> None \<and>
     try_parse_mode X (first_there [env_text X ''TRESOR_KEYCHAIN''] ''auto'') \<noteq> None \<and>
     client_word X \<in> {''builtin'', ''duckdb''}"

text \<open>
  LOAD takes over what it is told, and refuses what it cannot read. On a fresh instance it succeeds exactly
  when every word it reads is one of those the setting knows; then the audit's level is the one set before LOAD,
  or off; the logins' mode is the one set before LOAD, or the environment's, or auto; the HTTP client's
  default is the environment's or the built-in one; and nothing else has changed. A word in the environment that
  is no mode fails LOAD even where a setting would overrule it.
\<close>

theorem load_takes_settings:
  fixes X :: "('w, 's, 'x) lext_scheme" and s :: "('w, 'y) act_sys_scheme"
  assumes "\<And>t. x_text X (V_TEXT T_VARCHAR t) = t" and "lower_ascii X"
    and "au_level (y_audit s) = L_OFF" and "i_mode (y_inst s) = AUTO"
  shows "case load_internal X preset s of
      (Inr c, t) \<Rightarrow> readable X preset \<and> c = client_word X \<and> parse_level X (level_word X preset) = Inr (au_level (y_audit t)) \<and>
        parse_mode X (mode_word X preset) = Inr (i_mode (y_inst t)) \<and>
        t = s\<lparr>y_audit := (y_audit s)\<lparr>au_level := au_level (y_audit t)\<rparr>, y_inst := y_inst t\<rparr>
    | (Inl e, t) \<Rightarrow> \<not> readable X preset"
proof -
  let ?Q = "\<lambda>c t. readable X preset \<and> c = client_word X \<and> parse_level X (level_word X preset) = Inr (au_level (y_audit t)) \<and>
        parse_mode X (mode_word X preset) = Inr (i_mode (y_inst t)) \<and>
        t = s\<lparr>y_audit := (y_audit s)\<lparr>au_level := au_level (y_audit t)\<rparr>, y_inst := y_inst t\<rparr>"
  let ?E = "\<lambda>e t. \<not> readable X preset"
  have client: "wp (throw_or (default_client X)) (\<lambda>c u. c = client_word X \<and> client_word X \<in> {''builtin'', ''duckdb''} \<and> u = t)
      (\<lambda>e u. client_word X \<notin> {''builtin'', ''duckdb''}) t" for t :: "('w, 'y) act_sys_scheme"
    using default_client_chosen [OF assms(1,2)] by (auto simp: wp_simps client_word_def Let_def split: if_splits)
  have logins: "wp (register_logins X preset) (\<lambda>_. wp (throw_or (default_client X)) ?Q ?E) ?E
      (s\<lparr>y_audit := (y_audit s)\<lparr>au_level := level\<rparr>\<rparr>)" (is "wp _ _ _ ?s") if level: "parse_level X (level_word X preset) = Inr level" for level
  proof (rule wp_mono [OF register_logins_wp [OF assms(1,2), folded mode_word_def]])
    have auto: "try_parse_mode X ''auto'' = Some AUTO"
      using assms(2) by (simp add: try_parse_mode_def lower_ascii_def ascii_lower_def)
    show "?E e t" if "(\<exists>v. env_text X ''TRESOR_KEYCHAIN'' = Some v \<and> try_parse_mode X v = None) \<or> parse_mode X (mode_word X preset) = Inl e" for e t
      using that by (auto simp: readable_def parse_mode_def split: option.splits)
    fix u t assume t: "(\<exists>i. t = ?s\<lparr>y_inst := i\<rparr>) \<and> (\<forall>v. env_text X ''TRESOR_KEYCHAIN'' = Some v \<longrightarrow> try_parse_mode X v \<noteq> None) \<and>
      parse_mode X (mode_word X preset) = Inr (i_mode (y_inst t))"
    then have "try_parse_mode X (first_there [env_text X ''TRESOR_KEYCHAIN''] ''auto'') \<noteq> None"
      "try_parse_mode X (mode_word X preset) \<noteq> None" "t = s\<lparr>y_audit := (y_audit s)\<lparr>au_level := level\<rparr>, y_inst := y_inst t\<rparr>"
      using auto by (cases "env_text X ''TRESOR_KEYCHAIN''"; auto simp: parse_mode_def split: option.splits)+
    then show "wp (throw_or (default_client X)) ?Q ?E t"
      using t level by (intro wp_mono [OF client]) (auto simp: readable_def)
  qed (use assms(4) in simp)
  have "wp (load_internal X preset) ?Q ?E s"
    unfolding load_internal_def wp_seqE
  proof (rule wp_mono [OF register_audit_wp [OF assms(1-3), folded level_word_def]])
    fix u t assume t: "t = s\<lparr>y_audit := (y_audit s)\<lparr>au_level := au_level (y_audit t)\<rparr>\<rparr> \<and>
      parse_level X (level_word X preset) = Inr (au_level (y_audit t))"
    show "wp (register_logins X preset) (\<lambda>_. wp (throw_or (default_client X)) ?Q ?E) ?E t"
      by (subst conjunct1 [OF t], rule logins [OF conjunct2 [OF t]])
  qed (simp add: readable_def)
  then show ?thesis by (simp add: wp_def)
qed

definition loading :: "unit act_sys" where
  "loading = \<lparr>y_ses = (\<lambda>_. sample_session), y_inst = sample_instance\<lparr>i_mode := AUTO\<rparr>,
     y_audit = \<lparr>au_level = L_OFF, au_sinks = False, au_stopped = False, au_seq = 0, au_log = [], au_sent = [], au_counts = []\<rparr>,
     y_actor = (\<lambda>_. new_actor 0 \<lparr>ao_on_behalf_of = False, ao_scope = [], ao_audience = [], ao_grant_wait_seconds = 5, ao_service = []\<rparr>)\<rparr>"

definition loading_ext :: "(unit, unit act_sys) lext" where
  "loading_ext = (sample_lext (\<lambda>_ s. (\<lparr>hr_error = [], hr_status = 0, hr_body = []\<rparr>, s)) (\<lambda>_. None) [])
     \<lparr>x_env := (\<lambda>n. if n = ''TRESOR_KEYCHAIN'' then Some ''Memory'' else None)\<rparr>"

definition loading_preset :: "string \<Rightarrow> dvalue option" where
  "loading_preset = [''tresor_audit_level'' \<mapsto> V_TEXT T_VARCHAR ''DENIED'']"

lemma loading_lowered: "map ascii_lower ''DENIED'' = ''denied''" "map ascii_lower ''Memory'' = ''memory''" "map ascii_lower ''builtin'' = ''builtin''"
  by code_simp+

lemma loading_words:
  "level_word loading_ext loading_preset = ''DENIED''" "mode_word loading_ext loading_preset = ''Memory''"
  "client_word loading_ext = ''builtin''" "parse_level loading_ext ''DENIED'' = Inr L_DENIED"
  "try_parse_mode loading_ext ''Memory'' = Some MEMORY" "lower_ascii loading_ext"
  "x_text loading_ext (V_TEXT T_VARCHAR t) = t" "env_text loading_ext ''TRESOR_KEYCHAIN'' = Some ''Memory''"
  by (simp_all add: level_word_def mode_word_def client_word_def given_text_def env_text_def text_or_null_def loading_ext_def
      loading_preset_def parse_level_def try_parse_mode_def lower_ascii_def loading_lowered [simplified])

theorem load_takes_settings_witness:
  "case load_internal loading_ext loading_preset loading of
     (Inl e, t) \<Rightarrow> False | (Inr c, t) \<Rightarrow> au_level (y_audit t) = L_DENIED \<and> i_mode (y_inst t) = MEMORY \<and> c = ''builtin''"
proof -
  have "readable loading_ext loading_preset" by (simp add: readable_def loading_words)
  then show ?thesis
    using load_takes_settings [where X = loading_ext and s = loading and preset = loading_preset]
    by (auto simp: loading_words parse_mode_def loading_def split: prod.splits sum.splits)
qed

section \<open>The observer of duckdb-acl's sessions\<close>

text \<open>
  The observer holds its actor weakly: \<open>live\<close> is whether it still exists. \<open>steady\<close> is the time, the view is the session's
  principal, and the result of a close is whether the storage is told.
\<close>

definition session_user :: "acl_view \<Rightarrow> string" where
  "session_user v = (if av_issuer v = [] then av_subject v else ''subject:'' @ av_issuer v @ ''|'' @ av_subject v)"

definition on_session_open :: "bool \<Rightarrow> int \<Rightarrow> acl_view \<Rightarrow> string \<Rightarrow> int \<Rightarrow> string \<Rightarrow> actor \<Rightarrow> actor" where
  "on_session_open live steady v token_issuer expires token a =
     (if live then opened steady (av_session_id v) (session_user v) token_issuer expires token a else a)"

definition on_session_close :: "bool \<Rightarrow> string \<Rightarrow> actor \<Rightarrow> bool \<times> actor" where
  "on_session_close live acl a = (if live then closed acl a else (False, a))"

definition on_session_gone :: "actor \<Rightarrow> actor" where
  "on_session_gone a = a\<lparr>ac_gone := True\<rparr>"

text \<open>
  A session that closes before a worker took its exchange leaves nothing: no entry, no job - the user's token is
  never sent, and nothing waits for it.
\<close>

lemma open_then_close_leaves_nothing:
  assumes "\<not> ac_stopping a" and "av_session_id v \<noteq> []" and "find_entry (av_session_id v) a = None"
    and "\<not> list_ex (exchange_of (av_session_id v)) (ac_jobs a)"
  shows "find_entry (av_session_id v) (snd (on_session_close True (av_session_id v)
      (on_session_open True steady v iss expires token a))) = None \<and>
    ac_jobs (snd (on_session_close True (av_session_id v) (on_session_open True steady v iss expires token a))) = ac_jobs a"
proof -
  have drop: "drop_first P (xs @ [x]) = xs" if "\<not> list_ex P xs" "P x" for P and xs :: "job list" and x
    using that by (induction xs) auto
  show ?thesis
    using assms by (simp add: on_session_open_def on_session_close_def opened_def closed_def exchange_of_def drop)
qed

section \<open>The end of an instance\<close>

text \<open>\<^verbatim>\<open>~TresorAudit\<close>: the delivery goes, and no event starts another.\<close>

definition audit_gone :: "audit \<Rightarrow> audit" where
  "audit_gone a = a\<lparr>au_stopped := True\<rparr>"

text \<open>\<^verbatim>\<open>~PendingLogins\<close>: the registry is emptied first, then each login stopped; \<open>ls\<close> are those it held, in the table's order.\<close>

definition pending_gone :: "nat list \<Rightarrow> 'w instance_state \<Rightarrow> 'w instance_state" where
  "pending_gone ls i = foldl (\<lambda>i l. stop_login l i) (i\<lparr>i_pending := Map.empty\<rparr>) ls"

lemma audit_gone_sends_nothing: "au_sent (emit e (audit_gone a)) = au_sent a"
  by (simp add: emit_def audit_gone_def count_event_def Let_def)

lemma stop_logins:
  "i_pending (foldl (\<lambda>i l. stop_login l i) i ls) = i_pending i \<and>
   i_logins (foldl (\<lambda>i l. stop_login l i) i ls) l =
     (if l \<in> set ls then (i_logins i l)\<lparr>pl_cancelled := True\<rparr> else i_logins i l)"
  by (induction ls arbitrary: i) (auto simp: stop_login_def update_login_def)

lemma pending_gone_stops_all:
  assumes "set ls = ran (i_pending i)"
  shows "pending_find key (pending_gone ls i) = None \<and>
    (\<forall>l key. pending_find key i = Some l \<longrightarrow> pl_cancelled (i_logins (pending_gone ls i) l))"
  using assms by (auto simp: pending_gone_def pending_find_def stop_logins ran_def)

end
