(* ===== verification/Tresor_Life.thy ===== *)
theory Tresor_Life
  imports Tresor_Session_Laws
begin

text \<open>
  The life of a login as its users see it, and that a session implements it under every interleaving. Each section the
  sources run under a session's lock is one step here (\<open>session_step\<close>), with whatever the instance holds at that
  moment; the threads' steps come in any order, those of one call with others' in between. The specification
  (\<open>life_spec\<close>) is a machine of five states; a step is labelled with the name a whoami gave, if it gave one.
\<close>

section \<open>The interface of a refinement\<close>

text \<open>A run with the labels of its steps, the latest last.\<close>

inductive trace_run :: "('s \<Rightarrow> 'l option \<Rightarrow> 's \<Rightarrow> bool) \<Rightarrow> 's \<Rightarrow> 'l list \<Rightarrow> 's \<Rightarrow> bool" for step where
  begins: "trace_run step s [] s"
| goes_on: "trace_run step s ls t \<Longrightarrow> step t l u \<Longrightarrow>
    trace_run step s (case l of None \<Rightarrow> ls | Some n \<Rightarrow> ls @ [n]) u"

lemma run_silent: "trace_run step s ls t \<Longrightarrow> step t None u \<Longrightarrow> trace_run step s ls u"
  using goes_on [of step s ls t None u] by simp

lemma run_named: "trace_run step s ls t \<Longrightarrow> step t (Some n) u \<Longrightarrow> trace_run step s (ls @ [n]) u"
  using goes_on [of step s ls t "Some n" u] by simp

text \<open>A step without a label may change nothing the specification sees.\<close>

locale simulation =
  fixes cstep :: "'c \<Rightarrow> 'l option \<Rightarrow> 'c \<Rightarrow> bool" and astep :: "'a \<Rightarrow> 'l option \<Rightarrow> 'a \<Rightarrow> bool"
    and abstraction :: "'c \<Rightarrow> 'a" and inv :: "'c \<Rightarrow> bool"
  assumes simulates: "inv c \<Longrightarrow> cstep c l c' \<Longrightarrow>
      l = None \<and> abstraction c' = abstraction c \<or> astep (abstraction c) l (abstraction c')"
    and preserves: "inv c \<Longrightarrow> cstep c l c' \<Longrightarrow> inv c'"
begin

lemma run_preserves: "trace_run cstep c ls c' \<Longrightarrow> inv c \<Longrightarrow> inv c'"
  by (induction rule: trace_run.induct) (auto intro: preserves)

lemma run_simulates: "trace_run cstep c ls c' \<Longrightarrow> inv c \<Longrightarrow> trace_run astep (abstraction c) ls (abstraction c')"
proof (induction rule: trace_run.induct)
  case (goes_on c ls c1 l c2)
  then have "inv c1" using run_preserves by blast
  with goes_on show ?case using simulates [of c1 l c2] trace_run.goes_on [of astep "abstraction c" ls "abstraction c1" l "abstraction c2"]
    by auto
qed (rule trace_run.begins)

end

section \<open>The specification\<close>

text \<open>
  Someone is logged in (who, by the last whoami's word; and whether the next call has to ask), the login is over, it
  was ended by a logoff (and may a new one be taken up), a new one is being tried, or the session is gone.
\<close>

datatype life = Live string bool | Over | Ended bool | Trying | Gone

inductive life_spec :: "bool \<Rightarrow> life \<Rightarrow> string option \<Rightarrow> life \<Rightarrow> bool" for page where
  logged_off: "l \<noteq> Gone \<Longrightarrow> life_spec page l None (Ended page)"
| allowed: "life_spec page (Ended False) None (Ended True)"
| tried: "\<not> page \<Longrightarrow> life_spec page (Ended True) None Trying"
| taken_up: "life_spec page (Ended True) None (Live [] True)"
| renewed: "life_spec page Trying None (Live [] True)"
| dead: "life_spec page Trying None (Ended True)"
| over: "\<not> page \<Longrightarrow> life_spec page (Live p a) None Over"
| another: "page \<Longrightarrow> life_spec page (Live p a) None (Live [] True)"
| asks: "life_spec page (Live p True) None (Live p False)"
| asks_again: "life_spec page (Live p False) None (Live p True)"
| named: "life_spec page (Live p a) (Some q) (Live q a)"
| named_over: "life_spec page Over (Some q) Over"
| gone: "life_spec page l None Gone"

inductive_cases life_spec_GoneE: "life_spec page Gone l m"
inductive_cases life_spec_LiveE: "life_spec page k l (Live p a)"

text \<open>Whoever is named was named by a whoami since, or was there at the start; what is gone stays gone.\<close>

lemma life_named:
  "trace_run (life_spec page) k names l \<Longrightarrow> l = Live p a \<Longrightarrow> p = [] \<or> p \<in> set names \<or> (\<exists>b. k = Live p b)"
proof (induction arbitrary: p a rule: trace_run.induct)
  case (goes_on k names m e l)
  from goes_on.hyps(2) [unfolded goes_on.prems] goes_on.IH show ?case
    by (auto elim!: life_spec_LiveE)
qed auto

lemma life_gone: "trace_run (life_spec page) k names l \<Longrightarrow> k = Gone \<Longrightarrow> l = Gone"
  by (induction rule: trace_run.induct) (auto elim: life_spec_GoneE)

section \<open>The session\<close>

text \<open>Every section under the lock, of every operation of the class.\<close>

inductive session_step :: "('w, 's, 'z) ext_scheme \<Rightarrow> session \<Rightarrow> string option \<Rightarrow> session \<Rightarrow> bool" for X where
  step_token: "access_token_op X force (se, i) = (r, se', i') \<Longrightarrow> session_step X se None se'"
| step_starts: "start_take_up (se, i :: 'w instance_state) = (r, se', i') \<Longrightarrow> session_step X se None se'"
| step_again: "session_step X se None (se\<lparr>s_resumed := True\<rparr>)"
| step_named: "name_subject X take_up placeholder now (se, i) = (Inr True, se', i') \<Longrightarrow> session_step X se (Some now) se'"
| step_unnamed: "name_subject X take_up placeholder now (se, i) = (Inr False, se', i') \<Longrightarrow> session_step X se None se'"
| step_remember: "remember_login X started_from (se, i) = (se', i') \<Longrightarrow> session_step X se None se'"
| step_log_off: "session_step X se None (log_off_session se)"
| step_allow: "session_step X se None (allow_resume se)"
| step_page: "session_step X se None (use_page_tokens X se)"
| step_close: "session_step X se None (close_session se)"

definition life_of :: "session \<Rightarrow> life" where
  "life_of se =
     (if s_closed se then Gone
      else if s_logged_off se then if s_taken_up se then Trying else Ended (s_flow se = F_PAGE \<or> s_resume_store se)
      else if s_logged_out se then Over
      else Live (s_subject se) (s_resumed se))"

definition life_inv :: "session \<Rightarrow> bool" where
  "life_inv se \<longleftrightarrow> session_inv se \<and> (s_taken_up se \<longrightarrow> s_resume_store se \<and> \<not> s_logged_out se) \<and>
     (s_flow se = F_PAGE \<and> s_logged_out se \<longrightarrow> s_logged_off se)"

text \<open>What the parts of \<open>access_token_op\<close> keep of what the abstraction reads.\<close>

lemma renewed_kept:
  "s_resume_store (renewed_ok t now se) = s_resume_store se" "s_logged_out (renewed_ok t now se) = s_logged_out se"
  "s_resume_store (with_refresh r se) = s_resume_store se" "s_resume_store (renewed_dead se) = s_resume_store se"
  "s_logged_out (renewed_dead se)" "s_subject (renewed_dead se) = s_subject se" "s_resumed (renewed_dead se) = s_resumed se"
  by (simp_all add: renewed_ok_def with_refresh_def renewed_dead_def Let_def)

lemma take_up_kept:
  "take_up_login X se i = (True, se') \<Longrightarrow> s_resume_store se \<and> s_resume_store se' \<and> \<not> s_logged_out se'"
  by (auto simp: take_up_login_def split: if_splits option.splits)

lemma take_page_kept:
  "s_resume_store (take_page L t se) = s_resume_store se" "s_flow (take_page L t se) = s_flow se"
  "s_taken_up (take_page L t se) = s_taken_up se"
  "s_resume_store (mark_refused X r se) = s_resume_store se" "s_flow (mark_refused X r se) = s_flow se"
  "s_logged_out (mark_refused X r se) = s_logged_out se" "s_resumed (mark_refused X r se) = s_resumed se"
  by (auto simp: take_page_def mark_refused_def Let_def)

text \<open>Taking a page's token either leaves whoever is there, or is the start of another's login.\<close>

lemma take_page_life:
  "s_logged_off (take_page L t se) = s_logged_off se \<and> s_logged_out (take_page L t se) = s_logged_out se \<and>
     s_subject (take_page L t se) = s_subject se \<and> s_resumed (take_page L t se) = s_resumed se \<or>
   \<not> s_logged_off (take_page L t se) \<and> \<not> s_logged_out (take_page L t se) \<and> s_subject (take_page L t se) = [] \<and>
     s_resumed (take_page L t se)"
  by (auto simp: take_page_def Let_def)

lemma page_result:
  "page_access_token X refused (se, i) = (res, se', i') \<Longrightarrow>
     se' = mark_refused X refused se \<or> (\<exists>t. se' = take_page X t (mark_refused X refused se))"
  by (auto simp: page_access_token_def Let_def split: option.splits if_splits prod.splits)

lemma page_life:
  assumes "page_access_token X refused (se, i) = (res, se', i')" and "life_inv se" and "\<not> s_closed se" and "s_flow se = F_PAGE"
  shows "(life_of se' = life_of se \<or> life_spec True (life_of se) None (life_of se')) \<and> life_inv se'"
proof -
  let ?m = "mark_refused X refused se"
  have inv: "session_inv se'" using session_inv_page assms unfolding life_inv_def by blast
  have m: "life_of ?m = life_of se" "life_inv ?m"
    using assms(2) by (simp_all add: life_of_def life_inv_def take_page_kept)
  have off: "\<not> s_taken_up se" "s_logged_out se \<longrightarrow> s_logged_off se" using assms(2,4) by (auto simp: life_inv_def session_inv_def)
  show ?thesis
  proof (cases "se' = ?m")
    case False
    then obtain t where t: "se' = take_page X t ?m" using page_result [OF assms(1)] by blast
    have "life_of se \<in> {Ended True, Live (s_subject se) (s_resumed se)}"
      using off assms(3,4) by (auto simp: life_of_def)
    then show ?thesis
      using take_page_life [of X t ?m] off assms(3,4) inv
      by (auto simp: t life_of_def life_inv_def take_page_kept take_page_closed intro: life_spec.intros)
  qed (use m in simp)
qed

text \<open>The renewal, for a session that is logged in or trying a login it took up.\<close>

lemma renewal_life:
  assumes "renew_and_keep X (se, i) = (res, se', i')" and "life_inv se" and "\<not> s_closed se" and "s_flow se \<noteq> F_PAGE"
    and "s_logged_off se \<longrightarrow> s_taken_up se"
  shows "(life_of se' = life_of se \<or> (case life_of se of Trying \<Rightarrow> life_of se' \<in> {Live [] True, Ended True}
      | Live p a \<Rightarrow> life_of se' = Over | _ \<Rightarrow> False)) \<and> life_inv se'"
proof -
  have si: "session_inv se'" using session_inv_renew [OF assms(1)] assms(2,3,5) by (auto simp: life_inv_def)
  have res: "(\<exists>r t now. se' = renewed_ok t now (with_refresh r se)) \<or> (\<exists>r. se' = with_refresh r se) \<or>
      (\<exists>r. se' = renewed_dead (with_refresh r se))"
    using renew_and_keep_ok [of X se i _ se' i'] renew_and_keep_error [of X se i _ se' i'] assms(1) by (cases res) blast+
  have up: "s_taken_up se \<Longrightarrow> s_logged_off se \<and> s_resume_store se \<and> \<not> s_logged_out se"
    using assms(2) by (simp add: life_inv_def session_inv_def)
  show ?thesis
    using res si up assms(3-5)
    by (auto simp: life_of_def life_inv_def renewed_kept renewed_ok_fields renewed_dead_fields)
qed

lemma token_life:
  assumes "access_token_op X force (se, i) = (res, se', i')" and "life_inv se"
  shows "(life_of se' = life_of se \<or> life_spec (s_flow se = F_PAGE) (life_of se) None (life_of se')) \<and> life_inv se'"
  using assms(1)
proof (cases rule: access_token_op_cases)
  case page
  then show ?thesis using page_life [OF page(3) assms(2) page(1,2)] by simp
next
  case (on se1)
  have se1: "life_inv se1" "\<not> s_closed se1" "s_flow se1 \<noteq> F_PAGE" "s_logged_off se1 \<longrightarrow> s_taken_up se1"
    using on(1-3) assms(2) take_up_frame [of X se i True se1] take_up_kept [of X se i se1] by (auto simp: life_inv_def session_inv_def)
  have start: "life_of se1 = life_of se \<and> (life_of se = Trying \<or> life_of se = Over \<or> (\<exists>p a. life_of se = Live p a)) \<or>
      life_of se = Ended True \<and> life_of se1 = Trying"
    using on(1-3) take_up_frame [of X se i True se1] take_up_kept [of X se i se1] by (auto simp: life_of_def)
  have "(life_of se' = life_of se1 \<or> (case life_of se1 of Trying \<Rightarrow> life_of se' \<in> {Live [] True, Ended True}
      | Live p a \<Rightarrow> life_of se' = Over | _ \<Rightarrow> False)) \<and> life_inv se'"
    using on(4) se1 renewal_life [of X se1 _ res se' i'] by auto
  then show ?thesis using start on(2) by (auto simp: life_spec.intros)
qed (use assms(2) in auto)

text \<open>Every other section. What the invariant and the abstraction do not read may change freely.\<close>

lemma life_inv_free [simp]:
  "life_inv (se\<lparr>s_resumed := b\<rparr>) = life_inv se" "life_inv (se\<lparr>s_subject := t\<rparr>) = life_inv se"
  "life_inv (se\<lparr>s_remember_subject := t\<rparr>) = life_inv se" "life_inv (se\<lparr>s_remember_mode := m\<rparr>) = life_inv se"
  "life_inv (se\<lparr>s_remember := b\<rparr>) = life_inv se"
  by (simp_all add: life_inv_def session_inv_def)

lemma life_of_free [simp]:
  "life_of (se\<lparr>s_remember_subject := t\<rparr>) = life_of se" "life_of (se\<lparr>s_remember_mode := m\<rparr>) = life_of se"
  "life_of (se\<lparr>s_remember := b\<rparr>) = life_of se"
  by (simp_all add: life_of_def)

lemma starts_life:
  assumes "start_take_up (se, i) = (r, se', i')"
  shows "(life_of se' = life_of se \<or> life_spec page (life_of se) None (life_of se')) \<and> life_inv se' = life_inv se"
proof (cases "s_resumed se")
  case True
  then have se': "se' = se\<lparr>s_resumed := False\<rparr>" using assms by (simp add: start_take_up_def)
  have "life_of se' = life_of se \<or> life_of se = Live (s_subject se) True \<and> life_of se' = Live (s_subject se) False"
    by (simp add: se' life_of_def True)
  then show ?thesis by (auto simp: life_spec.asks se')
qed (use assms in \<open>simp add: start_take_up_def\<close>)

lemma again_life:
  "(life_of (se\<lparr>s_resumed := True\<rparr>) = life_of se \<or> life_spec page (life_of se) None (life_of (se\<lparr>s_resumed := True\<rparr>))) \<and>
     life_inv (se\<lparr>s_resumed := True\<rparr>) = life_inv se"
proof (cases "s_resumed se")
  case False
  then have "life_of (se\<lparr>s_resumed := True\<rparr>) = life_of se \<or>
      life_of se = Live (s_subject se) False \<and> life_of (se\<lparr>s_resumed := True\<rparr>) = Live (s_subject se) True"
    by (simp add: life_of_def)
  then show ?thesis by (auto simp: life_spec.asks_again)
qed (simp add: life_of_def)

lemma remember_life:
  assumes "remember_login X started_from (se, i) = (se', i')"
  shows "life_of se' = life_of se \<and> life_inv se' = life_inv se"
  using assms by (auto simp: remember_login_def Let_def split: if_splits)

lemma allow_life:
  assumes "life_inv se"
  shows "(life_of (allow_resume se) = life_of se \<or> life_spec page (life_of se) None (life_of (allow_resume se))) \<and>
    life_inv (allow_resume se)"
proof (cases "life_of (allow_resume se) = life_of se")
  case False
  then have "life_of se = Ended False" "life_of (allow_resume se) = Ended True"
    by (auto simp: allow_resume_def life_of_def split: if_splits)
  then show ?thesis using assms by (simp add: life_spec.allowed) (simp add: allow_resume_def life_inv_def session_inv_def)
qed (use assms in \<open>simp add: allow_resume_def life_inv_def session_inv_def\<close>)

lemma log_off_life:
  assumes "life_inv se"
  shows "(life_of (log_off_session se) = life_of se \<or> life_spec (s_flow se = F_PAGE) (life_of se) None (life_of (log_off_session se))) \<and>
    life_inv (log_off_session se)"
proof -
  have inv: "life_inv (log_off_session se)" using assms by (simp add: log_off_session_def life_inv_def session_inv_def)
  show ?thesis
  proof (cases "s_closed se")
    case False
    then have "life_of (log_off_session se) = Ended (s_flow se = F_PAGE)" "life_of se \<noteq> Gone"
      by (simp_all add: log_off_session_def life_of_def)
    then show ?thesis using inv by (simp add: life_spec.logged_off)
  qed (use inv in \<open>simp add: log_off_session_def life_of_def\<close>)
qed

lemma close_life:
  assumes "life_inv se"
  shows "life_of (close_session se) = Gone \<and> life_inv (close_session se)"
  using assms by (simp add: close_session_def life_of_def life_inv_def session_inv_def)

lemma named_life:
  assumes "name_subject X take_up ph now (se, i) = (Inr b, se', i')"
  shows "(if b then life_spec page (life_of se) (Some now) (life_of se') else se' = se) \<and> life_inv se' = life_inv se"
proof (cases b)
  case True
  then have se': "se' = se\<lparr>s_subject := now, s_remember_subject := now\<rparr>" "\<not> s_logged_off se" "\<not> s_closed se"
    using assms by (auto simp: name_subject_def Let_def split: if_splits)
  then have "life_of se = Over \<and> life_of se' = Over \<or> (\<exists>p. life_of se = Live p (s_resumed se)) \<and> life_of se' = Live now (s_resumed se)"
    by (simp add: life_of_def)
  then show ?thesis using True se'(1) by (auto simp: life_spec.named life_spec.named_over)
qed (use assms in \<open>auto simp: name_subject_def Let_def split: if_splits\<close>)

lemma take_up_flow: "take_up_login X se i = (b, se') \<Longrightarrow> s_flow se' = s_flow se"
  using take_up_frame by blast

lemma access_flow:
  assumes "access_token_op X force (se, i) = (res, se', i')"
  shows "s_flow se' = s_flow se"
  using assms
proof (cases rule: access_token_op_cases)
  case page
  then show ?thesis using page_result [OF page(3)] by (auto simp: take_page_kept)
next
  case (on se1)
  have "s_flow se1 = s_flow se" using on(3) take_up_flow by auto
  moreover have "s_flow se' = s_flow se1"
    using on(4) renew_and_keep_ok [of X se1 _ _ se' i'] renew_and_keep_error [of X se1 _ _ se' i']
    by (cases res) (fastforce simp: renewed_ok_fields renewed_dead_fields)+
  ultimately show ?thesis by simp
qed auto

lemma session_step_flow: "session_step X se l se' \<Longrightarrow> s_flow se' = s_flow se"
  by (induction rule: session_step.induct)
     (auto simp: access_flow start_take_up_def name_subject_def remember_login_def log_off_session_def allow_resume_def
       use_page_tokens_def close_session_def Let_def split: if_splits)

lemma session_step_life:
  "session_step X se l se' \<Longrightarrow> life_inv se \<Longrightarrow>
     (l = None \<and> life_of se' = life_of se \<or> life_spec (s_flow se = F_PAGE) (life_of se) l (life_of se')) \<and> life_inv se'"
proof (induction rule: session_step.induct)
  case step_token
  then show ?case using token_life by blast
next
  case (step_starts se i r se' i')
  then show ?case using starts_life by blast
next
  case (step_again se)
  then show ?case using again_life by blast
next
  case (step_named take_up ph now se i se' i')
  then show ?case using named_life [of X take_up ph now se i True se' i'] by auto
next
  case (step_unnamed take_up ph now se i se' i')
  then show ?case using named_life [of X take_up ph now se i False se' i'] by auto
next
  case step_remember
  then show ?case using remember_life by blast
next
  case (step_log_off se)
  then show ?case using log_off_life by blast
next
  case (step_allow se)
  then show ?case using allow_life by blast
next
  case (step_page se)
  then show ?case by (simp add: use_page_tokens_def life_of_def life_inv_def session_inv_def)
next
  case (step_close se)
  then show ?case using close_life life_spec.gone by metis
qed

interpretation session_life: simulation "session_step X" "life_spec page" life_of "\<lambda>se. life_inv se \<and> (s_flow se = F_PAGE) = page"
proof
  fix c l c'
  assume "life_inv c \<and> (s_flow c = F_PAGE) = page" and step: "session_step X c l c'"
  then show "l = None \<and> life_of c' = life_of c \<or> life_spec page (life_of c) l (life_of c')"
    and "life_inv c' \<and> (s_flow c' = F_PAGE) = page"
    using session_step_life [OF step] session_step_flow [OF step] by auto
qed

section \<open>A sample run\<close>

text \<open>A logged-off session takes up the login stored under its key: \<open>X\<close> renews as the samples do.\<close>

definition renews :: "('w, 's, 'z) ext_scheme \<Rightarrow> bool" where
  "renews X \<longleftrightarrow> x_refresh_grant X = (\<lambda>_ _ r _ i. (sample_tokens (''at-'' @ r) (r @ ''+''), i)) \<and>
     x_tokens_ok X = (\<lambda>t. ts_error t = []) \<and> x_now X = (\<lambda>i. (1000, i))"

definition may_take_up :: "session \<Rightarrow> bool" where
  "may_take_up se \<longleftrightarrow> s_resume_store se \<and> s_logged_off se \<and> \<not> s_taken_up se \<and> \<not> s_closed se \<and> s_flow se = F_BROWSER"

definition trying :: "string \<Rightarrow> string \<Rightarrow> session \<Rightarrow> session" where
  "trying who refresh se = se\<lparr>s_tokens := no_tokens\<lparr>refresh_token := refresh\<rparr>, s_issued_at := 0, s_logged_out := False,
     s_taken_up := True, s_take_ups := s_take_ups se + 1, s_remember := True, s_remember_mode := MEMORY, s_remember_subject := who\<rparr>"

definition taken_up_by :: "string \<Rightarrow> string \<Rightarrow> session \<Rightarrow> session" where
  "taken_up_by who refresh se = renewed_ok (sample_tokens (''at-'' @ refresh) (refresh @ ''+'')) 1000 (trying who refresh se)"

lemma trying_fields [simp]:
  "session_key (trying who refresh se) = session_key se" "s_remember_mode (trying who refresh se) = MEMORY"
  "s_remember_subject (trying who refresh se) = who" "refresh_token (s_tokens (trying who refresh se)) = refresh"
  "expires_at (s_tokens (trying who refresh se)) = 0" "s_flow (trying who refresh se) = s_flow se"
  "s_taken_up (trying who refresh se)" "\<not> s_logged_out (trying who refresh se)"
  by (simp_all add: trying_def session_key_def no_tokens_def)

lemma takes_up_stored:
  assumes "renews X" and "may_take_up se" and "i_mode i = MEMORY" and "load X (session_key se) MEMORY i = Some (who, refresh)"
    and "refresh \<noteq> []"
  shows "\<exists>i'. access_token_op X False (se, i) = (Inr (''at-'' @ refresh), taken_up_by who refresh se, i')"
proof -
  let ?se = "trying who refresh se"
  have up: "take_up_login X se i = (True, ?se)" using assms by (simp add: take_up_login_def may_take_up_def trying_def)
  have "adopt X ?se i = (False, ?se)" using assms(4) by (simp add: adopt_def)
  then have "\<exists>i'. renew X (?se, i) = (Inr (sample_tokens (''at-'' @ refresh) (refresh @ ''+'')), ?se, i')"
    using assms(1,2,5) by (simp add: renew_def renew_person_def refresh_grant_def retry_dead_def renews_def may_take_up_def
        sample_tokens_def Let_def)
  then show ?thesis
    using assms(1,2) by (auto simp: access_token_op_def up may_take_up_def renew_and_keep_def renews_def taken_up_by_def
        sample_tokens_def)
qed

lemma taken_up_by_fields [simp]:
  "s_resumed (taken_up_by who refresh se)" "\<not> s_logged_off (taken_up_by who refresh se)"
  "access_token (s_tokens (taken_up_by who refresh se)) = ''at-'' @ refresh" "s_info (taken_up_by who refresh se) = s_info se"
  "s_closed (taken_up_by who refresh se) = s_closed se" "s_flow (taken_up_by who refresh se) = s_flow se"
  "s_remember (taken_up_by who refresh se)" "s_subject (taken_up_by who refresh se) = []" "\<not> s_logged_out (taken_up_by who refresh se)"
  by (simp_all add: taken_up_by_def renewed_ok_def trying_def sample_tokens_def Let_def)

section \<open>What every run keeps\<close>

text \<open>
  C4: a session implements the life of a login, under every interleaving of its operations' locked sections and
  whatever happens to the instance in between: every run of the session is a run of the specification with the
  same names given, and the session's invariant holds throughout. So a new login is only ever taken up after a logoff
  has let it (or by a page's new token), and who has taken it up is unknown, and has to be asked, when it starts to work.
\<close>

theorem session_refines_life:
  assumes "life_inv se" and "trace_run (session_step X) se names se'"
  shows "trace_run (life_spec (s_flow se = F_PAGE)) (life_of se) names (life_of se') \<and> life_inv se'"
  using session_life.run_simulates [OF assms(2)] session_life.run_preserves [OF assms(2)] assms(1) by blast

definition bob_on :: session where
  "bob_on = taken_up_by ''subject:https://idp|bob'' ''bob-rt'' off_session"

lemma off_life: "life_inv sample_session" "life_inv (log_off_session sample_session)" "life_of (log_off_session sample_session) = Ended False"
  by (simp_all add: life_inv_def session_inv_def life_of_def log_off_session_def sample_session_def new_session_def)

lemma bob_run: "trace_run (session_step quiet_ext) (log_off_session sample_session) [''bob'']
    (bob_on\<lparr>s_subject := ''bob'', s_remember_subject := ''bob''\<rparr>)"
proof -
  have "i_mode bob_instance = MEMORY" by (simp add: bob_instance_def store_def sample_instance_def Let_def)
  moreover have "renews quiet_ext" by (simp add: renews_def quiet_ext_def sample_ext_def)
  moreover have "may_take_up off_session" by (simp add: may_take_up_def off_session_fields)
  ultimately have token: "session_step quiet_ext off_session None bob_on"
    using takes_up_stored [OF _ _ _ bob_loaded] session_step.step_token by (fastforce simp: bob_on_def)
  have "session_step quiet_ext (log_off_session sample_session) None off_session"
    unfolding off_session_def by (rule session_step.step_allow)
  then have run: "trace_run (session_step quiet_ext) (log_off_session sample_session) [] bob_on"
    using token by (blast intro: run_silent trace_run.begins)
  have "\<exists>i'. name_subject quiet_ext (s_take_ups bob_on) [] ''bob'' (bob_on, bob_instance) =
      (Inr True, bob_on\<lparr>s_subject := ''bob'', s_remember_subject := ''bob''\<rparr>, i')"
    by (simp add: name_subject_def bob_on_def off_session_fields Let_def)
  then have "session_step quiet_ext bob_on (Some ''bob'') (bob_on\<lparr>s_subject := ''bob'', s_remember_subject := ''bob''\<rparr>)"
    using session_step.step_named by blast
  from run_named [of "session_step quiet_ext", OF run this] show ?thesis by simp
qed

theorem session_refines_life_witness:
  "trace_run (life_spec False) (Ended False) [''bob''] (life_of (bob_on\<lparr>s_subject := ''bob'', s_remember_subject := ''bob''\<rparr>))"
  using session_refines_life [OF off_life(2) bob_run]
  by (simp add: off_life(3)) (simp add: log_off_session_def sample_session_def new_session_def)

text \<open>
  C5: a logoff ends who the session was. In any run from a logoff on, whoever a live session says it is - its
  subject - was named by a whoami that ended in that run, or is nobody yet; and a closed session never comes back.
\<close>

theorem named_since_logoff:
  assumes "life_inv se" and "trace_run (session_step X) (log_off_session se) names se'"
  shows "(\<not> s_closed se' \<and> \<not> s_logged_off se' \<and> \<not> s_logged_out se' \<longrightarrow> s_subject se' = [] \<or> s_subject se' \<in> set names) \<and>
    (s_closed se \<longrightarrow> s_closed se')"
proof -
  let ?off = "log_off_session se"
  have inv: "life_inv ?off" using log_off_life [OF assms(1)] by blast
  have run: "trace_run (life_spec (s_flow ?off = F_PAGE)) (life_of ?off) names (life_of se')"
    using session_life.run_simulates [OF assms(2)] inv by blast
  have start: "life_of ?off \<noteq> Live p b" for p b by (simp add: log_off_session_def life_of_def)
  have "s_subject se' = [] \<or> s_subject se' \<in> set names" if "\<not> s_closed se'" "\<not> s_logged_off se'" "\<not> s_logged_out se'"
    using life_named [OF run, of "s_subject se'" "s_resumed se'"] start that by (simp add: life_of_def)
  moreover have "s_closed se'" if "s_closed se"
    using life_gone [OF run] that by (simp add: log_off_session_def life_of_def split: if_splits)
  ultimately show ?thesis by blast
qed

theorem named_since_logoff_witness:
  "s_subject (bob_on\<lparr>s_subject := ''bob'', s_remember_subject := ''bob''\<rparr>) \<in> set [''bob'']"
  using named_since_logoff [OF off_life(1) bob_run]
  by (simp add: bob_on_def off_session_fields)

section \<open>Two threads and one logoff\<close>

text \<open>A service that answers every token with its own name, and the login stored since.\<close>

definition racing_ext :: "(unit, unit sys) ext" where
  "racing_ext = (sample_ext (\<lambda>rq s. (\<lparr>hr_error = [], hr_status = 200, hr_body = the (map_of (rq_headers rq) ''Authorization'')\<rparr>, s)))
     \<lparr>lb_json := (\<lambda>b. Some (JObj [(''subject'', JStr b)]))\<rparr>"

definition race_start :: "unit sys" where
  "race_start = \<lparr>y_ses = (\<lambda>_. off_session), y_inst = bob_instance\<rparr>"

definition carol_instance :: "unit instance_state" where
  "carol_instance = store quiet_ext (session_key off_session) ''tresor_login'' ''carol-rt'' MEMORY sample_instance"

definition relogin :: "unit sys \<Rightarrow> unit sys" where
  "relogin s = s\<lparr>y_ses := (y_ses s)(0 := allow_resume (log_off_session (y_ses s 0))), y_inst := carol_instance\<rparr>"

lemma racing_renews: "renews racing_ext" "renews quiet_ext"
  by (simp_all add: renews_def racing_ext_def quiet_ext_def sample_ext_def)

lemma load_memory_any: "load X k MEMORY i = load Y k MEMORY i"
  by (simp add: load_def)

lemma carol_loaded: "load X (session_key off_session) MEMORY carol_instance = Some (''tresor_login'', ''carol-rt'')"
  unfolding carol_instance_def
  by (subst load_memory_any [of X _ _ quiet_ext], subst memory_store.ld_st)
     (simp_all add: memory_good_def sample_instance_def logins.same_refl one_line_def)

lemma instance_modes: "i_mode bob_instance = MEMORY" "i_mode carol_instance = MEMORY"
  by (simp_all add: bob_instance_def carol_instance_def store_def sample_instance_def Let_def)

lemma off_may_take_up: "may_take_up off_session"
  by (simp add: may_take_up_def off_session_fields)

lemma relogged_may_take_up:
  assumes "may_take_up se"
  shows "may_take_up (allow_resume (log_off_session (taken_up_by who refresh se)))"
    and "session_key (allow_resume (log_off_session (taken_up_by who refresh se))) = session_key se"
  using assms by (simp_all add: may_take_up_def allow_resume_def log_off_session_def session_key_def)

lemma first_token:
  assumes "renews X" and "may_take_up (y_ses s sid)" and "i_mode (y_inst s) = MEMORY"
    and "load X (session_key (y_ses s sid)) MEMORY (y_inst s) = Some (who, refresh)" and "refresh \<noteq> []"
  shows "\<exists>t. locked sid (token_for_attempt X None) s = (Inr (''at-'' @ refresh, True), t) \<and>
    y_ses t sid = taken_up_by who refresh (y_ses s sid)"
  using takes_up_stored [OF assms] by (auto simp: locked_def token_for_attempt_def)

text \<open>The name comes from the answer to the token the call was given earlier, whatever the session holds by now.\<close>

lemma whoami_names_for_token:
  assumes "s_resumed (y_ses s sid)" and "\<not> s_logged_off (y_ses s sid)" and "\<not> s_closed (y_ses s sid)"
  shows "\<exists>t. take_up_whoami racing_ext sample_hooks sid token s = (Inr token, t) \<and>
    s_tokens (y_ses t sid) = s_tokens (y_ses s sid) \<and> s_subject (y_ses t sid) = whoami_subject racing_ext (''Bearer '' @ token)"
  using assms
  by (auto simp: take_up_whoami_def start_take_up_def probe_twice_def probe_whoami_def name_subject_def sample_hooks_def locked_def
      get_ses_def whoami_request_def with_headers_def racing_ext_def sample_ext_def monad_defs Let_def)

lemma stale_whoami_names_another:
  "\<exists>s2 s4 s5.
     locked 0 (token_for_attempt racing_ext None) race_start = (Inr (''at-bob-rt'', True), s2) \<and>
     locked 0 (token_for_attempt racing_ext None) (relogin s2) = (Inr (''at-carol-rt'', True), s4) \<and>
     take_up_whoami racing_ext sample_hooks 0 ''at-bob-rt'' s4 = (Inr ''at-bob-rt'', s5) \<and>
     access_token (s_tokens (y_ses s5 0)) = ''at-carol-rt'' \<and>
     s_subject (y_ses s5 0) = whoami_subject racing_ext ''Bearer at-bob-rt''"
proof -
  let ?bob = "taken_up_by ''subject:https://idp|bob'' ''bob-rt'' off_session"
  let ?off = "allow_resume (log_off_session ?bob)"
  have "load racing_ext (session_key off_session) MEMORY bob_instance = Some (''subject:https://idp|bob'', ''bob-rt'')"
    using bob_loaded load_memory_any by metis
  then obtain s2 where s2: "locked 0 (token_for_attempt racing_ext None) race_start = (Inr (''at-bob-rt'', True), s2)" "y_ses s2 0 = ?bob"
    using first_token [OF racing_renews(1), of race_start 0] off_may_take_up instance_modes by (auto simp: race_start_def)
  have off: "may_take_up ?off" "session_key ?off = session_key off_session" using relogged_may_take_up [OF off_may_take_up] by auto
  then obtain s4 where s4: "locked 0 (token_for_attempt racing_ext None) (relogin s2) = (Inr (''at-carol-rt'', True), s4)"
      "y_ses s4 0 = taken_up_by ''tresor_login'' ''carol-rt'' ?off"
    using first_token [OF racing_renews(1), of "relogin s2" 0 "''tresor_login''" "''carol-rt''"] instance_modes carol_loaded [of racing_ext]
    by (auto simp: relogin_def s2(2))
  have "\<not> s_closed (y_ses s4 0)" using off(1) by (simp add: s4(2) may_take_up_def)
  then obtain s5 where "take_up_whoami racing_ext sample_hooks 0 ''at-bob-rt'' s4 = (Inr ''at-bob-rt'', s5)"
      "s_tokens (y_ses s5 0) = s_tokens (y_ses s4 0)" "s_subject (y_ses s5 0) = whoami_subject racing_ext (''Bearer '' @ ''at-bob-rt'')"
    using whoami_names_for_token [of s4 0 "''at-bob-rt''"] by (auto simp: s4(2))
  then show ?thesis using s2 s4 by auto
qed

text \<open>And while one call asks who it is, another goes on unasked: it finds nothing left to ask.\<close>

lemma second_call_goes_on:
  assumes "start_take_up (se, i) = (Inr (Some w), se', i')" and "access_token_op X False (se', i') = (Inr token, se2, i2)"
    and "\<not> s_logged_off se" and "s_flow se \<noteq> F_PAGE" and "session_inv se"
  shows "token_for_attempt X None (se', i') = (Inr (token, False), se2, i2)"
proof -
  have se': "\<not> s_resumed se'" "\<not> s_logged_off se'" "\<not> s_taken_up se'" "s_flow se' \<noteq> F_PAGE"
    using assms(1,3-5) by (auto simp: start_take_up_def session_inv_def split: if_splits)
  have "\<not> s_resumed se2"
    using assms(2)
  proof (cases rule: access_token_op_cases)
    case (on se1)
    then have "se1 = se'" using se' by auto
    then show ?thesis using on(4) se' by (auto dest!: renew_and_keep_ok simp: renewed_ok_fields)
  qed (use se' in auto)
  then show ?thesis using assms(2) by (simp add: token_for_attempt_def)
qed

end
