(* ===== verification/Tresor_Together.thy ===== *)
theory Tresor_Together
  imports Tresor_Logoff_Laws Tresor_Tables Tresor_Life
begin

text \<open>
  A change of person across the components: the page or the store of logins names someone else, the session takes the
  login up, its catalog is told and its storage forgets. What is held for the previous person goes before the call
  that noticed the change is sent - and is served until there is such a call.
\<close>

section \<open>A storage that holds nothing\<close>

definition holds_nothing :: "nat \<Rightarrow> storage \<Rightarrow> bool" where
  "holds_nothing sid st \<longleftrightarrow> st_session st = Some sid \<longrightarrow>
     st_acl_views st = [] \<and> (case st_node st of None \<Rightarrow> True | Some v \<Rightarrow> view_at v st = new_view)"

lemma reset_holds_nothing: "holds_nothing sid (reset_caches sid st)"
  by (simp add: holds_nothing_def reset_caches_def add_view_def view_at_def)

text \<open>Nothing any caller of the session asks for is answered from it.\<close>

lemma nothing_served:
  assumes "holds_nothing sid st" and "cl_session c = Some sid"
  shows "cached_variable c v name now st = None" and "cached_material c v d now st = None"
    and "held_list c v off in_progress now st \<in> {None, Some Again, Some nothing, Some (Answer [] (Some v))}"
proof -
  have new: "view_at v st = new_view" if "serves c v st"
    using assms that by (auto simp: holds_nothing_def serves_def split: if_splits)
  then show "cached_variable c v name now st = None" "cached_material c v d now st = None"
    by (auto simp: cached_variable_def cached_material_def new_view_def)
  show "held_list c v off in_progress now st \<in> {None, Some Again, Some nothing, Some (Answer [] (Some v))}"
    using new by (auto simp: held_list_def list_of_def new_view_def Let_def)
qed

section \<open>Whoami, and the catalog that is told\<close>

text \<open>Whatever other threads do meanwhile: the name is given and the storage emptied, or this take-up is over.\<close>

definition take_up_over :: "nat \<Rightarrow> session \<Rightarrow> bool" where
  "take_up_over started se \<longleftrightarrow> s_logged_off se \<or> s_closed se \<or> s_take_ups se \<noteq> started"

lemma resumed_audit_fields [simp]:
  "y_sto (resumed_audit name host previous now s) = y_sto s" "y_ses (resumed_audit name host previous now s) = y_ses s"
  by (simp_all add: resumed_audit_def Let_def)

lemma whoami_empties:
  assumes "s_resumed (y_ses s sid)"
  shows "wp (take_up_whoami X (catalog_hooks Y interrupted slices sid name host) sid token)
    (\<lambda>_ t. take_up_over (s_take_ups (y_ses s sid)) (y_ses t sid) \<or> holds_nothing sid (y_sto t)) (\<lambda>_ _. True) s"
proof -
  let ?over = "\<lambda>t. take_up_over (s_take_ups (y_ses s sid)) (y_ses t sid) \<or> holds_nothing sid (y_sto t)"
  have named: "wp (bindE (locked sid (name_subject X (s_take_ups (y_ses s sid)) ph now)) (\<lambda>named.
      if \<not> named then ret tok
      else seqE (modifyS (\<lambda>s. resumed_audit name host previous now (s\<lparr>y_sto := reset_caches sid (y_sto s)\<rparr>))) (ret tok)))
    (\<lambda>_. ?over) (\<lambda>_ _. True) t" for ph now tok previous t
    by (auto simp: wp_simps name_subject_def Let_def take_up_over_def reset_holds_nothing split: if_splits)
  have silent: "wp (seqE (ask_again sid) (bindE (get_ses sid f) (\<lambda>h. throw (e h)))) Q (\<lambda>_ _. True) t" for f e Q t
    by (simp add: wp_seqE wp_bindE wp_throw wp_any)
  have told: "on_resumed (catalog_hooks Y interrupted slices sid name host) = Some (\<lambda>previous now s.
      resumed_audit name host previous now (s\<lparr>y_sto := reset_caches sid (y_sto s)\<rparr>))"
    by (simp add: catalog_hooks_def)
  show ?thesis
    unfolding take_up_whoami_def wp_bindE wp_locked told option.case
    using assms
    by (simp add: start_take_up_def Let_def wp_bindE)
       (auto intro!: wp_drop simp: wp_if silent Let_def named)
qed

section \<open>The call that notices the change\<close>

text \<open>What a call does before its request: its token, and the whoami of a login it took up.\<close>

definition call_start :: "('w, ('w, 'y) sys_scheme, 'z) ext_scheme \<Rightarrow> (('w, 'y) sys_scheme, 'h) hooks_scheme \<Rightarrow>
    nat \<Rightarrow> string option \<Rightarrow> (('w, 'y) sys_scheme, string) m" where
  "call_start X H sid used =
     bindE (locked sid (token_for_attempt X used)) (\<lambda>(token, take_up).
       if take_up then take_up_whoami X H sid token else ret token)"

lemma call_attempt_starts:
  "call_attempt X H sid c used =
     bindE (call_start X H sid used) (\<lambda>token.
     bindE (get_ses sid (\<lambda>se. call_request c se token)) (\<lambda>rq.
     bindE (liftX (x_http X rq)) (\<lambda>result.
       if hr_error result \<noteq> [] then throw (IOErr ''the call failed'' [c_method c, rq_url rq, hr_error result])
       else ret (token, result))))"
  by (rule ext) (auto simp: call_attempt_def call_start_def bindE_def split: prod.splits sum.splits)

text \<open>
  The login the session would use next is not the one it used: the page's newest token is another person's, or the
  session was logged off.
\<close>

definition another_login :: "('w, 's, 'z) ext_scheme \<Rightarrow> session \<Rightarrow> 'w instance_state \<Rightarrow> bool" where
  "another_login X se i =
     (if s_flow se = F_PAGE
      then case page_find X (lk_issuer (session_key se)) (si_host (s_info se)) i of
             None \<Rightarrow> False
           | Some newest \<Rightarrow>
               let principal = page_principal_of X (pt_token newest)
               in pt_token newest \<noteq> access_token (s_tokens se) \<and>
                  (s_logged_off se \<or> principal = [] \<or> principal \<noteq> s_page_principal se)
      else s_logged_off se)"

lemma another_login_asks:
  assumes "access_token_op X False (se, i) = (Inr token, se', i')" and "another_login X se i"
  shows "s_resumed se'"
  using assms(1)
proof (cases rule: access_token_op_cases)
  case page
  then obtain newest where newest: "page_find X (lk_issuer (session_key se)) (si_host (s_info se)) i = Some newest"
      "se' = take_page X newest se"
    by (auto simp: page_access_token_def mark_refused_def Let_def split: option.splits if_splits prod.splits)
  then show ?thesis using assms(2) page(2) by (auto simp: another_login_def take_page_def Let_def)
next
  case (on se1)
  then have "s_taken_up se1" using assms(2) take_up_frame [of X se i True se1] by (auto simp: another_login_def)
  then show ?thesis using on(4) by (auto dest!: renew_and_keep_ok simp: renewed_ok_fields)
qed auto

text \<open>
  C6: when the person behind a session changes - a page hands over someone else's token, a login is taken up after a
  logoff - the first call of the session asks whoami, and by the time it goes on its catalog's storage has nothing of
  the previous person: no list, no secret's material, no variable, for the node and for every acl session - whatever
  other threads do meanwhile, unless they logged the session off, closed it, or it took up yet another login.
\<close>

theorem another_person_starts_empty:
  assumes "another_login X (y_ses s sid) (y_inst s)"
    and "locked sid (token_for_attempt X None) s = (Inr (token, take_up), s1)"
    and "call_start X (catalog_hooks Y interrupted slices sid name host) sid None s = (Inr token', t)"
  shows "take_up \<and> (take_up_over (s_take_ups (y_ses s1 sid)) (y_ses t sid) \<or>
    (\<forall>c v. cl_session c = Some sid \<longrightarrow>
       (\<forall>variable now. cached_variable c v variable now (y_sto t) = None) \<and>
       (\<forall>d now. cached_material c v d now (y_sto t) = None) \<and>
       (\<forall>off in_progress now. held_list c v off in_progress now (y_sto t) \<in>
          {None, Some Again, Some nothing, Some (Answer [] (Some v))})))"
proof -
  obtain se' i' where op: "access_token_op X False (y_ses s sid, y_inst s) = (Inr token, se', i')"
      "take_up = s_resumed se'" "y_ses s1 sid = se'"
    using assms(2) by (auto simp: locked_def token_for_attempt_def split: prod.splits sum.splits)
  have up: take_up "s_resumed (y_ses s1 sid)" using another_login_asks [OF op(1) assms(1)] op by auto
  have "take_up_whoami X (catalog_hooks Y interrupted slices sid name host) sid token s1 = (Inr token', t)"
    using assms(2,3) up(1) by (auto simp: call_start_def bindE_def)
  then have "take_up_over (s_take_ups (y_ses s1 sid)) (y_ses t sid) \<or> holds_nothing sid (y_sto t)"
    using wp_InrD [OF whoami_empties [OF up(2)]] by blast
  then show ?thesis using up(1) nothing_served [of sid "y_sto t"] by blast
qed

section \<open>A page that changes its user\<close>

text \<open>Ann's variable is held, and the page has handed over another's token, which says nothing of whose it is.\<close>

definition ann_page :: session where
  "ann_page = (new_session sample_info F_PAGE (sample_tokens ''ann'' []) no_credential 1000)
     \<lparr>s_client := True, s_page_tokens := True, s_page_principal := ''https://idp|ann'', s_subject := ''ann''\<rparr>"

definition page_caller :: caller where
  "page_caller = no_caller\<lparr>cl_session := Some 7\<rparr>"

definition switch_ext :: "(unit, unit sto_sys) ext" where
  "switch_ext = sample_ext (\<lambda>_ s. (\<lparr>hr_error = [], hr_status = 200, hr_body = ''{}''\<rparr>, s))"

definition ann_sys :: "unit sto_sys" where
  "ann_sys = \<lparr>y_ses = (\<lambda>_. ann_page), y_inst = sample_instance, y_audit = sample_audit_off, y_actor = sample_actors,
     y_sto = keep_variable page_caller 0 ''db'' 1000 1030 ''of ann'' (rn_sto sto_run1)\<rparr>"

definition handed_over :: "'z lib_scheme \<Rightarrow> string \<Rightarrow> nat \<Rightarrow> ('w, 'y) sys_scheme \<Rightarrow> ('w, 'y) sys_scheme" where
  "handed_over L token sid s = s\<lparr>y_inst := page_set L (lk_issuer (session_key (y_ses s sid))) (si_host (s_info (y_ses s sid)))
     \<lparr>pt_token = token, pt_expires_at = 0\<rparr> (y_inst s)\<rparr>"

lemma page_found:
  "page_find L (lk_issuer (session_key (y_ses s sid))) (si_host (s_info (y_ses s sid))) (y_inst (handed_over L token sid s)) =
     Some \<lparr>pt_token = token, pt_expires_at = 0\<rparr>"
  by (simp add: handed_over_def page_find_def page_set_def Let_def update_conv')

lemma ann_held: "cached_variable page_caller 0 ''db'' 1000 (y_sto ann_sys) = Some ''of ann''"
  by (simp add: ann_sys_def cached_variable_def keep_variable_def serves_def page_caller_def no_caller_def sto_run1_def moved_def
      wrote_def sto_run0_def activate_def add_view_def new_storage_def is_node_def upd_view_def view_at_def Let_def)

text \<open>
  A call asks and empties the storage; an answer that is still in the cache makes no call. So whatever token the page
  handed over, a variable held for the previous person is served, as long as it may be kept.
\<close>

lemma page_switch_serves_cached:
  assumes "st_session (y_sto s) = Some sid" and "st_node (y_sto s) = Some v" and "cl_session c = Some sid"
    and "cl_refused c = []" and "is_node c" and "\<not> s_logged_off_seen (y_ses s sid)"
    and "cached_variable c v name (fst (x_now X (y_inst (handed_over L token sid s)))) (y_sto s) = Some known"
  shows "\<exists>t. variable_of X H interrupted c name (handed_over L token sid s) = (Inr (Some known), t) \<and> y_ses t = y_ses s"
proof -
  have "view_of c (y_actor s) (y_sto s) = (Some v, y_sto s)"
    using assms by (simp add: view_of_def usable_caller_def)
  then show ?thesis
    using assms
    by (auto simp: variable_of_def find_view_def get_now_def on_instance_def logged_off_of_def get_sto_def count_hit_def monad_defs
        handed_over_def split: prod.splits)
qed

text \<open>And the first call after the change: it asks, and Ann's variable is gone.\<close>

abbreviation bob_sys :: "unit sto_sys" where
  "bob_sys \<equiv> handed_over switch_ext ''bob'' 7 ann_sys"

abbreviation page_hooks :: "unit sto_sys hooks" where
  "page_hooks \<equiv> catalog_hooks switch_ext (\<lambda>_. False) [] 7 ''corp'' ''secrets.corp''"

lemma bob_sys_fields: "y_ses bob_sys 7 = ann_page" "s_flow ann_page = F_PAGE" "access_token (s_tokens ann_page) = ''ann''"
    "s_page_tokens ann_page" "\<not> s_logged_off ann_page" "\<not> s_closed ann_page" "s_page_refused ann_page = 0" "s_take_ups ann_page = 0"
  by (simp_all add: handed_over_def ann_sys_def ann_page_def new_session_def sample_tokens_def)

lemma bob_page:
  "page_find switch_ext (lk_issuer (session_key ann_page)) (si_host (s_info ann_page)) (y_inst bob_sys) =
     Some \<lparr>pt_token = ''bob'', pt_expires_at = 0\<rparr>"
  using page_found [of switch_ext ann_sys 7 "''bob''"] by (simp add: ann_sys_def)

lemma opaque_bob: "page_principal_of L ''bob'' = []"
  by (simp add: page_principal_of_def read_jwt_claims_opaque no_claims_def)

lemma bob_token:
  "\<exists>s1. locked 7 (token_for_attempt switch_ext None) bob_sys = (Inr (''bob'', True), s1) \<and> s_resumed (y_ses s1 7) \<and>
     s_take_ups (y_ses s1 7) = 1 \<and> \<not> s_logged_off (y_ses s1 7) \<and> \<not> s_closed (y_ses s1 7)"
  by (simp add: locked_def token_for_attempt_def access_token_op_def bob_sys_fields page_access_token_def mark_refused_def bob_page
      take_page_def opaque_bob Let_def)

lemma bob_whoami:
  assumes "s_resumed (y_ses s1 7)" and "\<not> s_logged_off (y_ses s1 7)" and "\<not> s_closed (y_ses s1 7)"
  shows "\<exists>t. take_up_whoami switch_ext page_hooks 7 ''bob'' s1 = (Inr ''bob'', t) \<and>
    \<not> take_up_over (s_take_ups (y_ses s1 7)) (y_ses t 7)"
  using assms
  by (simp add: take_up_whoami_def start_take_up_def probe_twice_def probe_whoami_def name_subject_def locked_def
      get_ses_def switch_ext_def sample_ext_def monad_defs Let_def take_up_over_def catalog_hooks_def)

theorem another_person_starts_empty_witness:
  "\<exists>t. call_start switch_ext page_hooks 7 None bob_sys = (Inr ''bob'', t) \<and>
     cached_variable page_caller 0 ''db'' 1000 (y_sto ann_sys) = Some ''of ann'' \<and>
     (\<forall>v. cached_variable page_caller v ''db'' 1000 (y_sto t) = None)"
proof -
  obtain s1 where s1: "locked 7 (token_for_attempt switch_ext None) bob_sys = (Inr (''bob'', True), s1)" "s_resumed (y_ses s1 7)"
      "\<not> s_logged_off (y_ses s1 7)" "\<not> s_closed (y_ses s1 7)"
    using bob_token by blast
  obtain t where t: "take_up_whoami switch_ext page_hooks 7 ''bob'' s1 = (Inr ''bob'', t)"
      "\<not> take_up_over (s_take_ups (y_ses s1 7)) (y_ses t 7)"
    using bob_whoami [OF s1(2-4)] by blast
  have call: "call_start switch_ext page_hooks 7 None bob_sys = (Inr ''bob'', t)"
    using s1(1) t(1) by (simp add: call_start_def bindE_def)
  have "another_login switch_ext (y_ses bob_sys 7) (y_inst bob_sys)"
    by (simp add: another_login_def bob_sys_fields bob_page opaque_bob Let_def)
  from another_person_starts_empty [OF this s1(1) call] t(2)
  have "cached_variable page_caller v ''db'' 1000 (y_sto t) = None" for v by (simp add: page_caller_def)
  then show ?thesis using call ann_held by blast
qed

end
