(* ===== verification/Tresor_Browser.thy ===== *)
theory Tresor_Browser
  imports Tresor_Attach_Laws
begin

text \<open>
  Starting the browser (\<^verbatim>\<open>Spawn\<close> of \<^verbatim>\<open>tresor_browser.cpp\<close>, the POSIX build) over a model of the calls it makes: a process
  has descriptors, each a file and whether it closes on exec; \<open>kernel\<close> says which descriptor \<^verbatim>\<open>open\<close> gives, which process
  \<^verbatim>\<open>fork\<close> makes and which programs \<^verbatim>\<open>execvp\<close> finds.
\<close>

section \<open>The system calls\<close>

record process =
  p_fds :: "int \<rightharpoonup> string \<times> bool"        \<comment> \<open>the file, whether it closes on exec\<close>
  p_runs :: "string list option"       \<comment> \<open>what it was replaced with; None: still this program\<close>
  p_exit :: "int option"

record posix =
  o_self :: process
  o_children :: "int \<rightharpoonup> process"
  o_waits :: "int list"                \<comment> \<open>the children a detached thread waits for\<close>

record kernel =
  k_open :: "posix \<Rightarrow> int"
  k_fork :: "posix \<Rightarrow> int"
  k_finds :: "string \<Rightarrow> bool"

definition open_cloexec :: "kernel \<Rightarrow> string \<Rightarrow> posix \<Rightarrow> int \<times> posix" where
  "open_cloexec K file s =
     (let fd = k_open K s
      in (fd, if fd < 0 then s else s\<lparr>o_self := (o_self s)\<lparr>p_fds := (p_fds (o_self s))(fd \<mapsto> (file, True))\<rparr>\<rparr>))"

definition close_fd :: "int \<Rightarrow> posix \<Rightarrow> posix" where
  "close_fd fd s = s\<lparr>o_self := (o_self s)\<lparr>p_fds := (p_fds (o_self s))(fd := None)\<rparr>\<rparr>"

text \<open>Duplicating a descriptor onto itself changes nothing, not even that it closes on exec.\<close>

definition dup2 :: "int \<Rightarrow> int \<Rightarrow> process \<Rightarrow> process" where
  "dup2 old new p =
     (case p_fds p old of
        None \<Rightarrow> p
      | Some (file, _) \<Rightarrow> if old = new then p else p\<lparr>p_fds := (p_fds p)(new \<mapsto> (file, False))\<rparr>)"

definition on_exec :: "(int \<rightharpoonup> string \<times> bool) \<Rightarrow> int \<rightharpoonup> string \<times> bool" where
  "on_exec fds fd = (case fds fd of Some (file, False) \<Rightarrow> Some (file, False) | _ \<Rightarrow> None)"

text \<open>\<open>None\<close>: the program was replaced; else \<^verbatim>\<open>execvp\<close> came back.\<close>

definition execvp :: "kernel \<Rightarrow> string list \<Rightarrow> process \<Rightarrow> process option" where
  "execvp K argv p =
     (case argv of
        [] \<Rightarrow> None
      | program # _ \<Rightarrow> if k_finds K program then Some (p\<lparr>p_fds := on_exec (p_fds p), p_runs := Some argv\<rparr>) else None)"

definition exit_process :: "int \<Rightarrow> process \<Rightarrow> process" where
  "exit_process code p = p\<lparr>p_fds := Map.empty, p_exit := Some code\<rparr>"

section \<open>Spawn\<close>

definition spawn_child :: "kernel \<Rightarrow> int \<Rightarrow> string list \<Rightarrow> process \<Rightarrow> process" where
  "spawn_child K devnull argv p =
     (let p = (if devnull \<ge> 0 then dup2 devnull 2 (dup2 devnull 1 (dup2 devnull 0 p)) else p)
      in case execvp K argv p of Some q \<Rightarrow> q | None \<Rightarrow> exit_process 127 p)"

definition spawn :: "kernel \<Rightarrow> string list \<Rightarrow> posix \<Rightarrow> bool \<times> posix" where
  "spawn K argv s =
     (let (devnull, s) = open_cloexec K ''/dev/null'' s;
          pid = k_fork K s
      in if pid < 0 then (False, if devnull \<ge> 0 then close_fd devnull s else s)
         else let s = s\<lparr>o_children := (o_children s)(pid \<mapsto> spawn_child K devnull argv (o_self s))\<rparr>;
                  s = (if devnull \<ge> 0 then close_fd devnull s else s)
              in (True, s\<lparr>o_waits := pid # o_waits s\<rparr>))"

text \<open>A thread that waits for a child ends with it, and the child's entry is gone.\<close>

definition reap :: "int \<Rightarrow> posix \<Rightarrow> posix" where
  "reap pid s =
     (case o_children s pid of
        Some p \<Rightarrow>
          if pid \<in> set (o_waits s) \<and> p_exit p \<noteq> None
          then s\<lparr>o_children := (o_children s)(pid := None), o_waits := removeAll pid (o_waits s)\<rparr> else s
      | None \<Rightarrow> s)"

section \<open>What a browser is given\<close>

text \<open>A descriptor \<^verbatim>\<open>open\<close> gives was free.\<close>

definition opens_free :: "kernel \<Rightarrow> posix \<Rightarrow> bool" where
  "opens_free K s \<longleftrightarrow> (k_open K s \<ge> 0 \<longrightarrow> p_fds (o_self s) (k_open K s) = None)"

lemma close_opened:
  assumes "opens_free K s" and "k_open K s \<ge> 0"
  shows "(o_self s)\<lparr>p_fds := (p_fds (o_self s))(k_open K s := None)\<rparr> = o_self s"
proof -
  have "(p_fds (o_self s))(k_open K s := None) = p_fds (o_self s)"
    using assms by (auto simp: opens_free_def fun_upd_idem)
  then show ?thesis by simp
qed

text \<open>On every path the process keeps exactly the descriptors it had, and nothing of it changes.\<close>

lemma spawn_leaks_nothing:
  assumes "opens_free K s"
  shows "o_self (snd (spawn K argv s)) = o_self s"
  using close_opened [OF assms]
  by (simp add: spawn_def open_cloexec_def close_fd_def Let_def)

lemma dup2_fields [simp]: "p_runs (dup2 a b p) = p_runs p" "p_exit (dup2 a b p) = p_exit p"
  by (auto simp: dup2_def split: option.splits)

text \<open>A child's three standard streams are the null device or closed, never the query's.\<close>

definition quiet :: "process \<Rightarrow> bool" where
  "quiet p \<longleftrightarrow> (\<forall>fd\<in>{0, 1, 2}. p_fds p fd \<in> {None, Some (''/dev/null'', False)})"

lemma child_quiet:
  assumes "devnull \<ge> 0" and "p_fds p devnull = Some (''/dev/null'', True)"
  shows "quiet (spawn_child K devnull argv p)"
  using assms
  by (auto simp: quiet_def spawn_child_def execvp_def exit_process_def dup2_def on_exec_def Let_def
      split: option.splits list.splits prod.splits bool.splits)

lemma child_runs:
  "argv \<noteq> [] \<Longrightarrow> k_finds K (hd argv) \<Longrightarrow> p_runs (spawn_child K devnull argv p) = Some argv"
  "argv \<noteq> [] \<Longrightarrow> \<not> k_finds K (hd argv) \<Longrightarrow> p_exit (spawn_child K devnull argv p) = Some 127"
  by (auto simp: spawn_child_def execvp_def exit_process_def Let_def split: list.splits)

lemma spawn_started:
  assumes "spawn K argv s = (True, s')" and "argv \<noteq> []" and "k_open K s \<ge> 0"
  shows "\<exists>pid child. o_children s' = (o_children s)(pid \<mapsto> child) \<and> pid \<in> set (o_waits s') \<and> quiet child \<and>
    (if k_finds K (hd argv) then p_runs child = Some argv else p_exit child = Some 127)"
proof -
  let ?s = "snd (open_cloexec K ''/dev/null'' s)"
  let ?child = "spawn_child K (k_open K s) argv (o_self ?s)"
  have s': "o_children s' = (o_children s)(k_fork K ?s \<mapsto> ?child)" "k_fork K ?s \<in> set (o_waits s')"
    using assms by (auto simp: spawn_def open_cloexec_def close_fd_def Let_def split: if_splits)
  have "quiet ?child" using assms(3) by (intro child_quiet) (simp_all add: open_cloexec_def Let_def)
  then show ?thesis using s' child_runs [OF assms(2)] by fastforce
qed

text \<open>
  Opening a browser starts a program only for a web URL, with the URL as its one last argument and words without blanks
  before it; the program's streams are not the query's.
\<close>

theorem browser_opened:
  assumes "x_spawn X = spawn K" and "open_browser X url s = (True, s')" and "k_open K s \<ge> 0"
  shows "\<exists>words pid child. words \<noteq> [] \<and> list_all is_word words \<and> (starts_with ''https://'' url \<or> starts_with ''http://'' url) \<and>
    o_children s' = (o_children s)(pid \<mapsto> child) \<and> quiet child \<and>
    (if k_finds K (hd words) then p_runs child = Some (words @ [url]) else p_exit child = Some 127)"
proof -
  obtain argv where argv: "browser_argv X url = Some argv" "spawn K argv s = (True, s')"
    using assms by (auto simp: open_browser_def split: option.splits)
  obtain words where words: "argv = words @ [url]" "words \<noteq> []" "list_all is_word words"
      "starts_with ''https://'' url \<or> starts_with ''http://'' url"
    using browser_gets_one_url [OF argv(1)] by blast
  obtain pid child where "o_children s' = (o_children s)(pid \<mapsto> child)" "quiet child"
      "if k_finds K (hd argv) then p_runs child = Some argv else p_exit child = Some 127"
    using spawn_started [OF argv(2) _ assms(3)] words(1) by auto
  then show ?thesis using words by (intro exI [of _ words] exI [of _ pid] exI [of _ child]) simp
qed

text \<open>A program that was not found leaves no zombie.\<close>

lemma not_found_is_reaped:
  assumes "spawn K argv s = (True, s')" and "argv \<noteq> []" and "\<not> k_finds K (hd argv)" and "k_open K s \<ge> 0"
  shows "\<exists>pid. o_children (reap pid s') = (o_children s)(pid := None) \<and> pid \<notin> set (o_waits (reap pid s'))"
proof -
  obtain pid child where "o_children s' = (o_children s)(pid \<mapsto> child)" "pid \<in> set (o_waits s')" "p_exit child = Some 127"
    using spawn_started [OF assms(1,2,4)] assms(3) by auto
  then show ?thesis by (intro exI [of _ pid]) (simp add: reap_def)
qed

end
