(* ===== verification/Spec2Isabelle.thy ===== *)
theory Spec2Isabelle
  imports Tresor_Load Tresor_Together Tresor_Browser
begin

text \<open>
  \<^bold>\<open>tresor\<close> is a DuckDB extension: \<^verbatim>\<open>ATTACH 'tresor:host' AS corp\<close> logs a person or a service in to a secrets
  service over OIDC, and from then on DuckDB's secret lookups are answered with the service's secrets, fetched
  and cached for whoever a statement runs for. This development models the C++ sources under \<^verbatim>\<open>src/src\<close> - the
  native POSIX build - and proves what makes them correct.

  \<^bold>\<open>The parts and how they meet.\<close> A statement reaches an attached catalog (\<^verbatim>\<open>tresor_catalog.cpp\<close>), which owns a session
  (\<^verbatim>\<open>tresor_session.cpp\<close>) and a secret storage (\<^verbatim>\<open>tresor_storage.cpp\<close>). The storage asks the service through a caller -
  the node, or a duckdb-acl session with its delegation grant (\<^verbatim>\<open>tresor_actor.cpp\<close>) - and the caller goes through
  the session, which hands out access tokens, renews them at the identity provider and takes up a new login
  after a logoff. What outlives a catalog is kept per instance: remembered logins (\<^verbatim>\<open>tresor_remember.cpp\<close>), a page's
  tokens (\<^verbatim>\<open>tresor_web_token.cpp\<close>), logins in progress (\<^verbatim>\<open>tresor_pending.cpp\<close>). A login (\<^verbatim>\<open>tresor_login.cpp\<close>) discovers the
  service, finds the secret or the person to log in as, and opens the session; a logoff (\<^verbatim>\<open>tresor_logoff.cpp\<close>) ends it
  in every catalog. Every operation that matters is audited (\<^verbatim>\<open>tresor_events.cpp\<close>).

  \<^bold>\<open>How it is modelled.\<close> A class is a record with the class's fields; the records of the state extend each other: \<open>sys\<close>
  (sessions, the instance), \<open>act_sys\<close> (audit, actors), \<open>sto_sys\<close> (the storage), \<open>cat_sys\<close> (the catalog). An operation that may
  throw or change state is a function in the state-and-exception monad of \<open>Tresor_Prelude\<close>; every raise of the sources
  is an \<open>error\<close> value, with what is formatted into its message. What runs under a lock is one function of what the
  lock guards; wherever the sources hold no lock - a request to the service, a wait - other threads may change the
  whole state. Between two locked sections of one operation with neither in between, \<open>Tresor_Life\<close> and the step relations
  of \<open>Tresor_Storage_Laws\<close>, \<open>Tresor_Actor_Laws\<close> and \<open>Tresor_Catalog_Laws\<close> have every interleaving. A wait is a list of slices, what other threads do during each; one that has not ended with the list is
  the error \<open>still waiting\<close>, which no code throws, and the theorems about waits say when it cannot occur. \<^verbatim>\<open>Snapshot\<close> makes
  two rounds, as its source does. Seconds and HTTP codes are \<open>int\<close> (64-bit seconds do not overflow before the clock
  does); the base64 buffer is a 32-bit word, the grant hash a 64-bit word, file modes are words; strings are
  lists of bytes. Code that is not under \<^verbatim>\<open>src/\<close> is a parameter: the records \<open>lib\<close> (yyjson, DuckDB's string and
  timestamp functions), \<open>ext\<close> (the OIDC core, the keychain, clocks, files), \<open>sext\<close>, \<open>lext\<close> and \<open>cext\<close> (DuckDB's casts,
  settings, secret manager, databases, HTTP client; duckdb-acl). Theorems that need something of them say so as a hypothesis, and
  their witnesses instantiate it.

  \<^bold>\<open>The theories.\<close>
  \<^item> \<open>Tresor_Prelude\<close>: errors, the monad and its weakest preconditions (\<open>wp_simps\<close>), the interfaces \<open>keyed_table\<close> and
    \<open>invariant_system\<close>.
  \<^item> \<open>Tresor_Text\<close>, \<open>Tresor_Json\<close>: JSON escaping, path segments, secret names (\<^verbatim>\<open>ProtocolName\<close>), problems, JWT claims; round trips
    and the exact set of accepted names.
  \<^item> \<open>Tresor_Instance\<close>, \<open>Tresor_Remember\<close>, \<open>Tresor_Pages\<close>, \<open>Tresor_Pending\<close>: the instance's stores, as keyed tables and, for
    remembered logins, the interface \<open>login_store\<close>; a background login as a step relation.
  \<^item> \<open>Tresor_Credentials\<close>: what a service proves itself with.
  \<^item> \<open>Tresor_Session\<close>, \<open>Tresor_Session_Laws\<close>: the session; no token without a login, renewals never touch another's entry, a
    logoff is final, a login taken up is named first.
  \<^item> \<open>Tresor_Events\<close>, \<open>Tresor_Actor\<close>, \<open>Tresor_Actor_Laws\<close>: audit, acting for acl sessions; a grant is never lost over any
    run, a caller reaches the service only as itself.
  \<^item> \<open>Tresor_Values\<close>, \<open>Tresor_Body\<close>: typed values and secret bodies; the write/read round trip and what a served secret may carry.
  \<^item> \<open>Tresor_Storage\<close>, \<open>Tresor_Lookup\<close> and their laws: views, lists, materials, variables, lookups, writes; views are
    isolated, the caches refine expiring maps, \<^verbatim>\<open>Snapshot\<close> returns with its caller's own list.
  \<^item> \<open>Tresor_Http\<close>, \<open>Tresor_Attach\<close>, \<open>Tresor_Login\<close> and their laws: the HTTP client behind DuckDB's sandbox, ATTACH's options, the
    service's discovery, secret and issuer, the login; URLs are checked, credentials go where their secret says.
  \<^item> \<open>Tresor_Secret\<close>, \<open>Tresor_Manage\<close>, \<open>Tresor_Variables\<close>: CREATE SECRET, grants and comments, variables.
  \<^item> \<open>Tresor_Catalog\<close>, \<open>Tresor_Catalog_Laws\<close>: ATTACH, the catalog's life and \<^verbatim>\<open>act_for_sessions\<close>; a DETACH is final under every
    interleaving.
  \<^item> \<open>Tresor_Logoff\<close>, \<open>Tresor_Logoff_Laws\<close>: \<^verbatim>\<open>tresor_logoff\<close>; every session of the login ends, its entry is gone, its tokens are
    held once for revocation.
  \<^item> \<open>Tresor_Tables\<close>: \<^verbatim>\<open>whoami\<close>, \<^verbatim>\<open>secrets\<close>, \<^verbatim>\<open>tresor_secret_param\<close>, \<^verbatim>\<open>tresor_login\<close>, \<^verbatim>\<open>tresor_web_login\<close>, \<^verbatim>\<open>tresor_web_token\<close>; nothing that changes
    the node's logins runs under a duckdb-acl session.
  \<^item> \<open>Tresor_Load\<close>: the columns and cells of every table function, the log type, the functions' arguments, LOAD's
    settings, the acl observer, the end of an instance; rows fit their columns, LOAD takes over what it can read.
  \<^item> \<open>Tresor_Life\<close>: a session against a specification of five states, by a refinement (\<open>simulation\<close>) over every interleaving
    of the locked sections, those of one call with others' in between; after a logoff nobody has the previous name.
  \<^item> \<open>Tresor_Together\<close>: a change of person through session, catalog and storage; the call that notices it finds the
    storage empty, and an answer still cached is served until there is one.
  \<^item> \<open>Tresor_Browser\<close>: \<^verbatim>\<open>Spawn\<close> over a model of the system calls; a browser gets one URL and never the query's streams, no
    descriptor leaks.

  \<^bold>\<open>Not modelled.\<close> The Emscripten and Windows branches; the calls that hand functions, types and settings to DuckDB (what they
  are given is in \<open>Tresor_Load\<close>); the wiping of buffers (a value is gone when no state holds it); what is printed to the terminal;
  starting, joining and detaching threads (but the browser's reaper); the delivery of audit events to sinks. The reference server and the tests are other programs.
\<close>

end
